(* ===== verification/Prelude.thy ===== *)
theory Prelude
  imports Main "HOL-Library.State_Monad" "HOL-Library.Word" "HOL-Library.Sublist"
begin

text \<open>
  Shared notions of the development: the return code of the C functions, machine types,
  decimal printing and reading of integers as C does it, the small programming vocabulary
  on top of the library's state monad (\<open>run_state\<close>, \<open>do\<close>-notation) in which
  every operation on the database is written, and the calculus by which relations between
  the state before and after an operation are proved.

  A C function that touches the database is a value of type \<open>('s, 'a) state\<close>; the C
  idiom \<^verbatim>\<open>if (f(x) == FAIL) return FAIL;\<close> is \<open>or_fail (f x) rest\<close>, and
  \<^verbatim>\<open>while (NULL != (row = DBfetch(result)))\<close> with an early \<^verbatim>\<open>return FAIL\<close> is
  \<open>each_row\<close>.
\<close>

section \<open>Return codes and machine types\<close>

datatype rc = SUCCEED | FAIL

type_synonym uint64 = "64 word"

lemma rc_not_FAIL [simp]: "r \<noteq> FAIL \<longleftrightarrow> r = SUCCEED"
  by (cases r) auto

lemma rc_not_SUCCEED [simp]: "r \<noteq> SUCCEED \<longleftrightarrow> r = FAIL"
  by (cases r) auto

section \<open>Decimal text\<close>

definition digit_char :: "nat \<Rightarrow> char" where
  "digit_char d = char_of (48 + d)"

fun show_nat :: "nat \<Rightarrow> string" where
  "show_nat n = (if n < 10 then [digit_char n]
                 else show_nat (n div 10) @ [digit_char (n mod 10)])"

declare show_nat.simps [simp del]

definition show_int :: "int \<Rightarrow> string" where
  "show_int i = (if i < 0 then CHR ''-'' # show_nat (nat (- i)) else show_nat (nat i))"

definition show_u64 :: "uint64 \<Rightarrow> string" where
  "show_u64 w = show_nat (unat w)"

definition is_digit :: "char \<Rightarrow> bool" where
  "is_digit c \<longleftrightarrow> 48 \<le> (of_char c :: nat) \<and> (of_char c :: nat) \<le> 57"

definition digit_val :: "char \<Rightarrow> nat" where
  "digit_val c = of_char c - 48"

text \<open>The value of a string of digits read left to right.\<close>

definition dec_val :: "string \<Rightarrow> nat" where
  "dec_val s = foldl (\<lambda>a c. 10 * a + digit_val c) 0 s"

text \<open>
  \<^verbatim>\<open>atoi\<close> of the C library as glibc has it: leading white space, an optional sign,
  the longest run of digits, \<^verbatim>\<open>strtol\<close>'s saturation at 64 bits, and the cast to a
  32-bit \<^verbatim>\<open>int\<close>, which keeps the low bits.
\<close>

definition is_space :: "char \<Rightarrow> bool" where
  "is_space c \<longleftrightarrow> c = CHR '' '' \<or> (9 \<le> (of_char c :: nat) \<and> (of_char c :: nat) \<le> 13)"

definition strtol10 :: "string \<Rightarrow> int" where
  "strtol10 s =
     (let t = dropWhile is_space s;
          neg = (t \<noteq> [] \<and> hd t = CHR ''-'');
          u = (if t \<noteq> [] \<and> (hd t = CHR ''-'' \<or> hd t = CHR ''+'') then tl t else t);
          v = int (dec_val (takeWhile is_digit u))
      in if neg then max (- (2 ^ 63)) (- v) else min (2 ^ 63 - 1) v)"

definition atoi :: "string \<Rightarrow> int" where
  "atoi s = signed_take_bit 31 (strtol10 s)"

lemma digit_char_is_digit: "d < 10 \<Longrightarrow> is_digit (digit_char d)"
  by (simp add: is_digit_def digit_char_def of_char_of)

lemma digit_val_digit_char: "d < 10 \<Longrightarrow> digit_val (digit_char d) = d"
  by (simp add: digit_val_def digit_char_def of_char_of)

lemma dec_val_Nil [simp]: "dec_val [] = 0"
  by (simp add: dec_val_def)

lemma dec_val_snoc [simp]: "dec_val (s @ [c]) = 10 * dec_val s + digit_val c"
  by (simp add: dec_val_def)

lemma show_nat_nonempty [simp]: "show_nat n \<noteq> []"
  by (subst show_nat.simps) simp

lemma show_nat_digits: "list_all is_digit (show_nat n)"
proof (induction n rule: show_nat.induct)
  case (1 n)
  then show ?case
    by (subst show_nat.simps) (auto simp: digit_char_is_digit)
qed

text \<open>Printing a number and reading it back.\<close>

lemma dec_val_show_nat: "dec_val (show_nat n) = n"
proof (induction n rule: show_nat.induct)
  case (1 n)
  show ?case
  proof (cases "n < 10")
    case True
    then show ?thesis
      by (subst show_nat.simps) (simp add: dec_val_def digit_val_digit_char)
  next
    case False
    with "1.IH" show ?thesis
      by (subst show_nat.simps) (simp add: digit_val_digit_char)
  qed
qed

lemma show_nat_inj: "show_nat m = show_nat n \<Longrightarrow> m = n"
  by (metis dec_val_show_nat)

section \<open>SQL on lists of rows\<close>

text \<open>
  A table is the list of its rows; a \<^verbatim>\<open>select\<close> without \<^verbatim>\<open>order by\<close> returns
  them in list order. \<open>upd_where\<close> and \<open>del_where\<close> give the rows after an
  \<^verbatim>\<open>update\<close> or \<^verbatim>\<open>delete\<close>, \<open>count_where\<close> the affected rows
  PostgreSQL reports.
\<close>

definition upd_where :: "('r \<Rightarrow> bool) \<Rightarrow> ('r \<Rightarrow> 'r) \<Rightarrow> 'r list \<Rightarrow> 'r list" where
  "upd_where p f rs = map (\<lambda>r. if p r then f r else r) rs"

definition del_where :: "('r \<Rightarrow> bool) \<Rightarrow> 'r list \<Rightarrow> 'r list" where
  "del_where p rs = filter (\<lambda>r. \<not> p r) rs"

definition count_where :: "('r \<Rightarrow> bool) \<Rightarrow> 'r list \<Rightarrow> nat" where
  "count_where p rs = length (filter p rs)"

lemma upd_where_Nil [simp]: "upd_where p f [] = []"
  by (simp add: upd_where_def)

lemma upd_where_Cons [simp]:
  "upd_where p f (r # rs) = (if p r then f r else r) # upd_where p f rs"
  by (simp add: upd_where_def)

lemma map_upd_where: "(\<And>r. g (f r) = g r) \<Longrightarrow> map g (upd_where p f rs) = map g rs"
  by (simp add: upd_where_def)

lemma list_all_upd_where:
  "list_all q rs \<Longrightarrow> (\<And>r. q r \<Longrightarrow> p r \<Longrightarrow> q (f r)) \<Longrightarrow> list_all q (upd_where p f rs)"
  by (auto simp: upd_where_def list_all_iff)

lemma list_all_del_where: "list_all q rs \<Longrightarrow> list_all q (del_where p rs)"
  by (auto simp: del_where_def list_all_iff)

lemma distinct_map_del_where: "distinct (map g rs) \<Longrightarrow> distinct (map g (del_where p rs))"
  by (simp add: del_where_def distinct_map_filter)

lemma set_del_where [simp]: "set (del_where p rs) = {r \<in> set rs. \<not> p r}"
  by (auto simp: del_where_def)

lemma filter_upd_where_other:
  "(\<And>r. p r \<Longrightarrow> \<not> q r) \<Longrightarrow> (\<And>r. p r \<Longrightarrow> \<not> q (f r)) \<Longrightarrow>
   filter q (upd_where p f rs) = filter q rs"
  by (induction rs) auto

lemma filter_upd_where_same:
  "(\<And>r. p r \<Longrightarrow> q r) \<Longrightarrow> (\<And>r. q r \<Longrightarrow> p r) \<Longrightarrow> (\<And>r. p r \<Longrightarrow> q (f r)) \<Longrightarrow>
   filter q (upd_where p f rs) = map f (filter q rs)"
  by (induction rs) auto

text \<open>The row with a given key, in a table whose key column is \<open>k\<close>.\<close>

definition row_of :: "('r \<Rightarrow> 'k) \<Rightarrow> 'k \<Rightarrow> 'r list \<Rightarrow> 'r option" where
  "row_of k x rs = List.find (\<lambda>r. k r = x) rs"

lemma row_of_Nil [simp]: "row_of k x [] = None"
  by (simp add: row_of_def)

lemma row_of_Cons [simp]:
  "row_of k x (r # rs) = (if k r = x then Some r else row_of k x rs)"
  by (simp add: row_of_def)

lemma row_of_SomeD: "row_of k x rs = Some r \<Longrightarrow> r \<in> set rs \<and> k r = x"
  by (induction rs) (auto split: if_splits)

lemma row_of_None_iff: "row_of k x rs = None \<longleftrightarrow> x \<notin> k ` set rs"
  by (induction rs) auto

lemma row_of_filter:
  "row_of k x rs = (case filter (\<lambda>r. k r = x) rs of [] \<Rightarrow> None | r # _ \<Rightarrow> Some r)"
  by (induction rs) auto

lemma row_of_upd_where:
  "(\<And>r. k (f r) = k r) \<Longrightarrow>
   row_of k x (upd_where p f rs) = map_option (\<lambda>r. if p r then f r else r) (row_of k x rs)"
  by (induction rs) auto

lemma row_of_unique:
  "distinct (map k rs) \<Longrightarrow> r \<in> set rs \<Longrightarrow> row_of k (k r) rs = Some r"
  by (induction rs) auto

section \<open>Programs over a state\<close>

definition gets :: "('s \<Rightarrow> 'a) \<Rightarrow> ('s, 'a) state" where
  "gets f = State (\<lambda>s. (f s, s))"

definition modify :: "('s \<Rightarrow> 's) \<Rightarrow> ('s, unit) state" where
  "modify f = State (\<lambda>s. ((), f s))"

abbreviation ret :: "'a \<Rightarrow> ('s, 'a) state" where
  "ret \<equiv> State_Monad.return"

lemma run_gets [simp]: "run_state (gets f) s = (f s, s)"
  by (simp add: gets_def)

lemma run_modify [simp]: "run_state (modify f) s = ((), f s)"
  by (simp add: modify_def)

definition or_fail :: "('s, rc) state \<Rightarrow> ('s, rc) state \<Rightarrow> ('s, rc) state" where
  "or_fail m k = do { r \<leftarrow> m; if r = FAIL then ret FAIL else k }"

primrec each_row :: "('r \<Rightarrow> ('s, rc) state) \<Rightarrow> 'r list \<Rightarrow> ('s, rc) state" where
  "each_row f [] = ret SUCCEED"
| "each_row f (r # rs) = or_fail (f r) (each_row f rs)"

primrec do_rows :: "('r \<Rightarrow> ('s, unit) state) \<Rightarrow> 'r list \<Rightarrow> ('s, unit) state" where
  "do_rows f [] = ret ()"
| "do_rows f (r # rs) = do { _ \<leftarrow> f r; do_rows f rs }"

lemma run_or_fail:
  "run_state (or_fail m k) s =
     (case run_state m s of (r, s') \<Rightarrow> if r = FAIL then (FAIL, s') else run_state k s')"
  by (simp add: or_fail_def split: prod.splits)

definition exec :: "('s, 'a) state \<Rightarrow> 's \<Rightarrow> 's" where
  "exec m s = snd (run_state m s)"

definition result :: "('s, 'a) state \<Rightarrow> 's \<Rightarrow> 'a" where
  "result m s = fst (run_state m s)"

lemma run_exec: "run_state m s = (result m s, exec m s)"
  by (simp add: exec_def result_def)

lemma exec_ret: "exec (ret x) w = w" "result (ret x) w = x"
  by (simp_all add: exec_def result_def)

lemma exec_bind: "exec (State_Monad.bind m f) w = exec (f (result m w)) (exec m w)"
  by (simp add: exec_def result_def split: prod.splits)

lemma gets_now: "exec (gets f) w = w" "result (gets f) w = f w"
  by (simp_all add: exec_def result_def)

lemma result_bind: "result (State_Monad.bind m f) w = result (f (result m w)) (exec m w)"
  by (simp add: exec_def result_def split: prod.splits)

lemma run_bind: "run_state (State_Monad.bind m f) w = run_state (f (result m w)) (exec m w)"
  by (simp add: result_def exec_def split: prod.splits)

section \<open>Relations kept by every step of a program\<close>

text \<open>
  A preorder on states, such as ``the transaction level is the same'' or ``the invariant
  still holds if it did'', lifts from the single steps of a program to the whole program.
  The rules below do that once, for every such relation.
\<close>

locale step_order =
  fixes R :: "'s \<Rightarrow> 's \<Rightarrow> bool"
  assumes R_refl: "R s s"
    and R_trans: "R s t \<Longrightarrow> R t u \<Longrightarrow> R s u"
begin

definition steps :: "('s, 'a) state \<Rightarrow> bool" where
  "steps m \<longleftrightarrow> (\<forall>s. R s (snd (run_state m s)))"

lemma steps_return: "steps (ret x)"
  by (simp add: steps_def R_refl)

lemma steps_gets: "steps (gets f)"
  by (simp add: steps_def R_refl)

lemma steps_modify: "(\<And>s. R s (f s)) \<Longrightarrow> steps (modify f)"
  by (simp add: steps_def)

lemma steps_bind: "steps m \<Longrightarrow> (\<And>x. steps (f x)) \<Longrightarrow> steps (State_Monad.bind m f)"
  by (auto simp: steps_def split: prod.splits) (metis R_trans snd_conv)

lemma steps_if: "(b \<Longrightarrow> steps m) \<Longrightarrow> (\<not> b \<Longrightarrow> steps m') \<Longrightarrow> steps (if b then m else m')"
  by simp

lemma steps_option:
  "(x = None \<Longrightarrow> steps m) \<Longrightarrow> (\<And>y. x = Some y \<Longrightarrow> steps (f y)) \<Longrightarrow> steps (case_option m f x)"
  by (cases x) auto

lemma steps_list:
  "(x = [] \<Longrightarrow> steps m) \<Longrightarrow> (\<And>y ys. x = y # ys \<Longrightarrow> steps (f y ys)) \<Longrightarrow>
   steps (case_list m f x)"
  by (cases x) auto

lemma steps_prod: "(\<And>a b. x = (a, b) \<Longrightarrow> steps (f a b)) \<Longrightarrow> steps (case_prod f x)"
  by (cases x) auto

lemma steps_sum:
  "(\<And>a. x = Inl a \<Longrightarrow> steps (f a)) \<Longrightarrow> (\<And>b. x = Inr b \<Longrightarrow> steps (g b)) \<Longrightarrow> steps (case_sum f g x)"
  by (cases x) auto

lemma steps_let: "(\<And>y. y = x \<Longrightarrow> steps (f y)) \<Longrightarrow> steps (Let x f)"
  by simp

lemma steps_or_fail: "steps m \<Longrightarrow> steps k \<Longrightarrow> steps (or_fail m k)"
  unfolding or_fail_def by (intro steps_bind steps_if steps_return)

lemma steps_each_row: "(\<And>r. r \<in> set rs \<Longrightarrow> steps (f r)) \<Longrightarrow> steps (each_row f rs)"
  by (induction rs) (auto intro: steps_return steps_or_fail)

lemma steps_do_rows: "(\<And>r. r \<in> set rs \<Longrightarrow> steps (f r)) \<Longrightarrow> steps (do_rows f rs)"
  by (induction rs) (auto intro: steps_return steps_bind)

lemmas steps_intros = steps_bind steps_return steps_gets steps_if steps_option steps_list
  steps_prod steps_let steps_or_fail steps_each_row steps_do_rows

lemma stepsD: "steps m \<Longrightarrow> run_state m s = (x, s') \<Longrightarrow> R s s'"
  by (auto simp: steps_def) (metis snd_conv)

lemma steps_exec: "steps m \<Longrightarrow> R s (exec m s)"
  by (simp add: steps_def exec_def)

end

end
