(* ===== verification/Cstring.thy ===== *)
theory Cstring
  imports Prelude
begin

text \<open>
  C strings and the pure string functions of the server: bounded copies, the escaping of
  strings for SQL literals (\<open>libs/zbxdbhigh/db.c\<close>, \<open>jalibs/jastr.c\<close>), the byte
  filter of \<open>ja_set_value_after\<close> (\<open>jalibs/javalue.c\<close>), glob matching, time stamps,
  number ranges and the shell command builders of \<open>jalibs/jastr.c\<close>.  A C string is the
  list of its bytes without the terminating NUL.
\<close>

section \<open>Bounded copies\<close>

text \<open>\<^verbatim>\<open>zbx_strlcpy(dst, src, siz)\<close> and \<^verbatim>\<open>zbx_snprintf(dst, siz, "%s", src)\<close>.\<close>

definition strlcpy :: "nat \<Rightarrow> string \<Rightarrow> string" where
  "strlcpy siz src = take (siz - 1) src"

lemma length_strlcpy: "length (strlcpy siz src) \<le> siz - 1"
  by (simp add: strlcpy_def)

lemma strlcpy_fits [simp]: "length src < siz \<Longrightarrow> strlcpy siz src = src"
  by (simp add: strlcpy_def)

section \<open>SQL literals\<close>

abbreviation (input) CR :: char where "CR \<equiv> CHR 0x0D"
abbreviation (input) LF :: char where "LF \<equiv> CHR 0x0A"
abbreviation (input) QUOTE :: char where "QUOTE \<equiv> CHR 0x27"
abbreviation (input) BACKSLASH :: char where "BACKSLASH \<equiv> CHR 0x5C"

text \<open>
  \<open>bs\<close> is the C global \<open>ZBX_PG_ESCAPE_BACKSLASH\<close>: whether the server reads a backslash
  in a literal as an escape character (\<open>standard_conforming_strings\<close> off).
\<close>

definition to_escape :: "bool \<Rightarrow> char \<Rightarrow> bool" where
  "to_escape bs c \<longleftrightarrow> c = QUOTE \<or> (c = BACKSLASH \<and> bs)"

fun DBget_escape_string_len :: "bool \<Rightarrow> string \<Rightarrow> nat" where
  "DBget_escape_string_len bs [] = 1"
| "DBget_escape_string_len bs (c # s) =
     (if c = CR then DBget_escape_string_len bs s
      else if to_escape bs c then 2 + DBget_escape_string_len bs s
      else 1 + DBget_escape_string_len bs s)"

text \<open>The loop of \<open>DBescape_string\<close>; \<open>len\<close> is the room left, the NUL not counted.\<close>

fun escape_loop :: "bool \<Rightarrow> nat \<Rightarrow> string \<Rightarrow> string" where
  "escape_loop bs len [] = []"
| "escape_loop bs len (c # s) =
     (if len = 0 then []
      else if c = CR then escape_loop bs len s
      else if to_escape bs c
        then (if len < 2 then [] else c # c # escape_loop bs (len - 2) s)
        else c # escape_loop bs (len - 1) s)"

definition DBescape_string :: "bool \<Rightarrow> string \<Rightarrow> nat \<Rightarrow> string" where
  "DBescape_string bs src len = escape_loop bs (len - 1) src"

definition DBdyn_escape_string :: "bool \<Rightarrow> string \<Rightarrow> string" where
  "DBdyn_escape_string bs src = DBescape_string bs src (DBget_escape_string_len bs src)"

text \<open>The agent's copy of the same code in \<open>jastr.c\<close> never escapes backslashes.\<close>

fun ja_db_escape_string_len :: "string \<Rightarrow> nat" where
  "ja_db_escape_string_len [] = 1"
| "ja_db_escape_string_len (c # s) =
     (if c = CR then ja_db_escape_string_len s
      else if c = QUOTE then 2 + ja_db_escape_string_len s
      else 1 + ja_db_escape_string_len s)"

fun ja_escape_loop :: "nat \<Rightarrow> string \<Rightarrow> string" where
  "ja_escape_loop len [] = []"
| "ja_escape_loop len (c # s) =
     (if len = 0 then []
      else if c = CR then ja_escape_loop len s
      else if c = QUOTE
        then (if len < 2 then [] else QUOTE # c # ja_escape_loop (len - 2) s)
        else c # ja_escape_loop (len - 1) s)"

definition ja_db_escape_string :: "string \<Rightarrow> nat \<Rightarrow> string" where
  "ja_db_escape_string src len = ja_escape_loop (len - 1) src"

definition ja_db_dyn_escape_string :: "string \<Rightarrow> string" where
  "ja_db_dyn_escape_string src = ja_db_escape_string src (ja_db_escape_string_len src)"

text \<open>
  How the server reads a literal: from behind the opening quote to the closing one, a
  doubled quote being a quote and, with \<open>bs\<close>, a backslash taking the next character.
\<close>

fun sql_literal :: "bool \<Rightarrow> string \<Rightarrow> (string \<times> string) option" where
  "sql_literal bs [] = None"
| "sql_literal bs (c # s) =
     (if c = QUOTE
      then (case s of
              d # s' \<Rightarrow> if d = QUOTE then map_option (\<lambda>(v, r). (QUOTE # v, r)) (sql_literal bs s')
                        else Some ([], s)
            | [] \<Rightarrow> Some ([], s))
      else if c = BACKSLASH \<and> bs
      then (case s of d # s' \<Rightarrow> map_option (\<lambda>(v, r). (d # v, r)) (sql_literal bs s')
            | [] \<Rightarrow> None)
      else map_option (\<lambda>(v, r). (c # v, r)) (sql_literal bs s))"

definition no_cr :: "string \<Rightarrow> string" where
  "no_cr s = filter (\<lambda>c. c \<noteq> CR) s"

lemma no_cr_Nil [simp]: "no_cr [] = []"
  by (simp add: no_cr_def)

lemma no_cr_Cons [simp]: "no_cr (c # s) = (if c = CR then no_cr s else c # no_cr s)"
  by (simp add: no_cr_def)

lemma length_no_cr: "length (no_cr s) \<le> length s"
  by (simp add: no_cr_def)

fun escaped :: "bool \<Rightarrow> string \<Rightarrow> string" where
  "escaped bs [] = []"
| "escaped bs (c # s) =
     (if c = CR then escaped bs s else if to_escape bs c then c # c # escaped bs s
      else c # escaped bs s)"

lemma escape_len: "DBget_escape_string_len bs s = Suc (length (escaped bs s))"
  by (induction s) auto

lemma escape_loop_enough: "length (escaped bs s) \<le> n \<Longrightarrow> escape_loop bs n s = escaped bs s"
  by (induction s arbitrary: n) (auto simp: Suc_le_eq split: if_splits)

lemma escape_loop_bound: "length (escape_loop bs n s) \<le> n"
proof (induction s arbitrary: n)
  case (Cons c s)
  from Cons [of "n - 2"] Cons [of "n - 1"] Cons [of n] show ?case
    by auto
qed simp

text \<open>The computed length is the one the copy needs: nothing is cut off.\<close>

lemma DBdyn_escape_string_eq: "DBdyn_escape_string bs s = escaped bs s"
  by (simp add: DBdyn_escape_string_def DBescape_string_def escape_len escape_loop_enough)

lemma ja_len_eq: "ja_db_escape_string_len s = DBget_escape_string_len False s"
  by (induction s) (auto simp: to_escape_def)

lemma ja_loop_eq: "ja_escape_loop n s = escape_loop False n s"
  by (induction s arbitrary: n) (auto simp: to_escape_def)

lemma ja_db_dyn_escape_string_eq: "ja_db_dyn_escape_string s = DBdyn_escape_string False s"
  by (simp add: ja_db_dyn_escape_string_def ja_db_escape_string_def DBdyn_escape_string_def
      DBescape_string_def ja_len_eq ja_loop_eq)

lemma sql_literal_escaped:
  "rest = [] \<or> hd rest \<noteq> QUOTE \<Longrightarrow>
   sql_literal bs (escaped bs s @ QUOTE # rest) = Some (no_cr s, rest)"
proof (induction s)
  case Nil
  then show ?case
    by (cases rest) auto
next
  case (Cons c s)
  then show ?case
    by (auto simp: to_escape_def)
qed

section \<open>Lists of literals\<close>

text \<open>
  The part of an \<^verbatim>\<open>insert ... values ('%s', '%s', ...)\<close> that holds text: what the code
  prints and how the server reads it, for any escaping function that guards its literals.
\<close>

locale sql_quoting =
  fixes esc :: "string \<Rightarrow> string"
    and lit :: "string \<Rightarrow> (string \<times> string) option"
    and clean :: "string \<Rightarrow> string"
  assumes lit_esc: "rest = [] \<or> hd rest \<noteq> QUOTE \<Longrightarrow>
    lit (esc s @ QUOTE # rest) = Some (clean s, rest)"
begin

fun print_values :: "string list \<Rightarrow> string" where
  "print_values [] = []"
| "print_values (v # vs) = QUOTE # esc v @ QUOTE # CHR '','' # print_values vs"

fun read_values :: "nat \<Rightarrow> string \<Rightarrow> string list option" where
  "read_values 0 text = Some []"
| "read_values (Suc n) text =
     (case text of
        c # s \<Rightarrow> (if c = QUOTE
          then (case lit s of Some (v, _ # rest) \<Rightarrow> map_option ((#) v) (read_values n rest)
                | _ \<Rightarrow> None)
          else None)
      | [] \<Rightarrow> None)"

lemma read_print: "read_values (length vs) (print_values vs) = Some (map clean vs)"
  by (induction vs) (simp_all add: lit_esc)

end

interpretation pg_quoting: sql_quoting "DBdyn_escape_string bs" "sql_literal bs" no_cr for bs
  by unfold_locales (simp add: DBdyn_escape_string_eq sql_literal_escaped)

interpretation agent_quoting: sql_quoting ja_db_dyn_escape_string "sql_literal False" no_cr
  by unfold_locales
    (simp add: ja_db_dyn_escape_string_eq DBdyn_escape_string_eq sql_literal_escaped)

text \<open>What the server stores for an escaped string that the code prints as \<^verbatim>\<open>'%s'\<close>.\<close>

definition sql_text :: "string \<Rightarrow> string" where
  "sql_text e = (case sql_literal False (e @ [QUOTE]) of Some (v, _) \<Rightarrow> v | None \<Rightarrow> [])"

lemma sql_text_escape [simp]: "sql_text (DBdyn_escape_string False s) = no_cr s"
  by (simp add: sql_text_def DBdyn_escape_string_eq sql_literal_escaped)

end
