(* ===== verification/Utf8.thy ===== *)
theory Utf8
  imports Cstring
begin

text \<open>
  The byte filter in \<open>ja_set_value_after\<close> (\<open>jalibs/javalue.c\<close>, lines 226--257): it
  copies the escaped value byte by byte, holding back the first two bytes of a three-byte
  UTF-8 sequence until the third arrives, and drops what it does not recognise.
\<close>

definition byte :: "char \<Rightarrow> nat" where
  "byte c = of_char c"

definition ascii_byte :: "char \<Rightarrow> bool" where
  "ascii_byte c \<longleftrightarrow> byte c < 128"          \<comment> \<open>\<^verbatim>\<open>(c & 0x80) == 0\<close>\<close>

definition lead3_byte :: "char \<Rightarrow> bool" where
  "lead3_byte c \<longleftrightarrow> 224 \<le> byte c \<and> byte c < 240"  \<comment> \<open>\<^verbatim>\<open>(c & 0xf0) == 0xe0\<close>\<close>

definition cont_byte :: "char \<Rightarrow> bool" where
  "cont_byte c \<longleftrightarrow> 128 \<le> byte c \<and> byte c < 192"  \<comment> \<open>\<^verbatim>\<open>(c & 0xc0) == 0x80\<close>\<close>

definition opt_byte :: "char option \<Rightarrow> string" where
  "opt_byte n = (case n of None \<Rightarrow> [] | Some c \<Rightarrow> [c])"

lemma opt_byte_simps [simp]: "opt_byte None = []" "opt_byte (Some c) = [c]"
  by (simp_all add: opt_byte_def)

text \<open>The loop; \<open>k\<close>, \<open>n1\<close>, \<open>n2\<close> are the C locals, 0 being no byte.\<close>

fun filter_loop :: "nat \<Rightarrow> char option \<Rightarrow> char option \<Rightarrow> string \<Rightarrow> string" where
  "filter_loop k n1 n2 [] = []"
| "filter_loop k n1 n2 (c # s) =
     (if ascii_byte c then c # filter_loop 0 n1 n2 s
      else if lead3_byte c then filter_loop 1 (Some c) n2 s
      else if cont_byte c \<and> 0 < k \<and> k < 7 then
        (if n1 \<noteq> None \<and> n2 = None then filter_loop (k + 1) n1 (Some c) s
         else opt_byte n1 @ opt_byte n2 @ [c] @ filter_loop (k + 1) None None s)
      else filter_loop 0 n1 n2 s)"

definition utf8_filter :: "string \<Rightarrow> string" where
  "utf8_filter s = filter_loop 0 None None s"

text \<open>The output never outgrows the input.\<close>

lemma length_opt_byte: "length (opt_byte n) = (if n = None then 0 else 1)"
  by (cases n) auto

lemma filter_loop_length:
  "length (filter_loop k n1 n2 s) \<le> length s + length (opt_byte n1) + length (opt_byte n2)"
  by (induction k n1 n2 s rule: filter_loop.induct) (auto simp: length_opt_byte split: if_splits)

lemma utf8_filter_length: "length (utf8_filter s) \<le> length s"
  using filter_loop_length [of 0 None None s] by (simp add: utf8_filter_def)

section \<open>On well-formed text\<close>

text \<open>A character of well-formed UTF-8 text, by the length of its encoding.\<close>

datatype uchar = U1 char | U2 char char | U3 char char char | U4 char char char char

fun ubytes :: "uchar \<Rightarrow> string" where
  "ubytes (U1 a) = [a]"
| "ubytes (U2 a b) = [a, b]"
| "ubytes (U3 a b c) = [a, b, c]"
| "ubytes (U4 a b c d) = [a, b, c, d]"

fun uvalid :: "uchar \<Rightarrow> bool" where
  "uvalid (U1 a) \<longleftrightarrow> byte a < 128"
| "uvalid (U2 a b) \<longleftrightarrow> 192 \<le> byte a \<and> byte a < 224 \<and> cont_byte b"
| "uvalid (U3 a b c) \<longleftrightarrow> lead3_byte a \<and> cont_byte b \<and> cont_byte c"
| "uvalid (U4 a b c d) \<longleftrightarrow> 240 \<le> byte a \<and> byte a < 248 \<and> cont_byte b \<and> cont_byte c \<and> cont_byte d"

fun one_or_three :: "uchar \<Rightarrow> bool" where
  "one_or_three (U1 _) \<longleftrightarrow> True"
| "one_or_three (U3 _ _ _) \<longleftrightarrow> True"
| "one_or_three _ \<longleftrightarrow> False"

definition encode :: "uchar list \<Rightarrow> string" where
  "encode us = concat (map ubytes us)"

lemma encode_simps [simp]: "encode [] = []" "encode (u # us) = ubytes u @ encode us"
  by (simp_all add: encode_def)

lemma byte_classes:
  "cont_byte c \<Longrightarrow> \<not> ascii_byte c" "cont_byte c \<Longrightarrow> \<not> lead3_byte c"
  "lead3_byte c \<Longrightarrow> \<not> ascii_byte c"
  by (auto simp: cont_byte_def ascii_byte_def lead3_byte_def)

lemma filter_loop_encode:
  "list_all uvalid us \<Longrightarrow>
   filter_loop k None None (encode us) = encode (filter one_or_three us)"
proof (induction us arbitrary: k)
  case (Cons u us)
  then show ?case
    by (cases u)
      (auto simp: byte_classes ascii_byte_def lead3_byte_def cont_byte_def)
qed simp

text \<open>
  On well-formed text exactly the characters of one and three bytes survive; Latin, Greek
  and Cyrillic letters (two bytes) and everything outside the basic plane (four) are lost.
\<close>

theorem utf8_filter_encode:
  "list_all uvalid us \<Longrightarrow> utf8_filter (encode us) = encode (filter one_or_three us)"
  by (simp add: utf8_filter_def filter_loop_encode)

section \<open>The filter and the literal\<close>

text \<open>
  Escaping doubles quotes only, which are ASCII, so filtering the escaped text and reading
  it back as a literal is the same as filtering the text.
\<close>

lemma filter_loop_escaped:
  "filter_loop k n1 n2 (escaped False s) = escaped False (filter_loop k n1 n2 (no_cr s)) \<or>
   \<not> (n1 \<noteq> Some QUOTE \<and> n2 \<noteq> Some QUOTE \<and> n1 \<noteq> Some CR \<and> n2 \<noteq> Some CR)"
proof (induction s arbitrary: k n1 n2)
  case (Cons c s)
  have "byte QUOTE = 39" "byte CR = 13"
    by (simp_all add: byte_def)
  then have q: "ascii_byte QUOTE" "\<not> lead3_byte QUOTE" "\<not> cont_byte QUOTE" "ascii_byte CR"
    "\<not> lead3_byte CR" "\<not> cont_byte CR"
    by (simp_all add: ascii_byte_def lead3_byte_def cont_byte_def)
  show ?case
  proof (cases "n1 \<noteq> Some QUOTE \<and> n2 \<noteq> Some QUOTE \<and> n1 \<noteq> Some CR \<and> n2 \<noteq> Some CR")
    case True
    with Cons [of 0 n1 n2] Cons [of 1 "Some c" n2] Cons [of "k + 1" n1 "Some c"]
      Cons [of "k + 1" None None] Cons [of k n1 n2] q show ?thesis
      by (cases n1; cases n2) (auto simp: to_escape_def)
  qed blast
qed simp

lemma filter_loop_set:
  "x \<in> set (filter_loop k n1 n2 t) \<Longrightarrow> x \<in> set t \<or> n1 = Some x \<or> n2 = Some x"
proof (induction t arbitrary: k n1 n2)
  case (Cons c t)
  from Cons.prems Cons.IH [of 0 n1 n2] Cons.IH [of 1 "Some c" n2] Cons.IH [of "k + 1" n1 "Some c"]
    Cons.IH [of "k + 1" None None] show ?case
    by (cases n1; cases n2) (auto split: if_splits)
qed simp

lemma sql_text_filter: "sql_text (utf8_filter (DBdyn_escape_string False s)) = utf8_filter (no_cr s)"
proof -
  have no_cr_id: "CR \<notin> set t \<Longrightarrow> no_cr t = t" for t
    by (induction t) auto
  have "CR \<notin> set (utf8_filter (no_cr s))"
    using filter_loop_set [of CR 0 None None "no_cr s"] by (auto simp: utf8_filter_def no_cr_def)
  moreover have "utf8_filter (DBdyn_escape_string False s) = escaped False (utf8_filter (no_cr s))"
    using filter_loop_escaped [of 0 None None s]
    by (simp add: utf8_filter_def DBdyn_escape_string_eq)
  ultimately show ?thesis
    by (simp add: sql_text_def sql_literal_escaped no_cr_id)
qed

end
