(* ===== verification/Designs.thy ===== *)
theory Designs
  imports Prelude
begin

text \<open>
  The tables the editor writes (\<open>src/database/postgresql\<close>): what jobnets, their icons and
  flows, schedules and filters are defined to be.  A definition has an id and the date of
  its version; rows of icon settings are keyed by jobnet, icon and version.  One list holds
  the rows of all the icon tables, the constructor of \<open>icon_cols\<close> telling the table; columns
  that only icons outside this development read are kept as a list of texts.
\<close>

text \<open>\<open>ja_job_control_table\<close>\<close>

record job_control =
  jc_jobnet :: string
  jc_job :: string
  jc_update :: int
  jc_type :: int
  jc_x :: int
  jc_y :: int
  jc_name :: "string option"
  jc_method :: int
  jc_force :: int
  jc_continue :: int
  jc_user :: "string option"
  jc_password :: "string option"

text \<open>\<open>ja_flow_control_table\<close>\<close>

record flow_control =
  fc_jobnet :: string
  fc_start :: string
  fc_end :: string
  fc_update :: int
  fc_type :: int
  fc_width :: int

text \<open>\<open>ja_icon_..._table\<close>, \<open>ja_job_command_table\<close>, \<open>ja_value_job..._table\<close>\<close>

datatype icon_cols =
    End_cols int string                         \<comment> \<open>\<open>jobnet_stop_flag, jobnet_stop_code\<close>\<close>
  | If_cols int string string                   \<comment> \<open>\<open>hand_flag, value_name, comparison_value\<close>\<close>
  | Value_cols string string                    \<comment> \<open>\<open>value_name, value\<close>\<close>
  | Job_cols int string "string option list"    \<comment> \<open>\<open>host_flag, host_name\<close>; \<open>stop_flag, command_type, timeout, stop_code\<close>\<close>
  | Command_cols int string                     \<comment> \<open>\<open>command_cls, command\<close>\<close>
  | Job_value_cols string string                \<comment> \<open>\<open>value_name, value\<close>\<close>
  | Jobcon_cols string                          \<comment> \<open>\<open>value_name\<close>\<close>
  | Jobnet_cols string                          \<comment> \<open>\<open>link_jobnet_id\<close>\<close>
  | Extjob_cols string "string option"          \<comment> \<open>\<open>command_id, value\<close>\<close>
  | Calc_cols int string string                 \<comment> \<open>\<open>hand_flag, formula, value_name\<close>\<close>
  | Task_cols string                            \<comment> \<open>\<open>submit_jobnet_id\<close>\<close>
  | Info_cols int "string option" "string option" "string option list"
      \<comment> \<open>\<open>info_flag, get_job_id, get_calendar_id\<close>; \<open>item_id, trigger_id, host_group, host_name\<close>\<close>
  | Fcopy_cols int string "string option list"
      \<comment> \<open>\<open>from_host_flag, from_host_name\<close>; the other six columns\<close>
  | Fwait_cols int string "string option list"
      \<comment> \<open>\<open>host_flag, host_name\<close>; \<open>fwait_mode_flag, file_delete_flag, file_wait_time, file_name\<close>\<close>
  | Reboot_cols int string "string option list"
      \<comment> \<open>\<open>host_flag, host_name\<close>; \<open>reboot_mode_flag, reboot_wait_time, timeout\<close>\<close>
  | Release_cols string                         \<comment> \<open>\<open>release_job_id\<close>\<close>
  | Less_cols int "string option" int "string option" "string option list"
      \<comment> \<open>\<open>host_flag, host_name, session_flag, session_id\<close>; \<open>connection_method, auth_method,
         run_mode, line_feed_code, timeout\<close> and the other columns\<close>
  | Link_cols "string option list"
      \<comment> \<open>\<open>link_target, link_operation, groupid, hostid, itemid, triggerid\<close>\<close>

record icon_design =
  di_jobnet :: string
  di_job :: string
  di_update :: int
  di_cols :: icon_cols

text \<open>\<open>ja_schedule_control_table\<close>, \<open>ja_schedule_detail_table\<close>, \<open>ja_schedule_jobnet_table\<close>\<close>

record schedule_control =
  sc_id :: string
  sc_update :: int
  sc_valid :: int

record schedule_detail =
  sy_schedule :: string
  sy_calendar :: string
  sy_update :: int
  sy_boot :: string
  sy_object :: int

record schedule_jobnet =
  sj_schedule :: string
  sj_jobnet :: string
  sj_update :: int

text \<open>\<open>ja_filter_control_table\<close>\<close>

record filter_control =
  fl_id :: string
  fl_valid :: int
  fl_base :: int          \<comment> \<open>\<open>base_date_flag\<close>\<close>
  fl_day :: int           \<comment> \<open>\<open>designated_day\<close>\<close>
  fl_shift :: int         \<comment> \<open>\<open>shift_day\<close>\<close>
  fl_calendar :: string   \<comment> \<open>\<open>base_calendar_id\<close>\<close>

record design_tables =
  job_controls :: "job_control list"
  flow_controls :: "flow_control list"
  icon_designs :: "icon_design list"
  schedules :: "schedule_control list"
  schedule_details :: "schedule_detail list"
  schedule_jobnets :: "schedule_jobnet list"
  filters :: "filter_control list"

definition no_designs :: design_tables where
  "no_designs = \<lparr>job_controls = [], flow_controls = [], icon_designs = [], schedules = [],
     schedule_details = [], schedule_jobnets = [], filters = []\<rparr>"

end
