(* ===== verification/Schema.thy ===== *)
theory Schema
  imports Designs
begin

text \<open>
  The job-execution tables of the database (\<open>src/database/postgresql\<close>), as the C code
  reads and writes them: one record per table row with the columns the modelled code uses,
  one list of rows per table, and the SQL statements the code issues as a datatype
  \<open>sql\<close> with an interpreter \<open>exec_sql\<close>.  A query is an arbitrary function of the
  tables; only statements can change them.  \<open>NOT NULL\<close> columns have plain types,
  nullable ones are options.  The constraints the code can run into are part of the
  interpreter: a statement that violates a primary or foreign key has no result.
\<close>

section \<open>Constants (\<open>jacommon.h\<close>)\<close>

abbreviation (input) JA_JOB_STATUS_BEGIN :: int where "JA_JOB_STATUS_BEGIN \<equiv> 0"
abbreviation (input) JA_JOB_STATUS_READY :: int where "JA_JOB_STATUS_READY \<equiv> 1"
abbreviation (input) JA_JOB_STATUS_RUN :: int where "JA_JOB_STATUS_RUN \<equiv> 2"
abbreviation (input) JA_JOB_STATUS_END :: int where "JA_JOB_STATUS_END \<equiv> 3"
abbreviation (input) JA_JOB_STATUS_RUNERR :: int where "JA_JOB_STATUS_RUNERR \<equiv> 4"
abbreviation (input) JA_JOB_STATUS_ENDERR :: int where "JA_JOB_STATUS_ENDERR \<equiv> 5"
abbreviation (input) JA_JOB_STATUS_ABORT :: int where "JA_JOB_STATUS_ABORT \<equiv> 6"

abbreviation (input) JA_JOBNET_STATUS_BEGIN :: int where "JA_JOBNET_STATUS_BEGIN \<equiv> 0"
abbreviation (input) JA_JOBNET_STATUS_READY :: int where "JA_JOBNET_STATUS_READY \<equiv> 1"
abbreviation (input) JA_JOBNET_STATUS_RUN :: int where "JA_JOBNET_STATUS_RUN \<equiv> 2"
abbreviation (input) JA_JOBNET_STATUS_END :: int where "JA_JOBNET_STATUS_END \<equiv> 3"
abbreviation (input) JA_JOBNET_STATUS_RUNERR :: int where "JA_JOBNET_STATUS_RUNERR \<equiv> 4"
abbreviation (input) JA_JOBNET_STATUS_ENDERR :: int where "JA_JOBNET_STATUS_ENDERR \<equiv> 5"

abbreviation (input) JA_JOB_TYPE_START :: int where "JA_JOB_TYPE_START \<equiv> 0"
abbreviation (input) JA_JOB_TYPE_END :: int where "JA_JOB_TYPE_END \<equiv> 1"
abbreviation (input) JA_JOB_TYPE_IF :: int where "JA_JOB_TYPE_IF \<equiv> 2"
abbreviation (input) JA_JOB_TYPE_VALUE :: int where "JA_JOB_TYPE_VALUE \<equiv> 3"
abbreviation (input) JA_JOB_TYPE_JOB :: int where "JA_JOB_TYPE_JOB \<equiv> 4"
abbreviation (input) JA_JOB_TYPE_JOBNET :: int where "JA_JOB_TYPE_JOBNET \<equiv> 5"
abbreviation (input) JA_JOB_TYPE_M :: int where "JA_JOB_TYPE_M \<equiv> 6"
abbreviation (input) JA_JOB_TYPE_W :: int where "JA_JOB_TYPE_W \<equiv> 7"
abbreviation (input) JA_JOB_TYPE_L :: int where "JA_JOB_TYPE_L \<equiv> 8"
abbreviation (input) JA_JOB_TYPE_EXTJOB :: int where "JA_JOB_TYPE_EXTJOB \<equiv> 9"
abbreviation (input) JA_JOB_TYPE_CALC :: int where "JA_JOB_TYPE_CALC \<equiv> 10"
abbreviation (input) JA_JOB_TYPE_TASK :: int where "JA_JOB_TYPE_TASK \<equiv> 11"
abbreviation (input) JA_JOB_TYPE_INFO :: int where "JA_JOB_TYPE_INFO \<equiv> 12"
abbreviation (input) JA_JOB_TYPE_IFEND :: int where "JA_JOB_TYPE_IFEND \<equiv> 13"
abbreviation (input) JA_JOB_TYPE_FCOPY :: int where "JA_JOB_TYPE_FCOPY \<equiv> 14"
abbreviation (input) JA_JOB_TYPE_FWAIT :: int where "JA_JOB_TYPE_FWAIT \<equiv> 15"
abbreviation (input) JA_JOB_TYPE_REBOOT :: int where "JA_JOB_TYPE_REBOOT \<equiv> 16"
abbreviation (input) JA_JOB_TYPE_REL :: int where "JA_JOB_TYPE_REL \<equiv> 17"
abbreviation (input) JA_JOB_TYPE_LESS :: int where "JA_JOB_TYPE_LESS \<equiv> 18"
abbreviation (input) JA_JOB_TYPE_LINK :: int where "JA_JOB_TYPE_LINK \<equiv> 19"

abbreviation (input) JA_JOB_METHOD_NORMAL :: int where "JA_JOB_METHOD_NORMAL \<equiv> 0"
abbreviation (input) JA_JOB_METHOD_WAIT :: int where "JA_JOB_METHOD_WAIT \<equiv> 1"
abbreviation (input) JA_JOB_METHOD_SKIP :: int where "JA_JOB_METHOD_SKIP \<equiv> 2"
abbreviation (input) JA_JOB_METHOD_ABORT :: int where "JA_JOB_METHOD_ABORT \<equiv> 3"
abbreviation (input) JA_JOB_METHOD_RERUN :: int where "JA_JOB_METHOD_RERUN \<equiv> 4"

abbreviation (input) JA_FLOW_TYPE_NORMAL :: int where "JA_FLOW_TYPE_NORMAL \<equiv> 0"
abbreviation (input) JA_FLOW_TYPE_TRUE :: int where "JA_FLOW_TYPE_TRUE \<equiv> 1"
abbreviation (input) JA_FLOW_TYPE_FALSE :: int where "JA_FLOW_TYPE_FALSE \<equiv> 2"

abbreviation (input) JA_JOB_TEST_FLAG_OFF :: int where "JA_JOB_TEST_FLAG_OFF \<equiv> 0"
abbreviation (input) JA_JOB_TEST_FLAG_ON :: int where "JA_JOB_TEST_FLAG_ON \<equiv> 1"
abbreviation (input) JA_JOB_CONTINUE_FLAG_OFF :: int where "JA_JOB_CONTINUE_FLAG_OFF \<equiv> 0"
abbreviation (input) JA_JOB_CONTINUE_FLAG_ON :: int where "JA_JOB_CONTINUE_FLAG_ON \<equiv> 1"

abbreviation (input) JA_SUMMARY_JOB_STATUS_NORMAL :: int where "JA_SUMMARY_JOB_STATUS_NORMAL \<equiv> 0"
abbreviation (input) JA_SUMMARY_JOB_STATUS_TIMEOUT :: int where "JA_SUMMARY_JOB_STATUS_TIMEOUT \<equiv> 1"
abbreviation (input) JA_SUMMARY_JOB_STATUS_ERROR :: int where "JA_SUMMARY_JOB_STATUS_ERROR \<equiv> 2"
abbreviation (input) JA_SUMMARY_LOAD_STATUS_NORMAL :: int where "JA_SUMMARY_LOAD_STATUS_NORMAL \<equiv> 0"
abbreviation (input) JA_SUMMARY_LOAD_STATUS_ERROR :: int where "JA_SUMMARY_LOAD_STATUS_ERROR \<equiv> 1"
abbreviation (input) JA_SUMMARY_LOAD_STATUS_DELAY :: int where "JA_SUMMARY_LOAD_STATUS_DELAY \<equiv> 2"
abbreviation (input) JA_SUMMARY_LOAD_STATUS_SKIP :: int where "JA_SUMMARY_LOAD_STATUS_SKIP \<equiv> 3"
abbreviation (input) JA_SUMMARY_START_PENDING_NONE :: int where "JA_SUMMARY_START_PENDING_NONE \<equiv> 0"
abbreviation (input) JA_SUMMARY_START_PENDING_ON :: int where "JA_SUMMARY_START_PENDING_ON \<equiv> 1"

abbreviation (input) JA_JOBNET_RUN_TYPE_NORMAL :: int where "JA_JOBNET_RUN_TYPE_NORMAL \<equiv> 0"
abbreviation (input) JA_JOBNET_RUN_TYPE_IMMEDIATE :: int where "JA_JOBNET_RUN_TYPE_IMMEDIATE \<equiv> 1"
abbreviation (input) JA_JOBNET_RUN_TYPE_WAIT :: int where "JA_JOBNET_RUN_TYPE_WAIT \<equiv> 2"
abbreviation (input) JA_JOBNET_RUN_TYPE_TEST :: int where "JA_JOBNET_RUN_TYPE_TEST \<equiv> 3"
abbreviation (input) JA_JOBNET_RUN_TYPE_SCHEDULED :: int where "JA_JOBNET_RUN_TYPE_SCHEDULED \<equiv> 4"
abbreviation (input) JA_JOBNET_MULTIPLE_SKIP :: int where "JA_JOBNET_MULTIPLE_SKIP \<equiv> 1"
abbreviation (input) JA_JOBNET_MULTIPLE_DELAY :: int where "JA_JOBNET_MULTIPLE_DELAY \<equiv> 2"
abbreviation (input) JA_JOBNET_MAIN_FLAG_MAIN :: int where "JA_JOBNET_MAIN_FLAG_MAIN \<equiv> 0"
abbreviation (input) JA_JOBNET_MAIN_FLAG_SUB :: int where "JA_JOBNET_MAIN_FLAG_SUB \<equiv> 1"
abbreviation (input) JA_JOB_INVO_FLAG_OFF :: int where "JA_JOB_INVO_FLAG_OFF \<equiv> 0"
abbreviation (input) JA_JOB_INVO_FLAG_ON :: int where "JA_JOB_INVO_FLAG_ON \<equiv> 1"

abbreviation (input) JA_SESSION_FLAG_CLOSE :: int where "JA_SESSION_FLAG_CLOSE \<equiv> 3"

abbreviation (input) JC_JOBNET_START :: string where "JC_JOBNET_START \<equiv> ''JC00000001''"
abbreviation (input) JC_JOBNET_END :: string where "JC_JOBNET_END \<equiv> ''JC00000002''"
abbreviation (input) JC_JOB_START :: string where "JC_JOB_START \<equiv> ''JC00000003''"
abbreviation (input) JC_JOB_END :: string where "JC_JOB_END \<equiv> ''JC00000004''"
abbreviation (input) JC_JOB_SKIP :: string where "JC_JOB_SKIP \<equiv> ''JC00000006''"
abbreviation (input) JC_JOB_RERUN :: string where "JC_JOB_RERUN \<equiv> ''JC00000007''"
abbreviation (input) JC_JOBNET_START_ERR :: string where "JC_JOBNET_START_ERR \<equiv> ''JC90000001''"
abbreviation (input) JC_JOB_ERR_END :: string where "JC_JOB_ERR_END \<equiv> ''JC90000002''"
abbreviation (input) JC_JOBNET_ERR_END :: string where "JC_JOBNET_ERR_END \<equiv> ''JC90000003''"

abbreviation (input) JA_RUN_ID_JOBNET_LD :: int where "JA_RUN_ID_JOBNET_LD \<equiv> 1"
abbreviation (input) JA_RUN_ID_JOBNET_EX :: int where "JA_RUN_ID_JOBNET_EX \<equiv> 3"

section \<open>Rows\<close>

text \<open>Icons of running jobnets (\<open>ja_run_job_table\<close>).\<close>

record run_job =
  rj_id :: uint64          \<comment> \<open>\<open>inner_job_id\<close>, primary key\<close>
  rj_jobnet :: uint64      \<comment> \<open>\<open>inner_jobnet_id\<close>\<close>
  rj_main :: uint64        \<comment> \<open>\<open>inner_jobnet_main_id\<close>\<close>
  rj_fs_link :: uint64     \<comment> \<open>\<open>inner_job_id_fs_link\<close>\<close>
  rj_invo :: int           \<comment> \<open>\<open>invo_flag\<close>: whether the jobnet of a jobnet icon has been expanded\<close>
  rj_type :: int
  rj_test :: int
  rj_method :: int
  rj_force :: int
  rj_timeout :: int
  rj_status :: int
  rj_boot_count :: int
  rj_end_count :: int
  rj_start :: int
  rj_end :: int
  rj_job_id :: string
  rj_name :: "string option"
  rj_continue :: int
  rj_x :: int
  rj_y :: int
  rj_user :: "string option"
  rj_password :: "string option"

text \<open>Running jobnets, the nested ones included (\<open>ja_run_jobnet_table\<close>).\<close>

record run_jobnet =
  rn_id :: uint64          \<comment> \<open>\<open>inner_jobnet_id\<close>, primary key\<close>
  rn_main :: uint64        \<comment> \<open>\<open>inner_jobnet_main_id\<close>\<close>
  rn_job :: uint64         \<comment> \<open>\<open>inner_job_id\<close>: the jobnet icon it runs for, or 0\<close>
  rn_update :: int
  rn_run_type :: int
  rn_main_flag :: int
  rn_timeout :: int
  rn_status :: int
  rn_sched :: int
  rn_start :: int
  rn_end :: int
  rn_public :: int
  rn_multiple :: int
  rn_jobnet_id :: string
  rn_user :: string
  rn_name :: string
  rn_memo :: "string option"
  rn_exec_user :: string
  rn_schedule :: "string option"
  rn_calendar :: "string option"
  rn_boot :: "string option"
  rn_initial :: int        \<comment> \<open>\<open>initial_scheduled_time\<close>\<close>
  rn_running_id :: "string option"
  rn_running_name :: "string option"

text \<open>One row per main jobnet (\<open>ja_run_jobnet_summary_table\<close>).\<close>

record run_summary =
  rs_id :: uint64          \<comment> \<open>\<open>inner_jobnet_id\<close>, primary key\<close>
  rs_update :: int
  rs_run_type :: int
  rs_status :: int
  rs_job_status :: int
  rs_abort :: int          \<comment> \<open>\<open>jobnet_abort_flag\<close>\<close>
  rs_load :: int           \<comment> \<open>\<open>load_status\<close>\<close>
  rs_sched :: int
  rs_start :: int
  rs_end :: int
  rs_public :: int
  rs_multiple :: int       \<comment> \<open>\<open>multiple_start_up\<close>\<close>
  rs_jobnet_id :: string
  rs_user :: string
  rs_name :: string
  rs_memo :: "string option"
  rs_schedule :: "string option"
  rs_calendar :: "string option"
  rs_boot :: "string option"
  rs_exec_user :: string
  rs_running_id :: "string option"
  rs_running_name :: "string option"
  rs_pending :: int        \<comment> \<open>\<open>start_pending_flag\<close>\<close>
  rs_initial :: int        \<comment> \<open>\<open>initial_scheduled_time\<close>\<close>

record run_flow =
  rf_id :: uint64          \<comment> \<open>\<open>inner_flow_id\<close>, primary key\<close>
  rf_jobnet :: uint64
  rf_from :: uint64        \<comment> \<open>\<open>start_inner_job_id\<close>\<close>
  rf_to :: uint64          \<comment> \<open>\<open>end_inner_job_id\<close>\<close>
  rf_type :: int
  rf_width :: int

text \<open>
  Job controller variables of an icon (\<open>ja_run_value_before_table\<close>,
  \<open>ja_run_value_after_table\<close>) and of a jobnet (\<open>ja_value_before_jobnet_table\<close>,
  \<open>ja_value_after_jobnet_table\<close>); \<open>v_seq\<close> is the \<open>bigserial\<close> column.
\<close>

record job_value =
  v_job :: uint64
  v_jobnet :: uint64
  v_name :: string
  v_value :: string
  v_seq :: nat

record net_value =
  w_jobnet :: uint64
  w_name :: string
  w_value :: string
  w_seq :: nat

record log_row =
  lg_date :: int
  lg_jobnet :: uint64
  lg_main :: uint64
  lg_job :: "uint64 option"
  lg_update :: int
  lg_method :: int
  lg_jobnet_status :: int
  lg_job_status :: "int option"
  lg_run_type :: int
  lg_public :: int
  lg_jobnet_id :: string
  lg_jobnet_name :: string
  lg_job_id :: "string option"
  lg_job_name :: "string option"
  lg_user :: string
  lg_return_code :: "string option"
  lg_std_out :: "string option"
  lg_std_err :: "string option"
  lg_message :: string

record send_row =
  sd_no :: nat
  sd_date :: int
  sd_jobnet :: uint64
  sd_main :: uint64
  sd_status :: int
  sd_type :: int
  sd_user :: string
  sd_host :: string
  sd_jobnet_id :: string
  sd_jobnet_name :: string
  sd_job_id :: string
  sd_job_id_full :: string
  sd_job_name :: string
  sd_message_id :: string
  sd_message :: string

record session_row =
  ss_id :: string
  ss_main :: uint64
  ss_job :: uint64
  ss_operation :: int
  ss_status :: int
  ss_force_stop :: int
  ss_pid :: int

text \<open>Jobnet definitions (\<open>ja_jobnet_control_table\<close>); \<open>c_valid\<close> is 1 for the active one.\<close>

record control_row =
  c_jobnet_id :: string
  c_update :: int
  c_valid :: int
  c_public :: int
  c_multiple :: int
  c_user :: string
  c_name :: string
  c_memo :: "string option"

text \<open>The icon tables of running icons, each keyed by the icon's inner job id.\<close>

record icon_jobnet = in_job :: uint64  in_jobnet :: uint64  in_link :: uint64  in_jobnet_id :: string
record icon_end = ie_job :: uint64  ie_jobnet :: uint64  ie_stop :: int  ie_code :: string
record icon_if = ii_job :: uint64  ii_jobnet :: uint64  ii_hand :: int  ii_name :: string  ii_comparison :: string
record icon_value = iv_job :: uint64  iv_jobnet :: uint64  iv_name :: string  iv_value :: string
record icon_task = it_job :: uint64  it_jobnet :: uint64  it_inner :: uint64  it_submit :: string
record icon_release = ir_job :: uint64  ir_jobnet :: uint64  ir_release :: string
record icon_calc = ic_job :: uint64  ic_jobnet :: uint64  ic_hand :: int  ic_formula :: string  ic_name :: string
record icon_host = ih_job :: uint64  ih_jobnet :: uint64  ih_flag :: int  ih_name :: "string option"  ih_rest :: "string option list"
record info_row = if_job :: uint64  if_jobnet :: uint64  if_flag :: int  if_job_id :: "string option"  if_calendar :: "string option"  if_rest :: "string option list"
record icon_less = il_job :: uint64  il_jobnet :: uint64  il_flag :: int  il_name :: "string option"  il_session_flag :: int  il_session :: string  il_rest :: "string option list"
record icon_extjob = ix_job :: uint64  ix_jobnet :: uint64  ix_command :: string  ix_value :: "string option"  ix_pid :: int  ix_wait_count :: int  ix_wait_time :: "string option"
record icon_command = im_job :: uint64  im_jobnet :: uint64  im_class :: int  im_command :: string
record icon_link = ik_job :: uint64  ik_jobnet :: uint64  ik_rest :: "string option list"

record icon_tables =
  icon_jobnets :: "icon_jobnet list"
  icon_ends :: "icon_end list"
  icon_ifs :: "icon_if list"
  icon_values :: "icon_value list"
  icon_tasks :: "icon_task list"
  icon_releases :: "icon_release list"
  icon_calcs :: "icon_calc list"
  icon_job_hosts :: "icon_host list"       \<comment> \<open>\<open>host_flag, host_name\<close> of job icons\<close>
  icon_fcopy_hosts :: "icon_host list"     \<comment> \<open>\<open>from_host_flag, from_host_name\<close> of file copy icons\<close>
  icon_fwait_hosts :: "icon_host list"
  icon_reboot_hosts :: "icon_host list"
  icon_lesses :: "icon_less list"
  icon_infos :: "info_row list"
  icon_extjobs :: "icon_extjob list"
  icon_commands :: "icon_command list"     \<comment> \<open>\<open>ja_run_job_command_table\<close>\<close>
  icon_job_values :: "icon_value list"     \<comment> \<open>\<open>ja_run_value_job_table\<close>\<close>
  icon_jobcons :: "(uint64 \<times> uint64 \<times> string) list"  \<comment> \<open>\<open>ja_run_value_jobcon_table\<close>\<close>
  icon_links :: "icon_link list"

text \<open>Tables of Zabbix that the server reads: users, their groups, monitored hosts.\<close>

record user_row =
  us_id :: uint64
  us_alias :: string
  us_passwd :: string
  us_type :: int
  us_lang :: string

record host_row =
  ho_id :: uint64
  ho_host :: string
  ho_status :: int
  ho_useip :: int
  ho_dns :: string
  ho_ip :: string
  ho_port :: string
  ho_main :: int        \<comment> \<open>\<open>interface.main\<close>\<close>

text \<open>The database: the icons and the graph never change while a jobnet runs.\<close>

record tables =
  jobs :: "run_job list"
  jobnets :: "run_jobnet list"
  summaries :: "run_summary list"
  flows :: "run_flow list"
  vals_before :: "job_value list"
  vals_after :: "job_value list"
  nets_before :: "net_value list"
  nets_after :: "net_value list"
  run_log :: "log_row list"
  outbox :: "send_row list"
  sessions :: "session_row list"
  next_ids :: "(int \<times> uint64) list"     \<comment> \<open>\<open>ja_index_table\<close>\<close>
  params :: "(string \<times> string) list"     \<comment> \<open>\<open>ja_parameter_table\<close>\<close>
  controls :: "control_row list"
  calendars :: "(string \<times> int \<times> int) list"     \<comment> \<open>\<open>calendar_id, update_date, valid_flag\<close>\<close>
  calendar_days :: "(string \<times> int \<times> int) list" \<comment> \<open>\<open>calendar_id, update_date, operating_date\<close>\<close>
  icons :: icon_tables
  designs :: design_tables
  host_locks :: "string list"               \<comment> \<open>\<open>ja_host_lock_table\<close>\<close>
  users :: "user_row list"
  users_groups :: "(uint64 \<times> uint64) list" \<comment> \<open>\<open>userid, usrgrpid\<close>\<close>
  usrgrps :: "(uint64 \<times> int) list"         \<comment> \<open>\<open>usrgrpid, users_status\<close>\<close>
  hosts :: "host_row list"
  hostmacros :: "(uint64 \<times> string \<times> string) list"

definition job_of :: "uint64 \<Rightarrow> tables \<Rightarrow> run_job option" where
  "job_of i t = row_of rj_id i (jobs t)"

definition jobnet_of :: "uint64 \<Rightarrow> tables \<Rightarrow> run_jobnet option" where
  "jobnet_of i t = row_of rn_id i (jobnets t)"

definition summary_of :: "uint64 \<Rightarrow> tables \<Rightarrow> run_summary option" where
  "summary_of i t = row_of rs_id i (summaries t)"

section \<open>Statements\<close>

text \<open>
  The right-hand sides of the \<^verbatim>\<open>update\<close> statements: a column that the statement
  does not assign is \<open>None\<close>.
\<close>

record job_set =
  js_status :: "int option"
  js_timeout :: "int option"
  js_method :: "int option"
  js_end_count :: "int option"
  js_start :: "int option"
  js_end :: "int option"
  js_invo :: "int option"

record jobnet_set =
  ns_status :: "int option"
  ns_timeout :: "int option"
  ns_start :: "int option"
  ns_end :: "int option"
  ns_running :: "(string \<times> string) option"

record summary_set =
  su_status :: "int option"
  su_job_status :: "int option"
  su_load :: "int option"
  su_start :: "int option"
  su_end :: "int option"
  su_running :: "(string \<times> string) option"

definition job_cols :: job_set where
  "job_cols = \<lparr>js_status = None, js_timeout = None, js_method = None, js_end_count = None,
               js_start = None, js_end = None, js_invo = None\<rparr>"

definition jobnet_cols :: jobnet_set where
  "jobnet_cols = \<lparr>ns_status = None, ns_timeout = None, ns_start = None, ns_end = None,
                  ns_running = None\<rparr>"

definition summary_cols :: summary_set where
  "summary_cols = \<lparr>su_status = None, su_job_status = None, su_load = None, su_start = None,
                   su_end = None, su_running = None\<rparr>"

text \<open>The \<^verbatim>\<open>where\<close> clauses.\<close>

datatype job_cond =
    Job_is uint64                      \<comment> \<open>\<open>inner_job_id = i\<close>\<close>
  | Job_is_method uint64 int           \<comment> \<open>\<open>inner_job_id = i and method_flag = m\<close>\<close>
  | Job_in_jobnet uint64               \<comment> \<open>\<open>inner_jobnet_id = i\<close>\<close>
  | Job_main_status uint64 int         \<comment> \<open>\<open>inner_jobnet_main_id = i and status = s\<close>\<close>
  | Job_main_type uint64 int "int list"
      \<comment> \<open>\<open>inner_jobnet_main_id = i and job_type = t and status in (ss)\<close>\<close>

datatype jobnet_cond =
    Jobnet_is uint64                   \<comment> \<open>\<open>inner_jobnet_id = i\<close>\<close>
  | Jobnet_main uint64 "int list"      \<comment> \<open>\<open>inner_jobnet_main_id = i and status in (ss)\<close>\<close>

datatype value_table = Before | After

text \<open>The tables an icon's settings are copied to, with the columns that do not come from its definition.\<close>

datatype icon_load = Load_end | Load_if | Load_value | Load_job | Load_command | Load_job_value | Load_jobcon
  | Load_jobnet uint64 | Load_extjob | Load_calc | Load_task | Load_info | Load_fcopy | Load_fwait
  | Load_reboot | Load_release | Load_less string | Load_link

datatype sql =
    Update_job job_cond job_set
  | Update_jobnet jobnet_cond jobnet_set
  | Submit_jobnet uint64 int string string
      \<comment> \<open>\<open>insert .. select .. from ja_jobnet_control_table where valid_flag = 1 and jobnet_id = ..\<close>\<close>
  | Purge_jobnet uint64
      \<comment> \<open>\<open>delete from ja_run_jobnet_table where inner_jobnet_main_id = i\<close>\<close>
  | Update_summary uint64 summary_set
  | Insert_value value_table uint64 uint64 string string
  | Delete_value_seq value_table nat
  | Delete_value_name value_table uint64 string
  | Copy_before_after uint64
      \<comment> \<open>the values before an icon become its values after\<close>
  | Copy_after_before uint64 uint64
      \<comment> \<open>\<open>Copy_after_before i next\<close>: the values after \<open>i\<close> become values before \<open>next\<close>\<close>
  | Insert_net_value uint64 string string
  | Delete_net_value_seq value_table nat
  | Copy_job_to_net uint64 uint64
      \<comment> \<open>\<open>Copy_job_to_net i n\<close>: the values before icon \<open>i\<close> become values before jobnet \<open>n\<close>\<close>
  | Copy_net_to_job uint64 uint64
      \<comment> \<open>\<open>Copy_net_to_job n i\<close>: the values before jobnet \<open>n\<close> become values before icon \<open>i\<close>\<close>
  | Log_job int string uint64 uint64
  | Log_job_end int string uint64 uint64
  | Log_jobnet int string uint64
  | Delete_log_message uint64 string
  | Purge_log uint64
  | Insert_send send_row
  | Delete_session uint64
  | Set_next_id int uint64
  | Inc_next_id int
  | Insert_job run_job
  | Insert_jobnet run_jobnet
  | Insert_summary run_summary
  | Insert_flow run_flow
  | Load_icon icon_load uint64 uint64 string string int
      \<comment> \<open>\<open>insert into ja_run_.. select .. where jobnet_id = .. and job_id = .. and update_date = ..\<close>\<close>
  | Close_schedule string int
      \<comment> \<open>\<open>update ja_schedule_control_table set valid_flag = 0\<close>\<close>
  | Wait_extjob uint64 "int option" "string option"
      \<comment> \<open>\<open>update ja_run_icon_extjob_table set wait_count = ..\<close> or \<open>set wait_time = ..\<close>\<close>
  | Insert_session session_row
  | Take_session string uint64 uint64 int
      \<comment> \<open>\<open>set inner_job_id = .., operation_flag = .., status = 0, force_stop = 0\<close>\<close>
  | Drop_session string uint64
  | Stop_session string uint64
      \<comment> \<open>\<open>update ja_session_table set force_stop = 1\<close>\<close>
  | Lock_host string
  | Unlock_host string

fun job_matches :: "job_cond \<Rightarrow> run_job \<Rightarrow> bool" where
  "job_matches (Job_is i) r \<longleftrightarrow> rj_id r = i"
| "job_matches (Job_is_method i m) r \<longleftrightarrow> rj_id r = i \<and> rj_method r = m"
| "job_matches (Job_in_jobnet i) r \<longleftrightarrow> rj_jobnet r = i"
| "job_matches (Job_main_status i s) r \<longleftrightarrow> rj_main r = i \<and> rj_status r = s"
| "job_matches (Job_main_type i ty ss) r \<longleftrightarrow> rj_main r = i \<and> rj_type r = ty \<and> rj_status r \<in> set ss"

fun jobnet_matches :: "jobnet_cond \<Rightarrow> run_jobnet \<Rightarrow> bool" where
  "jobnet_matches (Jobnet_is i) r \<longleftrightarrow> rn_id r = i"
| "jobnet_matches (Jobnet_main i ss) r \<longleftrightarrow> rn_main r = i \<and> rn_status r \<in> set ss"

definition assign :: "'a option \<Rightarrow> 'a \<Rightarrow> 'a" where
  "assign new old = (case new of None \<Rightarrow> old | Some x \<Rightarrow> x)"

lemma assign_simps [simp]: "assign None x = x" "assign (Some y) x = y"
  by (simp_all add: assign_def)

definition set_job :: "job_set \<Rightarrow> run_job \<Rightarrow> run_job" where
  "set_job c r = r\<lparr>rj_timeout := assign (js_timeout c) (rj_timeout r),
     rj_method := assign (js_method c) (rj_method r),
     rj_status := assign (js_status c) (rj_status r),
     rj_end_count := assign (js_end_count c) (rj_end_count r),
     rj_start := assign (js_start c) (rj_start r), rj_end := assign (js_end c) (rj_end r),
     rj_invo := assign (js_invo c) (rj_invo r)\<rparr>"

definition set_jobnet :: "jobnet_set \<Rightarrow> run_jobnet \<Rightarrow> run_jobnet" where
  "set_jobnet c r = r\<lparr>rn_timeout := assign (ns_timeout c) (rn_timeout r),
     rn_status := assign (ns_status c) (rn_status r),
     rn_start := assign (ns_start c) (rn_start r), rn_end := assign (ns_end c) (rn_end r),
     rn_running_id := (case ns_running c of None \<Rightarrow> rn_running_id r | Some (i, _) \<Rightarrow> Some i),
     rn_running_name := (case ns_running c of None \<Rightarrow> rn_running_name r | Some (_, n) \<Rightarrow> Some n)\<rparr>"

definition set_summary :: "summary_set \<Rightarrow> run_summary \<Rightarrow> run_summary" where
  "set_summary c r = r\<lparr>rs_status := assign (su_status c) (rs_status r),
     rs_job_status := assign (su_job_status c) (rs_job_status r),
     rs_load := assign (su_load c) (rs_load r),
     rs_start := assign (su_start c) (rs_start r), rs_end := assign (su_end c) (rs_end r),
     rs_running_id := (case su_running c of None \<Rightarrow> rs_running_id r | Some (i, _) \<Rightarrow> Some i),
     rs_running_name := (case su_running c of None \<Rightarrow> rs_running_name r | Some (_, n) \<Rightarrow> Some n)\<rparr>"

section \<open>What the statements do\<close>

fun job_values :: "value_table \<Rightarrow> tables \<Rightarrow> job_value list" where
  "job_values Before t = vals_before t"
| "job_values After t = vals_after t"

fun put_job_values :: "value_table \<Rightarrow> job_value list \<Rightarrow> tables \<Rightarrow> tables" where
  "put_job_values Before vs t = t\<lparr>vals_before := vs\<rparr>"
| "put_job_values After vs t = t\<lparr>vals_after := vs\<rparr>"

fun net_values :: "value_table \<Rightarrow> tables \<Rightarrow> net_value list" where
  "net_values Before t = nets_before t"
| "net_values After t = nets_after t"

fun put_net_values :: "value_table \<Rightarrow> net_value list \<Rightarrow> tables \<Rightarrow> tables" where
  "put_net_values Before vs t = t\<lparr>nets_before := vs\<rparr>"
| "put_net_values After vs t = t\<lparr>nets_after := vs\<rparr>"

text \<open>
  Rows inserted into a value table get the next sequence numbers in order; the foreign key
  to \<open>ja_run_job_table\<close> (\<open>ja_run_jobnet_table\<close>) is checked for every one of them.
\<close>

definition number_values :: "nat \<Rightarrow> job_value list \<Rightarrow> job_value list" where
  "number_values q rs = map2 (\<lambda>r k. r\<lparr>v_seq := k\<rparr>) rs [q ..< q + length rs]"

definition number_nets :: "nat \<Rightarrow> net_value list \<Rightarrow> net_value list" where
  "number_nets q rs = map2 (\<lambda>r k. r\<lparr>w_seq := k\<rparr>) rs [q ..< q + length rs]"

definition insert_values ::
    "value_table \<Rightarrow> job_value list \<Rightarrow> nat \<Rightarrow> tables \<Rightarrow> (nat \<times> nat \<times> tables) option" where
  "insert_values v rs q t =
     (if list_all (\<lambda>r. job_of (v_job r) t \<noteq> None) rs
      then Some (length rs, q + length rs,
                 put_job_values v (job_values v t @ number_values q rs) t)
      else None)"

definition insert_nets ::
    "value_table \<Rightarrow> net_value list \<Rightarrow> nat \<Rightarrow> tables \<Rightarrow> (nat \<times> nat \<times> tables) option" where
  "insert_nets v rs q t =
     (if list_all (\<lambda>r. jobnet_of (w_jobnet r) t \<noteq> None) rs
      then Some (length rs, q + length rs,
                 put_net_values v (net_values v t @ number_nets q rs) t)
      else None)"

text \<open>The row a submission inserts into \<open>ja_run_jobnet_table\<close>, defaults included.\<close>

definition submitted :: "uint64 \<Rightarrow> int \<Rightarrow> string \<Rightarrow> control_row \<Rightarrow> run_jobnet" where
  "submitted i run_type user c =
     \<lparr>rn_id = i, rn_main = i, rn_job = 0, rn_update = c_update c, rn_run_type = run_type,
      rn_main_flag = 0, rn_timeout = 0, rn_status = 0, rn_sched = 0, rn_start = 0, rn_end = 0,
      rn_public = c_public c, rn_multiple = 0, rn_jobnet_id = c_jobnet_id c, rn_user = c_user c,
      rn_name = c_name c, rn_memo = c_memo c, rn_exec_user = user, rn_schedule = None,
      rn_calendar = None, rn_boot = None, rn_initial = 0,
      rn_running_id = None, rn_running_name = None\<rparr>"

text \<open>Deleting jobnets deletes everything that refers to them (\<open>on delete cascade\<close>).\<close>

definition purge_icons :: "uint64 set \<Rightarrow> icon_tables \<Rightarrow> icon_tables" where
  "purge_icons js t = \<lparr>
     icon_jobnets = del_where (\<lambda>r. in_job r \<in> js) (icon_jobnets t),
     icon_ends = del_where (\<lambda>r. ie_job r \<in> js) (icon_ends t),
     icon_ifs = del_where (\<lambda>r. ii_job r \<in> js) (icon_ifs t),
     icon_values = del_where (\<lambda>r. iv_job r \<in> js) (icon_values t),
     icon_tasks = del_where (\<lambda>r. it_job r \<in> js) (icon_tasks t),
     icon_releases = del_where (\<lambda>r. ir_job r \<in> js) (icon_releases t),
     icon_calcs = del_where (\<lambda>r. ic_job r \<in> js) (icon_calcs t),
     icon_job_hosts = del_where (\<lambda>r. ih_job r \<in> js) (icon_job_hosts t),
     icon_fcopy_hosts = del_where (\<lambda>r. ih_job r \<in> js) (icon_fcopy_hosts t),
     icon_fwait_hosts = del_where (\<lambda>r. ih_job r \<in> js) (icon_fwait_hosts t),
     icon_reboot_hosts = del_where (\<lambda>r. ih_job r \<in> js) (icon_reboot_hosts t),
     icon_lesses = del_where (\<lambda>r. il_job r \<in> js) (icon_lesses t),
     icon_infos = del_where (\<lambda>r. if_job r \<in> js) (icon_infos t),
     icon_extjobs = del_where (\<lambda>r. ix_job r \<in> js) (icon_extjobs t),
     icon_commands = del_where (\<lambda>r. im_job r \<in> js) (icon_commands t),
     icon_job_values = del_where (\<lambda>r. iv_job r \<in> js) (icon_job_values t),
     icon_jobcons = del_where (\<lambda>r. fst r \<in> js) (icon_jobcons t),
     icon_links = del_where (\<lambda>r. ik_job r \<in> js) (icon_links t)\<rparr>"

definition purge_jobnets :: "uint64 \<Rightarrow> tables \<Rightarrow> tables" where
  "purge_jobnets main t =
     (let ns = set (map rn_id (filter (\<lambda>r. rn_main r = main) (jobnets t)));
          js = set (map rj_id (filter (\<lambda>r. rj_jobnet r \<in> ns) (jobs t)))
      in t\<lparr>jobnets := del_where (\<lambda>r. rn_id r \<in> ns) (jobnets t),
           summaries := del_where (\<lambda>r. rs_id r \<in> ns) (summaries t),
           jobs := del_where (\<lambda>r. rj_jobnet r \<in> ns) (jobs t),
           flows := del_where (\<lambda>r. rf_jobnet r \<in> ns) (flows t),
           vals_before := del_where (\<lambda>r. v_job r \<in> js) (vals_before t),
           vals_after := del_where (\<lambda>r. v_job r \<in> js) (vals_after t),
           nets_before := del_where (\<lambda>r. w_jobnet r \<in> ns) (nets_before t),
           nets_after := del_where (\<lambda>r. w_jobnet r \<in> ns) (nets_after t),
           icons := purge_icons js (icons t)\<rparr>)"

text \<open>
  Copying the settings of an icon: the rows of its definition \<open>cs\<close> that belong to the table
  become rows for icon \<open>i\<close> of jobnet \<open>n\<close>, unless one of them violates the table's primary key.
\<close>

definition put_rows :: "('r \<Rightarrow> 'k) \<Rightarrow> 'r list \<Rightarrow> 'r list \<Rightarrow> ('r list \<Rightarrow> 't) \<Rightarrow> (nat \<times> 't) option" where
  "put_rows key new old put =
     (if distinct (map key new) \<and> list_all (\<lambda>r. key r \<notin> key ` set old) new
      then Some (length new, put (old @ new)) else None)"

fun exec_load :: "icon_load \<Rightarrow> uint64 \<Rightarrow> uint64 \<Rightarrow> icon_cols list \<Rightarrow> icon_tables \<Rightarrow> (nat \<times> icon_tables) option" where
  "exec_load Load_end i n cs t = put_rows ie_job
     [\<lparr>ie_job = i, ie_jobnet = n, ie_stop = s, ie_code = c\<rparr>. End_cols s c \<leftarrow> cs]
     (icon_ends t) (\<lambda>rs. t\<lparr>icon_ends := rs\<rparr>)"
| "exec_load Load_if i n cs t = put_rows ii_job
     [\<lparr>ii_job = i, ii_jobnet = n, ii_hand = h, ii_name = v, ii_comparison = c\<rparr>. If_cols h v c \<leftarrow> cs]
     (icon_ifs t) (\<lambda>rs. t\<lparr>icon_ifs := rs\<rparr>)"
| "exec_load Load_value i n cs t = put_rows (\<lambda>r. (iv_job r, iv_name r))
     [\<lparr>iv_job = i, iv_jobnet = n, iv_name = v, iv_value = x\<rparr>. Value_cols v x \<leftarrow> cs]
     (icon_values t) (\<lambda>rs. t\<lparr>icon_values := rs\<rparr>)"
| "exec_load Load_job i n cs t = put_rows ih_job
     [\<lparr>ih_job = i, ih_jobnet = n, ih_flag = f, ih_name = Some h, ih_rest = xs\<rparr>. Job_cols f h xs \<leftarrow> cs]
     (icon_job_hosts t) (\<lambda>rs. t\<lparr>icon_job_hosts := rs\<rparr>)"
| "exec_load Load_command i n cs t = put_rows (\<lambda>r. (im_job r, im_class r))
     [\<lparr>im_job = i, im_jobnet = n, im_class = k, im_command = c\<rparr>. Command_cols k c \<leftarrow> cs]
     (icon_commands t) (\<lambda>rs. t\<lparr>icon_commands := rs\<rparr>)"
| "exec_load Load_job_value i n cs t = put_rows (\<lambda>r. (iv_job r, iv_name r))
     [\<lparr>iv_job = i, iv_jobnet = n, iv_name = v, iv_value = x\<rparr>. Job_value_cols v x \<leftarrow> cs]
     (icon_job_values t) (\<lambda>rs. t\<lparr>icon_job_values := rs\<rparr>)"
| "exec_load Load_jobcon i n cs t = put_rows (\<lambda>(i, n, v). (i, v))
     [(i, n, v). Jobcon_cols v \<leftarrow> cs] (icon_jobcons t) (\<lambda>rs. t\<lparr>icon_jobcons := rs\<rparr>)"
| "exec_load (Load_jobnet l) i n cs t = put_rows in_job
     [\<lparr>in_job = i, in_jobnet = n, in_link = l, in_jobnet_id = j\<rparr>. Jobnet_cols j \<leftarrow> cs]
     (icon_jobnets t) (\<lambda>rs. t\<lparr>icon_jobnets := rs\<rparr>)"
| "exec_load Load_extjob i n cs t = put_rows ix_job
     [\<lparr>ix_job = i, ix_jobnet = n, ix_command = c, ix_value = x, ix_pid = 0,
        ix_wait_count = 0, ix_wait_time = None\<rparr>. Extjob_cols c x \<leftarrow> cs]
     (icon_extjobs t) (\<lambda>rs. t\<lparr>icon_extjobs := rs\<rparr>)"
| "exec_load Load_calc i n cs t = put_rows ic_job
     [\<lparr>ic_job = i, ic_jobnet = n, ic_hand = h, ic_formula = f, ic_name = v\<rparr>. Calc_cols h f v \<leftarrow> cs]
     (icon_calcs t) (\<lambda>rs. t\<lparr>icon_calcs := rs\<rparr>)"
| "exec_load Load_task i n cs t = put_rows it_job
     [\<lparr>it_job = i, it_jobnet = n, it_inner = 0, it_submit = j\<rparr>. Task_cols j \<leftarrow> cs]
     (icon_tasks t) (\<lambda>rs. t\<lparr>icon_tasks := rs\<rparr>)"
| "exec_load Load_info i n cs t = put_rows if_job
     [\<lparr>if_job = i, if_jobnet = n, if_flag = f, if_job_id = j, if_calendar = c, if_rest = xs\<rparr>.
        Info_cols f j c xs \<leftarrow> cs]
     (icon_infos t) (\<lambda>rs. t\<lparr>icon_infos := rs\<rparr>)"
| "exec_load Load_fcopy i n cs t = put_rows ih_job
     [\<lparr>ih_job = i, ih_jobnet = n, ih_flag = f, ih_name = Some h, ih_rest = xs\<rparr>. Fcopy_cols f h xs \<leftarrow> cs]
     (icon_fcopy_hosts t) (\<lambda>rs. t\<lparr>icon_fcopy_hosts := rs\<rparr>)"
| "exec_load Load_fwait i n cs t = put_rows ih_job
     [\<lparr>ih_job = i, ih_jobnet = n, ih_flag = f, ih_name = Some h, ih_rest = xs\<rparr>. Fwait_cols f h xs \<leftarrow> cs]
     (icon_fwait_hosts t) (\<lambda>rs. t\<lparr>icon_fwait_hosts := rs\<rparr>)"
| "exec_load Load_reboot i n cs t = put_rows ih_job
     [\<lparr>ih_job = i, ih_jobnet = n, ih_flag = f, ih_name = Some h, ih_rest = xs\<rparr>. Reboot_cols f h xs \<leftarrow> cs]
     (icon_reboot_hosts t) (\<lambda>rs. t\<lparr>icon_reboot_hosts := rs\<rparr>)"
| "exec_load Load_release i n cs t = put_rows ir_job
     [\<lparr>ir_job = i, ir_jobnet = n, ir_release = j\<rparr>. Release_cols j \<leftarrow> cs]
     (icon_releases t) (\<lambda>rs. t\<lparr>icon_releases := rs\<rparr>)"
| "exec_load (Load_less s) i n cs t = put_rows il_job
     [\<lparr>il_job = i, il_jobnet = n, il_flag = f, il_name = h, il_session_flag = k, il_session = s, il_rest = xs\<rparr>.
        Less_cols f h k s' xs \<leftarrow> cs]
     (icon_lesses t) (\<lambda>rs. t\<lparr>icon_lesses := rs\<rparr>)"
| "exec_load Load_link i n cs t = put_rows ik_job
     [\<lparr>ik_job = i, ik_jobnet = n, ik_rest = xs\<rparr>. Link_cols xs \<leftarrow> cs]
     (icon_links t) (\<lambda>rs. t\<lparr>icon_links := rs\<rparr>)"

definition design_of :: "string \<Rightarrow> string \<Rightarrow> int \<Rightarrow> tables \<Rightarrow> icon_cols list" where
  "design_of j k u t = map di_cols (filter (\<lambda>d. di_jobnet d = j \<and> di_job d = k \<and> di_update d = u)
     (icon_designs (designs t)))"

text \<open>The row the foreign key of the table asks for.\<close>

definition load_parent :: "icon_load \<Rightarrow> uint64 \<Rightarrow> tables \<Rightarrow> bool" where
  "load_parent l i t =
     (if l = Load_command \<or> l = Load_job_value \<or> l = Load_jobcon
      then list_ex (\<lambda>r. ih_job r = i) (icon_job_hosts (icons t)) else job_of i t \<noteq> None)"

definition job_log_row ::
    "int \<Rightarrow> string \<Rightarrow> run_jobnet \<Rightarrow> run_job \<Rightarrow> (string \<times> string \<times> string) option \<Rightarrow> log_row" where
  "job_log_row date msg a b out =
     \<lparr>lg_date = date, lg_jobnet = rn_id a, lg_main = rn_main a, lg_job = Some (rj_id b),
      lg_update = rn_update a, lg_method = rj_method b, lg_jobnet_status = rn_status a,
      lg_job_status = Some (rj_status b), lg_run_type = rn_run_type a, lg_public = rn_public a,
      lg_jobnet_id = rn_jobnet_id a, lg_jobnet_name = rn_name a, lg_job_id = Some (rj_job_id b),
      lg_job_name = rj_name b, lg_user = rn_user a,
      lg_return_code = map_option fst out, lg_std_out = map_option (fst \<circ> snd) out,
      lg_std_err = map_option (snd \<circ> snd) out, lg_message = msg\<rparr>"

definition jobnet_log_row :: "int \<Rightarrow> string \<Rightarrow> run_jobnet \<Rightarrow> log_row" where
  "jobnet_log_row date msg a =
     \<lparr>lg_date = date, lg_jobnet = rn_id a, lg_main = rn_main a, lg_job = None,
      lg_update = rn_update a, lg_method = 0, lg_jobnet_status = rn_status a,
      lg_job_status = None, lg_run_type = rn_run_type a, lg_public = rn_public a,
      lg_jobnet_id = rn_jobnet_id a, lg_jobnet_name = rn_name a, lg_job_id = None,
      lg_job_name = None, lg_user = rn_user a, lg_return_code = None, lg_std_out = None,
      lg_std_err = None, lg_message = msg\<rparr>"

definition after_values :: "uint64 \<Rightarrow> string \<Rightarrow> tables \<Rightarrow> string list" where
  "after_values i n t = map v_value (filter (\<lambda>r. v_job r = i \<and> v_name r = n) (vals_after t))"

definition job_log_rows :: "int \<Rightarrow> string \<Rightarrow> uint64 \<Rightarrow> uint64 \<Rightarrow> tables \<Rightarrow> log_row list" where
  "job_log_rows date msg i n t =
     [job_log_row date msg a b None. a \<leftarrow> jobnets t, b \<leftarrow> jobs t,
        rn_id a = rj_jobnet b \<and> rj_id b = i \<and> rj_jobnet b = n]"

definition job_end_log_rows :: "int \<Rightarrow> string \<Rightarrow> uint64 \<Rightarrow> uint64 \<Rightarrow> tables \<Rightarrow> log_row list" where
  "job_end_log_rows date msg i n t =
     [job_log_row date msg a b (Some (c, d, e)). a \<leftarrow> jobnets t, b \<leftarrow> jobs t,
        c \<leftarrow> after_values i ''JOB_EXIT_CD'' t, d \<leftarrow> after_values i ''STD_OUT'' t,
        e \<leftarrow> after_values i ''STD_ERR'' t,
        rn_id a = rj_jobnet b \<and> rj_id b = i \<and> rj_jobnet b = n]"

definition add_log :: "log_row list \<Rightarrow> nat \<Rightarrow> tables \<Rightarrow> (nat \<times> nat \<times> tables) option" where
  "add_log rs q t = Some (length rs, q, t\<lparr>run_log := run_log t @ rs\<rparr>)"

text \<open>
  \<open>exec_sql s q t\<close>: the affected rows, the next sequence number and the tables after
  the statement \<open>s\<close>, or \<open>None\<close> when the statement violates a constraint.
\<close>

fun exec_sql :: "sql \<Rightarrow> nat \<Rightarrow> tables \<Rightarrow> (nat \<times> nat \<times> tables) option" where
  "exec_sql (Update_job c s) q t =
     Some (count_where (job_matches c) (jobs t), q,
           t\<lparr>jobs := upd_where (job_matches c) (set_job s) (jobs t)\<rparr>)"
| "exec_sql (Update_jobnet c s) q t =
     Some (count_where (jobnet_matches c) (jobnets t), q,
           t\<lparr>jobnets := upd_where (jobnet_matches c) (set_jobnet s) (jobnets t)\<rparr>)"
| "exec_sql (Submit_jobnet i run_type user jobnet_id) q t =
     (let rs = map (submitted i run_type user)
                 (filter (\<lambda>c. c_valid c = 1 \<and> c_jobnet_id c = jobnet_id) (controls t))
      in if distinct (map rn_id (rs @ jobnets t)) \<or> rs = []
         then Some (length rs, q, t\<lparr>jobnets := jobnets t @ rs\<rparr>) else None)"
| "exec_sql (Purge_jobnet main) q t =
     Some (count_where (\<lambda>r. rn_main r = main) (jobnets t), q, purge_jobnets main t)"
| "exec_sql (Update_summary i s) q t =
     Some (count_where (\<lambda>r. rs_id r = i) (summaries t), q,
           t\<lparr>summaries := upd_where (\<lambda>r. rs_id r = i) (set_summary s) (summaries t)\<rparr>)"
| "exec_sql (Insert_value v i n name val) q t =
     insert_values v [\<lparr>v_job = i, v_jobnet = n, v_name = name, v_value = val, v_seq = 0\<rparr>] q t"
| "exec_sql (Delete_value_seq v s) q t =
     Some (count_where (\<lambda>r. v_seq r = s) (job_values v t), q,
           put_job_values v (del_where (\<lambda>r. v_seq r = s) (job_values v t)) t)"
| "exec_sql (Delete_value_name v i name) q t =
     Some (count_where (\<lambda>r. v_job r = i \<and> v_name r = name) (job_values v t), q,
           put_job_values v (del_where (\<lambda>r. v_job r = i \<and> v_name r = name) (job_values v t)) t)"
| "exec_sql (Copy_before_after i) q t =
     insert_values After (filter (\<lambda>r. v_job r = i) (vals_before t)) q t"
| "exec_sql (Copy_after_before i next) q t =
     insert_values Before
       (map (\<lambda>r. r\<lparr>v_job := next\<rparr>) (filter (\<lambda>r. v_job r = i) (vals_after t))) q t"
| "exec_sql (Insert_net_value n name val) q t =
     insert_nets Before [\<lparr>w_jobnet = n, w_name = name, w_value = val, w_seq = 0\<rparr>] q t"
| "exec_sql (Delete_net_value_seq v s) q t =
     Some (count_where (\<lambda>r. w_seq r = s) (net_values v t), q,
           put_net_values v (del_where (\<lambda>r. w_seq r = s) (net_values v t)) t)"
| "exec_sql (Copy_job_to_net i n) q t =
     insert_nets Before
       (map (\<lambda>r. \<lparr>w_jobnet = n, w_name = v_name r, w_value = v_value r, w_seq = 0\<rparr>)
         (filter (\<lambda>r. v_job r = i) (vals_before t))) q t"
| "exec_sql (Copy_net_to_job n i) q t =
     insert_values Before
       (map (\<lambda>r. \<lparr>v_job = i, v_jobnet = n, v_name = w_name r, v_value = w_value r, v_seq = 0\<rparr>)
         (filter (\<lambda>r. w_jobnet r = n) (nets_before t))) q t"
| "exec_sql (Log_job date msg i n) q t = add_log (job_log_rows date msg i n t) q t"
| "exec_sql (Log_job_end date msg i n) q t = add_log (job_end_log_rows date msg i n t) q t"
| "exec_sql (Log_jobnet date msg n) q t =
     add_log (map (jobnet_log_row date msg) (filter (\<lambda>r. rn_id r = n) (jobnets t))) q t"
| "exec_sql (Delete_log_message n msg) q t =
     Some (count_where (\<lambda>r. lg_jobnet r = n \<and> lg_message r = msg) (run_log t), q,
           t\<lparr>run_log := del_where (\<lambda>r. lg_jobnet r = n \<and> lg_message r = msg) (run_log t)\<rparr>)"
| "exec_sql (Purge_log main) q t =
     Some (count_where (\<lambda>r. lg_main r = main) (run_log t), q,
           t\<lparr>run_log := del_where (\<lambda>r. lg_main r = main) (run_log t)\<rparr>)"
| "exec_sql (Insert_send r) q t =
     Some (1, q + 1, t\<lparr>outbox := outbox t @ [r\<lparr>sd_no := q\<rparr>]\<rparr>)"
| "exec_sql (Delete_session main) q t =
     Some (count_where (\<lambda>r. ss_main r = main) (sessions t), q,
           t\<lparr>sessions := del_where (\<lambda>r. ss_main r = main) (sessions t)\<rparr>)"
| "exec_sql (Set_next_id c i) q t =
     Some (count_where (\<lambda>r. fst r = c) (next_ids t), q,
           t\<lparr>next_ids := upd_where (\<lambda>r. fst r = c) (\<lambda>r. (fst r, i)) (next_ids t)\<rparr>)"
| "exec_sql (Inc_next_id c) q t =
     Some (count_where (\<lambda>r. fst r = c) (next_ids t), q,
           t\<lparr>next_ids := upd_where (\<lambda>r. fst r = c) (\<lambda>r. (fst r, snd r + 1)) (next_ids t)\<rparr>)"
| "exec_sql (Insert_job r) q t =
     (if job_of (rj_id r) t = None \<and> jobnet_of (rj_jobnet r) t \<noteq> None
      then Some (1, q, t\<lparr>jobs := jobs t @ [r]\<rparr>) else None)"
| "exec_sql (Insert_jobnet r) q t =
     (if jobnet_of (rn_id r) t = None then Some (1, q, t\<lparr>jobnets := jobnets t @ [r]\<rparr>) else None)"
| "exec_sql (Insert_summary r) q t =
     (if summary_of (rs_id r) t = None \<and> jobnet_of (rs_id r) t \<noteq> None
      then Some (1, q, t\<lparr>summaries := summaries t @ [r]\<rparr>) else None)"
| "exec_sql (Insert_flow r) q t =
     (if row_of rf_id (rf_id r) (flows t) = None \<and> jobnet_of (rf_jobnet r) t \<noteq> None
      then Some (1, q, t\<lparr>flows := flows t @ [r]\<rparr>) else None)"
| "exec_sql (Load_icon l i n j k u) q t =
     (case exec_load l i n (design_of j k u t) (icons t) of
        None \<Rightarrow> None
      | Some (m, ic) \<Rightarrow> if m = 0 \<or> load_parent l i t then Some (m, q, t\<lparr>icons := ic\<rparr>) else None)"
| "exec_sql (Close_schedule j u) q t =
     Some (count_where (\<lambda>r. sc_id r = j \<and> sc_update r = u) (schedules (designs t)), q,
           t\<lparr>designs := (designs t)\<lparr>schedules := upd_where (\<lambda>r. sc_id r = j \<and> sc_update r = u)
             (\<lambda>r. r\<lparr>sc_valid := 0\<rparr>) (schedules (designs t))\<rparr>\<rparr>)"
| "exec_sql (Wait_extjob i c d) q t =
     Some (count_where (\<lambda>r. ix_job r = i) (icon_extjobs (icons t)), q,
           t\<lparr>icons := (icons t)\<lparr>icon_extjobs := upd_where (\<lambda>r. ix_job r = i)
             (\<lambda>r. r\<lparr>ix_wait_count := assign c (ix_wait_count r),
                ix_wait_time := (case d of None \<Rightarrow> ix_wait_time r | Some x \<Rightarrow> Some x)\<rparr>)
             (icon_extjobs (icons t))\<rparr>\<rparr>)"
| "exec_sql (Insert_session r) q t =
     (if \<exists>x \<in> set (sessions t). ss_id x = ss_id r \<and> ss_main x = ss_main r then None
      else Some (1, q, t\<lparr>sessions := sessions t @ [r]\<rparr>))"
| "exec_sql (Take_session s m i f) q t =
     Some (count_where (\<lambda>r. ss_id r = s \<and> ss_main r = m) (sessions t), q,
           t\<lparr>sessions := upd_where (\<lambda>r. ss_id r = s \<and> ss_main r = m)
             (\<lambda>r. r\<lparr>ss_job := i, ss_operation := f, ss_status := 0, ss_force_stop := 0\<rparr>) (sessions t)\<rparr>)"
| "exec_sql (Drop_session s m) q t =
     Some (count_where (\<lambda>r. ss_id r = s \<and> ss_main r = m) (sessions t), q,
           t\<lparr>sessions := del_where (\<lambda>r. ss_id r = s \<and> ss_main r = m) (sessions t)\<rparr>)"
| "exec_sql (Stop_session s m) q t =
     Some (count_where (\<lambda>r. ss_id r = s \<and> ss_main r = m) (sessions t), q,
           t\<lparr>sessions := upd_where (\<lambda>r. ss_id r = s \<and> ss_main r = m)
             (\<lambda>r. r\<lparr>ss_force_stop := 1\<rparr>) (sessions t)\<rparr>)"
| "exec_sql (Lock_host h) q t =
     (if h \<in> set (host_locks t) then None else Some (1, q, t\<lparr>host_locks := host_locks t @ [h]\<rparr>))"
| "exec_sql (Unlock_host h) q t =
     Some (count_where (\<lambda>x. x = h) (host_locks t), q,
           t\<lparr>host_locks := del_where (\<lambda>x. x = h) (host_locks t)\<rparr>)"

section \<open>Reading the effect of a statement\<close>

lemma set_job_simps [simp]:
  "rj_id (set_job c r) = rj_id r" "rj_jobnet (set_job c r) = rj_jobnet r"
  "rj_main (set_job c r) = rj_main r" "rj_type (set_job c r) = rj_type r"
  "rj_test (set_job c r) = rj_test r" "rj_boot_count (set_job c r) = rj_boot_count r"
  "rj_job_id (set_job c r) = rj_job_id r" "rj_name (set_job c r) = rj_name r"
  "rj_continue (set_job c r) = rj_continue r" "rj_invo (set_job c r) = assign (js_invo c) (rj_invo r)"
  "rj_status (set_job c r) = assign (js_status c) (rj_status r)"
  "rj_timeout (set_job c r) = assign (js_timeout c) (rj_timeout r)"
  "rj_method (set_job c r) = assign (js_method c) (rj_method r)"
  "rj_end_count (set_job c r) = assign (js_end_count c) (rj_end_count r)"
  "rj_start (set_job c r) = assign (js_start c) (rj_start r)"
  "rj_end (set_job c r) = assign (js_end c) (rj_end r)"
  by (simp_all add: set_job_def)

lemma set_jobnet_simps [simp]:
  "rn_id (set_jobnet c r) = rn_id r" "rn_main (set_jobnet c r) = rn_main r"
  "rn_job (set_jobnet c r) = rn_job r" "rn_jobnet_id (set_jobnet c r) = rn_jobnet_id r"
  "rn_user (set_jobnet c r) = rn_user r" "rn_exec_user (set_jobnet c r) = rn_exec_user r"
  "rn_name (set_jobnet c r) = rn_name r"
  "rn_status (set_jobnet c r) = assign (ns_status c) (rn_status r)"
  "rn_timeout (set_jobnet c r) = assign (ns_timeout c) (rn_timeout r)"
  "rn_start (set_jobnet c r) = assign (ns_start c) (rn_start r)"
  "rn_end (set_jobnet c r) = assign (ns_end c) (rn_end r)"
  by (simp_all add: set_jobnet_def)

lemma set_summary_simps [simp]:
  "rs_id (set_summary c r) = rs_id r" "rs_jobnet_id (set_summary c r) = rs_jobnet_id r"
  "rs_sched (set_summary c r) = rs_sched r" "rs_run_type (set_summary c r) = rs_run_type r"
  "rs_multiple (set_summary c r) = rs_multiple r" "rs_pending (set_summary c r) = rs_pending r"
  "rs_status (set_summary c r) = assign (su_status c) (rs_status r)"
  "rs_job_status (set_summary c r) = assign (su_job_status c) (rs_job_status r)"
  "rs_load (set_summary c r) = assign (su_load c) (rs_load r)"
  "rs_start (set_summary c r) = assign (su_start c) (rs_start r)"
  "rs_end (set_summary c r) = assign (su_end c) (rs_end r)"
  by (simp_all add: set_summary_def)

lemma cols_simps [simp]:
  "js_status job_cols = None" "js_timeout job_cols = None" "js_method job_cols = None"
  "js_end_count job_cols = None" "js_start job_cols = None" "js_end job_cols = None" "js_invo job_cols = None"
  "ns_status jobnet_cols = None" "ns_timeout jobnet_cols = None" "ns_start jobnet_cols = None"
  "ns_end jobnet_cols = None" "ns_running jobnet_cols = None"
  "su_status summary_cols = None" "su_job_status summary_cols = None"
  "su_load summary_cols = None" "su_start summary_cols = None" "su_end summary_cols = None"
  "su_running summary_cols = None"
  by (simp_all add: job_cols_def jobnet_cols_def summary_cols_def)

lemma job_of_update:
  "job_of i (t\<lparr>jobs := upd_where p (set_job s) (jobs t)\<rparr>)
     = map_option (\<lambda>r. if p r then set_job s r else r) (job_of i t)"
  by (simp add: job_of_def row_of_upd_where)

lemma jobnet_of_update:
  "jobnet_of i (t\<lparr>jobnets := upd_where p (set_jobnet s) (jobnets t)\<rparr>)
     = map_option (\<lambda>r. if p r then set_jobnet s r else r) (jobnet_of i t)"
  by (simp add: jobnet_of_def row_of_upd_where)

lemma summary_of_update:
  "summary_of i (t\<lparr>summaries := upd_where p (set_summary s) (summaries t)\<rparr>)
     = map_option (\<lambda>r. if p r then set_summary s r else r) (summary_of i t)"
  by (simp add: summary_of_def row_of_upd_where)

lemma put_values_other [simp]:
  "jobs (put_job_values v vs t) = jobs t" "jobnets (put_job_values v vs t) = jobnets t"
  "summaries (put_job_values v vs t) = summaries t" "flows (put_job_values v vs t) = flows t"
  "icons (put_job_values v vs t) = icons t" "run_log (put_job_values v vs t) = run_log t"
  "nets_before (put_job_values v vs t) = nets_before t"
  "nets_after (put_job_values v vs t) = nets_after t"
  "job_values v (put_job_values v vs t) = vs"
  "jobs (put_net_values v ws t) = jobs t" "jobnets (put_net_values v ws t) = jobnets t"
  "summaries (put_net_values v ws t) = summaries t" "flows (put_net_values v ws t) = flows t"
  "icons (put_net_values v ws t) = icons t" "run_log (put_net_values v ws t) = run_log t"
  "vals_before (put_net_values v ws t) = vals_before t"
  "vals_after (put_net_values v ws t) = vals_after t"
  "net_values v (put_net_values v ws t) = ws"
  by (cases v, simp_all)+

lemma job_of_other [simp]:
  "job_of i (put_job_values v vs t) = job_of i t"
  "job_of i (put_net_values v ws t) = job_of i t"
  "jobnet_of i (put_job_values v vs t) = jobnet_of i t"
  "jobnet_of i (put_net_values v ws t) = jobnet_of i t"
  by (simp_all add: job_of_def jobnet_of_def)

lemma number_values_simps [simp]:
  "map v_seq (number_values q rs) = [q ..< q + length rs]"
  "map v_job (number_values q rs) = map v_job rs"
  "map v_name (number_values q rs) = map v_name rs"
  "map v_value (number_values q rs) = map v_value rs"
  by (auto simp: number_values_def intro!: nth_equalityI)

lemma number_nets_simps [simp]:
  "map w_seq (number_nets q rs) = [q ..< q + length rs]"
  "map w_jobnet (number_nets q rs) = map w_jobnet rs"
  by (auto simp: number_nets_def intro!: nth_equalityI)

section \<open>The invariant of the tables\<close>

text \<open>
  What the schema promises and the code relies on: primary keys, the foreign keys, the
  range of the status columns (the \<open>JA_..._STATUS_...\<close> constants) and the freshness of
  the sequence numbers.
\<close>

definition keys_ok :: "tables \<Rightarrow> bool" where
  "keys_ok t \<longleftrightarrow> distinct (map rj_id (jobs t)) \<and> distinct (map rn_id (jobnets t)) \<and>
     distinct (map rs_id (summaries t)) \<and> distinct (map rf_id (flows t))"

definition refs_ok :: "tables \<Rightarrow> bool" where
  "refs_ok t \<longleftrightarrow>
     rj_jobnet ` set (jobs t) \<subseteq> rn_id ` set (jobnets t) \<and>
     rs_id ` set (summaries t) \<subseteq> rn_id ` set (jobnets t) \<and>
     rf_jobnet ` set (flows t) \<subseteq> rn_id ` set (jobnets t) \<and>
     v_job ` set (vals_before t) \<subseteq> rj_id ` set (jobs t) \<and>
     v_job ` set (vals_after t) \<subseteq> rj_id ` set (jobs t) \<and>
     w_jobnet ` set (nets_before t) \<subseteq> rn_id ` set (jobnets t) \<and>
     w_jobnet ` set (nets_after t) \<subseteq> rn_id ` set (jobnets t)"

definition range_ok :: "tables \<Rightarrow> bool" where
  "range_ok t \<longleftrightarrow>
     list_all (\<lambda>r. rj_status r \<in> {0..6}) (jobs t) \<and>
     list_all (\<lambda>r. rn_status r \<in> {0..5}) (jobnets t) \<and>
     list_all (\<lambda>r. rs_status r \<in> {0..5} \<and> rs_job_status r \<in> {0..2} \<and> rs_load r \<in> {0..3})
       (summaries t)"

definition seqs_ok :: "nat \<Rightarrow> tables \<Rightarrow> bool" where
  "seqs_ok q t \<longleftrightarrow>
     (\<forall>v. distinct (map v_seq (job_values v t)) \<and> list_all (\<lambda>r. v_seq r < q) (job_values v t) \<and>
          distinct (map w_seq (net_values v t)) \<and> list_all (\<lambda>r. w_seq r < q) (net_values v t))"

definition tables_ok :: "nat \<Rightarrow> tables \<Rightarrow> bool" where
  "tables_ok q t \<longleftrightarrow> keys_ok t \<and> refs_ok t \<and> range_ok t \<and> seqs_ok q t"

text \<open>
  The statements that assign a status only assign one of its constants, and the statements
  of job execution never delete a jobnet.
\<close>

definition opt_in :: "'a set \<Rightarrow> 'a option \<Rightarrow> bool" where
  "opt_in S x \<longleftrightarrow> (case x of None \<Rightarrow> True | Some y \<Rightarrow> y \<in> S)"

lemma opt_in_simps [simp]: "opt_in S None" "opt_in S (Some x) \<longleftrightarrow> x \<in> S"
  by (simp_all add: opt_in_def)

lemma assign_in: "opt_in S x \<Longrightarrow> y \<in> S \<Longrightarrow> assign x y \<in> S"
  by (cases x) auto

fun status_sql :: "sql \<Rightarrow> bool" where
  "status_sql (Update_job c s) \<longleftrightarrow> opt_in {0..6} (js_status s)"
| "status_sql (Update_jobnet c s) \<longleftrightarrow> opt_in {0..5} (ns_status s)"
| "status_sql (Update_summary i s) \<longleftrightarrow> opt_in {0..5} (su_status s) \<and>
     opt_in {0..2} (su_job_status s) \<and> opt_in {0..3} (su_load s)"
| "status_sql (Insert_job r) \<longleftrightarrow> rj_status r \<in> {0..6}"
| "status_sql (Insert_jobnet r) \<longleftrightarrow> rn_status r \<in> {0..5}"
| "status_sql (Insert_summary r) \<longleftrightarrow> rs_status r \<in> {0..5} \<and> rs_job_status r \<in> {0..2} \<and> rs_load r \<in> {0..3}"
| "status_sql _ \<longleftrightarrow> True"

fun purging :: "sql \<Rightarrow> bool" where
  "purging (Purge_jobnet _) \<longleftrightarrow> True"
| "purging (Purge_log _) \<longleftrightarrow> True"
| "purging _ \<longleftrightarrow> False"

text \<open>The statements that build the graph of a run or change the settings of an icon.\<close>

fun loading :: "sql \<Rightarrow> bool" where
  "loading (Insert_job _) \<longleftrightarrow> True"
| "loading (Insert_jobnet _) \<longleftrightarrow> True"
| "loading (Insert_summary _) \<longleftrightarrow> True"
| "loading (Insert_flow _) \<longleftrightarrow> True"
| "loading (Load_icon _ _ _ _ _ _) \<longleftrightarrow> True"
| "loading (Close_schedule _ _) \<longleftrightarrow> True"
| "loading _ \<longleftrightarrow> False"

definition run_sql :: "sql \<Rightarrow> bool" where
  "run_sql s \<longleftrightarrow> status_sql s \<and> \<not> purging s \<and> \<not> loading s"

definition load_sql :: "sql \<Rightarrow> bool" where
  "load_sql s \<longleftrightarrow> status_sql s \<and> \<not> purging s"

end
