(* ===== verification/Schema_Invariant.thy ===== *)
theory Schema_Invariant
  imports Schema
begin

text \<open>
  Every statement the code issues keeps the invariant of the tables: keys, foreign keys
  (through the cascades of a purge as well), status ranges and sequence numbers.
\<close>

section \<open>Keys\<close>

lemma keys_put_values [simp]:
  "keys_ok (put_job_values v vs t) \<longleftrightarrow> keys_ok t"
  "keys_ok (put_net_values v ws t) \<longleftrightarrow> keys_ok t"
  by (simp_all add: keys_ok_def)

lemma distinct_keys_upd:
  "(\<And>r. k (f r) = k r) \<Longrightarrow> distinct (map k (upd_where p f rs)) \<longleftrightarrow> distinct (map k rs)"
  by (simp add: map_upd_where)

lemma keys_add_jobnets:
  "keys_ok t \<Longrightarrow> distinct (map rn_id (rs @ jobnets t)) \<or> rs = [] \<Longrightarrow>
   keys_ok (t\<lparr>jobnets := jobnets t @ rs\<rparr>)"
  by (auto simp: keys_ok_def)

lemma exec_sql_keys:
  "exec_sql s q t = Some (n, q', t') \<Longrightarrow> keys_ok t \<Longrightarrow> keys_ok t'"
proof (cases s)
  case (Submit_jobnet i run_type user jobnet_id)
  assume "exec_sql s q t = Some (n, q', t')" "keys_ok t"
  with Submit_jobnet show ?thesis
    by (auto simp only: exec_sql.simps Let_def option.inject prod.inject option.distinct
      intro: keys_add_jobnets split: if_splits)
qed (auto simp: keys_ok_def insert_values_def insert_nets_def add_log_def purge_jobnets_def Let_def
      distinct_keys_upd distinct_map_del_where job_of_def jobnet_of_def summary_of_def row_of_None_iff
      split: if_splits option.splits prod.splits)

section \<open>Foreign keys\<close>

lemma image_upd_where:
  "(\<And>r. k (f r) = k r) \<Longrightarrow> k ` set (upd_where p f rs) = k ` set rs"
  using arg_cong [OF map_upd_where [of k f p rs], of set] by simp

lemma insert_values_jobs:
  "list_all (\<lambda>r. job_of (v_job r) t \<noteq> None) rs \<Longrightarrow>
   v_job ` set (number_values q rs) \<subseteq> rj_id ` set (jobs t)"
proof -
  assume a: "list_all (\<lambda>r. job_of (v_job r) t \<noteq> None) rs"
  have "v_job ` set (number_values q rs) = v_job ` set rs"
    by (metis list.set_map number_values_simps(2))
  with a show ?thesis
    by (auto simp: list_all_iff job_of_def row_of_None_iff)
qed

lemma insert_nets_jobnets:
  "list_all (\<lambda>r. jobnet_of (w_jobnet r) t \<noteq> None) rs \<Longrightarrow>
   w_jobnet ` set (number_nets q rs) \<subseteq> rn_id ` set (jobnets t)"
proof -
  assume a: "list_all (\<lambda>r. jobnet_of (w_jobnet r) t \<noteq> None) rs"
  have "w_jobnet ` set (number_nets q rs) = w_jobnet ` set rs"
    by (metis list.set_map number_nets_simps(2))
  with a show ?thesis
    by (auto simp: list_all_iff jobnet_of_def row_of_None_iff)
qed

lemma refs_put_job_values:
  "refs_ok t \<Longrightarrow> v_job ` set vs \<subseteq> rj_id ` set (jobs t) \<Longrightarrow> refs_ok (put_job_values v vs t)"
  by (cases v) (auto simp: refs_ok_def)

lemma refs_put_net_values:
  "refs_ok t \<Longrightarrow> w_jobnet ` set ws \<subseteq> rn_id ` set (jobnets t) \<Longrightarrow> refs_ok (put_net_values v ws t)"
  by (cases v) (auto simp: refs_ok_def)

lemma refs_job_values: "refs_ok t \<Longrightarrow> v_job ` set (job_values v t) \<subseteq> rj_id ` set (jobs t)"
  by (cases v) (auto simp: refs_ok_def)

lemma refs_net_values:
  "refs_ok t \<Longrightarrow> w_jobnet ` set (net_values v t) \<subseteq> rn_id ` set (jobnets t)"
  by (cases v) (auto simp: refs_ok_def)

lemma refs_del_job_values:
  "refs_ok t \<Longrightarrow> refs_ok (put_job_values v (del_where p (job_values v t)) t)"
  using refs_job_values [of t v] by (auto intro!: refs_put_job_values)

lemma refs_del_net_values:
  "refs_ok t \<Longrightarrow> refs_ok (put_net_values v (del_where p (net_values v t)) t)"
  using refs_net_values [of t v] by (auto intro!: refs_put_net_values)

lemma insert_values_refs:
  assumes "insert_values v rs q t = Some (n, q', t')" "refs_ok t"
  shows "refs_ok t'"
proof -
  from assms have ok: "list_all (\<lambda>r. job_of (v_job r) t \<noteq> None) rs"
    and t': "t' = put_job_values v (job_values v t @ number_values q rs) t"
    by (auto simp: insert_values_def split: if_splits)
  have "v_job ` set (job_values v t @ number_values q rs) \<subseteq> rj_id ` set (jobs t)"
    using insert_values_jobs [OF ok] refs_job_values [OF assms(2)] by (auto simp: image_Un)
  then show ?thesis
    unfolding t' by (rule refs_put_job_values [OF assms(2)])
qed

lemma insert_nets_refs:
  assumes "insert_nets v rs q t = Some (n, q', t')" "refs_ok t"
  shows "refs_ok t'"
proof -
  from assms have ok: "list_all (\<lambda>r. jobnet_of (w_jobnet r) t \<noteq> None) rs"
    and t': "t' = put_net_values v (net_values v t @ number_nets q rs) t"
    by (auto simp: insert_nets_def split: if_splits)
  have "w_jobnet ` set (net_values v t @ number_nets q rs) \<subseteq> rn_id ` set (jobnets t)"
    using insert_nets_jobnets [OF ok] refs_net_values [OF assms(2)] by (auto simp: image_Un)
  then show ?thesis
    unfolding t' by (rule refs_put_net_values [OF assms(2)])
qed

lemma purge_refs: "refs_ok t \<Longrightarrow> refs_ok (purge_jobnets main t)"
  by (auto simp: refs_ok_def purge_jobnets_def Let_def image_subset_iff) (force+)

lemma refs_add_jobnets: "refs_ok t \<Longrightarrow> refs_ok (t\<lparr>jobnets := jobnets t @ rs\<rparr>)"
  by (simp add: refs_ok_def image_Un le_supI1)

lemma exec_sql_refs:
  "exec_sql s q t = Some (n, q', t') \<Longrightarrow> refs_ok t \<Longrightarrow> refs_ok t'"
proof (cases s)
  case (Submit_jobnet i run_type user jobnet_id)
  assume "exec_sql s q t = Some (n, q', t')" "refs_ok t"
  with Submit_jobnet show ?thesis
    by (auto simp only: exec_sql.simps Let_def option.inject prod.inject option.distinct
      intro: refs_add_jobnets split: if_splits)
qed (auto simp: add_log_def intro: insert_values_refs insert_nets_refs purge_refs
       refs_del_job_values refs_del_net_values split: if_splits option.splits prod.splits,
     auto simp: refs_ok_def image_upd_where jobnet_of_def dest!: row_of_SomeD
       intro: rev_image_eqI)

section \<open>Ranges and sequence numbers\<close>

lemma range_put_values [simp]:
  "range_ok (put_job_values v vs t) \<longleftrightarrow> range_ok t"
  "range_ok (put_net_values v ws t) \<longleftrightarrow> range_ok t"
  by (simp_all add: range_ok_def)

lemma exec_sql_range:
  "exec_sql s q t = Some (n, q', t') \<Longrightarrow> status_sql s \<Longrightarrow> range_ok t \<Longrightarrow> range_ok t'"
proof (cases s)
  case (Update_job c x)
  assume "exec_sql s q t = Some (n, q', t')" "status_sql s" "range_ok t"
  with Update_job show ?thesis
    by (auto simp: range_ok_def simp del: atLeastAtMost_iff intro!: list_all_upd_where assign_in)
next
  case (Update_jobnet c x)
  assume "exec_sql s q t = Some (n, q', t')" "status_sql s" "range_ok t"
  with Update_jobnet show ?thesis
    by (auto simp: range_ok_def simp del: atLeastAtMost_iff intro!: list_all_upd_where assign_in)
next
  case (Update_summary i x)
  assume "exec_sql s q t = Some (n, q', t')" "status_sql s" "range_ok t"
  with Update_summary show ?thesis
    by (auto simp: range_ok_def simp del: atLeastAtMost_iff intro!: list_all_upd_where assign_in)
qed (auto simp: range_ok_def insert_values_def insert_nets_def add_log_def purge_jobnets_def Let_def
      submitted_def list_all_del_where list_all_iff split: if_splits option.splits prod.splits)

lemma seqs_okD:
  "seqs_ok q t \<Longrightarrow> distinct (map v_seq (job_values v t))"
  "seqs_ok q t \<Longrightarrow> r \<in> set (job_values v t) \<Longrightarrow> v_seq r < q"
  "seqs_ok q t \<Longrightarrow> distinct (map w_seq (net_values v t))"
  "seqs_ok q t \<Longrightarrow> w \<in> set (net_values v t) \<Longrightarrow> w_seq w < q"
  by (auto simp: seqs_ok_def list_all_iff)

lemma seqs_put_job_values:
  "seqs_ok q t \<Longrightarrow> q \<le> q' \<Longrightarrow> distinct (map v_seq vs) \<Longrightarrow> list_all (\<lambda>r. v_seq r < q') vs \<Longrightarrow>
   seqs_ok q' (put_job_values v vs t)"
  unfolding seqs_ok_def
proof (intro allI)
  fix u
  assume a: "\<forall>v. distinct (map v_seq (job_values v t)) \<and> list_all (\<lambda>r. v_seq r < q) (job_values v t) \<and>
          distinct (map w_seq (net_values v t)) \<and> list_all (\<lambda>r. w_seq r < q) (net_values v t)"
    "q \<le> q'" "distinct (map v_seq vs)" "list_all (\<lambda>r. v_seq r < q') vs"
  show "distinct (map v_seq (job_values u (put_job_values v vs t))) \<and>
        list_all (\<lambda>r. v_seq r < q') (job_values u (put_job_values v vs t)) \<and>
        distinct (map w_seq (net_values u (put_job_values v vs t))) \<and>
        list_all (\<lambda>r. w_seq r < q') (net_values u (put_job_values v vs t))"
    using a(2-) spec [OF a(1), of u]
    by (cases u; cases v) (auto simp: list_all_iff intro: less_le_trans)
qed

lemma seqs_put_net_values:
  "seqs_ok q t \<Longrightarrow> q \<le> q' \<Longrightarrow> distinct (map w_seq ws) \<Longrightarrow> list_all (\<lambda>r. w_seq r < q') ws \<Longrightarrow>
   seqs_ok q' (put_net_values v ws t)"
  unfolding seqs_ok_def
proof (intro allI)
  fix u
  assume a: "\<forall>v. distinct (map v_seq (job_values v t)) \<and> list_all (\<lambda>r. v_seq r < q) (job_values v t) \<and>
          distinct (map w_seq (net_values v t)) \<and> list_all (\<lambda>r. w_seq r < q) (net_values v t)"
    "q \<le> q'" "distinct (map w_seq ws)" "list_all (\<lambda>r. w_seq r < q') ws"
  show "distinct (map v_seq (job_values u (put_net_values v ws t))) \<and>
        list_all (\<lambda>r. v_seq r < q') (job_values u (put_net_values v ws t)) \<and>
        distinct (map w_seq (net_values u (put_net_values v ws t))) \<and>
        list_all (\<lambda>r. w_seq r < q') (net_values u (put_net_values v ws t))"
    using a(2-) spec [OF a(1), of u]
    by (cases u; cases v) (auto simp: list_all_iff intro: less_le_trans)
qed

lemma seqs_cong:
  "vals_before t' = vals_before t \<Longrightarrow> vals_after t' = vals_after t \<Longrightarrow>
   nets_before t' = nets_before t \<Longrightarrow> nets_after t' = nets_after t \<Longrightarrow>
   seqs_ok q t' \<longleftrightarrow> seqs_ok q t"
proof -
  assume a: "vals_before t' = vals_before t" "vals_after t' = vals_after t"
    "nets_before t' = nets_before t" "nets_after t' = nets_after t"
  have "job_values v t' = job_values v t \<and> net_values v t' = net_values v t" for v
    using a by (cases v) auto
  then show ?thesis
    by (simp add: seqs_ok_def)
qed


lemma seqs_del_job_values:
  "seqs_ok q t \<Longrightarrow> seqs_ok q (put_job_values v (del_where p (job_values v t)) t)"
  by (rule seqs_put_job_values)
    (auto simp: list_all_iff intro: distinct_map_del_where dest: seqs_okD)

lemma seqs_del_net_values:
  "seqs_ok q t \<Longrightarrow> seqs_ok q (put_net_values v (del_where p (net_values v t)) t)"
  by (rule seqs_put_net_values)
    (auto simp: list_all_iff intro: distinct_map_del_where dest: seqs_okD)

lemma number_values_bounds:
  "r \<in> set (number_values q rs) \<Longrightarrow> q \<le> v_seq r \<and> v_seq r < q + length rs"
  using imageI [of r "set (number_values q rs)" v_seq]
  by (simp flip: list.set_map)

lemma number_nets_bounds:
  "r \<in> set (number_nets q rs) \<Longrightarrow> q \<le> w_seq r \<and> w_seq r < q + length rs"
  using imageI [of r "set (number_nets q rs)" w_seq]
  by (simp flip: list.set_map)

lemma insert_values_seqs:
  assumes "insert_values v rs q t = Some (n, q', t')" "seqs_ok q t"
  shows "seqs_ok q' t'"
proof -
  from assms have q': "q' = q + length rs"
    and t': "t' = put_job_values v (job_values v t @ number_values q rs) t"
    by (auto simp: insert_values_def split: if_splits)
  have "list_all (\<lambda>r. v_seq r < q') (job_values v t @ number_values q rs)"
    using seqs_okD(2) [OF assms(2), of _ v] number_values_bounds [of _ q rs]
    by (auto simp: list_all_iff q' intro: trans_less_add1)
  moreover have "distinct (map v_seq (job_values v t @ number_values q rs))"
  proof -
    have "x < q" if "x \<in> set (map v_seq (job_values v t))" for x
      using that seqs_okD(2) [OF assms(2), of _ v] by auto
    with seqs_okD(1) [OF assms(2), of v] show ?thesis
      by (auto simp del: set_map) (meson leD)
  qed
  ultimately show ?thesis
    unfolding t' using assms(2) q' by (intro seqs_put_job_values) auto
qed

lemma insert_nets_seqs:
  assumes "insert_nets v rs q t = Some (n, q', t')" "seqs_ok q t"
  shows "seqs_ok q' t'"
proof -
  from assms have q': "q' = q + length rs"
    and t': "t' = put_net_values v (net_values v t @ number_nets q rs) t"
    by (auto simp: insert_nets_def split: if_splits)
  have "list_all (\<lambda>r. w_seq r < q') (net_values v t @ number_nets q rs)"
    using seqs_okD(4) [OF assms(2), of _ v] number_nets_bounds [of _ q rs]
    by (auto simp: list_all_iff q' intro: trans_less_add1)
  moreover have "distinct (map w_seq (net_values v t @ number_nets q rs))"
  proof -
    have "x < q" if "x \<in> set (map w_seq (net_values v t))" for x
      using that seqs_okD(4) [OF assms(2), of _ v] by auto
    with seqs_okD(3) [OF assms(2), of v] show ?thesis
      by (auto simp del: set_map) (meson leD)
  qed
  ultimately show ?thesis
    unfolding t' using assms(2) q' by (intro seqs_put_net_values) auto
qed

lemma seqs_purge: "seqs_ok q t \<Longrightarrow> seqs_ok q (purge_jobnets main t)"
  unfolding seqs_ok_def
proof (intro allI)
  fix v
  assume a: "\<forall>v. distinct (map v_seq (job_values v t)) \<and> list_all (\<lambda>r. v_seq r < q) (job_values v t) \<and>
          distinct (map w_seq (net_values v t)) \<and> list_all (\<lambda>r. w_seq r < q) (net_values v t)"
  show "distinct (map v_seq (job_values v (purge_jobnets main t))) \<and>
        list_all (\<lambda>r. v_seq r < q) (job_values v (purge_jobnets main t)) \<and>
        distinct (map w_seq (net_values v (purge_jobnets main t))) \<and>
        list_all (\<lambda>r. w_seq r < q) (net_values v (purge_jobnets main t))"
    using spec [OF a, of v]
    by (cases v) (simp_all add: purge_jobnets_def Let_def distinct_map_del_where list_all_del_where)
qed

lemma seqs_mono: "seqs_ok q t \<Longrightarrow> q \<le> q' \<Longrightarrow> seqs_ok q' t"
  by (auto simp: seqs_ok_def list_all_iff intro: less_le_trans)

lemma seqs_other [simp]:
  "seqs_ok q (t\<lparr>jobs := x1\<rparr>) \<longleftrightarrow> seqs_ok q t" "seqs_ok q (t\<lparr>jobnets := x2\<rparr>) \<longleftrightarrow> seqs_ok q t"
  "seqs_ok q (t\<lparr>summaries := x3\<rparr>) \<longleftrightarrow> seqs_ok q t" "seqs_ok q (t\<lparr>run_log := x4\<rparr>) \<longleftrightarrow> seqs_ok q t"
  "seqs_ok q (t\<lparr>outbox := x5\<rparr>) \<longleftrightarrow> seqs_ok q t" "seqs_ok q (t\<lparr>sessions := x6\<rparr>) \<longleftrightarrow> seqs_ok q t"
  "seqs_ok q (t\<lparr>next_ids := x7\<rparr>) \<longleftrightarrow> seqs_ok q t" "seqs_ok q (t\<lparr>flows := x8\<rparr>) \<longleftrightarrow> seqs_ok q t"
  "seqs_ok q (t\<lparr>icons := x9\<rparr>) \<longleftrightarrow> seqs_ok q t" "seqs_ok q (t\<lparr>designs := x10\<rparr>) \<longleftrightarrow> seqs_ok q t"
  "seqs_ok q (t\<lparr>host_locks := x11\<rparr>) \<longleftrightarrow> seqs_ok q t"
  by (rule seqs_cong; simp)+

lemma exec_sql_seqs:
  "exec_sql s q t = Some (n, q', t') \<Longrightarrow> seqs_ok q t \<Longrightarrow> seqs_ok q' t'"
  by (cases s)
    (auto simp: add_log_def Let_def split: if_splits option.splits prod.splits
      intro: insert_values_seqs insert_nets_seqs seqs_purge seqs_del_job_values seqs_del_net_values
        seqs_mono [OF _ le_SucI [OF order_refl]])

section \<open>The whole invariant\<close>

theorem exec_sql_ok:
  "exec_sql s q t = Some (n, q', t') \<Longrightarrow> status_sql s \<Longrightarrow> tables_ok q t \<Longrightarrow> tables_ok q' t'"
  by (auto simp: tables_ok_def
      intro: exec_sql_keys exec_sql_refs exec_sql_range exec_sql_seqs)

lemma tables_okD:
  "tables_ok q t \<Longrightarrow> distinct (map rj_id (jobs t))"
  "tables_ok q t \<Longrightarrow> distinct (map rn_id (jobnets t))"
  "tables_ok q t \<Longrightarrow> distinct (map rs_id (summaries t))"
  "tables_ok q t \<Longrightarrow> seqs_ok q t"
  "tables_ok q t \<Longrightarrow> refs_ok t"
  by (auto simp: tables_ok_def keys_ok_def)

end
