(* ===== verification/Dbconn.thy ===== *)
theory Dbconn
  imports Schema_Invariant
begin

text \<open>
  The connection of one server process to PostgreSQL: \<open>libs/zbxdb/db.c\<close> (its PostgreSQL
  branches) and the transaction and query functions of \<open>libs/zbxdbhigh/db.c\<close>.

  The server's answers are an input of the model: \<open>faults\<close> lists, request by request,
  whether the server accepts it, rejects it, or the connection is lost; when the list is
  exhausted every request is accepted.  A statement that violates a constraint is rejected
  whatever the list says.  PostgreSQL's side of a transaction is the session state
  \<open>srv\<close> with the committed tables \<open>durable\<close>; the client's side are the C statics
  \<open>txn_level\<close> and \<open>txn_error\<close>.  \<^verbatim>\<open>assert(0)\<close> sets \<open>crashed\<close>.
\<close>

section \<open>The state of a process\<close>

datatype db_answer = Accepted | Rejected | Conn_lost

datatype srv_state = Idle | In_txn | Aborted

record world =
  db :: tables                          \<comment> \<open>the tables as this connection sees them\<close>
  durable :: tables                     \<comment> \<open>the committed tables\<close>
  srv :: srv_state
  txn_level :: nat
  txn_error :: bool
  crashed :: bool
  faults :: "db_answer list"
  seq_next :: nat                       \<comment> \<open>the \<open>bigserial\<close> sequences\<close>
  clock :: int                          \<comment> \<open>local time as \<open>YYYYMMDDhhmmssmmm\<close>\<close>
  message_file :: "string list option"  \<comment> \<open>the lines of \<open>CONFIG_JA_LOG_MESSAGE_FILE\<close>\<close>
  error_cmds :: "(string \<times> (string \<times> int) list) option"
      \<comment> \<open>the directory \<open>CONFIG_ERROR_CMD_PATH\<close>: its path, and its entries with the status \<open>system\<close> returns\<close>
  logfile :: "(int \<times> string) list"      \<comment> \<open>\<open>zabbix_log\<close>: level and text\<close>
  spawned :: "string list"              \<comment> \<open>commands given to \<open>system\<close>\<close>
  garbage :: uint64                     \<comment> \<open>the value of an uninitialised local variable\<close>
  no_valid_flag :: int                  \<comment> \<open>the static variable of \<open>jaloader.c\<close>\<close>

type_synonym 'a prog = "(world, 'a) state"

abbreviation (input) ZBX_DB_OK :: int where "ZBX_DB_OK \<equiv> 0"
definition ZBX_DB_FAIL :: int where "ZBX_DB_FAIL = - 1"
definition ZBX_DB_DOWN :: int where "ZBX_DB_DOWN = - 2"

section \<open>The server\<close>

datatype request = Begin_req | Commit_req | Rollback_req | Statement sql | Query

datatype reply = Done nat | Refused | Down

text \<open>A refused request aborts an open transaction; a refused commit or rollback ends it.\<close>

definition refuse :: "request \<Rightarrow> world \<Rightarrow> world" where
  "refuse rq w =
     (case srv w of Idle \<Rightarrow> w
      | _ \<Rightarrow> if rq = Commit_req \<or> rq = Rollback_req then w\<lparr>db := durable w, srv := Idle\<rparr>
             else w\<lparr>srv := Aborted\<rparr>)"

definition accept :: "request \<Rightarrow> world \<Rightarrow> reply \<times> world" where
  "accept rq w =
     (case rq of
        Begin_req \<Rightarrow> (case srv w of Idle \<Rightarrow> (Done 0, w\<lparr>srv := In_txn\<rparr>) | In_txn \<Rightarrow> (Done 0, w)
                      | Aborted \<Rightarrow> (Refused, w))
      | Commit_req \<Rightarrow> (Done 0, (case srv w of Idle \<Rightarrow> w | In_txn \<Rightarrow> w\<lparr>durable := db w, srv := Idle\<rparr>
                              | Aborted \<Rightarrow> w\<lparr>db := durable w, srv := Idle\<rparr>))
      | Rollback_req \<Rightarrow> (Done 0, (case srv w of Idle \<Rightarrow> w | _ \<Rightarrow> w\<lparr>db := durable w, srv := Idle\<rparr>))
      | Query \<Rightarrow> (if srv w = Aborted then (Refused, w) else (Done 0, w))
      | Statement s \<Rightarrow>
          (if srv w = Aborted then (Refused, w)
           else case exec_sql s (seq_next w) (db w) of
             None \<Rightarrow> (Refused, refuse rq w)
           | Some (n, q, t) \<Rightarrow>
               (Done n, w\<lparr>db := t, durable := (if srv w = Idle then t else durable w),
                          seq_next := q\<rparr>)))"

text \<open>\<^verbatim>\<open>PQexec\<close> followed by \<^verbatim>\<open>PQresultStatus\<close> and \<^verbatim>\<open>PQstatus\<close>.\<close>

definition pq_exec :: "request \<Rightarrow> world \<Rightarrow> reply \<times> world" where
  "pq_exec rq w =
     (let w' = w\<lparr>faults := tl (faults w)\<rparr>
      in case (if faults w = [] then Accepted else hd (faults w)) of
           Accepted \<Rightarrow> accept rq w'
         | Rejected \<Rightarrow> (Refused, refuse rq w')
         | Conn_lost \<Rightarrow> (Down, w'\<lparr>db := durable w, srv := Idle\<rparr>))"

section \<open>\<open>libs/zbxdb/db.c\<close>\<close>

definition zbx_db_vexecute :: "request \<Rightarrow> int prog" where
  "zbx_db_vexecute rq = State (\<lambda>w.
     if txn_error w then (ZBX_DB_FAIL, w)
     else case pq_exec rq w of (r, w') \<Rightarrow>
       (case r of
          Done n \<Rightarrow> (int n, w')
        | Refused \<Rightarrow> (ZBX_DB_FAIL, if 0 < txn_level w' then w'\<lparr>txn_error := True\<rparr> else w')
        | Down \<Rightarrow> (ZBX_DB_DOWN, w')))"

text \<open>
  A query returns the rows the server had when it ran it; \<open>Inr None\<close> is the C result
  \<^verbatim>\<open>NULL\<close>, \<open>Inl ()\<close> is \<^verbatim>\<open>(DB_RESULT)ZBX_DB_DOWN\<close>.
\<close>

definition zbx_db_vselect :: "(tables \<Rightarrow> 'r list) \<Rightarrow> (unit + 'r list option) prog" where
  "zbx_db_vselect q = State (\<lambda>w.
     if txn_error w then (Inr None, w)
     else case pq_exec Query w of (r, w') \<Rightarrow>
       (case r of
          Done n \<Rightarrow> (Inr (Some (q (db w'))), w')
        | Refused \<Rightarrow> (Inr None, if 0 < txn_level w' then w'\<lparr>txn_error := True\<rparr> else w')
        | Down \<Rightarrow> (Inl (), w')))"

definition assert_fail :: "unit prog" where
  "assert_fail = modify (\<lambda>w. w\<lparr>crashed := True\<rparr>)"

definition zbx_db_begin :: "int prog" where
  "zbx_db_begin = do {
     nested \<leftarrow> gets (\<lambda>w. txn_level w > 0);
     _ \<leftarrow> (if nested then assert_fail else ret ());
     _ \<leftarrow> modify (\<lambda>w. w\<lparr>txn_level := txn_level w + 1\<rparr>);
     rc \<leftarrow> zbx_db_vexecute Begin_req;
     _ \<leftarrow> (if rc = ZBX_DB_DOWN then modify (\<lambda>w. w\<lparr>txn_level := txn_level w - 1\<rparr>) else ret ());
     ret rc
   }"

definition zbx_db_rollback :: "int prog" where
  "zbx_db_rollback = do {
     none \<leftarrow> gets (\<lambda>w. txn_level w = 0);
     _ \<leftarrow> (if none then assert_fail else ret ());
     last_txn_error \<leftarrow> gets txn_error;
     _ \<leftarrow> modify (\<lambda>w. w\<lparr>txn_error := False\<rparr>);
     rc \<leftarrow> zbx_db_vexecute Rollback_req;
     _ \<leftarrow> (if rc \<noteq> ZBX_DB_DOWN then modify (\<lambda>w. w\<lparr>txn_level := txn_level w - 1\<rparr>)
          else modify (\<lambda>w. w\<lparr>txn_error := last_txn_error\<rparr>));
     ret rc
   }"

definition zbx_db_commit :: "int prog" where
  "zbx_db_commit = do {
     none \<leftarrow> gets (\<lambda>w. txn_level w = 0);
     _ \<leftarrow> (if none then assert_fail else ret ());
     failed \<leftarrow> gets txn_error;
     if failed then zbx_db_rollback
     else do {
       rc \<leftarrow> zbx_db_vexecute Commit_req;
       _ \<leftarrow> (if rc \<noteq> ZBX_DB_DOWN then modify (\<lambda>w. w\<lparr>txn_level := txn_level w - 1\<rparr>) else ret ());
       ret rc
     }
   }"

section \<open>\<open>libs/zbxdbhigh/db.c\<close>\<close>

text \<open>
  The \<^verbatim>\<open>while (ZBX_DB_DOWN == rc)\<close> loops close, reconnect and repeat the request.
  Every repetition consumes an answer, so as many rounds as there are answers are enough
  (\<open>DBexecute_returns\<close>); \<open>retry\<close> runs the loop with that fuel.
\<close>

fun retry :: "nat \<Rightarrow> ('a \<Rightarrow> bool) \<Rightarrow> 'a prog \<Rightarrow> 'a prog" where
  "retry 0 down op = op"
| "retry (Suc n) down op = do { rc \<leftarrow> op; if down rc then retry n down op else ret rc }"

definition until_up :: "('a \<Rightarrow> bool) \<Rightarrow> 'a prog \<Rightarrow> 'a prog" where
  "until_up down op = do { n \<leftarrow> gets (\<lambda>w. length (faults w)); retry n down op }"

definition DBtxn_operation :: "int prog \<Rightarrow> unit prog" where
  "DBtxn_operation op = do { _ \<leftarrow> until_up (\<lambda>rc. rc = ZBX_DB_DOWN) op; ret () }"

definition DBbegin :: "unit prog" where
  "DBbegin = DBtxn_operation zbx_db_begin"

definition DBcommit :: "unit prog" where
  "DBcommit = DBtxn_operation zbx_db_commit"

definition DBrollback :: "unit prog" where
  "DBrollback = DBtxn_operation zbx_db_rollback"

definition DBexecute :: "sql \<Rightarrow> int prog" where
  "DBexecute s = until_up (\<lambda>rc. rc = ZBX_DB_DOWN) (zbx_db_vexecute (Statement s))"

text \<open>
  \<^verbatim>\<open>DBfetch\<close> on a \<^verbatim>\<open>NULL\<close> result and at the end of the rows both return
  \<^verbatim>\<open>NULL\<close>, so a caller sees a list of rows.
\<close>

definition DBselect :: "(tables \<Rightarrow> 'r list) \<Rightarrow> 'r list prog" where
  "DBselect q = do {
     r \<leftarrow> until_up isl (zbx_db_vselect q);
     ret (case r of Inr (Some rows) \<Rightarrow> rows | _ \<Rightarrow> [])
   }"

text \<open>The first row, as \<^verbatim>\<open>row = DBfetch(DBselect(...))\<close> gets it.\<close>

definition DBselect_row :: "(tables \<Rightarrow> 'r list) \<Rightarrow> 'r option prog" where
  "DBselect_row q = do { rows \<leftarrow> DBselect q; ret (case rows of [] \<Rightarrow> None | r # _ \<Rightarrow> Some r) }"

section \<open>The retry loops end\<close>

lemma zbx_db_codes [simp]:
  "ZBX_DB_FAIL \<noteq> ZBX_DB_DOWN" "ZBX_DB_DOWN \<noteq> ZBX_DB_FAIL" "ZBX_DB_DOWN < 0" "ZBX_DB_FAIL < 0"
  "int n \<noteq> ZBX_DB_DOWN" "int n \<noteq> ZBX_DB_FAIL" "ZBX_DB_FAIL \<le> 0" "ZBX_DB_DOWN \<le> 0"
  "ZBX_DB_DOWN \<noteq> 0" "ZBX_DB_FAIL \<noteq> 0" "0 \<noteq> ZBX_DB_DOWN" "0 \<noteq> ZBX_DB_FAIL"
  by (auto simp: ZBX_DB_DOWN_def ZBX_DB_FAIL_def)

text \<open>An operation that answers ``down'' has used up an answer of the server.\<close>

definition consumes :: "('a \<Rightarrow> bool) \<Rightarrow> 'a prog \<Rightarrow> bool" where
  "consumes down op \<longleftrightarrow>
     (\<forall>w. down (result op w) \<longrightarrow> length (faults (exec op w)) < length (faults w))"

lemma retry_up:
  assumes "consumes down op"
  shows "length (faults w) \<le> n \<Longrightarrow> \<not> down (result (retry n down op) w)"
proof (induction n arbitrary: w)
  case 0
  with assms show ?case
    by (auto simp: consumes_def)
next
  case (Suc n)
  show ?case
  proof (cases "down (result op w)")
    case True
    with assms have "length (faults (exec op w)) < length (faults w)"
      by (auto simp: consumes_def)
    with Suc have "\<not> down (result (retry n down op) (exec op w))"
      by simp
    with True show ?thesis
      by (cases "run_state op w") (simp add: result_def exec_def)
  next
    case False
    then show ?thesis
      by (cases "run_state op w") (simp add: result_def exec_def)
  qed
qed

lemma until_up_returns: "consumes down op \<Longrightarrow> \<not> down (result (until_up down op) w)"
  using retry_up [of down op w "length (faults w)"]
  by (simp add: until_up_def result_def)

lemma accept_faults [simp]: "faults (snd (accept rq w)) = faults w"
  by (auto simp: accept_def refuse_def split: request.splits srv_state.splits option.splits)

lemma refuse_faults [simp]: "faults (refuse rq w) = faults w"
  by (auto simp: refuse_def split: srv_state.splits)

lemma accept_up: "fst (accept rq w) \<noteq> Down"
  by (auto simp: accept_def split: request.splits srv_state.splits option.splits)

lemma pq_exec_down: "pq_exec rq w = (Down, w') \<Longrightarrow> length (faults w') < length (faults w)"
  using accept_up [of rq "w\<lparr>faults := tl (faults w)\<rparr>"]
  by (auto simp: pq_exec_def Let_def split: if_splits db_answer.splits)

lemma vexecute_consumes: "consumes (\<lambda>rc. rc = ZBX_DB_DOWN) (zbx_db_vexecute rq)"
  by (auto simp: consumes_def zbx_db_vexecute_def result_def exec_def
      split: prod.splits reply.splits dest: pq_exec_down)

lemma vselect_consumes: "consumes isl (zbx_db_vselect q)"
  by (auto simp: consumes_def zbx_db_vselect_def result_def exec_def
      split: prod.splits reply.splits dest: pq_exec_down)

lemma DBexecute_returns: "result (DBexecute s) w \<noteq> ZBX_DB_DOWN"
  unfolding DBexecute_def by (rule until_up_returns [OF vexecute_consumes])

lemma DBselect_returns: "\<not> isl (result (until_up isl (zbx_db_vselect q)) w)"
  by (rule until_up_returns [OF vselect_consumes])

section \<open>A quiet server\<close>

text \<open>
  The functional behaviour of the handlers is stated for a connection on which nothing goes
  wrong: every request is accepted and no transaction has failed.
\<close>

definition calm :: "world \<Rightarrow> bool" where
  "calm w \<longleftrightarrow> faults w = [] \<and> \<not> txn_error w \<and> srv w \<noteq> Aborted"

definition put_tables :: "nat \<Rightarrow> tables \<Rightarrow> world \<Rightarrow> world" where
  "put_tables q t w = w\<lparr>db := t, durable := (if srv w = Idle then t else durable w), seq_next := q\<rparr>"

lemma put_tables_simps [simp]:
  "db (put_tables q t w) = t" "seq_next (put_tables q t w) = q" "srv (put_tables q t w) = srv w"
  "txn_level (put_tables q t w) = txn_level w" "txn_error (put_tables q t w) = txn_error w"
  "faults (put_tables q t w) = faults w" "clock (put_tables q t w) = clock w"
  "message_file (put_tables q t w) = message_file w" "error_cmds (put_tables q t w) = error_cmds w"
  "crashed (put_tables q t w) = crashed w" "logfile (put_tables q t w) = logfile w"
  "garbage (put_tables q t w) = garbage w" "spawned (put_tables q t w) = spawned w"
  by (simp_all add: put_tables_def)

lemma calm_put_tables [simp]: "calm (put_tables q t w) \<longleftrightarrow> calm w"
  by (simp add: calm_def)

lemma put_tables_twice [simp]: "put_tables q t (put_tables q' t' w) = put_tables q t w"
  by (simp add: put_tables_def)

lemma DBselect_calm [simp]: "calm w \<Longrightarrow> run_state (DBselect q) w = (q (db w), w)"
  by (auto simp: DBselect_def until_up_def zbx_db_vselect_def pq_exec_def accept_def calm_def)

lemma DBselect_row_calm [simp]:
  "calm w \<Longrightarrow> run_state (DBselect_row q) w = (case q (db w) of [] \<Rightarrow> None | r # _ \<Rightarrow> Some r, w)"
  by (simp add: DBselect_row_def)

lemma DBexecute_calm:
  "calm w \<Longrightarrow> exec_sql s (seq_next w) (db w) = Some (n, q, t) \<Longrightarrow>
   run_state (DBexecute s) w = (int n, put_tables q t w)"
  by (auto simp: DBexecute_def until_up_def zbx_db_vexecute_def pq_exec_def accept_def calm_def
      put_tables_def)

lemma DBexecute_violation:
  "calm w \<Longrightarrow> exec_sql s (seq_next w) (db w) = None \<Longrightarrow> result (DBexecute s) w = ZBX_DB_FAIL"
  by (auto simp: DBexecute_def until_up_def zbx_db_vexecute_def pq_exec_def accept_def calm_def
      result_def)

text \<open>After a violation inside a transaction nothing but a rollback has any effect.\<close>

lemma DBexecute_failed: "txn_error w \<Longrightarrow> run_state (DBexecute s) w = (ZBX_DB_FAIL, w)"
  by (cases "faults w") (simp_all add: DBexecute_def until_up_def zbx_db_vexecute_def)

lemma DBselect_failed: "txn_error w \<Longrightarrow> run_state (DBselect q) w = ([], w)"
  by (cases "faults w") (simp_all add: DBselect_def until_up_def zbx_db_vselect_def)

section \<open>Relations kept by every query and statement\<close>

text \<open>What a query does to the process does not depend on the query.\<close>

definition after_query :: "world \<Rightarrow> world" where
  "after_query w = exec (zbx_db_vselect (\<lambda>_. [()])) w"

lemma vselect_state: "snd (run_state (zbx_db_vselect q) w) = after_query w"
  by (auto simp: after_query_def exec_def zbx_db_vselect_def split: prod.splits reply.splits)

locale world_order = step_order R for R :: "world \<Rightarrow> world \<Rightarrow> bool"
begin

lemma steps_retry: "steps op \<Longrightarrow> steps (retry n down op)"
  by (induction n) (auto intro: steps_bind steps_return steps_if)

lemma steps_until_up: "steps op \<Longrightarrow> steps (until_up down op)"
  unfolding until_up_def by (intro steps_bind steps_gets steps_retry)

end

text \<open>
  \<open>ok\<close> says which statements a group of programs issues.  A relation that every such
  statement, every query and every entry in the process log keep is kept by all of them; the
  lemmas \<open>steps_...\<close> of the components below are proved once, in this locale, and in
  \<open>db_steps\<close> for the handlers, which issue every statement but the purging ones.
\<close>

locale sql_steps = world_order R for R :: "world \<Rightarrow> world \<Rightarrow> bool" +
  fixes ok :: "sql \<Rightarrow> bool"
  assumes statement_step: "ok s \<Longrightarrow> R w (exec (zbx_db_vexecute (Statement s)) w)"
    and query_step: "R w (after_query w)"
    and log_step: "R w (w\<lparr>logfile := l\<rparr>)"
    and spawn_step: "R w (w\<lparr>spawned := c\<rparr>)"
    and flag_step: "R w (w\<lparr>no_valid_flag := v\<rparr>)"
begin

lemma steps_DBexecute: "ok s \<Longrightarrow> steps (DBexecute s)"
  unfolding DBexecute_def
  using statement_step by (intro steps_until_up) (auto simp: steps_def exec_def)

lemma steps_DBselect: "steps (DBselect q)"
  unfolding DBselect_def
  using query_step by (intro steps_bind steps_return steps_until_up) (auto simp: steps_def vselect_state)

lemma steps_DBselect_row: "steps (DBselect_row q)"
  unfolding DBselect_row_def by (intro steps_bind steps_return steps_DBselect)

lemma steps_logfile: "steps (modify (\<lambda>w. w\<lparr>logfile := f w\<rparr>))"
  by (rule steps_modify) (rule log_step)

lemma steps_spawned: "steps (modify (\<lambda>w. w\<lparr>spawned := f w\<rparr>))"
  by (rule steps_modify) (rule spawn_step)

lemma steps_no_valid_flag: "steps (modify (\<lambda>w. w\<lparr>no_valid_flag := v\<rparr>))"
  by (rule steps_modify) (rule flag_step)

lemmas db_intros = steps_intros steps_DBexecute steps_DBselect steps_DBselect_row steps_logfile
  steps_spawned steps_no_valid_flag

end

locale db_steps = sql_steps R run_sql for R :: "world \<Rightarrow> world \<Rightarrow> bool"

text \<open>The loader issues the inserts as well; what it keeps, the handlers keep.\<close>

locale load_steps = sql_steps R load_sql for R :: "world \<Rightarrow> world \<Rightarrow> bool" +
  assumes crash_step: "R w (w\<lparr>crashed := True\<rparr>)"

sublocale load_steps \<subseteq> handlers: db_steps R
  by unfold_locales (auto simp: run_sql_def load_sql_def intro: statement_step query_step log_step spawn_step flag_step)

section \<open>What every handler keeps\<close>

text \<open>The transaction level and the absence of a crash: handlers do not begin or end.\<close>

definition same_txn :: "world \<Rightarrow> world \<Rightarrow> bool" where
  "same_txn w w' \<longleftrightarrow> txn_level w' = txn_level w \<and> crashed w' = crashed w \<and>
     clock w' = clock w \<and> message_file w' = message_file w \<and> error_cmds w' = error_cmds w \<and>
     garbage w' = garbage w"

lemma accept_same_txn: "same_txn w (snd (accept rq w))"
  by (auto simp: same_txn_def accept_def refuse_def
      split: request.splits srv_state.splits option.splits)

lemma refuse_same_txn: "same_txn w (refuse rq w)"
  by (auto simp: same_txn_def refuse_def split: srv_state.splits)

lemma same_txn_trans: "same_txn u v \<Longrightarrow> same_txn v w \<Longrightarrow> same_txn u w"
  by (simp add: same_txn_def)

lemma pq_exec_same_txn: "same_txn w (snd (pq_exec rq w))"
  using accept_same_txn [of "w\<lparr>faults := tl (faults w)\<rparr>" rq]
    refuse_same_txn [of "w\<lparr>faults := tl (faults w)\<rparr>" rq]
  by (auto simp: pq_exec_def Let_def same_txn_def split: db_answer.splits)

lemma vexecute_same_txn: "same_txn w (exec (zbx_db_vexecute rq) w)"
  using pq_exec_same_txn [of w rq]
  by (auto simp: zbx_db_vexecute_def exec_def same_txn_def split: prod.splits reply.splits)

lemma query_same_txn: "same_txn w (after_query w)"
  using pq_exec_same_txn [of w Query]
  by (auto simp: after_query_def exec_def zbx_db_vselect_def same_txn_def
      split: prod.splits reply.splits)

interpretation txn: db_steps same_txn
  by unfold_locales
    (auto intro: vexecute_same_txn query_same_txn same_txn_trans, auto simp: same_txn_def)

text \<open>The invariant of the tables, committed ones included.\<close>

definition world_ok :: "world \<Rightarrow> bool" where
  "world_ok w \<longleftrightarrow> tables_ok (seq_next w) (db w) \<and> tables_ok (seq_next w) (durable w)"

definition ok_kept :: "world \<Rightarrow> world \<Rightarrow> bool" where
  "ok_kept w w' \<longleftrightarrow> (world_ok w \<longrightarrow> world_ok w')"

lemma tables_ok_mono: "tables_ok q t \<Longrightarrow> q \<le> q' \<Longrightarrow> tables_ok q' t"
  by (auto simp: tables_ok_def intro: seqs_mono)

lemma exec_sql_seq_le: "exec_sql s q t = Some (n, q', t') \<Longrightarrow> q \<le> q'"
  by (cases s)
    (auto simp: insert_values_def insert_nets_def add_log_def Let_def
      split: if_splits option.splits prod.splits)

lemma refuse_ok: "world_ok w \<Longrightarrow> world_ok (refuse rq w)"
  by (auto simp: world_ok_def refuse_def split: srv_state.splits)

lemma accept_ok:
  assumes "world_ok w" "\<And>s. rq = Statement s \<Longrightarrow> status_sql s"
  shows "world_ok (snd (accept rq w))"
proof (cases rq)
  case (Statement s)
  show ?thesis
  proof (cases "exec_sql s (seq_next w) (db w)")
    case None
    with Statement assms(1) show ?thesis
      by (auto simp: accept_def intro: refuse_ok)
  next
    case (Some r)
    obtain n q t where r: "r = (n, q, t)"
      by (cases r) auto
    have "tables_ok q t"
      using exec_sql_ok [of s "seq_next w" "db w" n q t] assms Some r Statement
      by (simp add: world_ok_def)
    moreover have "tables_ok q (durable w)"
      using tables_ok_mono exec_sql_seq_le [of s "seq_next w" "db w" n q t] assms(1) Some r
      by (simp add: world_ok_def) blast
    ultimately show ?thesis
      using Statement Some r assms(1) by (auto simp: accept_def world_ok_def)
  qed
qed (use assms in \<open>auto simp: accept_def world_ok_def split: srv_state.splits\<close>)

lemma world_ok_faults [simp]: "world_ok (w\<lparr>faults := fs\<rparr>) \<longleftrightarrow> world_ok w"
  by (simp add: world_ok_def)

lemma pq_exec_ok:
  "world_ok w \<Longrightarrow> (\<And>s. rq = Statement s \<Longrightarrow> status_sql s) \<Longrightarrow> world_ok (snd (pq_exec rq w))"
  using accept_ok [of "w\<lparr>faults := tl (faults w)\<rparr>" rq]
    refuse_ok [of "w\<lparr>faults := tl (faults w)\<rparr>" rq]
  by (auto simp: pq_exec_def Let_def split: db_answer.splits) (auto simp: world_ok_def)

lemma vexecute_ok:
  "world_ok w \<Longrightarrow> (\<And>s. rq = Statement s \<Longrightarrow> status_sql s) \<Longrightarrow>
   world_ok (exec (zbx_db_vexecute rq) w)"
  using pq_exec_ok [of w rq]
  by (auto simp: zbx_db_vexecute_def exec_def split: prod.splits reply.splits)
    (auto simp: world_ok_def)

lemma query_ok: "world_ok w \<Longrightarrow> world_ok (after_query w)"
  using pq_exec_ok [of w Query]
  by (auto simp: after_query_def zbx_db_vselect_def exec_def split: prod.splits reply.splits)
    (auto simp: world_ok_def)

interpretation inv: db_steps ok_kept
  by unfold_locales
    (auto simp: ok_kept_def run_sql_def intro: vexecute_ok query_ok, auto simp: world_ok_def)

text \<open>
  The definition side of a running jobnet -- its graph, its icons' settings and the identity
  of its icons -- is never written by the handlers.  The waiting counter and time of an
  extended icon are stored beside its settings, but are not settings.
\<close>

definition job_key :: "run_job \<Rightarrow> uint64 \<times> uint64 \<times> uint64 \<times> int \<times> int \<times> int \<times> string \<times> string option \<times> int" where
  "job_key r = (rj_id r, rj_jobnet r, rj_main r, rj_type r, rj_test r, rj_boot_count r,
     rj_job_id r, rj_name r, rj_continue r)"

definition settings :: "icon_tables \<Rightarrow> icon_tables" where
  "settings t = t\<lparr>icon_extjobs :=
     map (\<lambda>r. r\<lparr>ix_wait_count := 0, ix_wait_time := None\<rparr>) (icon_extjobs t)\<rparr>"

definition graph :: "tables \<Rightarrow> run_flow list \<times> icon_tables \<times> control_row list \<times> (string \<times> string) list \<times>
    (uint64 \<times> uint64 \<times> uint64 \<times> int \<times> int \<times> int \<times> string \<times> string option \<times> int) list" where
  "graph t = (flows t, settings (icons t), controls t, params t, map job_key (jobs t))"

definition graph_kept :: "world \<Rightarrow> world \<Rightarrow> bool" where
  "graph_kept w w' \<longleftrightarrow> (graph (durable w) = graph (db w) \<longrightarrow>
     graph (db w') = graph (db w) \<and> graph (durable w') = graph (db w))"

lemma job_key_set_job [simp]: "job_key (set_job c r) = job_key r"
  by (simp add: job_key_def)

lemma graph_put_values [simp]:
  "graph (put_job_values v vs t) = graph t" "graph (put_net_values v ws t) = graph t"
  by (cases v; simp add: graph_def)+

lemma exec_sql_graph:
  "exec_sql s q t = Some (n, q', t') \<Longrightarrow> \<not> purging s \<Longrightarrow> \<not> loading s \<Longrightarrow> graph t' = graph t"
  by (cases s)
    (auto simp: insert_values_def insert_nets_def add_log_def Let_def split: if_splits,
     auto simp: graph_def upd_where_def settings_def)

lemma accept_graph:
  "graph (durable w) = graph (db w) \<Longrightarrow> (\<And>s. rq = Statement s \<Longrightarrow> \<not> purging s \<and> \<not> loading s) \<Longrightarrow>
   graph (db (snd (accept rq w))) = graph (db w) \<and>
   graph (durable (snd (accept rq w))) = graph (db w)"
  by (cases rq) (auto simp: accept_def refuse_def exec_sql_graph
      split: srv_state.splits option.splits)

lemma refuse_graph:
  "graph (durable w) = graph (db w) \<Longrightarrow>
   graph (db (refuse rq w)) = graph (db w) \<and> graph (durable (refuse rq w)) = graph (db w)"
  by (auto simp: refuse_def split: srv_state.splits)

lemma pq_exec_graph:
  "graph (durable w) = graph (db w) \<Longrightarrow> (\<And>s. rq = Statement s \<Longrightarrow> \<not> purging s \<and> \<not> loading s) \<Longrightarrow>
   graph (db (snd (pq_exec rq w))) = graph (db w) \<and>
   graph (durable (snd (pq_exec rq w))) = graph (db w)"
  using accept_graph [of "w\<lparr>faults := tl (faults w)\<rparr>" rq]
    refuse_graph [of "w\<lparr>faults := tl (faults w)\<rparr>" rq]
  by (auto simp: pq_exec_def Let_def split: db_answer.splits)

lemma vexecute_graph: "run_sql s \<Longrightarrow> graph_kept w (exec (zbx_db_vexecute (Statement s)) w)"
  using pq_exec_graph [of w "Statement s"]
  by (auto simp: graph_kept_def run_sql_def zbx_db_vexecute_def exec_def
      split: prod.splits reply.splits)

lemma query_graph: "graph_kept w (after_query w)"
  using pq_exec_graph [of w Query]
  by (auto simp: graph_kept_def after_query_def zbx_db_vselect_def exec_def
      split: prod.splits reply.splits)

interpretation static: db_steps graph_kept
  by unfold_locales (auto intro: vexecute_graph query_graph, auto simp: graph_kept_def)

text \<open>
  Nothing a handler does inside a transaction reaches the committed tables, as long as the
  connection survives (\<open>lost_connection_tears_transaction\<close> shows why that is needed).
\<close>

definition uncommitted :: "world \<Rightarrow> world \<Rightarrow> bool" where
  "uncommitted w w' \<longleftrightarrow> (srv w \<noteq> Idle \<and> Conn_lost \<notin> set (faults w) \<longrightarrow>
     srv w' \<noteq> Idle \<and> Conn_lost \<notin> set (faults w') \<and> durable w' = durable w)"

lemma no_loss_tl: "Conn_lost \<notin> set fs \<Longrightarrow> Conn_lost \<notin> set (tl fs)"
  by (cases fs) auto

lemma accept_uncommitted:
  "rq \<noteq> Commit_req \<Longrightarrow> rq \<noteq> Rollback_req \<Longrightarrow> uncommitted w (snd (accept rq w))"
  by (cases rq)
    (auto simp: uncommitted_def accept_def refuse_def split: srv_state.splits option.splits)

lemma refuse_uncommitted:
  "rq \<noteq> Commit_req \<Longrightarrow> rq \<noteq> Rollback_req \<Longrightarrow> uncommitted w (refuse rq w)"
  by (auto simp: uncommitted_def refuse_def split: srv_state.splits)

lemma pq_exec_uncommitted:
  "rq \<noteq> Commit_req \<Longrightarrow> rq \<noteq> Rollback_req \<Longrightarrow> uncommitted w (snd (pq_exec rq w))"
  using accept_uncommitted [of rq "w\<lparr>faults := tl (faults w)\<rparr>"]
    refuse_uncommitted [of rq "w\<lparr>faults := tl (faults w)\<rparr>"]
  by (auto simp: pq_exec_def Let_def uncommitted_def dest: no_loss_tl split: db_answer.splits)
    (metis hd_in_set)

lemma vexecute_uncommitted: "uncommitted w (exec (zbx_db_vexecute (Statement s)) w)"
  using pq_exec_uncommitted [of "Statement s" w]
  by (auto simp: uncommitted_def zbx_db_vexecute_def exec_def split: prod.splits reply.splits)

lemma query_uncommitted: "uncommitted w (after_query w)"
  using pq_exec_uncommitted [of Query w]
  by (auto simp: uncommitted_def after_query_def zbx_db_vselect_def exec_def
      split: prod.splits reply.splits)

interpretation atomic: db_steps uncommitted
  by unfold_locales (auto intro: vexecute_uncommitted query_uncommitted, auto simp: uncommitted_def)

end
