(* ===== verification/Transactions.thy ===== *)
theory Transactions
  imports Dbconn
begin

text \<open>
  Transactions as the server processes use them (\<open>DBbegin\<close>, \<open>DBcommit\<close>,
  \<open>DBrollback\<close>): what they do to the committed tables, that they keep the transaction
  level balanced whatever the server answers, and the two situations in which they do not
  protect the database: a rejected commit and a connection lost inside a transaction.
\<close>

section \<open>Loops with an invariant\<close>

lemma retry_inv:
  assumes "\<And>w. P w \<Longrightarrow> down (result op w) \<Longrightarrow> P (exec op w)"
    and "\<And>w. P w \<Longrightarrow> \<not> down (result op w) \<Longrightarrow> Q (exec op w)"
    and "consumes down op"
  shows "P w \<Longrightarrow> length (faults w) \<le> n \<Longrightarrow> Q (exec (retry n down op) w)"
proof (induction n arbitrary: w)
  case 0
  with assms(3) have "\<not> down (result op w)"
    by (auto simp: consumes_def)
  with assms(2) 0 show ?case
    by simp
next
  case (Suc n)
  show ?case
  proof (cases "down (result op w)")
    case True
    with assms(3) have "length (faults (exec op w)) < length (faults w)"
      by (auto simp: consumes_def)
    with Suc True assms(1) have "Q (exec (retry n down op) (exec op w))"
      by simp
    with True show ?thesis
      by (cases "run_state op w") (simp add: result_def exec_def)
  next
    case False
    with assms(2) Suc have "Q (exec op w)"
      by simp
    with False show ?thesis
      by (cases "run_state op w") (simp add: result_def exec_def)
  qed
qed

lemma until_up_inv:
  assumes "P w"
    and "\<And>w. P w \<Longrightarrow> down (result op w) \<Longrightarrow> P (exec op w)"
    and "\<And>w. P w \<Longrightarrow> \<not> down (result op w) \<Longrightarrow> Q (exec op w)"
    and "consumes down op"
  shows "Q (exec (until_up down op) w)"
  using retry_inv [of P down op Q w "length (faults w)"] assms
  by (simp add: until_up_def exec_def)

section \<open>The transaction level\<close>

lemma vexecute_level:
  "txn_level (exec (zbx_db_vexecute rq) w) = txn_level w"
  "crashed (exec (zbx_db_vexecute rq) w) = crashed w"
  using vexecute_same_txn [of w rq] by (simp_all add: same_txn_def)

lemma vexecute_run:
  "run_state (zbx_db_vexecute rq) w = (result (zbx_db_vexecute rq) w, exec (zbx_db_vexecute rq) w)"
  by (simp add: run_exec)

lemmas op_simps = result_def exec_def zbx_db_begin_def zbx_db_commit_def zbx_db_rollback_def

lemma zbx_db_begin_run:
  "txn_level w = 0 \<Longrightarrow>
   run_state zbx_db_begin w =
     (let (rc, w') = run_state (zbx_db_vexecute Begin_req) (w\<lparr>txn_level := 1\<rparr>)
      in (rc, if rc = ZBX_DB_DOWN then w'\<lparr>txn_level := txn_level w' - 1\<rparr> else w'))"
  by (simp add: zbx_db_begin_def split: prod.splits)

lemma zbx_db_rollback_run:
  "0 < txn_level w \<Longrightarrow>
   run_state zbx_db_rollback w =
     (let (rc, w') = run_state (zbx_db_vexecute Rollback_req) (w\<lparr>txn_error := False\<rparr>)
      in (rc, if rc \<noteq> ZBX_DB_DOWN then w'\<lparr>txn_level := txn_level w' - 1\<rparr>
              else w'\<lparr>txn_error := txn_error w\<rparr>))"
  by (simp add: zbx_db_rollback_def split: prod.splits)

lemma zbx_db_commit_run:
  "0 < txn_level w \<Longrightarrow>
   run_state zbx_db_commit w =
     (if txn_error w then run_state zbx_db_rollback w
      else let (rc, w') = run_state (zbx_db_vexecute Commit_req) w
           in (rc, if rc \<noteq> ZBX_DB_DOWN then w'\<lparr>txn_level := txn_level w' - 1\<rparr> else w'))"
  by (simp add: zbx_db_commit_def split: prod.splits)

lemma vexecute_down:
  "run_state (zbx_db_vexecute rq) w = (ZBX_DB_DOWN, w') \<Longrightarrow> length (faults w') < length (faults w)"
  using vexecute_consumes [of rq, unfolded consumes_def, rule_format, of w]
  by (simp add: result_def exec_def)

lemma consumesI:
  "(\<And>w x w'. run_state op w = (x, w') \<Longrightarrow> down x \<Longrightarrow> length (faults w') < length (faults w)) \<Longrightarrow>
   consumes down op"
  by (auto simp: consumes_def run_exec)

lemma begin_consumes: "consumes (\<lambda>rc. rc = ZBX_DB_DOWN) zbx_db_begin"
  by (rule consumesI)
    (auto simp: zbx_db_begin_def assert_fail_def split: prod.splits if_splits dest!: vexecute_down)

lemma rollback_down:
  "run_state zbx_db_rollback w = (ZBX_DB_DOWN, w') \<Longrightarrow> length (faults w') < length (faults w)"
  by (auto simp: zbx_db_rollback_def assert_fail_def split: prod.splits if_splits
      dest!: vexecute_down)

lemma rollback_consumes: "consumes (\<lambda>rc. rc = ZBX_DB_DOWN) zbx_db_rollback"
  by (rule consumesI) (auto dest: rollback_down)

lemma commit_consumes: "consumes (\<lambda>rc. rc = ZBX_DB_DOWN) zbx_db_commit"
  by (rule consumesI)
    (auto simp: zbx_db_commit_def assert_fail_def split: prod.splits if_splits
      dest!: vexecute_down rollback_down)

lemma DBtxn_exec: "exec (DBtxn_operation op) w = exec (until_up (\<lambda>rc. rc = ZBX_DB_DOWN) op) w"
  by (simp add: DBtxn_operation_def exec_def split: prod.splits)

lemma begin_level:
  "txn_level w = 0 \<Longrightarrow>
   txn_level (exec zbx_db_begin w) = (if result zbx_db_begin w = ZBX_DB_DOWN then 0 else 1) \<and>
   crashed (exec zbx_db_begin w) = crashed w"
  using vexecute_level [of Begin_req "w\<lparr>txn_level := 1\<rparr>"]
  by (auto simp: zbx_db_begin_run result_def exec_def Let_def split: prod.splits)

lemma rollback_level:
  "txn_level w = 1 \<Longrightarrow>
   txn_level (exec zbx_db_rollback w) = (if result zbx_db_rollback w = ZBX_DB_DOWN then 1 else 0) \<and>
   crashed (exec zbx_db_rollback w) = crashed w"
  using vexecute_level [of Rollback_req "w\<lparr>txn_error := False\<rparr>"]
  by (auto simp: zbx_db_rollback_run result_def exec_def Let_def split: prod.splits)

lemma commit_level:
  "txn_level w = 1 \<Longrightarrow>
   txn_level (exec zbx_db_commit w) = (if result zbx_db_commit w = ZBX_DB_DOWN then 1 else 0) \<and>
   crashed (exec zbx_db_commit w) = crashed w"
  using vexecute_level [of Commit_req w] rollback_level [of w]
  by (auto simp: zbx_db_commit_run result_def exec_def Let_def split: prod.splits)

lemma DBbegin_level:
  "txn_level w = 0 \<Longrightarrow> txn_level (exec DBbegin w) = 1 \<and> crashed (exec DBbegin w) = crashed w"
  unfolding DBbegin_def DBtxn_exec
  by (rule until_up_inv [where P = "\<lambda>v. txn_level v = 0 \<and> crashed v = crashed w"])
    (use begin_level begin_consumes in auto)

lemma DBcommit_level:
  "txn_level w = 1 \<Longrightarrow> txn_level (exec DBcommit w) = 0 \<and> crashed (exec DBcommit w) = crashed w"
  unfolding DBcommit_def DBtxn_exec
  by (rule until_up_inv [where P = "\<lambda>v. txn_level v = 1 \<and> crashed v = crashed w"])
    (use commit_level commit_consumes in auto)

lemma DBrollback_level:
  "txn_level w = 1 \<Longrightarrow> txn_level (exec DBrollback w) = 0 \<and> crashed (exec DBrollback w) = crashed w"
  unfolding DBrollback_def DBtxn_exec
  by (rule until_up_inv [where P = "\<lambda>v. txn_level v = 1 \<and> crashed v = crashed w"])
    (use rollback_level rollback_consumes in auto)

section \<open>Transactions on a quiet server\<close>

definition in_transaction :: "world \<Rightarrow> bool" where
  "in_transaction w \<longleftrightarrow> calm w \<and> txn_level w = 1 \<and> srv w = In_txn"

definition outside :: "world \<Rightarrow> bool" where
  "outside w \<longleftrightarrow> calm w \<and> txn_level w = 0 \<and> srv w = Idle \<and> durable w = db w"

lemma faults_same [simp]: "faults w = [] \<Longrightarrow> w\<lparr>faults := []\<rparr> = w"
  by simp

lemma DBbegin_calm:
  "outside w \<Longrightarrow> run_state DBbegin w = ((), w\<lparr>txn_level := 1, srv := In_txn\<rparr>)"
  by (simp add: outside_def calm_def DBbegin_def DBtxn_operation_def until_up_def zbx_db_begin_def
      zbx_db_vexecute_def pq_exec_def accept_def)

lemma DBcommit_calm:
  "in_transaction w \<Longrightarrow>
   run_state DBcommit w = ((), w\<lparr>durable := db w, srv := Idle, txn_level := 0\<rparr>)"
  by (simp add: in_transaction_def calm_def DBcommit_def DBtxn_operation_def until_up_def
      zbx_db_commit_def zbx_db_vexecute_def pq_exec_def accept_def)

lemma DBrollback_run:
  "faults w = [] \<Longrightarrow> txn_level w = 1 \<Longrightarrow> srv w \<noteq> Idle \<Longrightarrow>
   run_state DBrollback w =
     ((), w\<lparr>txn_error := False, db := durable w, srv := Idle, txn_level := 0\<rparr>)"
  by (cases "srv w")
    (simp_all add: DBrollback_def DBtxn_operation_def until_up_def
      zbx_db_rollback_def zbx_db_vexecute_def pq_exec_def accept_def)

lemma DBcommit_failed:
  "faults w = [] \<Longrightarrow> txn_level w = 1 \<Longrightarrow> srv w \<noteq> Idle \<Longrightarrow> txn_error w \<Longrightarrow>
   run_state DBcommit w =
     ((), w\<lparr>txn_error := False, db := durable w, srv := Idle, txn_level := 0\<rparr>)"
  by (cases "srv w")
    (simp_all add: DBcommit_def DBtxn_operation_def until_up_def zbx_db_commit_def
      zbx_db_rollback_def zbx_db_vexecute_def pq_exec_def accept_def)

lemma in_transaction_begin:
  "outside w \<Longrightarrow> in_transaction (w\<lparr>txn_level := 1, srv := In_txn\<rparr>)"
  by (simp add: outside_def in_transaction_def calm_def)

section \<open>Where transactions do not protect\<close>

text \<open>
  A commit that the server rejects leaves the process outside any transaction but with
  \<open>txn_error\<close> still set, and from then on every query it makes returns nothing.
\<close>

lemma rejected_commit_state:
  "txn_level w = 1 \<Longrightarrow> \<not> txn_error w \<Longrightarrow> faults w = Rejected # fs \<Longrightarrow>
   txn_level (exec DBcommit w) = 0 \<and> txn_error (exec DBcommit w)"
  by (cases "srv w")
    (simp_all add: DBcommit_def DBtxn_operation_def until_up_def zbx_db_commit_def exec_def
      zbx_db_vexecute_def pq_exec_def refuse_def)

text \<open>
  A statement whose connection breaks is repeated on a new connection, where no transaction
  is open: it is committed on its own, and what the transaction did before is gone.
\<close>

lemma lost_connection_tears_transaction:
  "srv w = In_txn \<Longrightarrow> \<not> txn_error w \<Longrightarrow> faults w = [Conn_lost] \<Longrightarrow>
   exec_sql s (seq_next w) (durable w) = Some (n, q, t) \<Longrightarrow>
   db (exec (DBexecute s) w) = t \<and> durable (exec (DBexecute s) w) = t \<and>
   srv (exec (DBexecute s) w) = Idle"
  by (simp add: DBexecute_def until_up_def exec_def zbx_db_vexecute_def pq_exec_def accept_def)

section \<open>What a program yields on a quiet server\<close>

text \<open>
  \<open>yields m w r q t\<close>: run from \<open>w\<close> on a quiet server, \<open>m\<close> returns \<open>r\<close> and leaves
  the tables \<open>t\<close> with next sequence number \<open>q\<close>, without touching the transaction.
\<close>

definition reaches :: "world \<Rightarrow> nat \<Rightarrow> tables \<Rightarrow> world \<Rightarrow> bool" where
  "reaches w q t w' \<longleftrightarrow>
     calm w' \<and> db w' = t \<and> seq_next w' = q \<and> srv w' = srv w \<and> same_txn w w'"

definition yields :: "'a prog \<Rightarrow> world \<Rightarrow> 'a \<Rightarrow> nat \<Rightarrow> tables \<Rightarrow> bool" where
  "yields m w r q t \<longleftrightarrow> (\<exists>w'. run_state m w = (r, w') \<and> reaches w q t w')"

lemma reaches_refl: "calm w \<Longrightarrow> reaches w (seq_next w) (db w) w"
  by (simp add: reaches_def same_txn_def)

lemma reaches_trans: "reaches w q t w' \<Longrightarrow> reaches w' q2 t2 w'' \<Longrightarrow> reaches w q2 t2 w''"
  by (auto simp: reaches_def intro: same_txn_trans)

lemma reachesD:
  "reaches w q t w' \<Longrightarrow> calm w'" "reaches w q t w' \<Longrightarrow> db w' = t"
  "reaches w q t w' \<Longrightarrow> seq_next w' = q" "reaches w q t w' \<Longrightarrow> clock w' = clock w"
  "reaches w q t w' \<Longrightarrow> srv w' = srv w" "reaches w q t w' \<Longrightarrow> message_file w' = message_file w"
  "reaches w q t w' \<Longrightarrow> garbage w' = garbage w"
  by (auto simp: reaches_def same_txn_def)

lemma yieldsD:
  "yields m w r q t \<Longrightarrow> result m w = r" "yields m w r q t \<Longrightarrow> db (exec m w) = t"
  "yields m w r q t \<Longrightarrow> calm (exec m w)" "yields m w r q t \<Longrightarrow> seq_next (exec m w) = q"
  by (auto simp: yields_def result_def exec_def reaches_def)

lemma yields_return: "calm w \<Longrightarrow> seq_next w = q \<Longrightarrow> db w = t \<Longrightarrow> yields (ret r) w r q t"
  using reaches_refl by (auto simp: yields_def)

lemma yields_gets: "calm w \<Longrightarrow> seq_next w = q \<Longrightarrow> db w = t \<Longrightarrow> f w = r \<Longrightarrow> yields (gets f) w r q t"
  using reaches_refl by (auto simp: yields_def)

lemma yields_bind:
  "yields m w x q t \<Longrightarrow> (\<And>w'. reaches w q t w' \<Longrightarrow> yields (f x) w' r q2 t2) \<Longrightarrow>
   yields (State_Monad.bind m f) w r q2 t2"
  by (force simp: yields_def intro: reaches_trans)

lemma yields_or_fail:
  "yields m w SUCCEED q t \<Longrightarrow> (\<And>w'. reaches w q t w' \<Longrightarrow> yields k w' r q2 t2) \<Longrightarrow>
   yields (or_fail m k) w r q2 t2"
  unfolding or_fail_def by (erule yields_bind) simp

lemma yields_or_fail_fails: "yields m w FAIL q t \<Longrightarrow> yields (or_fail m k) w FAIL q t"
  unfolding or_fail_def
  by (erule yields_bind) (simp add: reaches_def yields_return)

lemma yields_select:
  "calm w \<Longrightarrow> seq_next w = q \<Longrightarrow> db w = t \<Longrightarrow> f t = rows \<Longrightarrow> yields (DBselect f) w rows q t"
  using reaches_refl by (auto simp: yields_def)

lemma yields_select_row:
  "calm w \<Longrightarrow> seq_next w = q \<Longrightarrow> db w = t \<Longrightarrow> f t = rows \<Longrightarrow>
   (case rows of [] \<Rightarrow> None | r # _ \<Rightarrow> Some r) = row \<Longrightarrow> yields (DBselect_row f) w row q t"
  using reaches_refl by (auto simp: yields_def)

lemma put_tables_reaches: "calm w \<Longrightarrow> reaches w q t (put_tables q t w)"
  by (simp add: reaches_def same_txn_def)

lemma yields_execute:
  "calm w \<Longrightarrow> exec_sql s (seq_next w) (db w) = Some (n, q, t) \<Longrightarrow> yields (DBexecute s) w (int n) q t"
  using put_tables_reaches [of w q t] by (simp add: yields_def DBexecute_calm)

lemma yields_cong: "yields m w r q t \<Longrightarrow> r = r' \<Longrightarrow> q = q' \<Longrightarrow> t = t' \<Longrightarrow> yields m w r' q' t'"
  by simp

lemma yields_run: "yields m w r q t \<Longrightarrow> \<exists>w'. run_state m w = (r, w') \<and> reaches w q t w'"
  by (simp add: yields_def)

text \<open>Queries leave the world as it is and statements only put tables: rules for the simplifier.\<close>

lemma yields_ret_iff: "calm w \<Longrightarrow> yields (ret x) w r q t \<longleftrightarrow> r = x \<and> q = seq_next w \<and> t = db w"
  using reaches_refl by (auto simp: yields_def reaches_def)

lemma yields_gets_bind: "yields (State_Monad.bind (gets f) k) w r q t \<longleftrightarrow> yields (k (f w)) w r q t"
  by (simp add: yields_def)

lemma yields_ret_bind: "yields (State_Monad.bind (ret x) k) w r q t \<longleftrightarrow> yields (k x) w r q t"
  by (simp add: yields_def)

lemma yields_select_bind:
  "calm w \<Longrightarrow> yields (State_Monad.bind (DBselect f) k) w r q t \<longleftrightarrow> yields (k (f (db w))) w r q t"
  by (simp add: yields_def)

lemma yields_select_row_bind:
  "calm w \<Longrightarrow> yields (State_Monad.bind (DBselect_row f) k) w r q t \<longleftrightarrow>
     yields (k (case f (db w) of [] \<Rightarrow> None | x # _ \<Rightarrow> Some x)) w r q t"
  by (simp add: yields_def)

lemma reaches_put_tables: "reaches (put_tables q1 t1 w) q t w' \<longleftrightarrow> reaches w q t w'"
  by (simp add: reaches_def same_txn_def)

lemma yields_execute_bind:
  "calm w \<Longrightarrow> exec_sql s (seq_next w) (db w) = Some (n, q1, t1) \<Longrightarrow>
   yields (State_Monad.bind (DBexecute s) k) w r q t \<longleftrightarrow> yields (k (int n)) (put_tables q1 t1 w) r q t"
  by (simp add: yields_def DBexecute_calm reaches_put_tables)

lemma yields_or_fail_ret:
  "yields (or_fail (ret SUCCEED) k) w r q t \<longleftrightarrow> yields k w r q t"
  by (simp add: yields_def or_fail_def)

lemmas yields_simps = yields_ret_iff yields_gets_bind yields_ret_bind yields_select_bind
  yields_select_row_bind yields_execute_bind yields_or_fail_ret

end
