(* ===== verification/Jastr.thy ===== *)
theory Jastr
  imports Cstring Complex_Main
begin

text \<open>
  \<open>jalibs/jastr.c\<close>: time stamps, glob patterns, number ranges, and the builders of the
  shell commands for calculation, date and extended job icons.  \<open>libc\<close>'s \<^verbatim>\<open>mktime\<close>,
  \<^verbatim>\<open>atof\<close> and regular expressions are arguments of the functions that use them.
\<close>

section \<open>Time stamps\<close>

record tm =
  tm_year :: int   \<comment> \<open>years since 1900\<close>
  tm_mon :: int    \<comment> \<open>0..11\<close>
  tm_mday :: int
  tm_hour :: int
  tm_min :: int
  tm_sec :: int

text \<open>\<^verbatim>\<open>%.wd\<close>: at least \<open>w\<close> digits.\<close>

definition pad :: "nat \<Rightarrow> int \<Rightarrow> string" where
  "pad w i = (let d = show_nat (nat \<bar>i\<bar>)
              in (if i < 0 then ''-'' else '''') @ replicate (w - length d) (CHR ''0'') @ d)"

definition ja_timestamp2str :: "tm \<Rightarrow> string" where
  "ja_timestamp2str t = strlcpy 15
     (pad 4 (tm_year t + 1900) @ pad 2 (tm_mon t + 1) @ pad 2 (tm_mday t) @
      pad 2 (tm_hour t) @ pad 2 (tm_min t) @ pad 2 (tm_sec t))"

definition days_in_month :: "int list" where
  "days_in_month = [31, 28, 31, 30, 31, 30, 31, 31, 30, 31, 30, 31]"

definition leap :: "int \<Rightarrow> bool" where
  "leap y \<longleftrightarrow> y mod 4 = 0 \<and> (y mod 100 \<noteq> 0 \<or> y mod 400 = 0)"

text \<open>
  The C code reads \<^verbatim>\<open>day[mon - 1]\<close> before it checks \<^verbatim>\<open>mon\<close>; what it reads out of
  bounds is discarded by that check.
\<close>

definition maxday :: "int \<Rightarrow> int \<Rightarrow> int" where
  "maxday year mon =
     (if 1 \<le> mon \<and> mon \<le> 12
      then days_in_month ! nat (mon - 1) + (if mon = 2 \<and> leap year then 1 else 0) else 0)"

definition ja_str2timestamp :: "(tm \<Rightarrow> int) \<Rightarrow> string \<Rightarrow> int" where
  "ja_str2timestamp mktime str =
     (let n = length str in
      if n = 1 then 0
      else if n \<noteq> 8 \<and> n \<noteq> 10 \<and> n \<noteq> 12 \<and> n \<noteq> 14 then 0
      else
        let t = str @ replicate (14 - n) (CHR ''0'');
            year = atoi (take 4 t); mon = atoi (take 2 (drop 4 t));
            mday = atoi (take 2 (drop 6 t)); hour = atoi (take 2 (drop 8 t));
            minute = atoi (take 2 (drop 10 t)); sec = atoi (take 2 (drop 12 t))
        in if year < 1900 \<or> mon < 1 \<or> mon > 12 then 0
           else if mday < 1 \<or> mday > maxday year mon then 0
           else if hour < 0 \<or> hour > 23 then 0
           else if minute < 0 \<or> minute > 59 then 0
           else if sec < 0 \<or> sec > 59 then 0
           else mktime \<lparr>tm_year = year - 1900, tm_mon = mon - 1, tm_mday = mday, tm_hour = hour,
                        tm_min = minute, tm_sec = sec\<rparr>)"

text \<open>A broken-down time as \<^verbatim>\<open>localtime\<close> returns it, leap seconds apart.\<close>

definition tm_ok :: "tm \<Rightarrow> bool" where
  "tm_ok t \<longleftrightarrow> 0 \<le> tm_year t \<and> tm_year t \<le> 8099 \<and> 0 \<le> tm_mon t \<and> tm_mon t \<le> 11 \<and>
     1 \<le> tm_mday t \<and> tm_mday t \<le> maxday (tm_year t + 1900) (tm_mon t + 1) \<and>
     0 \<le> tm_hour t \<and> tm_hour t \<le> 23 \<and> 0 \<le> tm_min t \<and> tm_min t \<le> 59 \<and>
     0 \<le> tm_sec t \<and> tm_sec t \<le> 59"

lemma dec_val_zeros: "dec_val (replicate n (CHR ''0'') @ s) = dec_val s"
  by (induction n) (simp_all add: dec_val_def digit_val_def)

lemma show_nat_length_le: "n < 10 ^ w \<Longrightarrow> 0 < w \<Longrightarrow> length (show_nat n) \<le> w"
proof (induction w arbitrary: n)
  case (Suc w)
  show ?case
  proof (cases "n < 10")
    case True
    then show ?thesis
      by (subst show_nat.simps) simp
  next
    case False
    with Suc.prems have "w \<noteq> 0"
      by (cases w) auto
    with Suc.prems Suc.IH [of "n div 10"] have "length (show_nat (n div 10)) \<le> w"
      by (simp add: less_mult_imp_div_less)
    with False show ?thesis
      by (subst show_nat.simps) simp
  qed
qed simp

lemma pad_length: "0 \<le> i \<Longrightarrow> i < 10 ^ w \<Longrightarrow> 0 < w \<Longrightarrow> length (pad w i) = w"
  using show_nat_length_le [of "nat i" w]
  by (simp add: pad_def Let_def nat_less_iff)

lemma digits_not_space: "is_digit c \<Longrightarrow> \<not> is_space c \<and> c \<noteq> CHR ''-'' \<and> c \<noteq> CHR ''+''"
  by (auto simp: is_digit_def is_space_def)

lemma atoi_digits:
  assumes "s \<noteq> []" "list_all is_digit s" "dec_val s < 2 ^ 31"
  shows "atoi s = int (dec_val s)"
proof -
  from assms(1,2) have hd: "is_digit (hd s)"
    by (cases s) auto
  with assms(1) have drop: "dropWhile is_space s = s"
    by (cases s) (auto dest: digits_not_space)
  from assms(2) have tw: "takeWhile is_digit s = s"
    by (simp add: takeWhile_eq_all_conv list_all_iff)
  moreover from hd have "hd s \<noteq> CHR ''-''" "hd s \<noteq> CHR ''+''"
    by (auto dest: digits_not_space)
  moreover from assms(3) have "min (2 ^ 63 - 1) (int (dec_val s)) = int (dec_val s)"
    by simp
  ultimately have "strtol10 s = int (dec_val s)"
    unfolding strtol10_def Let_def drop by (simp add: tw)
  then show ?thesis
    using assms(3) by (simp add: atoi_def signed_take_bit_int_eq_self)
qed

lemma pad_digits: "0 \<le> i \<Longrightarrow> list_all is_digit (pad w i)"
  using show_nat_digits [of "nat i"]
  by (auto simp: pad_def Let_def list_all_iff is_digit_def)

lemma dec_val_pad: "0 \<le> i \<Longrightarrow> dec_val (pad w i) = nat i"
  by (simp add: pad_def Let_def dec_val_zeros dec_val_show_nat)

lemma pad_nonempty: "pad w i \<noteq> []"
  by (simp add: pad_def Let_def)

lemma atoi_pad: "0 \<le> i \<Longrightarrow> i < 2 ^ 31 \<Longrightarrow> atoi (pad w i) = i"
  using atoi_digits [of "pad w i"]
  by (simp add: pad_nonempty pad_digits dec_val_pad nat_less_iff)

lemma maxday_bounds: "maxday y m \<le> 31"
proof (cases "1 \<le> m \<and> m \<le> 12")
  case True
  then have "m = 1 \<or> m = 2 \<or> m = 3 \<or> m = 4 \<or> m = 5 \<or> m = 6 \<or> m = 7 \<or> m = 8 \<or> m = 9 \<or>
      m = 10 \<or> m = 11 \<or> m = 12"
    by presburger
  then show ?thesis
    by (auto simp: maxday_def days_in_month_def)
qed (auto simp: maxday_def)

text \<open>Printing a time and reading it back.\<close>

lemma timestamp_roundtrip_aux:
  assumes "tm_ok t"
  shows "ja_str2timestamp mktime (ja_timestamp2str t) = mktime t"
proof -
  let ?y = "pad 4 (tm_year t + 1900)" and ?mo = "pad 2 (tm_mon t + 1)" and ?d = "pad 2 (tm_mday t)"
    and ?h = "pad 2 (tm_hour t)" and ?mi = "pad 2 (tm_min t)" and ?s = "pad 2 (tm_sec t)"
  note t = assms [unfolded tm_ok_def]
  from t maxday_bounds [of "tm_year t + 1900" "tm_mon t + 1"]
  have len: "length ?y = 4" "length ?mo = 2" "length ?d = 2" "length ?h = 2" "length ?mi = 2"
    "length ?s = 2"
    by (simp_all add: pad_length)
  then have str: "ja_timestamp2str t = ?y @ ?mo @ ?d @ ?h @ ?mi @ ?s"
    by (simp add: ja_timestamp2str_def)
  from t maxday_bounds [of "tm_year t + 1900" "tm_mon t + 1"]
  have val: "atoi ?y = tm_year t + 1900" "atoi ?mo = tm_mon t + 1" "atoi ?d = tm_mday t"
    "atoi ?h = tm_hour t" "atoi ?mi = tm_min t" "atoi ?s = tm_sec t"
    by (simp_all add: atoi_pad)
  have eta: "\<lparr>tm_year = tm_year t, tm_mon = tm_mon t, tm_mday = tm_mday t, tm_hour = tm_hour t,
      tm_min = tm_min t, tm_sec = tm_sec t\<rparr> = t"
    by (cases t) simp
  show ?thesis
    using t by (simp add: str ja_str2timestamp_def Let_def len val eta)
qed

text \<open>\<open>ja_format_timestamp\<close>: the separators go before the characters 4, 6, 8, 10, 12, 14.\<close>

fun format_loop :: "nat \<Rightarrow> string \<Rightarrow> string" where
  "format_loop i [] = []"
| "format_loop i (c # s) =
     (if i = 4 \<or> i = 6 then ''/'' else '''') @ (if i = 8 then '' '' else '''') @
     (if i = 10 \<or> i = 12 then '':'' else '''') @ (if i = 14 then ''.'' else '''') @
     c # format_loop (i + 1) s"

definition ja_format_timestamp :: "string \<Rightarrow> string option" where
  "ja_format_timestamp input =
     (if length input \<notin> {8, 10, 12, 14, 17} then None else Some (format_loop 0 input))"

definition separator :: "char \<Rightarrow> bool" where
  "separator c \<longleftrightarrow> c \<in> {CHR ''/'', CHR '' '', CHR '':'', CHR ''.''}"

lemma format_loop_filter:
  "list_all (\<lambda>c. \<not> separator c) s \<Longrightarrow> filter (\<lambda>c. \<not> separator c) (format_loop i s) = s"
  by (induction i s rule: format_loop.induct) (auto simp: separator_def)

lemma digit_not_separator: "is_digit c \<Longrightarrow> \<not> separator c"
  by (auto simp: separator_def is_digit_def)

lemma format_timestamp_aux:
  "list_all is_digit s \<Longrightarrow> ja_format_timestamp s = Some out \<Longrightarrow>
   filter (\<lambda>c. \<not> separator c) out = s"
  using format_loop_filter [of s 0] digit_not_separator
  by (auto simp: ja_format_timestamp_def list_all_iff split: if_splits)

section \<open>Glob patterns\<close>

fun ja_match :: "string \<Rightarrow> string \<Rightarrow> bool" where
  "ja_match s [] \<longleftrightarrow> s = []"
| "ja_match s (c # p) \<longleftrightarrow>
     (if c = CHR ''*''
      then ja_match s p \<or> (case s of [] \<Rightarrow> False | _ # s' \<Rightarrow> ja_match s' (c # p))
      else if c = CHR ''?'' then (case s of [] \<Rightarrow> False | _ # s' \<Rightarrow> ja_match s' p)
      else (case s of [] \<Rightarrow> False | d # s' \<Rightarrow> c = d \<and> ja_match s' p))"

text \<open>What a pattern means: \<open>*\<close> any text, \<open>?\<close> one character, anything else itself.\<close>

inductive glob :: "string \<Rightarrow> string \<Rightarrow> bool" where
  glob_end: "glob [] []"
| glob_star: "glob p s \<Longrightarrow> glob (CHR ''*'' # p) (u @ s)"
| glob_any: "glob p s \<Longrightarrow> glob (CHR ''?'' # p) (x # s)"
| glob_lit: "glob p s \<Longrightarrow> c \<noteq> CHR ''*'' \<Longrightarrow> c \<noteq> CHR ''?'' \<Longrightarrow> glob (c # p) (c # s)"

inductive_simps glob_Nil: "glob [] s"
inductive_simps glob_star_iff: "glob (CHR ''*'' # p) s"
inductive_simps glob_any_iff: "glob (CHR ''?'' # p) s"

lemma glob_star_step: "glob (CHR ''*'' # p) s \<longleftrightarrow> glob p s \<or> (\<exists>x s'. s = x # s' \<and> glob (CHR ''*'' # p) s')"
proof
  assume "glob (CHR ''*'' # p) s"
  then obtain u t where s: "s = u @ t" "glob p t"
    by (auto simp: glob_star_iff)
  then show "glob p s \<or> (\<exists>x s'. s = x # s' \<and> glob (CHR ''*'' # p) s')"
    by (cases u) (auto intro: glob_star)
next
  assume "glob p s \<or> (\<exists>x s'. s = x # s' \<and> glob (CHR ''*'' # p) s')"
  then show "glob (CHR ''*'' # p) s"
    using glob_star [of p s "[]"] by (auto simp: glob_star_iff) (metis append_Cons)
qed

lemma glob_lit_iff:
  "c \<noteq> CHR ''*'' \<Longrightarrow> c \<noteq> CHR ''?'' \<Longrightarrow> glob (c # p) s \<longleftrightarrow> (\<exists>s'. s = c # s' \<and> glob p s')"
  by (auto elim: glob.cases intro: glob_lit)

lemma ja_match_star:
  "ja_match [] (CHR ''*'' # p) \<longleftrightarrow> ja_match [] p"
  "ja_match (x # s) (CHR ''*'' # p) \<longleftrightarrow> ja_match (x # s) p \<or> ja_match s (CHR ''*'' # p)"
  by (subst ja_match.simps, simp)+

lemma glob_star_cases:
  "glob (CHR ''*'' # p) [] \<longleftrightarrow> glob p []"
  "glob (CHR ''*'' # p) (x # s) \<longleftrightarrow> glob p (x # s) \<or> glob (CHR ''*'' # p) s"
  by (subst glob_star_step, simp)+

lemma ja_match_glob: "ja_match s p \<longleftrightarrow> glob p s"
proof (induction p arbitrary: s)
  case (Cons c p)
  consider "c = CHR ''*''" | "c = CHR ''?''" | "c \<noteq> CHR ''*''" "c \<noteq> CHR ''?''"
    by blast
  then show ?case
  proof cases
    case 1
    show ?thesis
      unfolding 1 by (induction s) (simp_all only: ja_match_star glob_star_cases Cons.IH)
  next
    case 2
    then show ?thesis
      by (cases s) (simp_all add: glob_any_iff Cons.IH)
  next
    case 3
    then show ?thesis
      by (cases s) (auto simp: glob_lit_iff Cons.IH)
  qed
qed (simp add: glob_Nil)

section \<open>Numbers and ranges\<close>

definition ja_check_number :: "string \<Rightarrow> rc" where
  "ja_check_number s = (if list_all is_digit s then SUCCEED else FAIL)"

text \<open>\<^verbatim>\<open>strtok\<close> run to the end: the non-empty pieces between delimiters.\<close>

function strtok :: "char \<Rightarrow> string \<Rightarrow> string list" where
  "strtok d [] = []"
| "strtok d (c # s) =
     (if c = d then strtok d s
      else (c # takeWhile (\<lambda>x. x \<noteq> d) s) # strtok d (dropWhile (\<lambda>x. x \<noteq> d) s))"
  by pat_completeness auto
termination
  by (relation "measure (\<lambda>(_, s). length s)") (auto simp: length_dropWhile_le le_imp_less_Suc)

definition NUMBER_REGEXP :: string where
  "NUMBER_REGEXP = ''^[-]{0,1}[0-9]+[.]{0,1}[0-9]*$''"

text \<open>The environment: \<^verbatim>\<open>zbx_regexp_match(string, pattern)\<close> and \<^verbatim>\<open>atof\<close>.\<close>

record libc =
  regexp :: "string \<Rightarrow> string \<Rightarrow> bool"
  atof :: "string \<Rightarrow> rat"

definition ja_is_number :: "libc \<Rightarrow> string \<Rightarrow> bool" where
  "ja_is_number L s = regexp L s NUMBER_REGEXP"

text \<open>A range is \<open>a\<close> or \<open>a-b\<close>; the minus sign is looked for from the second character on.\<close>

definition ja_number_comp :: "libc \<Rightarrow> rat \<Rightarrow> string \<Rightarrow> int" where
  "ja_number_comp L num rng =
     (let a = take 1 rng @ takeWhile (\<lambda>c. c \<noteq> CHR ''-'') (drop 1 rng);
          rest = dropWhile (\<lambda>c. c \<noteq> CHR ''-'') (drop 1 rng)
      in if \<not> ja_is_number L a then - 1
         else let s = atof L a in
           if rest = [] then (if num = s then 1 else 0)
           else let p = tl rest in
             if \<not> ja_is_number L p then - 1
             else let e = atof L p in
               if s > e then - 1 else if num \<ge> s \<and> num \<le> e then 1 else 0)"

fun match_ranges :: "libc \<Rightarrow> rat \<Rightarrow> int \<Rightarrow> string list \<Rightarrow> int" where
  "match_ranges L value rv [] = rv"
| "match_ranges L value rv (tp # ts) =
     (let r = ja_number_comp L value tp in if r \<noteq> 0 then r else match_ranges L value r ts)"

definition ja_number_match :: "libc \<Rightarrow> string \<Rightarrow> string \<Rightarrow> int" where
  "ja_number_match L string pattern =
     (if string = [] \<or> pattern = [] then 0
      else let str = filter (\<lambda>c. c \<noteq> CHR '' '') string;
               new_pattern = filter (\<lambda>c. c \<noteq> CHR '' '') pattern
        in if str = [] \<or> new_pattern = [] then 0
           else if \<not> ja_is_number L str then - 1
           else match_ranges L (atof L str) (- 1) (strtok (CHR '','') new_pattern))"

section \<open>Shell commands\<close>

definition expr_special :: "char \<Rightarrow> bool" where
  "expr_special c \<longleftrightarrow> c \<in> set ''+-*/%!=<>()|&:;[]'' \<or> c = CHR 0x60"

fun escape_expr :: "string \<Rightarrow> string" where
  "escape_expr [] = []"
| "escape_expr (c # s) = (if expr_special c then [BACKSLASH, c] else [c]) @ escape_expr s"

definition ja_format_expr :: "string \<Rightarrow> string" where
  "ja_format_expr input = ''expr '' @ escape_expr input"

fun date_loop :: "bool \<Rightarrow> string \<Rightarrow> string" where
  "date_loop flag [] = [CHR 0x22]"
| "date_loop flag (c # s) =
     (if \<not> flag \<and> c = CHR '';'' then [CHR 0x22, CHR '' '', CHR ''+'', CHR 0x22] @ date_loop True s
      else if c \<in> {CHR 0x22, CHR 0x60, QUOTE, CHR ''>'', CHR ''<'', CHR ''&'', BACKSLASH}
        then date_loop flag s
      else c # date_loop flag s)"

definition ja_format_date :: "string \<Rightarrow> string" where
  "ja_format_date input = ''date --date '' @ CHR 0x22 # date_loop False input"

definition ja_format_extjob :: "string \<Rightarrow> string" where
  "ja_format_extjob input =
     filter (\<lambda>c. c \<notin> {CHR '';'', CHR 0x60, CHR ''>'', CHR ''<'', CHR ''&'', CHR ''|''}) input"

end
