(* ===== verification/Jalog.thy ===== *)
theory Jalog
  imports Transactions Jastr
begin

text \<open>
  Naming an icon by its path (\<open>jalibs/jajobid.c\<close>), the message log (\<open>jalibs/jalog.c\<close>)
  and the execution log of jobnets and jobs (\<open>jalibs/jajoblog.c\<close>).  Logging is part of
  the state: \<open>ja_log\<close> adds the variable \<open>JOBARG_MESSAGE\<close> to the icon it reports on,
  queues a notification and starts the error commands.
\<close>

section \<open>Path names of icons (\<open>jajobid.c\<close>)\<close>

abbreviation (input) JA_MAX_DATA_LEN :: nat where "JA_MAX_DATA_LEN \<equiv> 4096"
abbreviation (input) JA_JOBNET_ID_LEN :: nat where "JA_JOBNET_ID_LEN \<equiv> 33"
abbreviation (input) JA_USER_NAME_LEN :: nat where "JA_USER_NAME_LEN \<equiv> 101"
abbreviation (input) JA_JOBNET_NAME_LEN :: nat where "JA_JOBNET_NAME_LEN \<equiv> 97"
abbreviation (input) JA_JOB_NAME_LEN :: nat where "JA_JOB_NAME_LEN \<equiv> 97"
abbreviation (input) JA_DATA_BUFFER_LEN :: nat where "JA_DATA_BUFFER_LEN \<equiv> 256"

definition select_job :: "uint64 \<Rightarrow> tables \<Rightarrow> run_job list" where
  "select_job i t = filter (\<lambda>r. rj_id r = i) (jobs t)"

definition select_jobnet :: "uint64 \<Rightarrow> tables \<Rightarrow> run_jobnet list" where
  "select_jobnet n t = filter (\<lambda>r. rn_id r = n) (jobnets t)"

definition select_summary :: "uint64 \<Rightarrow> tables \<Rightarrow> run_summary list" where
  "select_summary n t = filter (\<lambda>r. rs_id r = n) (summaries t)"

text \<open>
  The search loop: the path is built from the right end of the static buffer, whose free
  part has length \<open>idx\<close>.  Result: the path so far and the last \<open>inner_jobnet_main_id\<close>.
\<close>

function jobid_loop :: "nat \<Rightarrow> uint64 \<Rightarrow> uint64 \<Rightarrow> string \<Rightarrow> (string \<times> uint64) prog" where
  "jobid_loop idx w_inner_job_id main path = do {
     row \<leftarrow> DBselect_row (select_job w_inner_job_id);
     case row of
       None \<Rightarrow> ret (path, main)
     | Some r \<Rightarrow>
         if idx < length (rj_job_id r) + 1 then ret (path, rj_main r)
         else if rj_jobnet r = rj_main r then ret (CHR ''/'' # rj_job_id r @ path, rj_main r)
         else do {
           row2 \<leftarrow> DBselect_row (\<lambda>t. filter (\<lambda>l. in_link l = rj_jobnet r) (icon_jobnets (icons t)));
           case row2 of
             None \<Rightarrow> ret (CHR ''/'' # rj_job_id r @ path, rj_main r)
           | Some l \<Rightarrow> jobid_loop (idx - (length (rj_job_id r) + 1)) (in_job l) (rj_main r)
                        (CHR ''/'' # rj_job_id r @ path)
         }
   }"
  by pat_completeness auto
termination
  by (relation "measure (\<lambda>(idx, _). idx)") auto

definition ja_get_jobid :: "uint64 \<Rightarrow> string prog" where
  "ja_get_jobid inner_job_id =
     (if inner_job_id = 0 then ret []
      else do {
        (path, main) \<leftarrow> jobid_loop (JA_MAX_DATA_LEN - 1) inner_job_id 0 [];
        if main = 0 then ret path
        else do {
          row \<leftarrow> DBselect_row (select_jobnet main);
          let main_jobnet_id = (case row of None \<Rightarrow> [] | Some n \<Rightarrow> strlcpy JA_JOBNET_ID_LEN (rn_jobnet_id n));
          ret (if length main_jobnet_id + length path \<le> JA_MAX_DATA_LEN - 1
               then main_jobnet_id @ path else path)
        }
      })"

record icon_info =
  main_jobnet_id :: string
  execution_user_name :: string
  job_id :: string

definition ja_get_icon_info :: "uint64 \<Rightarrow> icon_info prog" where
  "ja_get_icon_info inner_job_id = do {
     row \<leftarrow> DBselect_row (\<lambda>t. [a. b \<leftarrow> select_job inner_job_id t, a \<leftarrow> select_jobnet (rj_main b) t]);
     path \<leftarrow> ja_get_jobid inner_job_id;
     ret (case row of
            None \<Rightarrow> \<lparr>main_jobnet_id = [], execution_user_name = [],
                     job_id = strlcpy (JA_MAX_DATA_LEN + 1) path\<rparr>
          | Some a \<Rightarrow> \<lparr>main_jobnet_id = strlcpy JA_JOBNET_ID_LEN (rn_jobnet_id a),
                       execution_user_name = strlcpy JA_USER_NAME_LEN (rn_exec_user a),
                       job_id = strlcpy (JA_MAX_DATA_LEN + 1) path\<rparr>)
   }"

declare jobid_loop.simps [simp del]

section \<open>The message file (\<open>jalog.c\<close>)\<close>

definition chop_last :: "char \<Rightarrow> string \<Rightarrow> string" where
  "chop_last c s = (if s \<noteq> [] \<and> last s = c then butlast s else s)"

definition lrtrim_spaces :: "string \<Rightarrow> string" where
  "lrtrim_spaces s = rev (dropWhile (\<lambda>c. c = CHR '' '') (rev (dropWhile (\<lambda>c. c = CHR '' '') s)))"

text \<open>Cut at the first comma: the part before it and, when there is one, the part behind it.\<close>

definition cut_comma :: "string \<Rightarrow> string \<times> string option" where
  "cut_comma s =
     (let rest = dropWhile (\<lambda>c. c \<noteq> CHR '','') s
      in (takeWhile (\<lambda>c. c \<noteq> CHR '','') s, if rest = [] then None else Some (tl rest)))"

text \<open>
  Name, type, send flag and text of a line.  The scan starts behind the first character
  (\<^verbatim>\<open>line[++n]\<close>), so a comma there belongs to the name.
\<close>

definition split_line :: "string \<Rightarrow> string \<times> string option \<times> string option \<times> string option" where
  "split_line line =
     (case line of
        [] \<Rightarrow> ([], None, None, None)
      | c # s \<Rightarrow>
          let (name, r1) = cut_comma s in
          (case r1 of
             None \<Rightarrow> (c # name, None, None, None)
           | Some s1 \<Rightarrow>
               let (type, r2) = cut_comma s1 in
               (case r2 of
                  None \<Rightarrow> (c # name, Some type, None, None)
                | Some s2 \<Rightarrow> let (send, r3) = cut_comma s2 in (c # name, Some type, Some send, r3))))"

fun find_message ::
    "string \<Rightarrow> string list \<Rightarrow> (string option \<times> string option \<times> string option) option" where
  "find_message message_id [] = None"
| "find_message message_id (l # ls) =
     (if l = [] \<or> hd l = CHR ''#'' \<or> hd l = LF \<or> hd l = CR then find_message message_id ls
      else let (name, type, send, msg) = split_line (chop_last CR (chop_last LF l))
           in if lrtrim_spaces name = message_id then Some (type, send, msg)
              else find_message message_id ls)"

datatype log_type = INFO | CRIT | ERR | WARN | DEBUG

definition log_type_of :: "int \<Rightarrow> log_type option" where
  "log_type_of n = (if n = 0 then Some INFO else if n = 1 then Some CRIT else if n = 2 then Some ERR
     else if n = 3 then Some WARN else if n = 4 then Some DEBUG else None)"

fun log_level :: "log_type \<Rightarrow> int" where
  "log_level INFO = 127" | "log_level CRIT = 1" | "log_level ERR = 2" | "log_level WARN = 3"
| "log_level DEBUG = 4"

fun type_code :: "log_type \<Rightarrow> int" where
  "type_code INFO = 0" | "type_code CRIT = 1" | "type_code ERR = 2" | "type_code WARN = 3"
| "type_code DEBUG = 4"

text \<open>The checked entry of a message: type, send flag and text; \<open>None\<close> is a \<open>FAIL\<close>.\<close>

definition message_entry :: "string \<Rightarrow> string list option \<Rightarrow> (log_type \<times> string \<times> int \<times> string) option" where
  "message_entry message_id file =
     (case file of
        None \<Rightarrow> None
      | Some ls \<Rightarrow>
          (case find_message message_id ls of
             Some (Some type, Some send, Some msg) \<Rightarrow>
               let ty = lrtrim_spaces type; sd = lrtrim_spaces send
               in if ty = [] \<or> sd = [] \<or> msg = [] then None
                  else (case log_type_of (atoi ty) of
                          None \<Rightarrow> None
                        | Some lt \<Rightarrow> if atoi sd = 0 \<or> atoi sd = 1 then Some (lt, ty, atoi sd, msg) else None)
           | _ \<Rightarrow> None))"

text \<open>\<^verbatim>\<open>zbx_dvsprintf\<close> for the conversions the messages use.\<close>

datatype parg = PS string | PI int | PU uint64

fun show_arg :: "parg \<Rightarrow> string" where
  "show_arg (PS s) = s"
| "show_arg (PI i) = show_int i"
| "show_arg (PU u) = show_u64 u"

definition is_conv :: "char \<Rightarrow> bool" where
  "is_conv c \<longleftrightarrow> c = CHR ''s'' \<or> c = CHR ''d'' \<or> c = CHR ''u''"

function vsprintf :: "string \<Rightarrow> parg list \<Rightarrow> string" where
  "vsprintf [] args = []"
| "vsprintf (c # s) args =
     (if c \<noteq> CHR ''%'' then c # vsprintf s args
      else case args of
        [] \<Rightarrow> vsprintf (tl (dropWhile (\<lambda>x. \<not> is_conv x) s)) []
      | a # as \<Rightarrow> show_arg a @ vsprintf (tl (dropWhile (\<lambda>x. \<not> is_conv x) s)) as)"
  by pat_completeness auto
termination
  by (relation "measure (\<lambda>(s, _). length s)")
    (auto intro!: le_imp_less_Suc intro: order_trans [OF diff_le_self length_dropWhile_le])

definition message_text :: "string \<Rightarrow> parg list \<Rightarrow> string" where
  "message_text fmt args =
     (let m = vsprintf fmt args in if length m > 4096 then take 4095 m else m)"

definition zabbix_log :: "int \<Rightarrow> string \<Rightarrow> unit prog" where
  "zabbix_log level text = modify (\<lambda>w. w\<lparr>logfile := logfile w @ [(level, text)]\<rparr>)"

section \<open>\<open>ja_log\<close>\<close>

definition ja_get_zbxsnd_on :: "int prog" where
  "ja_get_zbxsnd_on = do {
     row \<leftarrow> DBselect_row (\<lambda>t. filter (\<lambda>p. fst p = ''ZBXSND_ON'') (params t));
     ret (case row of
            None \<Rightarrow> 1
          | Some p \<Rightarrow> if length (snd p) \<noteq> 1 then 1
                      else let vl = atoi (snd p) in if vl = 0 \<or> vl = 1 then vl else 1)
   }"

text \<open>The host an icon works on, named directly or by a job controller variable.\<close>

definition host_rows :: "int \<Rightarrow> uint64 \<Rightarrow> tables \<Rightarrow> (int \<times> string option) list" where
  "host_rows job_type i t =
     (let pick = (\<lambda>hs. map (\<lambda>h. (ih_flag h, ih_name h)) (filter (\<lambda>h. ih_job h = i) hs))
      in if job_type = JA_JOB_TYPE_JOB then pick (icon_job_hosts (icons t))
         else if job_type = JA_JOB_TYPE_FCOPY then pick (icon_fcopy_hosts (icons t))
         else if job_type = JA_JOB_TYPE_FWAIT then pick (icon_fwait_hosts (icons t))
         else if job_type = JA_JOB_TYPE_REBOOT then pick (icon_reboot_hosts (icons t))
         else map (\<lambda>h. (il_flag h, il_name h)) (filter (\<lambda>h. il_job h = i) (icon_lesses (icons t))))"

definition value_rows :: "value_table \<Rightarrow> uint64 \<Rightarrow> string \<Rightarrow> tables \<Rightarrow> job_value list" where
  "value_rows v i name t = filter (\<lambda>r. v_job r = i \<and> v_name r = name) (job_values v t)"

definition log_host :: "int \<Rightarrow> uint64 \<Rightarrow> string prog" where
  "log_host job_type i =
     (if job_type \<notin> {JA_JOB_TYPE_JOB, JA_JOB_TYPE_FCOPY, JA_JOB_TYPE_FWAIT, JA_JOB_TYPE_REBOOT,
                      JA_JOB_TYPE_LESS}
      then ret []
      else do {
        row \<leftarrow> DBselect_row (host_rows job_type i);
        case row of
          Some (host_flag, Some name) \<Rightarrow>
            if host_flag = 0 then ret (strlcpy JA_DATA_BUFFER_LEN name)
            else do {
              row2 \<leftarrow> DBselect_row (value_rows Before i name);
              ret (case row2 of None \<Rightarrow> [] | Some v \<Rightarrow> strlcpy JA_DATA_BUFFER_LEN (v_value v))
            }
        | _ \<Rightarrow> ret []
      })"

text \<open>Job id, full path, job name and host of the icon (lines 341--433).\<close>

definition log_icon :: "uint64 \<Rightarrow> (string \<times> string \<times> string \<times> string) prog" where
  "log_icon inner_job_id =
     (if inner_job_id = 0 then ret (''none'', ''none'', [], [])
      else do {
        path \<leftarrow> ja_get_jobid inner_job_id;
        row \<leftarrow> DBselect_row (select_job inner_job_id);
        case row of
          None \<Rightarrow> ret (''none'', strlcpy JA_DATA_BUFFER_LEN path, [], [])
        | Some r \<Rightarrow> do {
            host \<leftarrow> log_host (rj_type r) inner_job_id;
            ret (strlcpy JA_DATA_BUFFER_LEN (rj_job_id r), strlcpy JA_DATA_BUFFER_LEN path,
                 strlcpy JA_JOB_NAME_LEN (case rj_name r of None \<Rightarrow> [] | Some n \<Rightarrow> n), host)
          }
      })"

definition jobnet_names :: "run_jobnet option \<Rightarrow> string \<times> string \<times> string" where
  "jobnet_names row = (case row of
       None \<Rightarrow> (''none'', ''none'', [])
     | Some n \<Rightarrow> (strlcpy JA_DATA_BUFFER_LEN (rn_jobnet_id n), strlcpy JA_DATA_BUFFER_LEN (rn_user n),
                  strlcpy JA_JOBNET_NAME_LEN (rn_name n)))"

text \<open>Main jobnet's inner id, jobnet id, user and jobnet name (lines 435--486).\<close>

definition log_jobnet ::
    "uint64 \<Rightarrow> string option \<Rightarrow> (uint64 \<times> string \<times> string \<times> string) prog" where
  "log_jobnet w_inner_jobnet_id jobnet_id =
     (if w_inner_jobnet_id \<noteq> 0 then do {
        row \<leftarrow> DBselect_row (select_jobnet w_inner_jobnet_id);
        case row of
          None \<Rightarrow> ret (0, ''none'', ''none'', [])
        | Some n \<Rightarrow>
            if rn_id n \<noteq> rn_main n then do {
              row2 \<leftarrow> DBselect_row (select_jobnet (rn_main n));
              ret (rn_main n, jobnet_names row2)
            } else ret (rn_main n, jobnet_names (Some n))
      } else case jobnet_id of
        None \<Rightarrow> ret (0, ''none'', ''none'', [])
      | Some j \<Rightarrow> do {
          row \<leftarrow> DBselect_row (\<lambda>t. filter (\<lambda>c. c_jobnet_id c = j \<and> c_valid c = 1) (controls t));
          ret (case row of
                 None \<Rightarrow> (0, ''none'', ''none'', [])
               | Some c \<Rightarrow> (0, strlcpy JA_DATA_BUFFER_LEN (c_jobnet_id c),
                            strlcpy JA_DATA_BUFFER_LEN (c_user c),
                            strlcpy JA_JOBNET_NAME_LEN (c_name c)))
        })"

definition date_text :: "int \<Rightarrow> string" where
  "date_text c =
     pad 4 (c div 10 ^ 13) @ ''/'' @ pad 2 (c div 10 ^ 11 mod 100) @ ''/'' @
     pad 2 (c div 10 ^ 9 mod 100) @ '' '' @ pad 2 (c div 10 ^ 7 mod 100) @ '':'' @
     pad 2 (c div 10 ^ 5 mod 100) @ '':'' @ pad 2 (c div 10 ^ 3 mod 100)"

definition quoted :: "string \<Rightarrow> string" where
  "quoted s = [QUOTE] @ s @ [QUOTE]"

text \<open>The error commands, run one after the other until one of them fails (lines 571--609).\<close>

fun run_error_cmds :: "string \<Rightarrow> string \<Rightarrow> (string \<times> int) list \<Rightarrow> rc prog" where
  "run_error_cmds path args [] = ret SUCCEED"
| "run_error_cmds path args ((name, status) # ds) =
     (if name \<noteq> [] \<and> hd name = CHR ''.'' then run_error_cmds path args ds
      else do {
        let cmd = strlcpy 4096 (path @ ''/'' @ name @ args);
        _ \<leftarrow> modify (\<lambda>w. w\<lparr>spawned := spawned w @ [cmd]\<rparr>);
        if status \<noteq> 0 then do {
          _ \<leftarrow> zabbix_log 2 (''failed to run the error notification application'');
          ret FAIL
        } else run_error_cmds path args ds
      })"

definition ja_log :: "string \<Rightarrow> uint64 \<Rightarrow> string option \<Rightarrow> uint64 \<Rightarrow> parg list \<Rightarrow> rc prog" where
  "ja_log message_id inner_jobnet_id jobnet_id inner_job_id args = do {
     entry \<leftarrow> gets (\<lambda>w. message_entry message_id (message_file w));
     case entry of
       None \<Rightarrow> do { _ \<leftarrow> zabbix_log 2 message_id; ret FAIL }
     | Some (ltype, type, send_flag, fmt) \<Rightarrow> do {
         let message = message_text fmt args;
         now \<leftarrow> gets clock;
         w_inner_jobnet_id \<leftarrow>
           (if inner_jobnet_id = 0 \<and> inner_job_id \<noteq> 0 then do {
              row \<leftarrow> DBselect_row (select_job inner_job_id);
              ret (case row of None \<Rightarrow> inner_jobnet_id | Some r \<Rightarrow> rj_jobnet r)
            } else ret inner_jobnet_id);
         (s_job_id, s_job_id_full, job_name, host_name) \<leftarrow> log_icon inner_job_id;
         (main, s_jobnet_id, s_user_name, jobnet_name) \<leftarrow> log_jobnet w_inner_jobnet_id jobnet_id;
         _ \<leftarrow> zabbix_log (log_level ltype) (''['' @ message_id @ ''] '' @ message);
         rc \<leftarrow> (if w_inner_jobnet_id = 0 \<or> inner_job_id = 0 \<or> ltype = INFO \<or> ltype = DEBUG then ret 1
                else DBexecute (Insert_value After inner_job_id w_inner_jobnet_id ''JOBARG_MESSAGE''
                  (''['' @ message_id @ ''] '' @ sql_text (DBdyn_escape_string False message))));
         if rc \<le> ZBX_DB_OK then do {
           _ \<leftarrow> zabbix_log 2 message_id;
           ret FAIL
         } else if send_flag = 0 then ret SUCCEED
         else do {
           zbxsnd \<leftarrow> ja_get_zbxsnd_on;
           if zbxsnd \<noteq> 1 then ret SUCCEED
           else do {
             rc \<leftarrow> DBexecute (Insert_send
               \<lparr>sd_no = 0, sd_date = now div 1000, sd_jobnet = w_inner_jobnet_id, sd_main = main,
                sd_status = 0, sd_type = type_code ltype,
                sd_user = sql_text (DBdyn_escape_string False s_user_name),
                sd_host = sql_text (DBdyn_escape_string False host_name),
                sd_jobnet_id = s_jobnet_id,
                sd_jobnet_name = sql_text (DBdyn_escape_string False jobnet_name),
                sd_job_id = s_job_id, sd_job_id_full = s_job_id_full,
                sd_job_name = sql_text (DBdyn_escape_string False job_name),
                sd_message_id = message_id,
                sd_message = sql_text (DBdyn_escape_string False message)\<rparr>);
             if rc \<le> ZBX_DB_OK then do {
               _ \<leftarrow> zabbix_log 2 message_id;
               ret FAIL
             } else do {
               dir \<leftarrow> gets error_cmds;
               case dir of
                 None \<Rightarrow> do { _ \<leftarrow> zabbix_log 2 (''failed to open the error notification directory''); ret FAIL }
               | Some (path, ds) \<Rightarrow> run_error_cmds path
                   (concat (map (\<lambda>s. '' '' @ quoted s)
                     [s_user_name, s_jobnet_id, date_text now, message_id, type,
                      message, host_name, s_job_id_full]) @ '' &'') ds
             }
           }
         }
       }
   }"

section \<open>\<open>ja_joblog\<close>\<close>

text \<open>Which of the three insert statements is used, or that the data for it are missing.\<close>

definition joblog_flag :: "string \<Rightarrow> uint64 \<Rightarrow> uint64 \<Rightarrow> uint64 \<Rightarrow> nat option prog" where
  "joblog_flag message_id inner_jobnet_id i_inner_jobnet_id inner_job_id =
     (if inner_job_id = 0 then ret (Some 0)
      else if message_id \<noteq> JC_JOB_END \<and> message_id \<noteq> JC_JOB_ERR_END then ret (Some 1)
      else do {
        row \<leftarrow> DBselect_row (select_job inner_job_id);
        case row of
          None \<Rightarrow> do {
            _ \<leftarrow> ja_log ''JAJOBLOG200005'' i_inner_jobnet_id None inner_job_id [PS (show_u64 inner_job_id)];
            ret None
          }
        | Some r \<Rightarrow>
            if rj_type r \<noteq> JA_JOB_TYPE_JOB \<and> rj_type r \<noteq> JA_JOB_TYPE_LESS then ret (Some 1)
            else do {
              flag \<leftarrow> (if rj_type r \<noteq> JA_JOB_TYPE_LESS then ret (Some 2)
                else do {
                  row \<leftarrow> DBselect_row (\<lambda>t. filter (\<lambda>l. il_job l = inner_job_id) (icon_lesses (icons t)));
                  case row of
                    None \<Rightarrow> do {
                      _ \<leftarrow> ja_log ''JAJOBLOG200007'' inner_jobnet_id None inner_job_id
                             [PS ''ja_run_icon_agentless_table'', PS (show_u64 inner_job_id)];
                      ret None
                    }
                  | Some l \<Rightarrow> ret (Some (if il_session_flag l = JA_SESSION_FLAG_CLOSE then 1 else 2))
                });
              if flag \<noteq> Some 2 then ret flag
              else do {
                row \<leftarrow> DBselect_row (\<lambda>t. [length (filter (\<lambda>v. v_job v = inner_job_id \<and>
                  (v_name v = ''JOB_EXIT_CD'' \<or> v_name v = ''STD_OUT'' \<or> v_name v = ''STD_ERR''))
                  (vals_after t))]);
                case row of
                  None \<Rightarrow> do {
                    _ \<leftarrow> ja_log ''JAJOBLOG200007'' inner_jobnet_id None inner_job_id
                           [PS ''ja_run_value_after_table'', PS (show_u64 inner_job_id)];
                    ret None
                  }
                | Some cnt \<Rightarrow> ret (Some (if cnt \<noteq> 3 then 1 else 2))
              }
            }
      })"

definition joblog_key :: "string \<Rightarrow> uint64 \<Rightarrow> uint64 \<Rightarrow> string" where
  "joblog_key message_id n i = ''message id['' @ message_id @ ''] inner jobnet id['' @ show_u64 n @
     ''] inner job id['' @ show_u64 i @ '']''"

definition ja_joblog :: "string \<Rightarrow> uint64 \<Rightarrow> uint64 \<Rightarrow> rc prog" where
  "ja_joblog message_id inner_jobnet_id inner_job_id =
     (if inner_jobnet_id = 0 \<and> inner_job_id = 0 then do {
        _ \<leftarrow> ja_log ''JAJOBLOG200006'' 0 None 0 [];
        ret FAIL
      } else do {
        found \<leftarrow> (if inner_jobnet_id = 0 then do {
                    row \<leftarrow> DBselect_row (select_job inner_job_id);
                    ret (map_option rj_jobnet row)
                  } else ret (Some inner_jobnet_id));
        case found of
          None \<Rightarrow> do {
            _ \<leftarrow> ja_log ''JAJOBLOG200007'' inner_jobnet_id None inner_job_id
                   [PS ''ja_run_job_table'', PS (show_u64 inner_job_id)];
            ret FAIL
          }
        | Some n \<Rightarrow> do {
            now_date \<leftarrow> gets clock;
            flag \<leftarrow> joblog_flag message_id inner_jobnet_id n inner_job_id;
            case flag of
              None \<Rightarrow> ret FAIL
            | Some sql_flag \<Rightarrow> do {
                deleted \<leftarrow> (if sql_flag = 0 \<and> message_id = JC_JOBNET_ERR_END
                            then DBexecute (Delete_log_message n message_id) else ret 0);
                if deleted < ZBX_DB_OK then do {
                  _ \<leftarrow> ja_log ''JAJOBLOG200009'' n None inner_job_id
                         [PS ''ja_run_log_table'', PS (joblog_key message_id n inner_job_id)];
                  ret FAIL
                } else do {
                  rc \<leftarrow> DBexecute (if sql_flag = 1 then Log_job now_date message_id inner_job_id n
                                  else if sql_flag = 2 then Log_job_end now_date message_id inner_job_id n
                                  else Log_jobnet now_date message_id n);
                  if rc \<le> ZBX_DB_OK then do {
                    _ \<leftarrow> ja_log ''JAJOBLOG200008'' n None inner_job_id
                           [PS ''ja_run_log_table'', PS (joblog_key message_id n inner_job_id)];
                    ret FAIL
                  } else ret SUCCEED
                }
              }
          }
      })"

section \<open>What logging keeps\<close>

text \<open>The statements a log entry about icon \<open>i\<close> issues.\<close>

fun log_sql :: "uint64 \<Rightarrow> sql \<Rightarrow> bool" where
  "log_sql i (Insert_value v j n name val) \<longleftrightarrow>
     v = After \<and> j = i \<and> i \<noteq> 0 \<and> name = ''JOBARG_MESSAGE''"
| "log_sql i (Insert_send r) \<longleftrightarrow> True"
| "log_sql i (Log_job d m j n) \<longleftrightarrow> True"
| "log_sql i (Log_job_end d m j n) \<longleftrightarrow> True"
| "log_sql i (Log_jobnet d m n) \<longleftrightarrow> True"
| "log_sql i (Delete_log_message n m) \<longleftrightarrow> True"
| "log_sql i s \<longleftrightarrow> False"

lemma log_sql_run: "log_sql i s \<Longrightarrow> run_sql s"
  by (cases s) (simp_all add: run_sql_def)

lemma log_sql_zero: "log_sql 0 s \<Longrightarrow> log_sql i s"
  by (cases s) simp_all

context sql_steps
begin

lemma steps_jobid_loop: "steps (jobid_loop idx i m p)"
  by (induction idx i m p rule: jobid_loop.induct)
    (subst jobid_loop.simps, intro db_intros; simp)

lemma steps_ja_get_jobid: "steps (ja_get_jobid i)"
  unfolding ja_get_jobid_def by (intro db_intros steps_jobid_loop)

lemma steps_ja_get_icon_info: "steps (ja_get_icon_info i)"
  unfolding ja_get_icon_info_def by (intro db_intros steps_ja_get_jobid)

lemma steps_zabbix_log: "steps (zabbix_log l s)"
  unfolding zabbix_log_def by (rule steps_logfile)

lemma steps_log_host: "steps (log_host ty i)"
  unfolding log_host_def by (intro db_intros)

lemma steps_log_icon: "steps (log_icon i)"
  unfolding log_icon_def by (intro db_intros steps_ja_get_jobid steps_log_host)

lemma steps_log_jobnet: "steps (log_jobnet n j)"
  unfolding log_jobnet_def by (intro db_intros)

lemma steps_run_error_cmds: "steps (run_error_cmds path args ds)"
proof (induction ds)
  case (Cons d ds)
  then show ?case
    by (cases d) (simp only: run_error_cmds.simps, intro db_intros steps_zabbix_log; simp)
qed (simp add: steps_return)

lemma steps_ja_log_if:
  assumes "\<And>s. log_sql i s \<Longrightarrow> ok s"
  shows "steps (ja_log m n j i args)"
  unfolding ja_log_def ja_get_zbxsnd_on_def
  by (intro db_intros steps_zabbix_log steps_log_icon steps_log_jobnet steps_run_error_cmds)
    (auto intro!: assms)

lemma steps_joblog_flag_if: "(\<And>s. log_sql i s \<Longrightarrow> ok s) \<Longrightarrow> steps (joblog_flag m n0 n i)"
  unfolding joblog_flag_def by (intro db_intros steps_ja_log_if)

lemma steps_ja_joblog_if:
  assumes "\<And>s. log_sql i s \<Longrightarrow> ok s"
  shows "steps (ja_joblog m n i)"
  unfolding ja_joblog_def
  by (intro db_intros steps_ja_log_if steps_joblog_flag_if) (auto intro!: assms dest: log_sql_zero)

end

context db_steps
begin

lemma steps_ja_log: "steps (ja_log m n j i args)"
  by (rule steps_ja_log_if) (rule log_sql_run)

lemma steps_ja_joblog: "steps (ja_joblog m n i)"
  by (rule steps_ja_joblog_if) (rule log_sql_run)

lemmas log_intros = db_intros steps_ja_get_jobid steps_ja_get_icon_info steps_zabbix_log
  steps_ja_log steps_ja_joblog

end

end
