(* ===== verification/Javalue.thy ===== *)
theory Javalue
  imports Jalog Utf8 "HOL-Library.Char_ord" "HOL-Library.List_Lexorder"
    "HOL-Library.Product_Lexorder"
begin

text \<open>
  Job controller variables (\<open>jalibs/javalue.c\<close>).  Every icon has two tables of them, the
  values before and after it ran; every jobnet has its own.  A variable is set by adding a
  row, so a table is a log whose newest row per name counts; the \<open>ja_clean_value_...\<close>
  functions remove the older ones.
\<close>

section \<open>Cleaning\<close>

text \<open>
  The loop over the rows ordered by name and descending sequence number: \<open>value_name\<close> is
  the 130-byte buffer with the name of the previous row, empty at the start.
\<close>

fun clean_loop :: "(nat \<Rightarrow> sql) \<Rightarrow> string \<Rightarrow> (nat \<times> string) list \<Rightarrow> rc prog" where
  "clean_loop del value_name [] = ret SUCCEED"
| "clean_loop del value_name ((seq_no, name) # rows) =
     (if name \<noteq> value_name then clean_loop del (strlcpy 130 name) rows
      else do {
        db_ret \<leftarrow> DBexecute (del seq_no);
        if db_ret < ZBX_DB_OK then ret FAIL else clean_loop del value_name rows
      })"

definition by_name_newest :: "(nat \<times> string) list \<Rightarrow> (nat \<times> string) list" where
  "by_name_newest rows = sort_key (\<lambda>(s, n). (n, - int s)) rows"

definition select_clean :: "value_table \<Rightarrow> uint64 \<Rightarrow> tables \<Rightarrow> (nat \<times> string) list" where
  "select_clean v i t =
     by_name_newest (map (\<lambda>r. (v_seq r, v_name r)) (filter (\<lambda>r. v_job r = i) (job_values v t)))"

definition select_clean_net :: "value_table \<Rightarrow> uint64 \<Rightarrow> tables \<Rightarrow> (nat \<times> string) list" where
  "select_clean_net v n t =
     by_name_newest (map (\<lambda>r. (w_seq r, w_name r)) (filter (\<lambda>r. w_jobnet r = n) (net_values v t)))"

definition ja_clean_value_before :: "uint64 \<Rightarrow> rc prog" where
  "ja_clean_value_before inner_job_id = do {
     rows \<leftarrow> DBselect (select_clean Before inner_job_id);
     clean_loop (Delete_value_seq Before) [] rows }"

definition ja_clean_value_after :: "uint64 \<Rightarrow> rc prog" where
  "ja_clean_value_after inner_job_id = do {
     rows \<leftarrow> DBselect (select_clean After inner_job_id);
     clean_loop (Delete_value_seq After) [] rows }"

definition ja_clean_value_jobnet_before :: "uint64 \<Rightarrow> rc prog" where
  "ja_clean_value_jobnet_before inner_jobnet_id = do {
     rows \<leftarrow> DBselect (select_clean_net Before inner_jobnet_id);
     clean_loop (Delete_net_value_seq Before) [] rows }"

definition ja_clean_value_jobnet_after :: "uint64 \<Rightarrow> rc prog" where
  "ja_clean_value_jobnet_after inner_jobnet_id = do {
     rows \<leftarrow> DBselect (select_clean_net After inner_jobnet_id);
     clean_loop (Delete_net_value_seq After) [] rows }"

section \<open>Setting, getting, removing\<close>

text \<open>A \<open>char *\<close> argument that may be \<^verbatim>\<open>NULL\<close> is an option.\<close>

definition or_empty :: "string option \<Rightarrow> string" where
  "or_empty s = (case s of None \<Rightarrow> [] | Some x \<Rightarrow> x)"

definition esc :: "string \<Rightarrow> string" where
  "esc s = DBdyn_escape_string False s"

definition ja_set_value_before :: "uint64 \<Rightarrow> uint64 \<Rightarrow> string \<Rightarrow> string option \<Rightarrow> rc prog" where
  "ja_set_value_before inner_job_id inner_jobnet_id value_name before_value =
     (if inner_job_id = 0 \<or> inner_jobnet_id = 0 then ret FAIL
      else do {
        db_ret \<leftarrow> DBexecute (Insert_value Before inner_job_id inner_jobnet_id
          (sql_text (esc value_name)) (sql_text (esc (or_empty before_value))));
        if db_ret < ZBX_DB_OK then do {
          _ \<leftarrow> ja_log ''JAVALUE300001'' inner_jobnet_id None inner_job_id
                 [PS ''ja_set_value_before'', PU inner_job_id, PU inner_jobnet_id];
          ret FAIL
        } else ret SUCCEED
      })"

definition ja_set_value_after :: "uint64 \<Rightarrow> uint64 \<Rightarrow> string \<Rightarrow> string option \<Rightarrow> rc prog" where
  "ja_set_value_after inner_job_id inner_jobnet_id value_name after_value =
     (if inner_job_id = 0 \<or> inner_jobnet_id = 0 then ret FAIL
      else do {
        let after_value_esc = (case after_value of None \<Rightarrow> esc []
                               | Some s \<Rightarrow> utf8_filter (esc s));
        db_ret \<leftarrow> DBexecute (Insert_value After inner_job_id inner_jobnet_id
          (sql_text (esc value_name)) (sql_text after_value_esc));
        if db_ret < ZBX_DB_OK then do {
          _ \<leftarrow> ja_log ''JAVALUE300001'' inner_jobnet_id None inner_job_id
                 [PS ''ja_set_value_after'', PU inner_job_id, PU inner_jobnet_id];
          ret FAIL
        } else ret SUCCEED
      })"

text \<open>The value, or \<open>None\<close> for \<open>FAIL\<close>; the caller's buffer is left alone then.\<close>

definition ja_get_value_before :: "uint64 \<Rightarrow> string \<Rightarrow> string option prog" where
  "ja_get_value_before inner_job_id value_name = do {
     row \<leftarrow> DBselect_row (value_rows Before inner_job_id (sql_text (esc value_name)));
     ret (map_option v_value row) }"

definition ja_get_value_after :: "uint64 \<Rightarrow> string \<Rightarrow> string option prog" where
  "ja_get_value_after inner_job_id value_name = do {
     row \<leftarrow> DBselect_row (value_rows After inner_job_id (sql_text (esc value_name)));
     ret (map_option v_value row) }"

definition ja_cpy_value :: "uint64 \<Rightarrow> string \<Rightarrow> string option prog" where
  "ja_cpy_value inner_job_id value_src =
     (if length value_src > 1 \<and> value_src ! 0 = CHR ''$'' \<and> value_src ! 1 \<noteq> CHR ''$''
      then ja_get_value_before inner_job_id (tl value_src)
      else if length value_src > 1 \<and> value_src ! 0 = CHR ''$'' \<and> value_src ! 1 = CHR ''$''
      then ret (Some (strlcpy (length value_src) (tl value_src)))
      else ret (Some (strlcpy (length value_src + 1) value_src)))"

definition ja_remove_value_before :: "uint64 \<Rightarrow> string \<Rightarrow> rc prog" where
  "ja_remove_value_before inner_job_id value_name = do {
     db_ret \<leftarrow> DBexecute (Delete_value_name Before inner_job_id (sql_text (esc value_name)));
     if ZBX_DB_OK > db_ret then ret FAIL else ret SUCCEED }"

definition ja_remove_value_after :: "uint64 \<Rightarrow> string \<Rightarrow> rc prog" where
  "ja_remove_value_after inner_job_id value_name = do {
     db_ret \<leftarrow> DBexecute (Delete_value_name After inner_job_id (sql_text (esc value_name)));
     if ZBX_DB_OK > db_ret then ret FAIL else ret SUCCEED }"

section \<open>Passing values on\<close>

definition ja_value_before_after :: "uint64 \<Rightarrow> rc prog" where
  "ja_value_before_after inner_job_id = do {
     db_ret \<leftarrow> DBexecute (Copy_before_after inner_job_id);
     if db_ret < ZBX_DB_OK then do {
       _ \<leftarrow> ja_log ''JAVALUE300003'' 0 None inner_job_id
              [PS ''ja_value_before_after'', PU inner_job_id];
       ret FAIL
     } else ret SUCCEED }"

definition ja_value_after_before :: "uint64 \<Rightarrow> uint64 \<Rightarrow> rc prog" where
  "ja_value_after_before inner_job_id next_inner_job_id = do {
     db_ret \<leftarrow> DBexecute (Copy_after_before inner_job_id next_inner_job_id);
     if db_ret < ZBX_DB_OK then do {
       _ \<leftarrow> ja_log ''JAVALUE300003'' 0 None inner_job_id
              [PS ''ja_value_after_before'', PU inner_job_id];
       ret FAIL
     } else ret SUCCEED }"

definition ja_set_value_jobnet_before :: "uint64 \<Rightarrow> string \<Rightarrow> string option \<Rightarrow> rc prog" where
  "ja_set_value_jobnet_before inner_jobnet_id value_name before_value =
     (if inner_jobnet_id = 0 then ret FAIL
      else do {
        db_ret \<leftarrow> DBexecute (Insert_net_value inner_jobnet_id (sql_text (esc value_name))
          (sql_text (esc (or_empty before_value))));
        if db_ret < ZBX_DB_OK then do {
          _ \<leftarrow> ja_log ''JAVALUE300004'' inner_jobnet_id None 0
                 [PS ''ja_set_value_jobnet_before'', PU inner_jobnet_id, PS value_name,
                  PS (or_empty before_value)];
          ret FAIL
        } else ret SUCCEED
      })"

definition ja_get_value_jobnet_before :: "uint64 \<Rightarrow> string \<Rightarrow> string option prog" where
  "ja_get_value_jobnet_before inner_jobnet_id value_name = do {
     row \<leftarrow> DBselect_row (\<lambda>t. filter (\<lambda>r. w_jobnet r = inner_jobnet_id \<and>
              w_name r = sql_text (esc value_name)) (nets_before t));
     ret (map_option w_value row) }"

definition ja_value_before_jobnet_in :: "uint64 \<Rightarrow> uint64 \<Rightarrow> rc prog" where
  "ja_value_before_jobnet_in inner_job_id inner_jobnet_id = do {
     db_ret \<leftarrow> DBexecute (Copy_job_to_net inner_job_id inner_jobnet_id);
     if db_ret < ZBX_DB_OK then do {
       _ \<leftarrow> ja_log ''JAVALUE300005'' inner_jobnet_id None inner_job_id
              [PS ''ja_value_before_jobnet_in'', PU inner_jobnet_id, PU inner_job_id];
       ret FAIL
     } else ret SUCCEED }"

definition ja_value_before_jobnet_out :: "uint64 \<Rightarrow> uint64 \<Rightarrow> rc prog" where
  "ja_value_before_jobnet_out inner_jobnet_id inner_job_id = do {
     db_ret \<leftarrow> DBexecute (Copy_net_to_job inner_jobnet_id inner_job_id);
     if db_ret < ZBX_DB_OK then do {
       _ \<leftarrow> ja_log ''JAVALUE300005'' inner_jobnet_id None inner_job_id
              [PS ''ja_value_before_jobnet_out'', PU inner_jobnet_id, PU inner_job_id];
       ret FAIL
     } else ret SUCCEED }"

definition ja_get_jobnet_summary_start :: "uint64 \<Rightarrow> string option prog" where
  "ja_get_jobnet_summary_start inner_jobnet_id = do {
     row \<leftarrow> DBselect_row (select_summary inner_jobnet_id);
     case row of
       Some r \<Rightarrow> ret (Some (strlcpy 16 (show_int (rs_start r))))
     | None \<Rightarrow> do {
         _ \<leftarrow> ja_log ''JAVALUE300002'' inner_jobnet_id None 0
                [PS ''ja_get_jobnet_summary_start'', PU inner_jobnet_id];
         ret None
       } }"

section \<open>Replacing variables in a text\<close>

text \<open>
  The C code keeps the first 128 bytes of a variable's name and its full length and looks
  for the name it has read, at most 128 bytes long, among those of equal length: that is
  equality of the full names.
\<close>

datatype replace_error = Overflow | Bad_name string | Long_name string | Value_overflow string
  | Unknown string

definition name_stop :: "char \<Rightarrow> bool" where
  "name_stop c \<longleftrightarrow> c = CHR ''$'' \<or> c = CR \<or> c = LF \<or> c = CHR ''}''"

definition drop_brace :: "string \<Rightarrow> string" where
  "drop_brace s = (if s \<noteq> [] \<and> hd s = CHR ''}'' then tl s else s)"

text \<open>
  One variable reference, \<open>s\<close> being the text behind the \<open>$\<close>: the value to insert and the
  text behind the reference.
\<close>

definition replace_one ::
    "(string \<times> string) list \<Rightarrow> nat \<Rightarrow> string \<Rightarrow> replace_error + string \<times> string" where
  "replace_one val dlen s =
     (let braced = (s \<noteq> [] \<and> hd s = CHR ''{'');
          vv = (if braced then tl s else s);
          name = takeWhile (\<lambda>c. \<not> name_stop c) vv;
          rest = dropWhile (\<lambda>c. \<not> name_stop c) vv;
          closed = (rest \<noteq> [] \<and> hd rest = CHR ''}'')
      in if name = [] then Inl (Bad_name (if braced then ''${}'' else ''$''))
         else if braced \<noteq> closed then Inl (Bad_name name)
         else if length name > 128 then Inl (Long_name name)
         else (case List.find (\<lambda>(n, _). n = name) val of
                 None \<Rightarrow> Inl (Unknown name)
               | Some (_, x) \<Rightarrow> if length x > dlen then Inl (Value_overflow name)
                               else Inr (x, drop_brace rest)))"

lemma replace_one_shorter: "replace_one val dlen s = Inr (x, rest) \<Longrightarrow> length rest < length s"
proof -
  assume a: "replace_one val dlen s = Inr (x, rest)"
  define vv where "vv = (if s \<noteq> [] \<and> hd s = CHR ''{'' then tl s else s)"
  define r where "r = dropWhile (\<lambda>c. \<not> name_stop c) vv"
  have n: "takeWhile (\<lambda>c. \<not> name_stop c) vv \<noteq> []" and rest: "rest = drop_brace r"
    using a by (auto simp: replace_one_def Let_def vv_def r_def split: if_splits option.splits)
  have "length vv = length (takeWhile (\<lambda>c. \<not> name_stop c) vv) + length r"
    unfolding r_def by (metis length_append takeWhile_dropWhile_id)
  with n have "length r < length vv"
    by simp
  moreover have "length rest \<le> length r" "length vv \<le> length s"
    by (auto simp: rest drop_brace_def vv_def)
  ultimately show ?thesis
    by simp
qed

text \<open>The copy loop; \<open>dlen\<close> is the room left in the destination.\<close>

function replace_loop ::
    "(string \<times> string) list \<Rightarrow> nat \<Rightarrow> string \<Rightarrow> replace_error + string" where
  "replace_loop val dlen [] = Inr []"
| "replace_loop val dlen (c # s) =
     (if c \<noteq> CHR ''$'' then
        (if dlen < 1 then Inl Overflow
         else map_sum id ((#) c) (replace_loop val (dlen - 1) s))
      else if s \<noteq> [] \<and> hd s = CHR ''$'' then
        (if dlen < 1 then Inl Overflow
         else map_sum id ((#) c) (replace_loop val (dlen - 1) (tl s)))
      else case replace_one val dlen s of
             Inl e \<Rightarrow> Inl e
           | Inr (x, rest) \<Rightarrow> map_sum id ((@) x) (replace_loop val (dlen - length x) rest))"
  by pat_completeness auto
termination
  by (relation "measure (\<lambda>(_, _, s). length s)")
    (auto dest: replace_one_shorter simp: less_Suc_eq_le)

fun replace_error_log :: "uint64 \<Rightarrow> replace_error \<Rightarrow> string \<times> parg list" where
  "replace_error_log i Overflow = (''JAVALUE200007'', [PU i])"
| "replace_error_log i (Bad_name n) = (''JAVALUE200008'', [PS n, PU i])"
| "replace_error_log i (Long_name n) = (''JAVALUE200009'', [PI 128, PI (int (length n)), PS n, PU i])"
| "replace_error_log i (Value_overflow n) = (''JAVALUE200005'', [PS n, PU i])"
| "replace_error_log i (Unknown n) = (''JAVALUE200006'', [PS n, PU i])"

definition ja_replace_variable :: "uint64 \<Rightarrow> string option \<Rightarrow> int \<Rightarrow> string option prog" where
  "ja_replace_variable inner_job_id value_src dest_len = (
     let err = (\<lambda>id args. do {
           _ \<leftarrow> ja_log id 0 None inner_job_id (PS ''ja_replace_variable'' # args);
           ret None })
     in case value_src of
       None \<Rightarrow> err ''JAVALUE200001'' [PU inner_job_id]
     | Some src \<Rightarrow>
         if dest_len < 1 then err ''JAVALUE200002'' [PI dest_len, PU inner_job_id]
         else do {
           row \<leftarrow> DBselect_row (\<lambda>t. [length (filter (\<lambda>r. v_job r = inner_job_id) (vals_before t))]);
           case row of
             None \<Rightarrow> err ''JAVALUE200003'' [PU inner_job_id]
           | Some count \<Rightarrow>
               if count = 0 then err ''JAVALUE200003'' [PU inner_job_id]
               else do {
                 rows \<leftarrow> DBselect (\<lambda>t. filter (\<lambda>r. v_job r = inner_job_id) (vals_before t));
                 if count < length rows then err ''JAVALUE200004'' [PU inner_job_id]
                 else case replace_loop (map (\<lambda>r. (v_name r, v_value r)) rows)
                             (nat dest_len - 1) src of
                     Inr out \<Rightarrow> ret (Some out)
                   | Inl e \<Rightarrow> err (fst (replace_error_log inner_job_id e))
                               (snd (replace_error_log inner_job_id e))
               }
         })"

section \<open>What the variables' operations keep\<close>

context db_steps
begin

lemma steps_clean_loop: "(\<And>s. run_sql (del s)) \<Longrightarrow> steps (clean_loop del nm rows)"
proof (induction rows arbitrary: nm)
  case (Cons r rows)
  then show ?case
    by (cases r) (simp only: clean_loop.simps, intro db_intros; simp)
qed (simp add: steps_return)

lemma steps_clean:
  "steps (ja_clean_value_before i)" "steps (ja_clean_value_after i)"
  "steps (ja_clean_value_jobnet_before n)" "steps (ja_clean_value_jobnet_after n)"
  unfolding ja_clean_value_before_def ja_clean_value_after_def ja_clean_value_jobnet_before_def
    ja_clean_value_jobnet_after_def
  by (intro db_intros steps_clean_loop; simp add: run_sql_def)+

lemma steps_ja_set_value:
  "steps (ja_set_value_before i n name x)" "steps (ja_set_value_after i n name x)"
  "steps (ja_set_value_jobnet_before n name x)"
  unfolding ja_set_value_before_def ja_set_value_after_def ja_set_value_jobnet_before_def
  by (intro log_intros; simp add: run_sql_def)+

lemma steps_ja_get_value:
  "steps (ja_get_value_before i name)" "steps (ja_get_value_after i name)"
  "steps (ja_get_value_jobnet_before n name)" "steps (ja_get_jobnet_summary_start n)"
  unfolding ja_get_value_before_def ja_get_value_after_def ja_get_value_jobnet_before_def
    ja_get_jobnet_summary_start_def
  by (intro log_intros)+

lemma steps_ja_cpy_value: "steps (ja_cpy_value i s)"
  unfolding ja_cpy_value_def by (intro log_intros steps_ja_get_value)

lemma steps_ja_remove_value:
  "steps (ja_remove_value_before i name)" "steps (ja_remove_value_after i name)"
  unfolding ja_remove_value_before_def ja_remove_value_after_def
  by (intro log_intros; simp add: run_sql_def)+

lemma steps_value_copies:
  "steps (ja_value_before_after i)" "steps (ja_value_after_before i j)"
  "steps (ja_value_before_jobnet_in i n)" "steps (ja_value_before_jobnet_out n i)"
  unfolding ja_value_before_after_def ja_value_after_before_def ja_value_before_jobnet_in_def
    ja_value_before_jobnet_out_def
  by (intro log_intros; simp add: run_sql_def)+

lemma steps_ja_replace_variable: "steps (ja_replace_variable i src n)"
  unfolding ja_replace_variable_def Let_def
  by (intro log_intros) (auto split: sum.split intro!: log_intros)

lemmas value_intros = log_intros steps_clean steps_ja_set_value steps_ja_get_value steps_ja_cpy_value
  steps_ja_remove_value steps_value_copies steps_ja_replace_variable

end

end
