(* ===== verification/Variables.thy ===== *)
theory Variables
  imports Javalue
begin

text \<open>
  What the variable tables mean: cleaning keeps exactly the newest row of every name, so
  that the single-row reads afterwards see the value that was set last; and what
  \<open>ja_replace_variable\<close> makes of a text.
\<close>

section \<open>Cleaning keeps the newest row of every name\<close>

fun dups :: "string \<Rightarrow> (nat \<times> string) list \<Rightarrow> nat list" where
  "dups nm [] = []"
| "dups nm ((s, n) # rs) = (if n \<noteq> nm then dups n rs else s # dups nm rs)"

lemma put_job_values_same [simp]: "put_job_values v (job_values v t) t = t"
  by (cases v) simp_all

lemma put_job_values_twice [simp]:
  "put_job_values v vs (put_job_values v us t) = put_job_values v vs t"
  by (cases v) simp_all

definition short_names :: "(nat \<times> string) list \<Rightarrow> bool" where
  "short_names rs \<longleftrightarrow> list_all (\<lambda>(s, n). length n < 130) rs"

lemma clean_loop_yields:
  "calm w \<Longrightarrow> short_names rs \<Longrightarrow>
   yields (clean_loop (Delete_value_seq v) nm rs) w SUCCEED (seq_next w)
     (put_job_values v (filter (\<lambda>r. v_seq r \<notin> set (dups nm rs)) (job_values v (db w))) (db w))"
proof (induction rs arbitrary: nm w)
  case Nil
  then show ?case
    by (simp add: yields_return)
next
  case (Cons r rs)
  obtain s n where r: "r = (s, n)"
    by (cases r)
  from Cons.prems r have n: "length n < 130" and rs: "short_names rs"
    by (auto simp: short_names_def)
  show ?case
  proof (cases "n = nm")
    case False
    with Cons.IH [OF Cons.prems(1) rs, of n] r n show ?thesis
      by simp
  next
    case True
    let ?t = "put_job_values v (del_where (\<lambda>r. v_seq r = s) (job_values v (db w))) (db w)"
    have "yields (DBexecute (Delete_value_seq v s)) w
        (int (count_where (\<lambda>r. v_seq r = s) (job_values v (db w)))) (seq_next w) ?t"
      by (rule yields_execute) (simp_all add: Cons.prems)
    then show ?thesis
      unfolding r True
    proof (simp, elim yields_bind)
      fix w'
      assume w': "reaches w (seq_next w) ?t w'"
      have "yields (clean_loop (Delete_value_seq v) nm rs) w' SUCCEED (seq_next w')
         (put_job_values v (filter (\<lambda>r. v_seq r \<notin> set (dups nm rs)) (job_values v (db w'))) (db w'))"
        by (rule Cons.IH) (use w' rs in \<open>auto simp: reaches_def\<close>)
      then show "yields
          (if int (count_where (\<lambda>r. v_seq r = s) (job_values v (db w))) < 0 then ret FAIL
           else clean_loop (Delete_value_seq v) nm rs) w' SUCCEED (seq_next w)
          (put_job_values v
            (filter (\<lambda>r. v_seq r \<noteq> s \<and> v_seq r \<notin> set (dups nm rs)) (job_values v (db w))) (db w))"
        using w' by (simp add: reaches_def del_where_def conj_commute)
    qed
  qed
qed

definition row_key :: "nat \<times> string \<Rightarrow> string \<times> int" where
  "row_key = (\<lambda>(s, n). (n, - int s))"

lemma dups_subset: "set (dups nm rs) \<subseteq> fst ` set rs"
  by (induction nm rs rule: dups.induct) auto

lemma dups_sorted:
  "sorted (map row_key rs) \<Longrightarrow> distinct (map fst rs) \<Longrightarrow> list_all (\<lambda>(s, n). nm \<le> n) rs \<Longrightarrow>
   (s, n) \<in> set rs \<Longrightarrow>
   s \<in> set (dups nm rs) \<longleftrightarrow> n = nm \<or> (\<exists>s'. (s', n) \<in> set rs \<and> s < s')"
proof (induction rs arbitrary: nm)
  case (Cons r rs)
  obtain a b where r: "r = (a, b)"
    by (cases r)
  from Cons.prems r have srt: "sorted (map row_key rs)" and dst: "distinct (map fst rs)"
    and nm: "nm \<le> b" "list_all (\<lambda>(s, n). nm \<le> n) rs" and a: "a \<notin> fst ` set rs"
    and le: "\<And>s' n'. (s', n') \<in> set rs \<Longrightarrow> b < n' \<or> b = n' \<and> s' \<le> a"
    by (auto simp: row_key_def)
  have b_le: "list_all (\<lambda>(s, n). b \<le> n) rs"
    using le by (fastforce simp: list_all_iff intro: less_imp_le)
  have lt: "s' < a" if "(s', b) \<in> set rs" for s'
    using le [OF that] a that by (metis (no_types, lifting) fst_conv image_eqI le_neq_implies_less less_irrefl)
  show ?case
  proof (cases "(s, n) = (a, b)")
    case True
    have "a \<notin> set (dups x rs)" for x
      using dups_subset [of x rs] a by blast
    moreover have "\<not> (\<exists>s'. (s', b) \<in> set rs \<and> a < s')"
      using lt by (meson less_asym)
    ultimately show ?thesis
      using True r by auto
  next
    case False
    with Cons.prems(4) r have sn: "(s, n) \<in> set rs"
      by auto
    with a have sa: "s \<noteq> a"
      by (metis fst_conv image_eqI)
    show ?thesis
    proof (cases "b = nm")
      case True
      with Cons.IH [OF srt dst _ sn, of nm] nm(2) sa lt sn r show ?thesis
        by auto
    next
      case bn: False
      have "s \<in> set (dups b rs) \<longleftrightarrow> n = b \<or> (\<exists>s'. (s', n) \<in> set rs \<and> s < s')"
        by (rule Cons.IH [OF srt dst b_le sn])
      moreover have "n \<noteq> nm"
        using le [OF sn] nm(1) bn by auto
      moreover have "n = b \<Longrightarrow> s < a"
        using lt sn by simp
      ultimately show ?thesis
        using bn r sa by auto
    qed
  qed
qed simp

definition newest :: "value_table \<Rightarrow> uint64 \<Rightarrow> tables \<Rightarrow> job_value \<Rightarrow> bool" where
  "newest v i t r \<longleftrightarrow> v_name r \<noteq> [] \<and>
     (\<forall>r' \<in> set (job_values v t). v_job r' = i \<and> v_name r' = v_name r \<longrightarrow> v_seq r' \<le> v_seq r)"

definition cleaned :: "value_table \<Rightarrow> uint64 \<Rightarrow> tables \<Rightarrow> tables" where
  "cleaned v i t = put_job_values v
     (filter (\<lambda>r. v_job r \<noteq> i \<or> newest v i t r) (job_values v t)) t"

lemma select_clean_set:
  "set (select_clean v i t) =
     {(v_seq r, v_name r) | r. r \<in> set (job_values v t) \<and> v_job r = i}"
  by (auto simp: select_clean_def by_name_newest_def)

lemma distinct_map_sort_key: "distinct (map f (sort_key k xs)) \<longleftrightarrow> distinct (map f xs)"
  by (metis distinct_map distinct_sort set_sort)

lemma select_clean_distinct: "seqs_ok q t \<Longrightarrow> distinct (map fst (select_clean v i t))"
proof -
  assume "seqs_ok q t"
  then have "distinct (map v_seq (filter (\<lambda>r. v_job r = i) (job_values v t)))"
    by (simp add: seqs_okD distinct_map_filter)
  then have "distinct (map fst (map (\<lambda>r. (v_seq r, v_name r))
      (filter (\<lambda>r. v_job r = i) (job_values v t))))"
    by (simp add: comp_def)
  then show ?thesis
    unfolding select_clean_def by_name_newest_def by (simp only: distinct_map_sort_key)
qed

lemma select_clean_sorted: "sorted (map row_key (select_clean v i t))"
  using sorted_sort_key [of row_key] by (simp add: select_clean_def by_name_newest_def row_key_def)

lemma clean_keeps:
  assumes "seqs_ok q t" "r \<in> set (job_values v t)"
  shows "v_seq r \<notin> set (dups [] (select_clean v i t)) \<longleftrightarrow> v_job r \<noteq> i \<or> newest v i t r"
proof (cases "v_job r = i")
  case True
  have "(v_seq r, v_name r) \<in> set (select_clean v i t)"
    using assms(2) True by (auto simp: select_clean_set)
  then have "v_seq r \<in> set (dups [] (select_clean v i t)) \<longleftrightarrow> v_name r = [] \<or>
      (\<exists>s'. (s', v_name r) \<in> set (select_clean v i t) \<and> v_seq r < s')"
    by (intro dups_sorted select_clean_sorted select_clean_distinct [OF assms(1)])
      (simp add: list_all_iff)
  also have "\<dots> \<longleftrightarrow> \<not> newest v i t r"
    by (force simp: newest_def select_clean_set not_le)
  finally show ?thesis
    using True by simp
next
  case False
  have "v_seq r \<notin> fst ` set (select_clean v i t)"
  proof
    assume "v_seq r \<in> fst ` set (select_clean v i t)"
    then obtain r' where "r' \<in> set (job_values v t)" "v_job r' = i" "v_seq r' = v_seq r"
      by (auto simp: select_clean_set)
    with seqs_okD(1) [OF assms(1), of v] assms(2) False show False
      by (metis distinct_map inj_onD)
  qed
  then show ?thesis
    using dups_subset [of "[]" "select_clean v i t"] False by auto
qed

lemma clean_yields:
  assumes "calm w" "seqs_ok q (db w)"
    and "\<And>r. r \<in> set (job_values v (db w)) \<Longrightarrow> v_job r = i \<Longrightarrow> length (v_name r) < 130"
  shows "yields (do { rows \<leftarrow> DBselect (select_clean v i); clean_loop (Delete_value_seq v) [] rows })
    w SUCCEED (seq_next w) (cleaned v i (db w))"
proof (rule yields_bind [OF yields_select])
  fix w'
  assume w': "reaches w (seq_next w) (db w) w'"
  have "short_names (select_clean v i (db w))"
    using assms(3) by (auto simp: short_names_def list_all_iff select_clean_set)
  then have "yields (clean_loop (Delete_value_seq v) [] (select_clean v i (db w))) w' SUCCEED
      (seq_next w') (put_job_values v (filter (\<lambda>r. v_seq r \<notin> set (dups [] (select_clean v i (db w))))
        (job_values v (db w'))) (db w'))"
    using w' by (intro clean_loop_yields) (auto simp: reaches_def)
  then show "yields (clean_loop (Delete_value_seq v) [] (select_clean v i (db w))) w' SUCCEED
      (seq_next w) (cleaned v i (db w))"
    using w' clean_keeps [OF assms(2), of _ v i]
    by (simp add: reaches_def cleaned_def cong: filter_cong)
qed (use assms in auto)

section \<open>The variables of an icon as a map\<close>

text \<open>
  A log of settings read as a map: the value of a name is the one set last.  The contract is
  stated for any such store; icons have two of them, the values before and after.
\<close>

locale var_store =
  fixes ok :: "'s \<Rightarrow> bool"
    and known :: "'k \<Rightarrow> 's \<Rightarrow> bool"
    and env :: "'k \<Rightarrow> 's \<Rightarrow> string \<Rightarrow> string option"
    and put :: "'k \<Rightarrow> string \<Rightarrow> string \<Rightarrow> 's \<Rightarrow> 's"
    and clean :: "'k \<Rightarrow> 's \<Rightarrow> 's"
    and get :: "'k \<Rightarrow> string \<Rightarrow> 's \<Rightarrow> string option"
  assumes put_ok: "ok s \<Longrightarrow> known k s \<Longrightarrow> ok (put k n x s) \<and> known k (put k n x s)"
    and put_env: "ok s \<Longrightarrow> known k s \<Longrightarrow> env k (put k n x s) = (env k s)(n \<mapsto> x)"
    and get_clean: "ok s \<Longrightarrow> n \<noteq> [] \<Longrightarrow> get k n (clean k s) = env k s n"
begin

definition puts :: "'k \<Rightarrow> (string \<times> string) list \<Rightarrow> 's \<Rightarrow> 's" where
  "puts k nxs s = fold (\<lambda>(n, x). put k n x) nxs s"

lemma puts_ok: "ok s \<Longrightarrow> known k s \<Longrightarrow> ok (puts k nxs s) \<and> known k (puts k nxs s)"
  by (induction nxs arbitrary: s) (auto simp: puts_def put_ok)

lemma puts_env:
  "ok s \<Longrightarrow> known k s \<Longrightarrow> env k (puts k nxs s) = env k s ++ map_of (rev nxs)"
proof (induction nxs arbitrary: s)
  case (Cons p nxs)
  then show ?case
    by (cases p) (auto simp: puts_def put_ok put_env fun_eq_iff map_add_def split: option.split)
qed (simp add: puts_def)

text \<open>A name that is set in a sequence of settings reads back as the last of them.\<close>

lemma last_put_wins:
  "ok s \<Longrightarrow> known k s \<Longrightarrow> n \<noteq> [] \<Longrightarrow> map_of (rev nxs) n = Some x \<Longrightarrow>
   get k n (clean k (puts k nxs s)) = Some x"
  by (simp add: get_clean puts_ok puts_env map_add_def)

lemma unset_name_unchanged:
  "ok s \<Longrightarrow> known k s \<Longrightarrow> n \<noteq> [] \<Longrightarrow> n \<notin> fst ` set nxs \<Longrightarrow>
   get k n (clean k (puts k nxs s)) = env k s n"
  by (simp add: get_clean puts_ok puts_env map_add_dom_app_simps(3) dom_map_of_conv_image_fst)

end

definition rows_named :: "value_table \<Rightarrow> uint64 \<Rightarrow> string \<Rightarrow> tables \<Rightarrow> job_value list" where
  "rows_named v i n t = filter (\<lambda>r. v_job r = i \<and> v_name r = n) (job_values v t)"

definition value_env :: "value_table \<Rightarrow> uint64 \<Rightarrow> tables \<Rightarrow> string \<Rightarrow> string option" where
  "value_env v i t n =
     (case filter (\<lambda>r. \<forall>r' \<in> set (rows_named v i n t). v_seq r' \<le> v_seq r) (rows_named v i n t) of
        [] \<Rightarrow> None | r # _ \<Rightarrow> Some (v_value r))"

definition store_ok :: "nat \<times> tables \<Rightarrow> bool" where
  "store_ok s \<longleftrightarrow> seqs_ok (fst s) (snd s)"

definition store_known :: "uint64 \<Rightarrow> nat \<times> tables \<Rightarrow> bool" where
  "store_known i s \<longleftrightarrow> job_of i (snd s) \<noteq> None"

definition store_put ::
    "value_table \<Rightarrow> uint64 \<Rightarrow> uint64 \<Rightarrow> string \<Rightarrow> string \<Rightarrow> nat \<times> tables \<Rightarrow> nat \<times> tables" where
  "store_put v n i name x s =
     (case exec_sql (Insert_value v i n name x) (fst s) (snd s) of
        None \<Rightarrow> s | Some (_, q, t) \<Rightarrow> (q, t))"

definition store_get :: "value_table \<Rightarrow> uint64 \<Rightarrow> string \<Rightarrow> nat \<times> tables \<Rightarrow> string option" where
  "store_get v i n s =
     (case rows_named v i n (snd s) of [] \<Rightarrow> None | r # _ \<Rightarrow> Some (v_value r))"

definition store_clean :: "value_table \<Rightarrow> uint64 \<Rightarrow> nat \<times> tables \<Rightarrow> nat \<times> tables" where
  "store_clean v i s = (fst s, cleaned v i (snd s))"

lemma store_put_known:
  "store_known i s \<Longrightarrow> store_put v n i name x s =
     (fst s + 1, put_job_values v (job_values v (snd s) @
        [\<lparr>v_job = i, v_jobnet = n, v_name = name, v_value = x, v_seq = fst s\<rparr>]) (snd s))"
  by (simp add: store_put_def store_known_def insert_values_def number_values_def)

lemma filter_empty_unless: "(\<And>r. r \<in> set rs \<Longrightarrow> \<not> p r) \<Longrightarrow> filter p rs = []"
  by simp

lemma value_env_put:
  assumes "store_ok s" "store_known i s"
  shows "value_env v i (snd (store_put v n i name x s)) = (value_env v i (snd s))(name \<mapsto> x)"
proof (rule ext)
  fix m
  let ?new = "\<lparr>v_job = i, v_jobnet = n, v_name = name, v_value = x, v_seq = fst s\<rparr>"
  have less: "v_seq r < fst s" if "r \<in> set (job_values v (snd s))" for r
    using seqs_okD(2) assms(1) that by (auto simp: store_ok_def)
  show "value_env v i (snd (store_put v n i name x s)) m = ((value_env v i (snd s))(name \<mapsto> x)) m"
  proof (cases "m = name")
    case False
    then show ?thesis
      by (simp add: value_env_def rows_named_def store_put_known [OF assms(2)])
  next
    case True
    have "filter (\<lambda>r. \<forall>r' \<in> set (rows_named v i name (snd s) @ [?new]). v_seq r' \<le> v_seq r)
        (rows_named v i name (snd s)) = []"
      by (rule filter_empty_unless) (use less in \<open>auto simp: rows_named_def not_le\<close>)
    moreover have "rows_named v i name (snd (store_put v n i name x s)) =
        rows_named v i name (snd s) @ [?new]"
      by (simp add: rows_named_def store_put_known [OF assms(2)])
    moreover have "\<forall>r' \<in> set (rows_named v i name (snd s) @ [?new]). v_seq r' \<le> v_seq ?new"
      using less by (auto simp: rows_named_def less_imp_le)
    ultimately show ?thesis
      using True by (simp add: value_env_def)
  qed
qed

lemma rows_named_cleaned:
  "n \<noteq> [] \<Longrightarrow> rows_named v i n (cleaned v i t) =
     filter (\<lambda>r. \<forall>r' \<in> set (rows_named v i n t). v_seq r' \<le> v_seq r) (rows_named v i n t)"
  by (auto simp: rows_named_def cleaned_def newest_def intro!: filter_cong)

lemma store_get_clean: "n \<noteq> [] \<Longrightarrow> store_get v i n (store_clean v i s) = value_env v i (snd s) n"
  by (simp add: store_get_def store_clean_def rows_named_cleaned value_env_def)

lemma store_put_ok:
  "store_ok s \<Longrightarrow> store_known i s \<Longrightarrow>
   store_ok (store_put v n i name x s) \<and> store_known i (store_put v n i name x s)"
  using insert_values_seqs [of v "[\<lparr>v_job = i, v_jobnet = n, v_name = name, v_value = x, v_seq = 0\<rparr>]"
      "fst s" "snd s"]
  by (auto simp: store_ok_def store_known_def store_put_def insert_values_def)

interpretation before: var_store store_ok store_known "\<lambda>i s. value_env Before i (snd s)"
    "store_put Before n" "store_clean Before" "store_get Before" for n
  by unfold_locales (auto simp: store_put_ok value_env_put store_get_clean)

interpretation after: var_store store_ok store_known "\<lambda>i s. value_env After i (snd s)"
    "store_put After n" "store_clean After" "store_get After" for n
  by unfold_locales (auto simp: store_put_ok value_env_put store_get_clean)

section \<open>The C functions on the store\<close>

lemma esc_text [simp]: "sql_text (esc s) = no_cr s"
  by (simp add: esc_def)

lemma set_value_before_yields:
  assumes "calm w" "store_known i (seq_next w, db w)" "i \<noteq> 0" "n \<noteq> 0"
  shows "yields (ja_set_value_before i n name x) w SUCCEED
    (fst (store_put Before n i (no_cr name) (no_cr (or_empty x)) (seq_next w, db w)))
    (snd (store_put Before n i (no_cr name) (no_cr (or_empty x)) (seq_next w, db w)))"
proof -
  obtain m q t where e: "exec_sql (Insert_value Before i n (no_cr name) (no_cr (or_empty x)))
      (seq_next w) (db w) = Some (m, q, t)"
    using assms(2) by (auto simp: store_known_def insert_values_def)
  then have "yields (DBexecute (Insert_value Before i n (no_cr name) (no_cr (or_empty x)))) w (int m) q t"
    using assms(1) by (rule yields_execute [rotated])
  then have "yields (ja_set_value_before i n name x) w SUCCEED q t"
    unfolding ja_set_value_before_def using assms(3,4)
    by (simp, elim yields_bind) (simp add: reaches_def yields_return)
  with e show ?thesis
    by (simp add: store_put_def)
qed

lemma set_value_after_yields:
  assumes "calm w" "store_known i (seq_next w, db w)" "i \<noteq> 0" "n \<noteq> 0"
  shows "yields (ja_set_value_after i n name (Some x)) w SUCCEED
    (fst (store_put After n i (no_cr name) (utf8_filter (no_cr x)) (seq_next w, db w)))
    (snd (store_put After n i (no_cr name) (utf8_filter (no_cr x)) (seq_next w, db w)))"
proof -
  have f: "sql_text (utf8_filter (esc x)) = utf8_filter (no_cr x)"
    by (simp add: esc_def sql_text_filter)
  obtain m q t where e: "exec_sql (Insert_value After i n (no_cr name) (utf8_filter (no_cr x)))
      (seq_next w) (db w) = Some (m, q, t)"
    using assms(2) by (auto simp: store_known_def insert_values_def)
  then have "yields (DBexecute (Insert_value After i n (no_cr name) (utf8_filter (no_cr x)))) w (int m) q t"
    using assms(1) by (rule yields_execute [rotated])
  then have "yields (ja_set_value_after i n name (Some x)) w SUCCEED q t"
    unfolding ja_set_value_after_def using assms(3,4)
    by (simp add: f, elim yields_bind) (simp add: reaches_def yields_return)
  with e show ?thesis
    by (simp add: store_put_def)
qed

lemma get_value_yields:
  "calm w \<Longrightarrow> yields (ja_get_value_before i name) w (store_get Before i (no_cr name) (seq_next w, db w))
     (seq_next w) (db w)"
  "calm w \<Longrightarrow> yields (ja_get_value_after i name) w (store_get After i (no_cr name) (seq_next w, db w))
     (seq_next w) (db w)"
  unfolding ja_get_value_before_def ja_get_value_after_def
  by (rule yields_bind [OF yields_select_row],
      auto simp: store_get_def rows_named_def value_rows_def reaches_def split: list.split
      intro!: yields_return)+

lemma clean_value_yields:
  assumes "calm w" "seqs_ok q (db w)"
    and "\<And>r. r \<in> set (job_values v (db w)) \<Longrightarrow> v_job r = i \<Longrightarrow> length (v_name r) < 130"
  shows "v = Before \<Longrightarrow> yields (ja_clean_value_before i) w SUCCEED (seq_next w) (cleaned v i (db w))"
    and "v = After \<Longrightarrow> yields (ja_clean_value_after i) w SUCCEED (seq_next w) (cleaned v i (db w))"
proof -
  have "yields (do { rows \<leftarrow> DBselect (select_clean v i); clean_loop (Delete_value_seq v) [] rows })
      w SUCCEED (seq_next w) (cleaned v i (db w))"
    by (rule clean_yields [OF assms(1,2)]) (rule assms(3))
  then show "v = Before \<Longrightarrow> yields (ja_clean_value_before i) w SUCCEED (seq_next w) (cleaned v i (db w))"
    and "v = After \<Longrightarrow> yields (ja_clean_value_after i) w SUCCEED (seq_next w) (cleaned v i (db w))"
    by (simp_all add: ja_clean_value_before_def ja_clean_value_after_def)
qed

section \<open>Replacing variables\<close>

lemma replace_one_bound: "replace_one val d s = Inr (x, rest) \<Longrightarrow> length x \<le> d"
  by (auto simp: replace_one_def Let_def split: if_splits option.splits)

text \<open>Whatever the text and the variables are, the result fits the destination.\<close>

lemma replace_loop_bound: "replace_loop val d s = Inr out \<Longrightarrow> length out \<le> d"
proof (induction val d s arbitrary: out rule: replace_loop.induct)
  case (2 val d c s)
  show ?case
  proof (cases "replace_one val d s")
    case (Inl e)
    with "2.prems" "2.IH"(1,2) show ?thesis
      by (fastforce split: if_splits sum.splits simp: map_sum_def)
  next
    case (Inr p)
    obtain x rest where p: "p = (x, rest)"
      by (cases p)
    with "2.prems" "2.IH" Inr replace_one_bound [of val d s x rest] show ?thesis
      by (fastforce split: if_splits sum.splits simp: map_sum_def)
  qed
qed simp

text \<open>A template: literal text, in which every dollar sign is doubled, and variables.\<close>

datatype segment = Text string | Var string

fun dollars :: "string \<Rightarrow> string" where
  "dollars [] = []"
| "dollars (c # s) = (if c = CHR ''$'' then ''$$'' else [c]) @ dollars s"

fun written :: "segment \<Rightarrow> string" where
  "written (Text s) = dollars s"
| "written (Var n) = ''${'' @ n @ ''}''"

definition lookup :: "(string \<times> string) list \<Rightarrow> string \<Rightarrow> string option" where
  "lookup val n = map_of val n"

fun meant :: "(string \<times> string) list \<Rightarrow> segment \<Rightarrow> string" where
  "meant val (Text s) = s"
| "meant val (Var n) = (case map_of val n of None \<Rightarrow> [] | Some x \<Rightarrow> x)"

fun legal :: "(string \<times> string) list \<Rightarrow> segment \<Rightarrow> bool" where
  "legal val (Text s) \<longleftrightarrow> True"
| "legal val (Var n) \<longleftrightarrow> n \<noteq> [] \<and> length n \<le> 128 \<and> (\<forall>c \<in> set n. \<not> name_stop c) \<and>
     map_of val n \<noteq> None"

lemma find_map_of: "List.find (\<lambda>(m, _). m = n) val = map_option (Pair n) (map_of val n)"
  by (induction val) auto

lemma replace_loop_text:
  "length s \<le> d \<Longrightarrow> replace_loop val d (dollars s @ rest) =
     map_sum id ((@) s) (replace_loop val (d - length s) rest)"
proof (induction s arbitrary: d)
  case Nil
  then show ?case
    by (cases "replace_loop val d rest") auto
next
  case (Cons c s)
  then have "length s \<le> d - 1" "1 \<le> d"
    by auto
  with Cons.IH [of "d - 1"] show ?case
    by (cases "replace_loop val (d - Suc (length s)) rest") auto
qed

lemma replace_one_var:
  assumes "legal val (Var n)" "length (meant val (Var n)) \<le> d"
  shows "replace_one val d (CHR ''{'' # n @ CHR ''}'' # rest) = Inr (meant val (Var n), rest)"
proof -
  have stop: "name_stop (CHR ''}'')"
    by (simp add: name_stop_def)
  have tw: "takeWhile (\<lambda>c. \<not> name_stop c) (n @ CHR ''}'' # rest) = n"
    and dw: "dropWhile (\<lambda>c. \<not> name_stop c) (n @ CHR ''}'' # rest) = CHR ''}'' # rest"
    using assms(1) stop by (simp_all add: takeWhile_append dropWhile_append)
  from assms(1) obtain x where x: "map_of val n = Some x"
    by auto
  show ?thesis
    using assms by (simp add: replace_one_def Let_def tw dw find_map_of x drop_brace_def)
qed

lemma replace_loop_template:
  "list_all (legal val) segs \<Longrightarrow> length (concat (map (meant val) segs)) \<le> d \<Longrightarrow>
   replace_loop val d (concat (map written segs)) = Inr (concat (map (meant val) segs))"
proof (induction segs arbitrary: d)
  case (Cons g segs)
  then have IH: "replace_loop val (d - length (meant val g)) (concat (map written segs)) =
      Inr (concat (map (meant val) segs))"
    by auto
  show ?case
  proof (cases g)
    case (Text s)
    with Cons.prems IH replace_loop_text [of s d val "concat (map written segs)"] show ?thesis
      by simp
  next
    case (Var n)
    have "replace_one val d (CHR ''{'' # n @ CHR ''}'' # concat (map written segs)) =
        Inr (meant val (Var n), concat (map written segs))"
      by (rule replace_one_var) (use Cons.prems Var in auto)
    with Var IH show ?thesis
      by simp
  qed
qed simp

end
