(* ===== verification/Sessions.thy ===== *)
theory Sessions
  imports Transactions
begin

text \<open>
  What the loops of the server processes keep, which begin and end transactions themselves:
  relations that survive transaction control, balanced transactions, and the fate of the
  tables when a transaction is rolled back.
\<close>

section \<open>Relations kept across transactions\<close>

locale txn_steps = sql_steps R ok for R :: "world \<Rightarrow> world \<Rightarrow> bool" and ok :: "sql \<Rightarrow> bool" +
  assumes control_step: "rq \<in> {Begin_req, Commit_req, Rollback_req} \<Longrightarrow> R w (exec (zbx_db_vexecute rq) w)"
    and level_step: "R w (w\<lparr>txn_level := n\<rparr>)"
    and error_step: "R w (w\<lparr>txn_error := e\<rparr>)"
    and crash_step: "R w (w\<lparr>crashed := True\<rparr>)"
begin

lemma steps_control: "rq \<in> {Begin_req, Commit_req, Rollback_req} \<Longrightarrow> steps (zbx_db_vexecute rq)"
  using control_step by (simp add: steps_def exec_def)

lemma steps_level: "steps (modify (\<lambda>w. w\<lparr>txn_level := f w\<rparr>))"
  by (rule steps_modify) (rule level_step)

lemma steps_error: "steps (modify (\<lambda>w. w\<lparr>txn_error := f w\<rparr>))"
  by (rule steps_modify) (rule error_step)

lemma steps_assert_fail: "steps assert_fail"
  unfolding assert_fail_def by (rule steps_modify) (rule crash_step)

lemmas control_intros = db_intros steps_level steps_error steps_assert_fail steps_until_up

lemma steps_DBbegin: "steps DBbegin"
  unfolding DBbegin_def DBtxn_operation_def zbx_db_begin_def
  by (intro control_intros steps_control) simp

lemma steps_zbx_db_rollback: "steps zbx_db_rollback"
  unfolding zbx_db_rollback_def by (intro control_intros steps_control) simp

lemma steps_DBrollback: "steps DBrollback"
  unfolding DBrollback_def DBtxn_operation_def by (intro control_intros steps_zbx_db_rollback)

lemma steps_DBcommit: "steps DBcommit"
  unfolding DBcommit_def DBtxn_operation_def zbx_db_commit_def
  by (intro control_intros steps_zbx_db_rollback steps_control) simp

lemmas session_intros = db_intros steps_DBbegin steps_DBcommit steps_DBrollback

end

text \<open>Processes whose transactions hold what the handlers do.\<close>

locale session_steps = txn_steps R run_sql for R :: "world \<Rightarrow> world \<Rightarrow> bool"

sublocale session_steps \<subseteq> db_steps R
  by unfold_locales

text \<open>Processes that also delete finished jobnets.\<close>

locale purge_steps = session_steps R for R :: "world \<Rightarrow> world \<Rightarrow> bool" +
  assumes purge_step: "status_sql s \<Longrightarrow> R w (exec (zbx_db_vexecute (Statement s)) w)"
begin

lemma steps_purge: "status_sql s \<Longrightarrow> steps (DBexecute s)"
  unfolding DBexecute_def
  using purge_step by (intro steps_until_up) (auto simp: steps_def exec_def)

end

text \<open>They keep what the loader keeps.\<close>

sublocale purge_steps \<subseteq> loader: load_steps R
  by unfold_locales (auto simp: load_sql_def intro: purge_step query_step log_step spawn_step flag_step crash_step)

lemma control_no_statement:
  "rq \<in> {Begin_req, Commit_req, Rollback_req} \<Longrightarrow> rq \<noteq> Statement s"
  by auto

lemma vexecute_graph_control:
  "rq \<in> {Begin_req, Commit_req, Rollback_req} \<Longrightarrow> graph_kept w (exec (zbx_db_vexecute rq) w)"
  using pq_exec_graph [of w rq]
  by (auto simp: graph_kept_def zbx_db_vexecute_def exec_def split: prod.splits reply.splits)

interpretation ok_session: purge_steps ok_kept
  by unfold_locales
    (auto simp: ok_kept_def intro: vexecute_ok dest: control_no_statement, auto simp: world_ok_def)

interpretation graph_session: session_steps graph_kept
  by unfold_locales (auto intro: vexecute_graph_control, auto simp: graph_kept_def)

section \<open>Relations between tables\<close>

text \<open>
  A preorder on tables kept by the statements of a program relates the tables before and after
  any run of it, visible and committed ones, whatever the server answers and however
  transactions end.
\<close>

locale table_order =
  fixes T :: "tables \<Rightarrow> tables \<Rightarrow> bool" and ok :: "sql \<Rightarrow> bool"
  assumes T_refl: "T t t"
    and T_trans: "T t u \<Longrightarrow> T u v \<Longrightarrow> T t v"
    and T_exec: "exec_sql s q t = Some (n, q', t') \<Longrightarrow> ok s \<Longrightarrow> T t t'"
begin

definition from_tables :: "tables \<Rightarrow> world \<Rightarrow> bool" where
  "from_tables t w \<longleftrightarrow> T t (db w) \<and> T t (durable w)"

definition tracks :: "world \<Rightarrow> world \<Rightarrow> bool" where
  "tracks w w' \<longleftrightarrow> (\<forall>t. from_tables t w \<longrightarrow> from_tables t w')"

lemma from_accept:
  "from_tables t w \<Longrightarrow> (\<And>s. rq = Statement s \<Longrightarrow> ok s) \<Longrightarrow> from_tables t (snd (accept rq w))"
  using T_exec T_trans
  by (cases rq) (force simp: accept_def refuse_def from_tables_def split: srv_state.splits option.splits)+

lemma from_refuse: "from_tables t w \<Longrightarrow> from_tables t (refuse rq w)"
  by (auto simp: refuse_def from_tables_def split: srv_state.splits)

lemma from_pq_exec:
  assumes "from_tables t w" "\<And>s. rq = Statement s \<Longrightarrow> ok s"
  shows "from_tables t (snd (pq_exec rq w))"
proof -
  have "from_tables t (w\<lparr>faults := tl (faults w)\<rparr>)"
    using assms(1) by (simp add: from_tables_def)
  from from_accept [OF this assms(2)] from_refuse [OF this] show ?thesis
    using assms(1) by (auto simp: pq_exec_def Let_def from_tables_def split: db_answer.splits)
qed

lemma tracks_vexecute: "(\<And>s. rq = Statement s \<Longrightarrow> ok s) \<Longrightarrow> tracks w (exec (zbx_db_vexecute rq) w)"
  using from_pq_exec [of _ w rq]
  by (auto simp: tracks_def zbx_db_vexecute_def exec_def from_tables_def split: prod.splits reply.splits)

lemma tracks_query: "tracks w (after_query w)"
  using from_pq_exec [of _ w Query]
  by (auto simp: tracks_def after_query_def zbx_db_vselect_def exec_def from_tables_def
      split: prod.splits reply.splits)

end

sublocale table_order \<subseteq> tracking: txn_steps tracks ok
  by unfold_locales
    (auto intro: tracks_vexecute tracks_query, auto simp: tracks_def from_tables_def)

context table_order
begin

lemma tracks_exec: "tracking.steps m \<Longrightarrow> durable w = db w \<Longrightarrow> from_tables (db w) (exec m w)"
  using tracking.steps_exec [of m w] T_refl by (simp add: tracks_def from_tables_def)

end

text \<open>Programs that only select change nothing, whatever the server answers.\<close>

interpretation looking: table_order "(=)" "\<lambda>_. False"
  by unfold_locales auto

lemma look_keeps: "looking.tracking.steps m \<Longrightarrow> durable w = db w \<Longrightarrow> db (exec m w) = db w \<and> durable (exec m w) = db w"
  using looking.tracks_exec [of m w] by (metis looking.from_tables_def)

text \<open>A select returns the rows of the committed tables or, if it fails, none.\<close>

lemma vselect_keeps: "durable w = db w \<Longrightarrow> durable (exec (zbx_db_vselect q) w) = db w \<and> db (exec (zbx_db_vselect q) w) = db w"
  using looking.tracks_query [of w] vselect_state [of q w]
  by (auto simp: looking.tracks_def looking.from_tables_def exec_def)

lemma vselect_rows:
  "durable w = db w \<Longrightarrow> result (zbx_db_vselect q) w = Inl () \<or> result (zbx_db_vselect q) w = Inr None \<or>
     result (zbx_db_vselect q) w = Inr (Some (q (db w)))"
  using looking.from_pq_exec [of "db w" w Query]
  by (auto simp: zbx_db_vselect_def result_def looking.from_tables_def split: prod.splits reply.splits)

lemma retry_rows:
  "durable w = db w \<Longrightarrow> result (retry n isl (zbx_db_vselect q)) w \<in> {Inl (), Inr None, Inr (Some (q (db w)))}"
proof (induction n arbitrary: w)
  case (Suc n)
  then show ?case
    using vselect_rows [OF Suc.prems, of q] vselect_keeps [OF Suc.prems, of q] Suc.IH [of "exec (zbx_db_vselect q) w"]
    by (auto simp: result_bind exec_ret)
qed (use vselect_rows in auto)

lemma select_rows:
  "durable w = db w \<Longrightarrow> result (DBselect q) w = [] \<or> result (DBselect q) w = q (db w)"
  using retry_rows [of w "length (faults w)" q]
  by (auto simp: DBselect_def until_up_def result_bind exec_bind exec_ret gets_now)

section \<open>Balanced transactions\<close>

text \<open>
  A process that is outside any transaction is outside again afterwards, and no assertion
  about nested or missing transactions has failed, whatever the server answered.
\<close>

definition balanced :: "world \<Rightarrow> world \<Rightarrow> bool" where
  "balanced w w' \<longleftrightarrow> (txn_level w = 0 \<longrightarrow> txn_level w' = 0 \<and> crashed w' = crashed w)"

interpretation bal: step_order balanced
  by unfold_locales (auto simp: balanced_def)

definition closes :: "'a prog \<Rightarrow> bool" where
  "closes m \<longleftrightarrow> (\<forall>w. txn_level w = 1 \<longrightarrow>
     txn_level (exec m w) = 0 \<and> crashed (exec m w) = crashed w)"

lemma same_txn_balanced: "txn.steps m \<Longrightarrow> bal.steps m"
  by (auto simp: txn.steps_def bal.steps_def balanced_def same_txn_def)

lemma closes_DBcommit: "closes DBcommit"
  using DBcommit_level by (simp add: closes_def)

lemma closes_DBrollback: "closes DBrollback"
  using DBrollback_level by (simp add: closes_def)

lemma closes_if: "closes m \<Longrightarrow> closes m' \<Longrightarrow> closes (if b then m else m')"
  by simp

lemma txn_statement: "txn.steps (DBexecute s)"
  unfolding DBexecute_def
  using vexecute_same_txn by (intro txn.steps_until_up) (auto simp: txn.steps_def exec_def)

lemma bal_exec:
  "bal.steps m \<Longrightarrow> txn_level w = 0 \<Longrightarrow> txn_level (exec m w) = 0 \<and> crashed (exec m w) = crashed w"
  using bal.steps_exec [of m w] by (simp add: balanced_def)

text \<open>
  A weaker relation is enough for the body of a transaction: a process that is inside one is
  inside one afterwards.  It also holds of a body that commits what it has done so far and
  begins anew.
\<close>

definition held :: "world \<Rightarrow> world \<Rightarrow> bool" where
  "held w w' \<longleftrightarrow> (txn_level w = 1 \<longrightarrow> txn_level w' = 1 \<and> crashed w' = crashed w)"

lemma same_txn_held: "same_txn w w' \<Longrightarrow> held w w'"
  by (simp add: same_txn_def held_def)

interpretation hold: db_steps held
  by unfold_locales
    (auto intro: same_txn_held [OF vexecute_same_txn] same_txn_held [OF query_same_txn], auto simp: held_def)

lemma hold_recommit:
  assumes "hold.steps k"
  shows "hold.steps (State_Monad.bind DBcommit (\<lambda>_. State_Monad.bind DBbegin (\<lambda>_. k)))"
proof -
  have "held w (exec (State_Monad.bind DBcommit (\<lambda>_. State_Monad.bind DBbegin (\<lambda>_. k))) w)" for w
    using hold.steps_exec [OF assms, of "exec DBbegin (exec DBcommit w)"]
      DBcommit_level [of w] DBbegin_level [of "exec DBcommit w"]
    by (auto simp: held_def exec_bind)
  then show ?thesis
    unfolding hold.steps_def exec_def by blast
qed

lemma closes_after_held: "hold.steps m \<Longrightarrow> (\<And>x. closes (f x)) \<Longrightarrow> closes (State_Monad.bind m f)"
  using hold.steps_exec [of m] by (simp add: closes_def exec_bind held_def)

lemma txn_exec:
  "txn.steps m \<Longrightarrow> txn_level (exec m w) = txn_level w \<and> crashed (exec m w) = crashed w"
  using txn.steps_exec [of m w] by (simp add: same_txn_def)

lemma closes_then: "closes m \<Longrightarrow> (\<And>x. bal.steps (f x)) \<Longrightarrow> closes (State_Monad.bind m f)"
  by (simp add: closes_def exec_bind bal_exec)

lemma closes_after: "txn.steps m \<Longrightarrow> (\<And>x. closes (f x)) \<Longrightarrow> closes (State_Monad.bind m f)"
  by (simp add: closes_def exec_bind txn_exec)

lemma balanced_transaction:
  assumes "closes m"
  shows "bal.steps (State_Monad.bind DBbegin (\<lambda>_. m))"
proof -
  have "balanced w (exec (State_Monad.bind DBbegin (\<lambda>_. m)) w)" for w
    using assms DBbegin_level [of w] unfolding exec_bind by (auto simp: balanced_def closes_def)
  then show ?thesis
    unfolding bal.steps_def exec_def by blast
qed

lemmas balanced_intros = bal.steps_intros balanced_transaction closes_then closes_after closes_if
  closes_DBcommit closes_DBrollback

section \<open>A handler that fails changes nothing\<close>

definition no_loss :: "world \<Rightarrow> bool" where
  "no_loss w \<longleftrightarrow> Conn_lost \<notin> set (faults w)"

text \<open>Transaction control on a connection that is never lost.\<close>

lemma pq_exec_no_loss:
  "no_loss w \<Longrightarrow> fst (pq_exec rq w) \<noteq> Down \<and> no_loss (snd (pq_exec rq w))"
  using accept_up [of rq "w\<lparr>faults := tl (faults w)\<rparr>"]
  by (cases "faults w") (auto simp: no_loss_def pq_exec_def Let_def split: db_answer.splits)

lemma retry_up_once: "\<not> down (result op w) \<Longrightarrow> run_state (retry n down op) w = run_state op w"
  by (cases n) (auto simp: result_def split: prod.splits)

lemma until_up_once: "\<not> down (result op w) \<Longrightarrow> run_state (until_up down op) w = run_state op w"
  by (simp add: until_up_def retry_up_once)

lemma begin_no_loss:
  assumes "no_loss w" "txn_level w = 0" "srv w = Idle" "\<not> txn_error w"
  shows "db (exec DBbegin w) = db w \<and> durable (exec DBbegin w) = durable w \<and>
    no_loss (exec DBbegin w) \<and> txn_level (exec DBbegin w) = 1 \<and>
    (srv (exec DBbegin w) \<noteq> Idle \<or> txn_error (exec DBbegin w))"
proof -
  have up: "result zbx_db_begin w \<noteq> ZBX_DB_DOWN"
    using pq_exec_no_loss [of "w\<lparr>txn_level := 1\<rparr>" Begin_req] assms
    by (auto simp: result_def zbx_db_begin_run zbx_db_vexecute_def no_loss_def split: prod.splits reply.splits)
  have "exec DBbegin w = exec zbx_db_begin w"
    unfolding DBbegin_def DBtxn_exec using up until_up_once [of "\<lambda>rc. rc = ZBX_DB_DOWN" zbx_db_begin w]
    by (simp add: exec_def)
  moreover have "fst (pq_exec Begin_req (w\<lparr>txn_level := 1\<rparr>)) \<noteq> Down"
    using pq_exec_no_loss [of "w\<lparr>txn_level := 1\<rparr>" Begin_req] assms by (simp add: no_loss_def)
  ultimately show ?thesis
    using assms hd_in_set [of "faults w"] no_loss_tl [of "faults w"]
    by (cases "faults w"; cases "hd (faults w)")
      (auto simp: exec_def zbx_db_begin_run zbx_db_vexecute_def pq_exec_def accept_def refuse_def no_loss_def)
qed

lemma rollback_no_loss:
  assumes "no_loss w" "txn_level w = 1" "srv w \<noteq> Idle \<or> db w = durable w"
  shows "db (exec DBrollback w) = durable w \<and> durable (exec DBrollback w) = durable w \<and>
    no_loss (exec DBrollback w) \<and> txn_level (exec DBrollback w) = 0 \<and> srv (exec DBrollback w) = Idle"
proof -
  have up: "result zbx_db_rollback w \<noteq> ZBX_DB_DOWN"
    using pq_exec_no_loss [of "w\<lparr>txn_error := False\<rparr>" Rollback_req] assms
    by (auto simp: result_def zbx_db_rollback_run zbx_db_vexecute_def no_loss_def split: prod.splits reply.splits)
  have "exec DBrollback w = exec zbx_db_rollback w"
    unfolding DBrollback_def DBtxn_exec using up until_up_once [of "\<lambda>rc. rc = ZBX_DB_DOWN" zbx_db_rollback w]
    by (simp add: exec_def)
  then show ?thesis
    using assms
    by (cases "srv w"; cases "faults w"; cases "hd (faults w)")
      (auto simp: exec_def zbx_db_rollback_run zbx_db_vexecute_def pq_exec_def accept_def refuse_def no_loss_def)
qed

text \<open>
  In a transaction in which the \<^verbatim>\<open>begin\<close> was refused every request is ignored, so a
  handler keeps the committed tables in this case, too.
\<close>

definition shielded :: "world \<Rightarrow> world \<Rightarrow> bool" where
  "shielded w w' \<longleftrightarrow>
     (no_loss w \<and> srv w \<noteq> Idle \<longrightarrow> no_loss w' \<and> srv w' \<noteq> Idle \<and> durable w' = durable w) \<and>
     (no_loss w \<and> srv w = Idle \<and> txn_error w \<and> db w = durable w \<longrightarrow>
        no_loss w' \<and> srv w' = Idle \<and> txn_error w' \<and> db w' = durable w' \<and> durable w' = durable w)"

lemma vexecute_ignored: "txn_error w \<Longrightarrow> exec (zbx_db_vexecute rq) w = w"
  by (simp add: zbx_db_vexecute_def exec_def)

lemma query_ignored: "txn_error w \<Longrightarrow> after_query w = w"
  by (simp add: after_query_def zbx_db_vselect_def exec_def)

lemma vexecute_shielded: "shielded w (exec (zbx_db_vexecute (Statement s)) w)"
proof (cases "txn_error w \<and> srv w = Idle")
  case True
  then show ?thesis
    by (simp add: vexecute_ignored shielded_def)
next
  case False
  then show ?thesis
    using vexecute_uncommitted [of w s] by (auto simp: shielded_def uncommitted_def no_loss_def)
qed

lemma query_shielded: "shielded w (after_query w)"
proof (cases "txn_error w \<and> srv w = Idle")
  case True
  then show ?thesis
    by (simp add: query_ignored shielded_def)
next
  case False
  then show ?thesis
    using query_uncommitted [of w] by (auto simp: shielded_def uncommitted_def no_loss_def)
qed

interpretation shield: db_steps shielded
  by unfold_locales
    (auto intro: vexecute_shielded query_shielded, auto simp: shielded_def no_loss_def)

lemma failed_transaction:
  assumes "no_loss w" "txn_level w = 0" "srv w = Idle" "\<not> txn_error w" "db w = durable w"
    and "shield.steps body" "hold.steps body"
    and "result body (exec DBbegin w) = FAIL"
  shows "db (exec (do { _ \<leftarrow> DBbegin; rc \<leftarrow> body; if rc = SUCCEED then DBcommit else DBrollback }) w) = db w \<and>
    durable (exec (do { _ \<leftarrow> DBbegin; rc \<leftarrow> body; if rc = SUCCEED then DBcommit else DBrollback }) w) = db w"
proof -
  let ?b = "exec DBbegin w"
  let ?e = "exec body ?b"
  note b = begin_no_loss [OF assms(1-4)]
  have "shielded ?b ?e"
    using shield.steps_exec [OF assms(6)] .
  then have e: "no_loss ?e" "srv ?e \<noteq> Idle \<or> db ?e = durable ?e" "durable ?e = durable w"
    using b assms(5) by (auto simp: shielded_def)
  have "txn_level ?e = 1"
    using hold.steps_exec [OF assms(7), of ?b] b by (simp add: held_def)
  then show ?thesis
    using rollback_no_loss [OF e(1) _ e(2)] e(3) assms(5,8) by (simp add: exec_bind)
qed

end
