(* ===== verification/Settings.thy ===== *)
theory Settings
  imports Variables Sessions
begin

text \<open>
  Sequences of settings, cleaning and reading of an icon's variables, and the replacement of
  variables in a text, as whole programs of \<open>jalibs/javalue.c\<close>.
\<close>

section \<open>Setting, cleaning, reading\<close>

definition set_values :: "uint64 \<Rightarrow> uint64 \<Rightarrow> (string \<times> string) list \<Rightarrow> rc prog" where
  "set_values i n nxs = each_row (\<lambda>(name, x). ja_set_value_before i n name (Some x)) nxs"

definition plain_text :: "string \<Rightarrow> bool" where
  "plain_text s \<longleftrightarrow> CR \<notin> set s"

lemma no_cr_plain [simp]: "plain_text s \<Longrightarrow> no_cr s = s"
  by (induction s) (auto simp: plain_text_def)

lemma set_values_yields:
  assumes "i \<noteq> 0" "n \<noteq> 0"
  shows "calm w \<Longrightarrow> store_ok (seq_next w, db w) \<Longrightarrow> store_known i (seq_next w, db w) \<Longrightarrow>
    list_all (\<lambda>(name, x). plain_text name \<and> plain_text x) nxs \<Longrightarrow>
    yields (set_values i n nxs) w SUCCEED (fst (before.puts n i nxs (seq_next w, db w)))
      (snd (before.puts n i nxs (seq_next w, db w)))"
proof (induction nxs arbitrary: w)
  case Nil
  then show ?case
    by (simp add: set_values_def before.puts_def yields_return)
next
  case (Cons p nxs)
  obtain name x where p: "p = (name, x)"
    by (cases p)
  let ?s = "store_put Before n i name x (seq_next w, db w)"
  have first: "yields (ja_set_value_before i n name (Some x)) w SUCCEED (fst ?s) (snd ?s)"
    using set_value_before_yields [OF Cons.prems(1,3) assms, of name "Some x"] Cons.prems(4) p
    by (simp add: or_empty_def)
  have kept: "store_ok ?s \<and> store_known i ?s"
    using Cons.prems(2,3) by (rule store_put_ok)
  have rest: "yields (set_values i n nxs) w' SUCCEED (fst (before.puts n i nxs ?s)) (snd (before.puts n i nxs ?s))"
    if w': "reaches w (fst ?s) (snd ?s) w'" for w'
    using Cons.IH [of w'] kept Cons.prems(4) p reachesD(1-3) [OF w'] by simp
  have puts: "before.puts n i (p # nxs) (seq_next w, db w) = before.puts n i nxs ?s"
    by (simp add: before.puts_def p)
  show ?case
    unfolding puts
    using yields_or_fail [OF first rest] by (simp add: set_values_def p)
qed

definition names_short :: "value_table \<Rightarrow> uint64 \<Rightarrow> tables \<Rightarrow> bool" where
  "names_short v i t \<longleftrightarrow> (\<forall>r \<in> set (job_values v t). v_job r = i \<longrightarrow> length (v_name r) < 130)"

lemma names_short_put:
  "store_known i s \<Longrightarrow> names_short Before i (snd s) \<Longrightarrow> length name < 130 \<Longrightarrow>
   names_short Before i (snd (store_put Before n i name x s))"
  by (simp add: names_short_def store_put_known)

lemma names_short_puts:
  "store_ok s \<Longrightarrow> store_known i s \<Longrightarrow> names_short Before i (snd s) \<Longrightarrow>
   list_all (\<lambda>(name, x). length name < 130) nxs \<Longrightarrow> names_short Before i (snd (before.puts n i nxs s))"
proof (induction nxs arbitrary: s)
  case (Cons p nxs)
  obtain name x where p: "p = (name, x)"
    by (cases p)
  show ?case
    using Cons.IH [of "store_put Before n i name x s"] names_short_put [of i s name n x] store_put_ok [of s i Before n name x]
      Cons.prems p by (simp add: before.puts_def)
qed (simp add: before.puts_def)

text \<open>Set values one after the other, clean up, and read one of them: the last setting counts.\<close>

lemma last_setting_read:
  assumes "calm w" "store_ok (seq_next w, db w)" "store_known i (seq_next w, db w)" "i \<noteq> 0" "n \<noteq> 0"
    and "names_short Before i (db w)"
    and "list_all (\<lambda>(name, x). plain_text name \<and> plain_text x \<and> length name < 130) nxs"
    and "plain_text name" "name \<noteq> []" "map_of (rev nxs) name = Some x"
  shows "result (do { _ \<leftarrow> set_values i n nxs; _ \<leftarrow> ja_clean_value_before i; ja_get_value_before i name }) w = Some x"
proof -
  let ?s = "before.puts n i nxs (seq_next w, db w)"
  have ok: "store_ok ?s" "store_known i ?s"
    using before.puts_ok [OF assms(2,3)] by auto
  have set: "yields (set_values i n nxs) w SUCCEED (fst ?s) (snd ?s)"
    by (rule set_values_yields [OF assms(4,5,1-3)]) (use assms(7) in \<open>auto simp: list_all_iff\<close>)
  have short: "names_short Before i (snd ?s)"
    by (rule names_short_puts [OF assms(2,3)]) (use assms(6,7) in \<open>auto simp: list_all_iff\<close>)
  have clean: "yields (ja_clean_value_before i) w1 SUCCEED (fst ?s) (cleaned Before i (snd ?s))"
    if w1: "reaches w (fst ?s) (snd ?s) w1" for w1
    using clean_value_yields(1) [of w1 "fst ?s" Before i] ok(1) short reachesD [OF w1]
    by (simp add: store_ok_def names_short_def)
  have "store_get Before i name (store_clean Before i ?s) = Some x"
    by (rule before.last_put_wins) (use assms in auto)
  then have get: "yields (ja_get_value_before i name) w2 (Some x) (seq_next w2) (db w2)"
    if "reaches w1 (fst ?s) (cleaned Before i (snd ?s)) w2" for w1 w2
    using get_value_yields(1) [of w2 i name] reachesD [OF that] assms(8)
    by (simp add: store_clean_def store_get_def)
  show ?thesis
  proof (rule yieldsD(1), rule yields_bind [OF set], rule yields_bind [OF clean], assumption)
    fix w1 w2
    assume "reaches w1 (fst ?s) (cleaned Before i (snd ?s)) w2"
    with get [OF this] show "yields (ja_get_value_before i name) w2 (Some x) (fst ?s) (cleaned Before i (snd ?s))"
      by (simp add: reaches_def)
  qed
qed

section \<open>Replacing variables\<close>

text \<open>Whatever happens, a result fits the destination with its terminating zero.\<close>

lemma replace_variable_bound:
  "result (ja_replace_variable i src len) w = Some out \<Longrightarrow> int (length out) < len"
  unfolding ja_replace_variable_def Let_def
  by (auto simp: result_bind exec_ret split: option.splits if_splits sum.splits
      dest!: replace_loop_bound)

definition variables_of :: "uint64 \<Rightarrow> tables \<Rightarrow> (string \<times> string) list" where
  "variables_of i t = map (\<lambda>r. (v_name r, v_value r)) (filter (\<lambda>r. v_job r = i) (vals_before t))"

lemma replace_variable_template:
  assumes "calm w" "variables_of i (db w) \<noteq> []" "list_all (legal (variables_of i (db w))) segs"
    and "int (length (concat (map (meant (variables_of i (db w))) segs))) < len"
  shows "result (ja_replace_variable i (Some (concat (map written segs))) len) w =
    Some (concat (map (meant (variables_of i (db w))) segs))"
proof -
  have rows: "filter (\<lambda>r. v_job r = i) (vals_before (db w)) \<noteq> []"
    using assms(2) by (auto simp: variables_of_def)
  have len: "\<not> len < 1"
    using assms(4) by auto
  have loop: "replace_loop (variables_of i (db w)) (nat len - 1) (concat (map written segs)) =
      Inr (concat (map (meant (variables_of i (db w))) segs))"
    by (rule replace_loop_template [OF assms(3)]) (use assms(4) in linarith)
  show ?thesis
    unfolding ja_replace_variable_def Let_def option.case if_not_P [OF len]
    using assms(1) rows loop
    by (simp add: result_def variables_of_def)
qed

end
