(* ===== verification/Jastatus.thy ===== *)
theory Jastatus
  imports Javalue
begin

text \<open>
  The status of jobnets and icons (\<open>jalibs/jastatus.c\<close>) and the flow from an icon to its
  successors (\<open>jalibs/jaflow.c\<close>).  \<open>ja_flow\<close> and \<open>ja_set_runerr\<close> call each other, so
  they are defined together.
\<close>

section \<open>Time arguments\<close>

text \<open>\<open>ja_timestamp2str(time(NULL))\<close>, as text and as the number the statements assign.\<close>

definition now_number :: "int prog" where
  "now_number = gets (\<lambda>w. clock w div 1000)"

definition now_string :: "string prog" where
  "now_string = gets (\<lambda>w. show_int (clock w div 1000))"

text \<open>The \<open>start\<close> and \<open>end\<close> arguments: 0 clears the time, 1 sets it, others leave it.\<close>

definition time_arg :: "int \<Rightarrow> int \<Rightarrow> int option" where
  "time_arg x now = (if x = 0 then Some 0 else if x = 1 then Some now else None)"

section \<open>Jobnets\<close>

definition ja_set_jobstatus :: "uint64 \<Rightarrow> int \<Rightarrow> int \<Rightarrow> rc prog" where
  "ja_set_jobstatus inner_jobnet_id status jobstatus = do {
     ts \<leftarrow> now_number;
     let ended = (status = JA_JOBNET_STATUS_END \<or> status = JA_JOBNET_STATUS_ENDERR);
     rc \<leftarrow> (if ended then DBexecute (Delete_session inner_jobnet_id) else ret 0);
     if rc < ZBX_DB_OK then ret FAIL
     else do {
       _ \<leftarrow> DBselect (select_summary inner_jobnet_id);
       rc \<leftarrow> DBexecute (Update_summary inner_jobnet_id
         (summary_cols\<lparr>su_status := Some status, su_job_status := Some jobstatus,
            su_end := (if ended then Some ts else None),
            su_running := (if ended then Some ([], []) else None)\<rparr>));
       if ZBX_DB_OK > rc then ret FAIL else ret SUCCEED
     }
   }"

definition ja_set_status_jobnet_summary :: "uint64 \<Rightarrow> int \<Rightarrow> int \<Rightarrow> int \<Rightarrow> rc prog" where
  "ja_set_status_jobnet_summary inner_jobnet_id status start fin = do {
     let ended = (status = JA_JOBNET_STATUS_END \<or> status = JA_JOBNET_STATUS_ENDERR);
     rc \<leftarrow> (if ended then DBexecute (Delete_session inner_jobnet_id) else ret 0);
     if rc < ZBX_DB_OK then ret FAIL
     else do {
       ts \<leftarrow> now_number;
       _ \<leftarrow> DBselect (select_summary inner_jobnet_id);
       rc \<leftarrow> DBexecute (Update_summary inner_jobnet_id
         (summary_cols\<lparr>su_status := Some status, su_start := time_arg start ts,
            su_end := time_arg fin ts, su_running := (if ended then Some ([], []) else None)\<rparr>));
       if ZBX_DB_OK > rc then ret FAIL else ret SUCCEED
     }
   }"

definition ja_set_status_jobnet :: "uint64 \<Rightarrow> int \<Rightarrow> int \<Rightarrow> int \<Rightarrow> rc prog" where
  "ja_set_status_jobnet inner_jobnet_id status start fin = do {
     ts \<leftarrow> now_number;
     _ \<leftarrow> DBselect (select_jobnet inner_jobnet_id);
     rc \<leftarrow> DBexecute (Update_jobnet (Jobnet_is inner_jobnet_id)
       (jobnet_cols\<lparr>ns_status := Some status, ns_start := time_arg start ts,
          ns_end := time_arg fin ts\<rparr>));
     if ZBX_DB_OK > rc then ret FAIL else ret SUCCEED
   }"

definition ja_set_status_job :: "uint64 \<Rightarrow> int \<Rightarrow> int \<Rightarrow> int \<Rightarrow> rc prog" where
  "ja_set_status_job inner_job_id status start fin = do {
     ts \<leftarrow> now_number;
     _ \<leftarrow> DBselect (select_job inner_job_id);
     rc \<leftarrow> DBexecute (Update_job (Job_is inner_job_id)
       (job_cols\<lparr>js_status := Some status, js_start := time_arg start ts,
          js_end := time_arg fin ts\<rparr>));
     if ZBX_DB_OK > rc then ret FAIL else ret SUCCEED
   }"

definition ja_get_status_jobnet_summary :: "uint64 \<Rightarrow> int prog" where
  "ja_get_status_jobnet_summary inner_jobnet_id = do {
     row \<leftarrow> DBselect_row (select_summary inner_jobnet_id);
     ret (case row of None \<Rightarrow> - 1 | Some r \<Rightarrow> rs_status r) }"

definition ja_get_status_jobnet :: "uint64 \<Rightarrow> int prog" where
  "ja_get_status_jobnet inner_jobnet_id = do {
     row \<leftarrow> DBselect_row (select_jobnet inner_jobnet_id);
     ret (case row of None \<Rightarrow> - 1 | Some r \<Rightarrow> rn_status r) }"

definition ja_get_status_job :: "uint64 \<Rightarrow> int prog" where
  "ja_get_status_job inner_job_id = do {
     row \<leftarrow> DBselect_row (select_job inner_job_id);
     ret (case row of None \<Rightarrow> - 1 | Some r \<Rightarrow> rj_status r) }"

definition ja_set_run_jobnet :: "uint64 \<Rightarrow> rc prog" where
  "ja_set_run_jobnet inner_jobnet_id =
     or_fail (ja_clean_value_jobnet_before inner_jobnet_id) (
     or_fail (ja_joblog JC_JOBNET_START inner_jobnet_id 0) (
     ja_set_status_jobnet inner_jobnet_id JA_JOBNET_STATUS_RUN 1 0))"

definition ja_set_end_jobnet :: "uint64 \<Rightarrow> rc prog" where
  "ja_set_end_jobnet inner_jobnet_id =
     or_fail (ja_clean_value_jobnet_after inner_jobnet_id) (
     or_fail (ja_joblog JC_JOBNET_END inner_jobnet_id 0) (
     ja_set_status_jobnet inner_jobnet_id JA_JOBNET_STATUS_END (- 1) 1))"

definition ja_set_runerr_jobnet :: "uint64 \<Rightarrow> rc prog" where
  "ja_set_runerr_jobnet inner_jobnet_id =
     or_fail (ja_clean_value_jobnet_after inner_jobnet_id) (
     ja_set_status_jobnet inner_jobnet_id JA_JOBNET_STATUS_RUNERR (- 1) 1)"

definition ja_set_enderr_jobnet :: "uint64 \<Rightarrow> rc prog" where
  "ja_set_enderr_jobnet inner_jobnet_id =
     or_fail (ja_clean_value_jobnet_after inner_jobnet_id) (
     ja_set_status_jobnet inner_jobnet_id JA_JOBNET_STATUS_ENDERR (- 1) 1)"

section \<open>Icons\<close>

definition ja_set_run :: "uint64 \<Rightarrow> rc prog" where
  "ja_set_run inner_job_id =
     or_fail (ja_clean_value_before inner_job_id) (
     ja_set_status_job inner_job_id JA_JOB_STATUS_RUN 1 0)"

definition ja_set_end :: "uint64 \<Rightarrow> int \<Rightarrow> rc prog" where
  "ja_set_end inner_job_id msg_flag =
     (if msg_flag = 0 then ret SUCCEED
      else or_fail (ja_clean_value_after inner_job_id) (
           or_fail (ja_joblog JC_JOB_END 0 inner_job_id) (
           ja_set_status_job inner_job_id JA_JOB_STATUS_END (- 1) 1)))"

text \<open>Jobnet id and user of the main jobnet, as the stop messages name them.\<close>

definition main_names :: "uint64 \<Rightarrow> (string \<times> string) prog" where
  "main_names inner_jobnet_main_id =
     (if inner_jobnet_main_id = 0 then ret ([], [])
      else do {
        row \<leftarrow> DBselect_row (select_jobnet inner_jobnet_main_id);
        ret (case row of None \<Rightarrow> ([], [])
             | Some n \<Rightarrow> (strlcpy JA_JOBNET_ID_LEN (rn_jobnet_id n),
                          strlcpy JA_USER_NAME_LEN (rn_exec_user n)))
      })"

definition ja_set_enderr :: "uint64 \<Rightarrow> int \<Rightarrow> rc prog" where
  "ja_set_enderr inner_job_id msg_flag =
     or_fail (ja_clean_value_after inner_job_id) (do {
       logged \<leftarrow> (if msg_flag = 1 then
         or_fail (ja_joblog JC_JOB_ERR_END 0 inner_job_id) (do {
           row \<leftarrow> DBselect_row (select_job inner_job_id);
           (w_main_jobnet_id, w_user) \<leftarrow> main_names (case row of None \<Rightarrow> 0 | Some r \<Rightarrow> rj_main r);
           path \<leftarrow> ja_get_jobid inner_job_id;
           _ \<leftarrow> ja_log ''JAJOBNETRUN200001'' 0 None inner_job_id
                  [PS ''ja_set_enderr'', PU inner_job_id, PS w_main_jobnet_id, PS path, PS w_user];
           ret SUCCEED
         })
         else ret SUCCEED);
       if logged = FAIL then ret FAIL
       else ja_set_status_job inner_job_id JA_JOB_STATUS_ENDERR (- 1) 1
     })"

text \<open>
  The part of \<open>ja_set_runerr\<close> up to the decision how to go on (lines 597--661): clean the
  values, write the log, note the icon status, report the stop.  Result: \<open>None\<close> for
  \<open>FAIL\<close>, else job type and continue flag.
\<close>

definition runerr_report :: "uint64 \<Rightarrow> int \<Rightarrow> (int \<times> int) option prog" where
  "runerr_report inner_job_id icon_status = do {
     rc \<leftarrow> or_fail (ja_clean_value_after inner_job_id) (ja_joblog JC_JOB_ERR_END 0 inner_job_id);
     if rc = FAIL then ret None
     else do {
       row \<leftarrow> DBselect_row (select_job inner_job_id);
       let (inner_jobnet_id, main, job_type, continue_flag) =
         (case row of None \<Rightarrow> (0, 0, JA_JOB_TYPE_START, 0)
          | Some r \<Rightarrow> (rj_jobnet r, rj_main r, rj_type r, rj_continue r));
       let noted = (job_type = JA_JOB_TYPE_JOB \<and> icon_status \<noteq> - 99);
       let w_icon_status = (if noted then strlcpy 10 (show_int icon_status) else []);
       _ \<leftarrow> (if noted then do {
              _ \<leftarrow> ja_set_value_after inner_job_id inner_jobnet_id ''ICON_STATUS'' (Some w_icon_status);
              ret () }
            else ret ());
       _ \<leftarrow> (if job_type \<noteq> JA_JOB_TYPE_JOBNET then do {
              (w_main_jobnet_id, w_user) \<leftarrow> main_names main;
              w_job_exit_cd \<leftarrow> (if job_type = JA_JOB_TYPE_JOB \<or> job_type = JA_JOB_TYPE_LESS
                then do {
                  row \<leftarrow> DBselect_row (value_rows After inner_job_id ''JOB_EXIT_CD'');
                  ret (case row of None \<Rightarrow> [] | Some v \<Rightarrow> strlcpy 10 (v_value v)) }
                else ret []);
              path \<leftarrow> ja_get_jobid inner_job_id;
              _ \<leftarrow> ja_log ''JAJOBNETRUN000001'' 0 None inner_job_id
                     [PS ''ja_set_runerr'', PU inner_job_id, PS w_main_jobnet_id, PS path, PS w_user,
                      PS w_job_exit_cd, PS w_icon_status];
              ret () }
            else ret ());
       ret (Some (job_type, continue_flag))
     }
   }"

definition ja_set_run_job_id :: "uint64 \<Rightarrow> rc prog" where
  "ja_set_run_job_id inner_job_id = do {
     row \<leftarrow> DBselect_row (select_job inner_job_id);
     case row of
       None \<Rightarrow> do {
         _ \<leftarrow> ja_log ''JASTATUS200002'' 0 None inner_job_id [PS ''ja_set_run_job_id'', PU inner_job_id];
         ret FAIL }
     | Some r \<Rightarrow> do {
         let job_name = sql_text (esc (or_empty (rj_name r)));
         job_id \<leftarrow> ja_get_jobid inner_job_id;
         _ \<leftarrow> DBselect (select_summary (rj_main r));
         rc \<leftarrow> DBexecute (Update_summary (rj_main r) (summary_cols\<lparr>su_running := Some (job_id, job_name)\<rparr>));
         if rc < ZBX_DB_OK then do {
           _ \<leftarrow> ja_log ''JASTATUS200003'' 0 None inner_job_id
                  [PS ''ja_set_run_job_id'', PS ''ja_run_jobnet_summary_table'', PS (show_u64 (rj_main r))];
           ret FAIL
         } else do {
           _ \<leftarrow> DBselect (select_jobnet (rj_main r));
           rc \<leftarrow> DBexecute (Update_jobnet (Jobnet_is (rj_main r))
                  (jobnet_cols\<lparr>ns_running := Some (job_id, job_name)\<rparr>));
           if rc < ZBX_DB_OK then do {
             _ \<leftarrow> ja_log ''JASTATUS200003'' 0 None inner_job_id
                    [PS ''ja_set_run_job_id'', PS ''ja_run_jobnet_table'', PS (show_u64 (rj_main r))];
             ret FAIL
           } else ret SUCCEED
         }
       }
   }"

section \<open>\<open>ja_flow_set_status\<close>\<close>

definition flow_refused :: "uint64 \<Rightarrow> string \<Rightarrow> parg list \<Rightarrow> rc prog" where
  "flow_refused start_inner_job_id message_id args = do {
     _ \<leftarrow> ja_log message_id 0 None start_inner_job_id (PS ''ja_flow_set_status'' # args);
     ja_set_enderr start_inner_job_id 1 }"

text \<open>
  The status part (lines 86--122): the new status and end count of the successor, or the
  reason why it is left alone (\<open>Inl None\<close>) or refused (\<open>Inl (Some ...)\<close>).
\<close>

definition flow_decide ::
    "uint64 \<Rightarrow> run_job \<Rightarrow> (string \<times> parg list) option + int \<times> int" where
  "flow_decide end_inner_job_id r =
     (let over = (rj_status r = JA_JOB_STATUS_END \<or> rj_status r = JA_JOB_STATUS_RUNERR) in
      if over \<and> rj_test r = JA_JOB_TEST_FLAG_ON then Inl None
      else if over \<and> rj_type r = JA_JOB_TYPE_END then Inl (Some (''JAFLOW300001'', [PU end_inner_job_id]))
      else
        let status = (if over then JA_JOB_STATUS_BEGIN else rj_status r);
            end_count = (if over then 0 else rj_end_count r)
        in if status = JA_JOB_STATUS_BEGIN then
             let end_count = end_count + 1;
                 upd_status = (if rj_type r = JA_JOB_TYPE_IFEND \<or> rj_type r = JA_JOB_TYPE_L
                               then JA_JOB_STATUS_READY
                               else if rj_boot_count r \<le> end_count then JA_JOB_STATUS_READY
                               else JA_JOB_STATUS_BEGIN)
             in Inr (upd_status, end_count)
           else if rj_test r = JA_JOB_TEST_FLAG_ON then Inl None
           else Inl (Some (''JAFLOW200002'', [PU end_inner_job_id, PI status])))"

definition ja_flow_set_status :: "uint64 \<Rightarrow> uint64 \<Rightarrow> rc prog" where
  "ja_flow_set_status start_inner_job_id end_inner_job_id = do {
     row \<leftarrow> DBselect_row (select_job end_inner_job_id);
     case row of
       None \<Rightarrow> flow_refused start_inner_job_id ''JAFLOW200001'' [PU end_inner_job_id]
     | Some r \<Rightarrow>
         (case flow_decide end_inner_job_id r of
            Inl None \<Rightarrow> ret SUCCEED
          | Inl (Some (message_id, args)) \<Rightarrow> flow_refused start_inner_job_id message_id args
          | Inr (upd_status, end_count) \<Rightarrow> do {
              link \<leftarrow> (if rj_type r = JA_JOB_TYPE_JOBNET \<and> upd_status = JA_JOB_STATUS_READY
                then do {
                  row \<leftarrow> DBselect_row (\<lambda>t. filter (\<lambda>l. in_job l = end_inner_job_id) (icon_jobnets (icons t)));
                  case row of
                    None \<Rightarrow> ret (Inl ())
                  | Some l \<Rightarrow> do {
                      rc \<leftarrow> DBexecute (Update_job (Job_in_jobnet (in_link l))
                        (job_cols\<lparr>js_status := Some JA_JOB_STATUS_BEGIN, js_end_count := Some 0\<rparr>));
                      ret (Inr (if ZBX_DB_OK > rc then FAIL else SUCCEED)) }
                }
                else ret (Inr SUCCEED));
              case link of
                Inl _ \<Rightarrow> flow_refused start_inner_job_id ''JAFLOW200004'' [PU end_inner_job_id]
              | Inr rc \<Rightarrow>
                  or_fail (ret rc) (do {
                    rc \<leftarrow> DBexecute (Update_job (Job_is end_inner_job_id)
                      (job_cols\<lparr>js_status := Some upd_status, js_end_count := Some end_count\<rparr>));
                    if ZBX_DB_OK > rc then ret FAIL
                    else ja_value_after_before start_inner_job_id end_inner_job_id
                  })
            })
   }"

section \<open>\<open>ja_flow\<close> and \<open>ja_set_runerr\<close>\<close>

definition select_flows :: "uint64 \<Rightarrow> tables \<Rightarrow> run_flow list" where
  "select_flows i t = filter (\<lambda>f. rf_from f = i) (flows t)"

text \<open>Whether a flow of type \<open>flow_type\<close> is taken when the icon leaves with \<open>type\<close>.\<close>

definition flow_taken :: "int \<Rightarrow> int \<Rightarrow> bool" where
  "flow_taken type flow_type \<longleftrightarrow> flow_type = type \<or>
     (type = JA_FLOW_TYPE_NORMAL \<and> (flow_type = JA_FLOW_TYPE_TRUE \<or> flow_type = JA_FLOW_TYPE_FALSE))"

text \<open>
  The check of the jobnet's status in the first round of the loop over the flows stands in
  front of the loop.  With no flow at all the message gets the uninitialised local
  \<^verbatim>\<open>inner_jobnet_id\<close>.  \<open>ja_flow\<close> calls \<open>ja_set_runerr\<close> only with the icon status
  \<open>-99\<close>, which does not call back: that bounds the recursion.
\<close>

function ja_flow :: "uint64 \<Rightarrow> int \<Rightarrow> int \<Rightarrow> rc prog"
  and ja_set_runerr :: "uint64 \<Rightarrow> int \<Rightarrow> rc prog" where
  "ja_flow inner_job_id type msg_flag =
     or_fail (ja_clean_value_after inner_job_id) (do {
       rows \<leftarrow> DBselect (select_flows inner_job_id);
       case rows of
         [] \<Rightarrow> do {
           n \<leftarrow> gets garbage;
           _ \<leftarrow> ja_log ''JAFLOW200003'' n None inner_job_id [PS ''ja_flow'', PU inner_job_id];
           ja_set_enderr inner_job_id 1 }
       | f # _ \<Rightarrow> do {
           jobnet_status \<leftarrow> ja_get_status_jobnet (rf_jobnet f);
           if jobnet_status \<noteq> JA_JOBNET_STATUS_RUN \<and> jobnet_status \<noteq> JA_JOBNET_STATUS_RUNERR then do {
             _ \<leftarrow> ja_log ''JAFLOW200005'' (rf_jobnet f) None inner_job_id
                    [PS ''ja_flow'', PI jobnet_status, PU (rf_jobnet f)];
             ja_set_runerr inner_job_id (- 99)
           }
           else or_fail
             (each_row (\<lambda>f. if flow_taken type (rf_type f)
                            then ja_flow_set_status inner_job_id (rf_to f) else ret SUCCEED) rows)
             (ja_set_end inner_job_id msg_flag)
         }
     })"
| "ja_set_runerr inner_job_id icon_status = do {
     rep \<leftarrow> runerr_report inner_job_id icon_status;
     case rep of
       None \<Rightarrow> ret FAIL
     | Some (job_type, continue_flag) \<Rightarrow>
         if continue_flag = JA_JOB_CONTINUE_FLAG_OFF \<or> icon_status = - 99 \<or> job_type = JA_JOB_TYPE_IF
         then ja_set_status_job inner_job_id JA_JOB_STATUS_RUNERR (- 1) 1
         else or_fail (ja_flow inner_job_id JA_FLOW_TYPE_NORMAL 0)
                (ja_set_status_job inner_job_id JA_JOB_STATUS_RUNERR (- 1) 1)
   }"
  by pat_completeness auto
termination
  by (relation "measure (case_sum (\<lambda>(_, _, _). 2) (\<lambda>(_, s). if s = - 99 then 1 else 3))") auto

declare ja_flow.simps [simp del]
declare ja_set_runerr.simps [simp del]

section \<open>What the status functions keep\<close>

context db_steps
begin

lemma steps_now: "steps now_number" "steps now_string"
  by (simp_all add: now_number_def now_string_def steps_gets)

lemma steps_status_setters:
  "0 \<le> s \<Longrightarrow> s \<le> 5 \<Longrightarrow> 0 \<le> j \<Longrightarrow> j \<le> 2 \<Longrightarrow> steps (ja_set_jobstatus n s j)"
  "0 \<le> s \<Longrightarrow> s \<le> 5 \<Longrightarrow> steps (ja_set_status_jobnet_summary n s a b)"
  "0 \<le> s \<Longrightarrow> s \<le> 5 \<Longrightarrow> steps (ja_set_status_jobnet n s a b)"
  "0 \<le> s \<Longrightarrow> s \<le> 6 \<Longrightarrow> steps (ja_set_status_job i s a b)"
  unfolding ja_set_jobstatus_def ja_set_status_jobnet_summary_def ja_set_status_jobnet_def
    ja_set_status_job_def
  by (intro value_intros steps_now; simp add: run_sql_def)+

lemma steps_status_getters:
  "steps (ja_get_status_jobnet_summary n)" "steps (ja_get_status_jobnet n)" "steps (ja_get_status_job i)"
  unfolding ja_get_status_jobnet_summary_def ja_get_status_jobnet_def ja_get_status_job_def
  by (intro value_intros)+

lemma steps_jobnet_states:
  "steps (ja_set_run_jobnet n)" "steps (ja_set_end_jobnet n)" "steps (ja_set_runerr_jobnet n)"
  "steps (ja_set_enderr_jobnet n)"
  unfolding ja_set_run_jobnet_def ja_set_end_jobnet_def ja_set_runerr_jobnet_def
    ja_set_enderr_jobnet_def
  by (intro value_intros steps_status_setters; simp)+

lemma steps_main_names: "steps (main_names n)"
  unfolding main_names_def by (intro value_intros)

lemma steps_job_states:
  "steps (ja_set_run i)" "steps (ja_set_end i m)" "steps (ja_set_enderr i m)"
  unfolding ja_set_run_def ja_set_end_def ja_set_enderr_def
  by (intro value_intros steps_status_setters steps_main_names; simp)+

lemma steps_runerr_report: "steps (runerr_report i s)"
  unfolding runerr_report_def by (intro value_intros steps_main_names)

lemma steps_ja_set_run_job_id: "steps (ja_set_run_job_id i)"
  unfolding ja_set_run_job_id_def by (intro value_intros; simp add: run_sql_def)

lemma flow_decide_range: "flow_decide j r = Inr (u, c) \<Longrightarrow> u = 0 \<or> u = 1"
  by (auto simp: flow_decide_def Let_def split: if_splits)

lemma steps_flow_refused: "steps (flow_refused i m args)"
  unfolding flow_refused_def by (intro value_intros steps_job_states)

lemma steps_ja_flow_set_status: "steps (ja_flow_set_status i j)"
  unfolding ja_flow_set_status_def
  by (intro value_intros steps_sum steps_flow_refused)
    (auto simp: run_sql_def dest!: flow_decide_range)

lemma steps_ja_flow_runerr: "steps (ja_flow i ty m)" "steps (ja_set_runerr i s)"
proof (induction i ty m and i s rule: ja_flow_ja_set_runerr.induct)
  case (1 i ty m)
  then show ?case
    by (subst ja_flow.simps)
      (intro value_intros steps_status_getters steps_job_states steps_ja_flow_set_status; simp)
next
  case (2 i s)
  then show ?case
    by (subst ja_set_runerr.simps) (intro value_intros steps_runerr_report steps_status_setters; fastforce)
qed

lemmas status_intros = value_intros steps_now steps_status_setters steps_status_getters
  steps_jobnet_states steps_job_states steps_ja_set_run_job_id steps_ja_flow_set_status
  steps_ja_flow_runerr

end

end
