(* ===== verification/Jaindex.thy ===== *)
theory Jaindex
  imports Jastatus Variables
begin

text \<open>
  Issuing inner ids (\<open>jalibs/jaindex.c\<close>) and finding icons by their path
  (\<open>jalibs/jajobnet.c\<close>).
\<close>

section \<open>\<open>get_next_id\<close>\<close>

abbreviation (input) JA_RUN_ID_JOB :: int where "JA_RUN_ID_JOB \<equiv> 20"
abbreviation (input) JA_RUN_ID_FLOW :: int where "JA_RUN_ID_FLOW \<equiv> 30"
abbreviation (input) JA_RUN_ID_SESSION :: int where "JA_RUN_ID_SESSION \<equiv> 40"

text \<open>The last number of a counter and the one it starts again with (lines 81--106).\<close>

definition id_limit :: "int \<Rightarrow> uint64" where
  "id_limit count_id =
     (if count_id = JA_RUN_ID_JOBNET_LD then 1499999999999999999
      else if count_id = JA_RUN_ID_JOBNET_EX then 1699999999999999999
      else 9200000000000000000)"

definition id_restart :: "int \<Rightarrow> uint64" where
  "id_restart count_id = (if count_id = JA_RUN_ID_JOBNET_EX then 1600000000000000000 else 1)"

definition select_nextid :: "int \<Rightarrow> tables \<Rightarrow> uint64 list" where
  "select_nextid count_id t = map snd (filter (\<lambda>r. fst r = count_id) (next_ids t))"

definition get_next_id :: "int \<Rightarrow> uint64 \<Rightarrow> string option \<Rightarrow> uint64 \<Rightarrow> uint64 prog" where
  "get_next_id count_id inner_jobnet_id jobnet_id inner_job_id = do {
     row \<leftarrow> DBselect_row (select_nextid count_id);
     case row of
       None \<Rightarrow> do {
         _ \<leftarrow> ja_log ''JAINDEX200001'' inner_jobnet_id jobnet_id inner_job_id
                [PS ''ja_index_table'', PS (show_int count_id)];
         ret 0 }
     | Some stored \<Rightarrow> do {
         let cycle_flag = (stored > id_limit count_id);
         let nextid = (if cycle_flag then id_restart count_id else stored);
         rc \<leftarrow> DBexecute (if cycle_flag then Set_next_id count_id nextid else Inc_next_id count_id);
         if rc \<le> ZBX_DB_OK then do {
           _ \<leftarrow> ja_log ''JAINDEX200002'' inner_jobnet_id jobnet_id inner_job_id
                  [PS ''ja_index_table'', PS (show_int count_id)];
           ret 0
         } else ret nextid
       }
   }"

section \<open>Looking up users and icons\<close>

definition ja_jobnet_get_user_name :: "string \<Rightarrow> string option prog" where
  "ja_jobnet_get_user_name jobnet_id = do {
     row \<leftarrow> DBselect_row (\<lambda>t. filter (\<lambda>c. c_jobnet_id c = jobnet_id \<and> c_valid c = 1) (controls t));
     ret (map_option c_user row) }"

definition select_link :: "uint64 \<Rightarrow> tables \<Rightarrow> icon_jobnet list" where
  "select_link i t = filter (\<lambda>l. in_job l = i) (icon_jobnets (icons t))"

definition select_named :: "uint64 \<Rightarrow> string \<Rightarrow> tables \<Rightarrow> run_job list" where
  "select_named n name t = filter (\<lambda>r. rj_jobnet r = n \<and> rj_job_id r = name) (jobs t)"

text \<open>The loop over the path's components; \<open>i\<close> is the icon found last, 0 at the start.\<close>

fun find_path :: "uint64 \<Rightarrow> uint64 \<Rightarrow> string list \<Rightarrow> uint64 prog" where
  "find_path i n [] = ret i"
| "find_path i n (tp # tps) = do {
     link \<leftarrow> (if i > 0 then do { row \<leftarrow> DBselect_row (select_link i); ret (map_option in_link row) }
             else ret (Some n));
     case link of
       None \<Rightarrow> ret 0
     | Some n \<Rightarrow> do {
         row \<leftarrow> DBselect_row (select_named n tp);
         case row of None \<Rightarrow> ret 0 | Some r \<Rightarrow> find_path (rj_id r) n tps
       }
   }"

definition ja_jobnet_get_job_id :: "uint64 \<Rightarrow> string \<Rightarrow> uint64 prog" where
  "ja_jobnet_get_job_id inner_jobnet_id get_job_id =
     (if inner_jobnet_id = 0 then ret 0
      else find_path 0 inner_jobnet_id (strtok (CHR ''/'') get_job_id))"

context sql_steps
begin

lemma steps_find_path: "steps (find_path i n tps)"
  by (induction i n tps rule: find_path.induct) (subst find_path.simps, intro db_intros; simp)+

lemma steps_ja_jobnet_get_job_id: "steps (ja_jobnet_get_job_id n p)"
  unfolding ja_jobnet_get_job_id_def by (intro db_intros steps_find_path)

end

context db_steps
begin

lemma steps_get_next_id: "steps (get_next_id c n j i)"
  unfolding get_next_id_def by (intro status_intros steps_ja_log; simp add: run_sql_def)

end

section \<open>What is issued\<close>

lemma get_next_id_yields:
  assumes "calm w" "select_nextid c (db w) = [m]"
  shows "yields (get_next_id c n j i) w (if m > id_limit c then id_restart c else m) (seq_next w)
    ((db w)\<lparr>next_ids := upd_where (\<lambda>r. fst r = c)
       (\<lambda>r. (c, if m > id_limit c then id_restart c else m + 1)) (next_ids (db w))\<rparr>)"
proof -
  from assms(2) have cnt: "count_where (\<lambda>r. fst r = c) (next_ids (db w)) = 1"
    by (simp add: select_nextid_def count_where_def) (metis length_map length_Cons list.size(3))
  have row: "b = m" if "(c, b) \<in> set (next_ids (db w))" for b
  proof -
    have "b \<in> set (select_nextid c (db w))"
      using that by (force simp: select_nextid_def)
    with assms(2) show ?thesis
      by simp
  qed
  have upd: "upd_where (\<lambda>r. fst r = c) (\<lambda>r. (fst r, snd r + 1)) (next_ids (db w)) =
      upd_where (\<lambda>r. fst r = c) (\<lambda>r. (c, m + 1)) (next_ids (db w))"
    "upd_where (\<lambda>r. fst r = c) (\<lambda>r. (fst r, k)) (next_ids (db w)) =
      upd_where (\<lambda>r. fst r = c) (\<lambda>r. (c, k)) (next_ids (db w))" for k
    by (auto simp: upd_where_def dest!: row)
  show ?thesis
    using assms(1) by (simp add: get_next_id_def yields_simps assms(2) cnt upd Let_def)
qed

text \<open>The counter of submitted jobnets keeps to its own range of numbers.\<close>

lemma get_next_id_range:
  "calm w \<Longrightarrow> select_nextid c (db w) = [m] \<Longrightarrow> id_restart c \<le> m \<Longrightarrow>
   result (get_next_id c n j i) w \<in> {id_restart c .. id_limit c}"
  using yieldsD(1) [OF get_next_id_yields, of w c m n j i]
  by (auto simp: not_less) (auto simp: id_restart_def id_limit_def)

lemma select_nextid_put:
  "select_nextid c t = [m] \<Longrightarrow>
   select_nextid c (t\<lparr>next_ids := upd_where (\<lambda>r. fst r = c) (\<lambda>r. (c, k)) (next_ids t)\<rparr>) = [k]"
proof -
  have "map snd (filter (\<lambda>r. fst r = c) (upd_where (\<lambda>r. fst r = c) (\<lambda>r. (c, k)) rs)) =
      map (\<lambda>_. k) (filter (\<lambda>r. fst r = c) rs)" for rs :: "(int \<times> uint64) list"
    by (induction rs) (auto simp: upd_where_def)
  moreover assume "select_nextid c t = [m]"
  then obtain r where "filter (\<lambda>r. fst r = c) (next_ids t) = [r]"
    by (auto simp: select_nextid_def)
  ultimately show ?thesis
    by (simp add: select_nextid_def)
qed

lemma id_after: "m \<le> id_limit c \<Longrightarrow> m + 1 > id_limit c \<longleftrightarrow> m = id_limit c"
proof -
  have "id_limit c + 1 > id_limit c"
    by (simp add: id_limit_def)
  then show "m \<le> id_limit c \<Longrightarrow> m + 1 > id_limit c \<longleftrightarrow> m = id_limit c"
    using inc_le [of m "id_limit c"] by (auto simp: order.order_iff_strict not_le)
qed

text \<open>Two calls in a row; a counter that has wrapped around stands at its first number again.\<close>

lemma two_ids:
  assumes "calm w" "select_nextid c (db w) = [m]"
  shows "result (do { x \<leftarrow> get_next_id c n j i; y \<leftarrow> get_next_id c n j i; ret (x, y) }) w =
    (if m > id_limit c then (id_restart c, id_restart c)
     else (m, if m = id_limit c then id_restart c else m + 1))"
proof -
  let ?k = "if m > id_limit c then id_restart c else m + 1"
  have restart: "\<not> id_restart c > id_limit c"
    by (simp add: id_restart_def id_limit_def)
  note first = get_next_id_yields [OF assms, of n j i]
  have second: "yields (get_next_id c n j i) w' (if ?k > id_limit c then id_restart c else ?k) (seq_next w')
      ((db w')\<lparr>next_ids := upd_where (\<lambda>r. fst r = c)
         (\<lambda>r. (c, if ?k > id_limit c then id_restart c else ?k + 1)) (next_ids (db w'))\<rparr>)"
    if "calm w'" "select_nextid c (db w') = [?k]" for w'
    by (rule get_next_id_yields [OF that])
  have "result (get_next_id c n j i) (exec (get_next_id c n j i) w) = (if ?k > id_limit c then id_restart c else ?k)"
    by (rule yieldsD(1) [OF second]) (use yieldsD(2,3) [OF first] select_nextid_put [OF assms(2)] in auto)
  then show ?thesis
    using yieldsD(1) [OF first] restart id_after [of m c]
    by (cases "m > id_limit c") (simp_all add: result_bind exec_ret)
qed

end
