(* ===== verification/Jaicons.thy ===== *)
theory Jaicons
  imports Jaindex
begin

text \<open>
  Running the icons that only work on the database (\<open>jarun/jarunicon*.c\<close>,
  \<open>jarun/jarunvalue.c\<close>): start, end, if, value, jobnet, task, info, release and the
  junctions.  The icons that fork a child and talk to an agent or run a command are
  parameters of \<open>jarun_normal\<close> (theory \<open>Jarun\<close>).
\<close>

section \<open>\<open>jarunvalue.c\<close>\<close>

definition jarun_value_before :: "uint64 \<Rightarrow> rc prog" where
  "jarun_value_before inner_job_id = do {
     row \<leftarrow> DBselect_row (select_job inner_job_id);
     undefined_id \<leftarrow> gets garbage;
     let inner_jobnet_id = (case row of None \<Rightarrow> undefined_id | Some r \<Rightarrow> rj_jobnet r);
     rc \<leftarrow> (case row of
         Some r \<Rightarrow>
           or_fail (ja_set_value_before inner_job_id inner_jobnet_id ''JOB_ID'' (Some (rj_job_id r))) (
           or_fail (ja_set_value_before inner_job_id inner_jobnet_id ''JOB_NAME'' (rj_name r)) (do {
             now \<leftarrow> now_string;
             ja_set_value_before inner_job_id inner_jobnet_id ''CURRENT_TIME'' (Some now) }))
       | None \<Rightarrow> do {
           _ \<leftarrow> ja_log ''JARUNVALUE300001'' inner_jobnet_id None inner_job_id
                  [PS ''jarun_value_before'', PU inner_job_id];
           ret SUCCEED });
     or_fail (ret rc) (do {
       path \<leftarrow> ja_get_jobid inner_job_id;
       or_fail (ja_set_value_before inner_job_id inner_jobnet_id ''JOB_ID_FULL'' (Some path))
         (ja_remove_value_before inner_job_id ''JOBARG_MESSAGE'')
     })
   }"

definition jarun_value_after :: "uint64 \<Rightarrow> rc prog" where
  "jarun_value_after inner_job_id =
     or_fail (ja_remove_value_after inner_job_id ''JOB_EXIT_CD'') (
     or_fail (ja_remove_value_after inner_job_id ''STD_ERR'') (
     ja_remove_value_after inner_job_id ''STD_OUT''))"

section \<open>Start and junctions\<close>

definition jarun_icon_common :: "uint64 \<Rightarrow> rc prog" where
  "jarun_icon_common inner_job_id = ja_flow inner_job_id JA_FLOW_TYPE_NORMAL 1"

text \<open>An icon that cannot run: write the log, then stop the icon.\<close>

definition refuse_icon :: "uint64 \<Rightarrow> string \<Rightarrow> uint64 \<Rightarrow> parg list \<Rightarrow> rc prog" where
  "refuse_icon inner_job_id message_id inner_jobnet_id args = do {
     _ \<leftarrow> ja_log message_id inner_jobnet_id None inner_job_id args;
     ja_set_runerr inner_job_id 2 }"

section \<open>End\<close>

fun stop_code_scan :: "bool \<Rightarrow> nat \<Rightarrow> string \<Rightarrow> int option" where
  "stop_code_scan sw cnt [] = None"
| "stop_code_scan sw cnt (c # s) =
     (if \<not> is_digit c then Some 0
      else let sw = (sw \<or> c \<noteq> CHR ''0''); cnt = (if sw then cnt + 1 else cnt)
           in if 3 < cnt then Some 255 else stop_code_scan sw cnt s)"

definition ja_stop_code_conv :: "string \<Rightarrow> int" where
  "ja_stop_code_conv str =
     (if str = [] then 0
      else case stop_code_scan False 0 str of
             Some r \<Rightarrow> r
           | None \<Rightarrow> let num = atoi str in if num > 255 then 255 else if num < 0 then 0 else num)"

definition jarun_icon_end :: "uint64 \<Rightarrow> rc prog" where
  "jarun_icon_end inner_job_id = do {
     row \<leftarrow> DBselect_row (\<lambda>t. filter (\<lambda>r. ie_job r = inner_job_id) (icon_ends (icons t)));
     case row of
       None \<Rightarrow> refuse_icon inner_job_id ''JARUNICONEND200001'' 0 [PS ''jarun_icon_end'', PU inner_job_id]
     | Some r \<Rightarrow> do {
         code \<leftarrow> ja_cpy_value inner_job_id (ie_code r);
         case code of
           None \<Rightarrow> refuse_icon inner_job_id ''JARUNICONEND200002'' 0
             [PS ''jarun_icon_end'', PS (ie_code r), PU inner_job_id]
         | Some stop_code_value \<Rightarrow>
             or_fail (ja_set_value_after inner_job_id (ie_jobnet r) ''JOB_EXIT_CD''
                        (Some (show_int (ja_stop_code_conv stop_code_value))))
               (ja_set_end inner_job_id 1)
       }
   }"

section \<open>If\<close>

definition jarun_icon_if_comp :: "libc \<Rightarrow> int \<Rightarrow> string \<Rightarrow> string \<Rightarrow> int prog" where
  "jarun_icon_if_comp lc hand_flag val comparison_value =
     (if hand_flag = 0 then ret (ja_number_match lc val comparison_value)
      else if hand_flag = 1 then ret (if libc.regexp lc val comparison_value then 1 else 0)
      else do {
        _ \<leftarrow> ja_log ''JARUNICONIF200001'' 0 None 0 [PS ''jarun_icon_if_comp'', PI hand_flag];
        ret (- 1) })"

definition select_if :: "uint64 \<Rightarrow> tables \<Rightarrow> (int \<times> string \<times> string) list" where
  "select_if i t =
     [(ii_hand ji, ii_comparison ji, v_value jb). ji \<leftarrow> icon_ifs (icons t), jb \<leftarrow> vals_before t,
        ii_job ji = i \<and> ii_job ji = v_job jb \<and> ii_name ji = v_name jb]"

definition jarun_icon_if :: "libc \<Rightarrow> uint64 \<Rightarrow> int \<Rightarrow> rc prog" where
  "jarun_icon_if lc inner_job_id test_flag = do {
     row \<leftarrow> DBselect_row (select_if inner_job_id);
     flow_type \<leftarrow> (case row of
         Some (hand_flag, comparison_value, before_value) \<Rightarrow> do {
           comp \<leftarrow> jarun_icon_if_comp lc hand_flag before_value comparison_value;
           if comp = 0 then ret JA_FLOW_TYPE_FALSE
           else if comp = 1 then ret JA_FLOW_TYPE_TRUE
           else do {
             _ \<leftarrow> ja_log ''JARUNICONIF200004'' 0 None inner_job_id
                    [PS ''jarun_icon_if'', PS (show_int hand_flag), PS comparison_value,
                     PS before_value, PU inner_job_id];
             ret (- 1) }
         }
       | None \<Rightarrow> do {
           _ \<leftarrow> ja_log ''JARUNICONIF200003'' 0 None inner_job_id [PS ''jarun_icon_if'', PU inner_job_id];
           ret (- 1) });
     if flow_type = - 1 then ja_set_runerr inner_job_id 2
     else if test_flag = JA_JOB_TEST_FLAG_ON then ja_flow inner_job_id JA_FLOW_TYPE_NORMAL 1
     else ja_flow inner_job_id flow_type 1
   }"

section \<open>Value\<close>

fun value_icon_loop :: "uint64 \<Rightarrow> icon_value list \<Rightarrow> rc prog" where
  "value_icon_loop inner_job_id [] = ja_flow inner_job_id JA_FLOW_TYPE_NORMAL 1"
| "value_icon_loop inner_job_id (r # rows) = do {
     after_value \<leftarrow> ja_cpy_value inner_job_id (iv_value r);
     case after_value of
       None \<Rightarrow> refuse_icon inner_job_id ''JARUNICONVALUE200002'' 0
         [PS ''jarun_icon_value'', PS (iv_value r), PU inner_job_id]
     | Some x \<Rightarrow> do {
         db_ret \<leftarrow> DBexecute (Insert_value After (iv_job r) (iv_jobnet r) (iv_name r) (sql_text (esc x)));
         if db_ret \<le> ZBX_DB_OK then refuse_icon inner_job_id ''JARUNICONVALUE200001'' 0
           [PS ''jarun_icon_value'', PS ''ja_run_value_after_table'', PS (iv_name r), PU inner_job_id]
         else value_icon_loop inner_job_id rows
       }
   }"

definition jarun_icon_value :: "uint64 \<Rightarrow> rc prog" where
  "jarun_icon_value inner_job_id = do {
     rows \<leftarrow> DBselect (\<lambda>t. filter (\<lambda>r. iv_job r = inner_job_id) (icon_values (icons t)));
     value_icon_loop inner_job_id rows }"

section \<open>Jobnet\<close>

definition jarun_icon_jobnet :: "uint64 \<Rightarrow> rc prog" where
  "jarun_icon_jobnet inner_job_id = do {
     row \<leftarrow> DBselect_row (select_link inner_job_id);
     case row of
       None \<Rightarrow> refuse_icon inner_job_id ''JARUNICONJOBNET200001'' 0
         [PS ''jarun_icon_jobnet'', PU inner_job_id]
     | Some l \<Rightarrow> do {
         rc \<leftarrow> ja_set_status_jobnet (in_link l) JA_JOBNET_STATUS_READY (- 1) (- 1);
         if rc = FAIL then ja_set_runerr inner_job_id 2
         else do {
           rc \<leftarrow> ja_value_before_jobnet_in inner_job_id (in_link l);
           if rc = FAIL then ja_set_runerr inner_job_id 2
           else do {
             status \<leftarrow> ja_get_status_jobnet (in_link l);
             if status \<noteq> JA_JOB_STATUS_READY then ja_set_runerr inner_job_id 2 else ret SUCCEED
           }
         }
       }
   }"

section \<open>Task\<close>

definition jarun_icon_task :: "uint64 \<Rightarrow> int \<Rightarrow> rc prog" where
  "jarun_icon_task inner_job_id test_flag = do {
     let run_type = (if test_flag = JA_JOB_TEST_FLAG_OFF then JA_JOBNET_RUN_TYPE_IMMEDIATE
                     else JA_JOBNET_RUN_TYPE_TEST);
     row \<leftarrow> DBselect_row (\<lambda>t. filter (\<lambda>r. it_job r = inner_job_id) (icon_tasks (icons t)));
     case row of
       None \<Rightarrow> refuse_icon inner_job_id ''JARUNICONTASK200001'' 0 [PS ''jarun_icon_task'', PU inner_job_id]
     | Some r \<Rightarrow> do {
         let submit_jobnet_id = strlcpy 40 (it_submit r);
         submit_inner_jobnet_id \<leftarrow> get_next_id JA_RUN_ID_JOBNET_EX 0 None inner_job_id;
         if submit_inner_jobnet_id = 0 then ja_set_runerr inner_job_id 2
         else do {
           row \<leftarrow> DBselect_row (select_jobnet (it_jobnet r));
           case row of
             None \<Rightarrow> refuse_icon inner_job_id ''JARUNICONTASK200005'' 0
               [PS ''jarun_icon_task'', PS (show_u64 (it_jobnet r))]
           | Some n \<Rightarrow> do {
               db_ret \<leftarrow> DBexecute
                 (Submit_jobnet submit_inner_jobnet_id run_type (rn_exec_user n) submit_jobnet_id);
               if db_ret < ZBX_DB_OK then ret FAIL
               else if db_ret = ZBX_DB_OK then refuse_icon inner_job_id ''JARUNICONTASK200004'' 0
                 [PS ''jarun_icon_task'', PS submit_jobnet_id]
               else ja_flow inner_job_id JA_FLOW_TYPE_NORMAL 1
             }
         }
       }
   }"

section \<open>Info\<close>

text \<open>The loop over the components of the path; result: the status, -1 for an error.\<close>

fun info_status_loop :: "uint64 \<Rightarrow> int \<Rightarrow> uint64 \<Rightarrow> uint64 \<Rightarrow> string list \<Rightarrow> int prog" where
  "info_status_loop inner_job_id status i n [] = ret status"
| "info_status_loop inner_job_id status i n (tp # tps) = do {
     link \<leftarrow> (if i > 0 then do { row \<leftarrow> DBselect_row (select_link i); ret (map_option in_link row) }
             else ret (Some n));
     case link of
       None \<Rightarrow> do {
         _ \<leftarrow> ja_log ''JARUNICONINFO200001'' 0 None inner_job_id [PS ''jarun_icon_info_get_status'', PU i];
         ret (- 1) }
     | Some n \<Rightarrow> do {
         row \<leftarrow> DBselect_row (select_named n tp);
         case row of
           None \<Rightarrow> do {
             _ \<leftarrow> ja_log ''JARUNICONINFO200002'' 0 None inner_job_id
                    [PS ''jarun_icon_info_get_status'', PS tp, PU inner_job_id];
             ret (- 1) }
         | Some r \<Rightarrow> info_status_loop inner_job_id (rj_status r) (rj_id r) n tps
       }
   }"

definition jarun_icon_info_get_status :: "uint64 \<Rightarrow> string \<Rightarrow> uint64 \<Rightarrow> int prog" where
  "jarun_icon_info_get_status inner_jobnet_id get_job_id inner_job_id =
     info_status_loop inner_job_id (- 1) 0 inner_jobnet_id (strtok (CHR ''/'') get_job_id)"

definition jarun_icon_info_get_calendar :: "string \<Rightarrow> uint64 \<Rightarrow> int prog" where
  "jarun_icon_info_get_calendar get_calendar_id inner_job_id = do {
     now \<leftarrow> now_string;
     let today = strlcpy 9 now;
     row \<leftarrow> DBselect_row (\<lambda>t. filter (\<lambda>(c, u, valid). c = get_calendar_id \<and> valid = 1) (calendars t));
     case row of
       None \<Rightarrow> do {
         _ \<leftarrow> ja_log ''JARUNICONINFO200004'' 0 None inner_job_id
                [PS ''jarun_icon_info_get_calendar'', PS get_calendar_id];
         ret (- 1) }
     | Some (_, update_date, _) \<Rightarrow> do {
         row \<leftarrow> DBselect_row (\<lambda>t. filter (\<lambda>(c, u, d). c = get_calendar_id \<and> u = update_date \<and>
                  d = int (dec_val today)) (calendar_days t));
         ret (if row = None then 0 else 1) }
   }"

text \<open>
  With \<open>info_flag\<close> 0 and no path (\<^verbatim>\<open>NULL\<close>) the C library's \<^verbatim>\<open>strtok\<close> goes on
  with the string of its last call; the model reads it as an empty path, the column being
  filled for every such icon.
\<close>

definition jarun_icon_info :: "uint64 \<Rightarrow> rc prog" where
  "jarun_icon_info inner_job_id = do {
     row \<leftarrow> DBselect_row (\<lambda>t. filter (\<lambda>r. if_job r = inner_job_id) (icon_infos (icons t)));
     undefined_id \<leftarrow> gets garbage;
     case row of
       None \<Rightarrow> do {
         _ \<leftarrow> ja_log ''JARUNICONINFO200003'' undefined_id None inner_job_id
                [PS ''jarun_icon_info'', PU inner_job_id];
         ret FAIL }
     | Some r \<Rightarrow> do {
         status \<leftarrow> (if if_flag r = 0 then
             jarun_icon_info_get_status (if_jobnet r) (or_empty (if_job_id r)) inner_job_id
           else if if_flag r = 3 then
             jarun_icon_info_get_calendar (or_empty (if_calendar r)) inner_job_id
           else ret (- 1));
         if status < 0 then ja_set_runerr inner_job_id 2
         else do {
           _ \<leftarrow> ja_set_value_after inner_job_id (if_jobnet r) ''LAST_STATUS''
                  (Some (strlcpy 4 (show_int status)));
           ja_flow inner_job_id JA_FLOW_TYPE_NORMAL 1 }
       }
   }"

section \<open>Release\<close>

definition release_hold :: "uint64 \<Rightarrow> int prog" where
  "release_hold i = do {
     _ \<leftarrow> DBselect (select_job i);
     DBexecute (Update_job (Job_is_method i JA_JOB_METHOD_WAIT)
       (job_cols\<lparr>js_method := Some JA_JOB_METHOD_NORMAL\<rparr>)) }"

text \<open>First loop over the running jobnets of that name: check; result \<open>None\<close> when all are fine.\<close>

fun release_check :: "uint64 \<Rightarrow> string \<Rightarrow> string \<Rightarrow> run_summary list \<Rightarrow> (string \<times> parg list) option prog" where
  "release_check inner_job_id release_job_id jid [] = ret None"
| "release_check inner_job_id release_job_id jid (s # ss) = do {
     r \<leftarrow> ja_jobnet_get_job_id (rs_id s) jid;
     if r = 0 then ret (Some (''JARUNICONRELEASE200003'',
       [PS ''jarun_icon_release'', PS release_job_id, PU inner_job_id]))
     else do {
       row \<leftarrow> DBselect_row (\<lambda>t. filter (\<lambda>j. rj_method j = JA_JOB_METHOD_WAIT) (select_job r t));
       case row of
         None \<Rightarrow> ret (Some (''JARUNICONRELEASE200002'',
           [PS ''jarun_icon_release'', PS release_job_id, PU r]))
       | Some _ \<Rightarrow> release_check inner_job_id release_job_id jid ss
     }
   }"

definition running_summaries :: "string \<Rightarrow> tables \<Rightarrow> run_summary list" where
  "running_summaries j t =
     filter (\<lambda>s. rs_jobnet_id s = j \<and> rs_status s = JA_JOBNET_STATUS_RUN) (summaries t)"

definition jarun_icon_release :: "uint64 \<Rightarrow> rc prog" where
  "jarun_icon_release inner_job_id = do {
     row \<leftarrow> DBselect_row (\<lambda>t. filter (\<lambda>r. ir_job r = inner_job_id) (icon_releases (icons t)));
     case row of
       None \<Rightarrow> do {
         _ \<leftarrow> ja_log ''JARUNICONRELEASE200001'' 0 None inner_job_id
                [PS ''jarun_icon_release'', PU inner_job_id];
         ret FAIL }
     | Some r \<Rightarrow> do {
         release_inner_job_id \<leftarrow> ja_jobnet_get_job_id (ir_jobnet r) (ir_release r);
         if release_inner_job_id \<noteq> 0 then do {
           db_ret \<leftarrow> release_hold release_inner_job_id;
           if db_ret \<le> ZBX_DB_OK then refuse_icon inner_job_id ''JARUNICONRELEASE200002'' 0
             [PS ''jarun_icon_release'', PS (ir_release r), PU release_inner_job_id]
           else ja_flow inner_job_id JA_FLOW_TYPE_NORMAL 1
         }
         else if CHR ''/'' \<notin> set (ir_release r) then
           refuse_icon inner_job_id ''JARUNICONRELEASE200003'' 0
             [PS ''jarun_icon_release'', PS (ir_release r), PU inner_job_id]
         else do {
           let jobnet_id = takeWhile (\<lambda>c. c \<noteq> CHR ''/'') (ir_release r);
           let jid = tl (dropWhile (\<lambda>c. c \<noteq> CHR ''/'') (ir_release r));
           rows \<leftarrow> DBselect (running_summaries jobnet_id);
           checked \<leftarrow> (if rows = [] then ret (Some (''JARUNICONRELEASE200003'',
               [PS ''jarun_icon_release'', PS (ir_release r), PU inner_job_id]))
             else release_check inner_job_id (ir_release r) jid rows);
           case checked of
             Some (message_id, args) \<Rightarrow> refuse_icon inner_job_id message_id 0 args
           | None \<Rightarrow> do {
               rows \<leftarrow> DBselect (running_summaries jobnet_id);
               _ \<leftarrow> do_rows (\<lambda>s. do {
                      i \<leftarrow> ja_jobnet_get_job_id (rs_id s) jid;
                      if i = 0 then ret () else do { _ \<leftarrow> release_hold i; ret () } }) rows;
               ja_flow inner_job_id JA_FLOW_TYPE_NORMAL 1
             }
         }
       }
   }"

section \<open>What the icons keep\<close>

context db_steps
begin

lemmas icon_basics = status_intros steps_ja_log steps_get_next_id steps_ja_jobnet_get_job_id

lemma steps_jarun_value_before: "steps (jarun_value_before i)"
  unfolding jarun_value_before_def by (intro icon_basics)

lemma steps_jarun_value_after: "steps (jarun_value_after i)"
  unfolding jarun_value_after_def by (intro icon_basics)

lemma steps_refuse_icon: "steps (refuse_icon i m n args)"
  unfolding refuse_icon_def by (intro icon_basics)

lemma steps_icon_common: "steps (jarun_icon_common i)"
  unfolding jarun_icon_common_def by (rule steps_ja_flow_runerr)

lemma steps_icon_end: "steps (jarun_icon_end i)"
  unfolding jarun_icon_end_def by (intro icon_basics steps_refuse_icon)

lemma steps_icon_if: "steps (jarun_icon_if lc i tf)"
  unfolding jarun_icon_if_def jarun_icon_if_comp_def by (intro icon_basics)

lemma steps_value_icon_loop: "steps (value_icon_loop i rows)"
  by (induction rows) (subst value_icon_loop.simps, intro icon_basics steps_refuse_icon; simp add: run_sql_def)+

lemma steps_icon_value: "steps (jarun_icon_value i)"
  unfolding jarun_icon_value_def by (intro icon_basics steps_value_icon_loop)

lemma steps_icon_jobnet: "steps (jarun_icon_jobnet i)"
  unfolding jarun_icon_jobnet_def by (intro icon_basics steps_refuse_icon; simp)

lemma steps_icon_task: "steps (jarun_icon_task i tf)"
  unfolding jarun_icon_task_def by (intro icon_basics steps_refuse_icon; simp add: run_sql_def)

lemma steps_info_status_loop: "steps (info_status_loop i0 st i n tps)"
  by (induction i0 st i n tps rule: info_status_loop.induct)
    (subst info_status_loop.simps, intro icon_basics; simp)+

lemma steps_icon_info: "steps (jarun_icon_info i)"
  unfolding jarun_icon_info_def jarun_icon_info_get_status_def jarun_icon_info_get_calendar_def
  by (intro icon_basics steps_info_status_loop)

lemma steps_release_hold: "steps (release_hold i)"
  unfolding release_hold_def by (intro icon_basics; simp add: run_sql_def)

lemma steps_release_check: "steps (release_check i p j ss)"
  by (induction ss) (subst release_check.simps, intro icon_basics; simp)+

lemma steps_icon_release: "steps (jarun_icon_release i)"
  unfolding jarun_icon_release_def
  by (intro icon_basics steps_refuse_icon steps_release_hold steps_release_check)

lemmas icon_intros = icon_basics steps_jarun_value_before steps_refuse_icon steps_icon_common
  steps_icon_end steps_icon_if steps_icon_value steps_icon_jobnet steps_icon_task steps_icon_info
  steps_icon_release

end

section \<open>Exit codes of jobnets\<close>

text \<open>
  \<open>stop_code_scan\<close> gives up at the first character that is no digit and at the fourth
  significant digit; what passes it is a number of at most three significant digits.
\<close>

lemma dec_val_cons_zero: "dec_val (CHR ''0'' # s) = dec_val s"
  by (simp add: dec_val_def digit_val_def)

lemma digit_val_pos: "is_digit c \<Longrightarrow> c \<noteq> CHR ''0'' \<Longrightarrow> 1 \<le> digit_val c"
proof -
  assume c: "is_digit c" "c \<noteq> CHR ''0''"
  have "(of_char c :: nat) \<noteq> of_char (CHR ''0'')"
    using c(2) by (simp only: of_char_eq_iff not_False_eq_True)
  with c(1) show ?thesis
    by (auto simp: is_digit_def digit_val_def)
qed

lemma digit_val_le: "is_digit c \<Longrightarrow> digit_val c \<le> 9"
  by (auto simp: is_digit_def digit_val_def)

lemma dec_val_bounds:
  "list_all is_digit s \<Longrightarrow> a * 10 ^ length s \<le> foldl (\<lambda>a c. 10 * a + digit_val c) a s \<and>
     foldl (\<lambda>a c. 10 * a + digit_val c) a s < (a + 1) * 10 ^ length s"
proof (induction s arbitrary: a)
  case (Cons c s)
  then have c: "digit_val c \<le> 9" and s: "list_all is_digit s"
    by (simp_all add: digit_val_le)
  have l: "a * 10 ^ length (c # s) \<le> (10 * a + digit_val c) * 10 ^ length s"
    by simp
  have u: "(10 * a + digit_val c + 1) * 10 ^ length s \<le> (a + 1) * 10 ^ length (c # s)"
    using mult_right_mono [of "10 * a + digit_val c + 1" "(a + 1) * 10" "10 ^ length s"] c
    by (simp add: algebra_simps)
  show ?case
    using Cons.IH [OF s, of "10 * a + digit_val c"] l u
    by (simp only: foldl.simps) linarith
qed simp

lemma scan_sig:
  "list_all is_digit s \<Longrightarrow> cnt \<le> 3 \<Longrightarrow>
   stop_code_scan True cnt s = (if length s + cnt \<le> 3 then None else Some 255)"
  by (induction s arbitrary: cnt) (auto simp: Let_def)

lemma scan_digits:
  "list_all is_digit s \<Longrightarrow>
   stop_code_scan False 0 s = (if dec_val s < 1000 then None else Some 255)"
proof (induction s)
  case (Cons c s)
  show ?case
  proof (cases "c = CHR ''0''")
    case True
    with Cons show ?thesis
      by (simp add: Let_def dec_val_cons_zero)
  next
    case False
    with Cons.prems have pos: "1 \<le> digit_val c" and le: "digit_val c \<le> 9" and s: "list_all is_digit s"
      using digit_val_pos [of c] by (simp_all add: digit_val_le)
    have v: "digit_val c * 10 ^ length s \<le> dec_val (c # s)"
      "dec_val (c # s) < (digit_val c + 1) * 10 ^ length s"
      using dec_val_bounds [OF s, of "digit_val c"] by (simp_all add: dec_val_def)
    have "stop_code_scan False 0 (c # s) = (if length s \<le> 2 then None else Some 255)"
      using Cons.prems False scan_sig [OF s, of 1] by (simp add: Let_def)
    moreover have "dec_val (c # s) < 1000" if "length s \<le> 2"
    proof -
      have "(digit_val c + 1) * 10 ^ length s \<le> 10 * 10 ^ (2::nat)"
        using le that by (intro mult_mono power_increasing) auto
      with v(2) show ?thesis
        by simp
    qed
    moreover have "1000 \<le> dec_val (c # s)" if "\<not> length s \<le> 2"
    proof -
      have "1 * 10 ^ (3::nat) \<le> digit_val c * 10 ^ length s"
        using pos that by (intro mult_mono power_increasing) auto
      with v(1) show ?thesis
        by simp
    qed
    ultimately show ?thesis
      by (auto simp: not_less)
  qed
qed simp

lemma stop_code_number:
  "s \<noteq> [] \<Longrightarrow> list_all is_digit s \<Longrightarrow> ja_stop_code_conv s = int (min 255 (dec_val s))"
proof -
  assume s: "s \<noteq> []" "list_all is_digit s"
  show ?thesis
  proof (cases "dec_val s < 1000")
    case True
    then have "atoi s = int (dec_val s)"
      using atoi_digits [OF s] by simp
    with True s show ?thesis
      by (simp add: ja_stop_code_conv_def scan_digits min_def Let_def)
  next
    case False
    with s show ?thesis
      by (simp add: ja_stop_code_conv_def scan_digits min_def)
  qed
qed

lemma scan_result: "stop_code_scan sw cnt s = Some r \<Longrightarrow> r = 0 \<or> r = 255"
  by (induction s arbitrary: sw cnt) (auto simp: Let_def split: if_splits)

lemma stop_code_range: "ja_stop_code_conv s \<in> {0..255}"
  using scan_result [of False 0 s] by (auto simp: ja_stop_code_conv_def Let_def split: option.splits)

end
