(* ===== verification/Jahost.thy ===== *)
theory Jahost
  imports Jaicons Sessions
begin

text \<open>
  Hosts (\<open>jalibs/jahost.c\<close>, \<open>jalibs/jaconnect.c\<close>): the name, address and port of the host
  an icon runs on, whether the host that reports is the one it claims to be, and the lock
  that keeps other icons away from a host that is being rebooted.
\<close>

section \<open>The environment\<close>

text \<open>
  What the server's configuration file says and what the operating system and the network
  answer: whether \<^verbatim>\<open>fork\<close> succeeds, the exit status of \<^verbatim>\<open>system\<close>, the output of
  \<^verbatim>\<open>popen\<close> in an environment, \<^verbatim>\<open>localtime\<close> some seconds after a given clock,
  \<^verbatim>\<open>tm_wday\<close>, \<^verbatim>\<open>mktime\<close>'s normalisation, the seconds since the epoch of
  a time \<open>YYYYMMDDhhmmss\<close>, whether a connection to an address and port
  is made and whether the peer of the socket has an address
  (\<^verbatim>\<open>zbx_tcp_check_security\<close>).
\<close>

record environment =
  zabbix_version :: int           \<comment> \<open>\<open>CONFIG_ZABBIX_VERSION\<close>\<close>
  agent_port :: int               \<comment> \<open>\<open>CONFIG_AGENT_LISTEN_PORT\<close>\<close>
  extjob_path :: string           \<comment> \<open>\<open>CONFIG_EXTJOB_PATH\<close>\<close>
  config_file :: string
  tmpdir :: string
  extjob_waittime :: int          \<comment> \<open>\<open>CONFIG_EXTJOB_WAITTIME\<close>\<close>
  forks :: bool
  system_status :: "string \<Rightarrow> int"
  popen :: "(string \<times> string) list \<Rightarrow> string \<Rightarrow> string option"
  seconds_later :: "int \<Rightarrow> int \<Rightarrow> tm"
  wday_of :: "int \<Rightarrow> int"
  normal_time :: "tm \<Rightarrow> tm option"
  epoch :: "int \<Rightarrow> int"
  tcp_connects :: "string \<Rightarrow> int \<Rightarrow> bool"
  peer_is :: "string \<Rightarrow> bool"
  files :: "string \<Rightarrow> string option"
  alive :: "int \<Rightarrow> bool"          \<comment> \<open>\<open>ja_process_check\<close>\<close>

abbreviation (input) JA_TXN_OFF :: int where "JA_TXN_OFF \<equiv> 0"
abbreviation (input) JA_TXN_ON :: int where "JA_TXN_ON \<equiv> 1"
abbreviation (input) JA_JOB_FORCE_FLAG_OFF :: int where "JA_JOB_FORCE_FLAG_OFF \<equiv> 0"
abbreviation (input) HOST_STATUS_MONITORED :: int where "HOST_STATUS_MONITORED \<equiv> 0"
abbreviation (input) JA_SSH_CONNECT_PORT :: int where "JA_SSH_CONNECT_PORT \<equiv> 22"
abbreviation (input) JA_AGENT_PORT :: string where "JA_AGENT_PORT \<equiv> ''{$JOBARRANGER_AGENT_PORT}''"
abbreviation (input) JA_SSH_PORT :: string where "JA_SSH_PORT \<equiv> ''{$JOBARRANGER_SSH_PORT}''"

section \<open>Name, address, port\<close>

text \<open>
  The name goes into a buffer of the caller that is assumed to have 1024 bytes; several
  callers pass one of 128.
\<close>

definition ja_host_getname :: "uint64 \<Rightarrow> int \<Rightarrow> string \<Rightarrow> string option prog" where
  "ja_host_getname inner_job_id host_flag host_name =
     (if host_flag = 0 then ret (Some (strlcpy 1024 host_name))
      else ja_get_value_before inner_job_id host_name)"

text \<open>A query whose \<^verbatim>\<open>NULL\<close> result the caller tells from an empty one.\<close>

definition DBselect_result :: "(tables \<Rightarrow> 'r list) \<Rightarrow> 'r list option prog" where
  "DBselect_result q = do {
     r \<leftarrow> until_up isl (zbx_db_vselect q);
     ret (case r of Inr rows \<Rightarrow> rows | Inl _ \<Rightarrow> None) }"

text \<open>In Zabbix 1.8 the address is in the table of hosts, later in a table of interfaces.\<close>

definition select_host :: "int \<Rightarrow> string \<Rightarrow> tables \<Rightarrow> host_row list" where
  "select_host ver host t =
     filter (\<lambda>r. ho_host r = sql_text (esc host) \<and> (ver = 1 \<or> ho_main r = 1)) (hosts t)"

text \<open>Host id (0 for an error), address and port.\<close>

definition getip_fails :: "uint64 \<Rightarrow> string \<Rightarrow> parg list \<Rightarrow> (uint64 \<times> string \<times> int) prog" where
  "getip_fails inner_job_id message_id args = do {
     _ \<leftarrow> ja_log message_id 0 None inner_job_id (PS ''ja_host_getip'' # args);
     ret (0, [], 0) }"

definition getip_of :: "string \<Rightarrow> uint64 \<Rightarrow> host_row \<Rightarrow> (uint64 \<times> string \<times> int) prog" where
  "getip_of host inner_job_id h = do {
     row2 \<leftarrow> DBselect_row (select_job inner_job_id);
     case row2 of
       None \<Rightarrow> getip_fails inner_job_id ''JAHOST200004'' [PU inner_job_id]
     | Some j \<Rightarrow>
         if ho_status h \<noteq> HOST_STATUS_MONITORED \<and> rj_force j = JA_JOB_FORCE_FLAG_OFF
         then getip_fails inner_job_id ''JAHOST200003'' [PS host, PU inner_job_id, PS (rj_job_id j)]
         else ret (ho_id h, if ho_useip h = 0 then ho_dns h else ho_ip h, atoi (ho_port h))
   }"

definition ja_host_getip :: "environment \<Rightarrow> string \<Rightarrow> uint64 \<Rightarrow> int \<Rightarrow> (uint64 \<times> string \<times> int) prog" where
  "ja_host_getip env host inner_job_id txn =
     (if zabbix_version env \<notin> {1, 2, 3}
      then getip_fails inner_job_id ''JAHOST200001'' [PI (zabbix_version env)]
      else do {
        rows \<leftarrow> DBselect_result (select_host (zabbix_version env) host);
        case rows of
          None \<Rightarrow> do {
            _ \<leftarrow> (if txn = JA_TXN_ON then DBrollback else ret ());
            getip_fails inner_job_id ''JAHOST200007'' [PI (zabbix_version env)] }
        | Some hs \<Rightarrow>
            (case hs of [] \<Rightarrow> getip_fails inner_job_id ''JAHOST200002'' [PS host, PU inner_job_id]
             | h # _ \<Rightarrow> getip_of host inner_job_id h)
      })"

definition ja_host_getport :: "environment \<Rightarrow> uint64 \<Rightarrow> int \<Rightarrow> int prog" where
  "ja_host_getport env hostid macro_flag = do {
     let (port, macro_name) = (if macro_flag = 0 then (agent_port env, JA_AGENT_PORT)
                               else (JA_SSH_CONNECT_PORT, JA_SSH_PORT));
     row \<leftarrow> DBselect_row (\<lambda>t. filter (\<lambda>(h, m, v). h = hostid \<and> m = macro_name) (hostmacros t));
     ret (case row of None \<Rightarrow> port | Some (_, _, v) \<Rightarrow> atoi v) }"

definition ja_host_auth :: "environment \<Rightarrow> string \<Rightarrow> uint64 \<Rightarrow> rc prog" where
  "ja_host_auth env host inner_job_id = do {
     (hostid, host_ip, _) \<leftarrow> ja_host_getip env host inner_job_id JA_TXN_ON;
     if hostid = 0 then ret FAIL
     else if \<not> peer_is env host_ip then do {
       _ \<leftarrow> ja_log ''JAHOST200006'' 0 None inner_job_id
              [PS ''ja_host_auth'', PS host, PS host_ip, PU inner_job_id];
       ret FAIL }
     else ret SUCCEED }"

text \<open>\<open>ja_connect\<close> and \<open>ja_connect_to_port\<close> differ in the port's macro and the rollback.\<close>

definition connect_host :: "environment \<Rightarrow> string \<Rightarrow> string \<Rightarrow> uint64 \<Rightarrow> int \<Rightarrow> int \<Rightarrow> rc prog" where
  "connect_host env caller host inner_job_id macro_flag txn = do {
     (hostid, host_ip, _) \<leftarrow> ja_host_getip env host inner_job_id txn;
     if hostid = 0 then ret FAIL
     else do {
       port \<leftarrow> ja_host_getport env hostid macro_flag;
       if tcp_connects env host_ip port then ret SUCCEED
       else do {
         _ \<leftarrow> ja_log ''JACONNECT300001'' 0 None inner_job_id
                [PS caller, PS host_ip, PI port];
         ret FAIL }
     }
   }"

definition ja_connect :: "environment \<Rightarrow> string \<Rightarrow> uint64 \<Rightarrow> rc prog" where
  "ja_connect env host inner_job_id = connect_host env ''ja_connect'' host inner_job_id 0 JA_TXN_ON"

definition ja_connect_to_port :: "environment \<Rightarrow> string \<Rightarrow> uint64 \<Rightarrow> int \<Rightarrow> rc prog" where
  "ja_connect_to_port env host inner_job_id txn =
     connect_host env ''ja_connect_to_port'' host inner_job_id 1 txn"

section \<open>The lock of a host\<close>

definition ja_host_lockinfo :: "string \<Rightarrow> rc prog" where
  "ja_host_lockinfo host = do {
     row \<leftarrow> DBselect_row (\<lambda>t. filter (\<lambda>h. h = sql_text (esc host)) (host_locks t));
     ret (if row = None then FAIL else SUCCEED) }"

text \<open>The row \<open>HOST_LOCK_RECORD\<close> is selected for update, so that only one process at a time goes on.\<close>

definition lock_record :: "string list prog" where
  "lock_record = DBselect (\<lambda>t. filter (\<lambda>h. h = ''HOST_LOCK_RECORD'') (host_locks t))"

definition ja_host_lock :: "environment \<Rightarrow> string \<Rightarrow> uint64 \<Rightarrow> rc prog" where
  "ja_host_lock env host inner_job_id = do {
     (hostid, _, _) \<leftarrow> ja_host_getip env host inner_job_id JA_TXN_ON;
     if hostid = 0 then ret FAIL
     else do {
       _ \<leftarrow> lock_record;
       db_ret \<leftarrow> DBexecute (Lock_host (sql_text (esc host)));
       if db_ret < ZBX_DB_OK then do {
         _ \<leftarrow> ja_log ''JAHOST200005'' 0 None inner_job_id
                [PS ''ja_host_lock'', PS host, PU inner_job_id];
         ret FAIL }
       else ret SUCCEED }
   }"

definition ja_host_unlock :: "string \<Rightarrow> rc prog" where
  "ja_host_unlock host = do {
     _ \<leftarrow> lock_record;
     db_ret \<leftarrow> DBexecute (Unlock_host (sql_text (esc host)));
     if db_ret < ZBX_DB_OK then ret FAIL else ret SUCCEED }"

section \<open>What they keep\<close>

context db_steps
begin

lemma steps_DBselect_result: "steps (DBselect_result q)"
  unfolding DBselect_result_def
  using query_step by (intro steps_bind steps_return steps_until_up) (auto simp: steps_def vselect_state)

lemma steps_ja_host_getname: "steps (ja_host_getname i f h)"
  unfolding ja_host_getname_def by (intro icon_intros)

lemma steps_ja_host_getport: "steps (ja_host_getport env h f)"
  unfolding ja_host_getport_def by (intro icon_intros)

lemma steps_host_locks: "steps (ja_host_lockinfo h)" "steps (ja_host_unlock h)" "steps lock_record"
  unfolding ja_host_lockinfo_def ja_host_unlock_def lock_record_def
  by (intro icon_intros; simp add: run_sql_def)+

lemmas host_basics = icon_intros steps_DBselect_result steps_ja_host_getname steps_ja_host_getport
  steps_host_locks

lemma steps_getip_parts: "steps (getip_fails i m args)" "steps (getip_of host i h)"
  unfolding getip_of_def getip_fails_def by (intro host_basics)+

end

context session_steps
begin

lemma steps_ja_host_getip: "steps (ja_host_getip env h i txn)"
  unfolding ja_host_getip_def by (intro host_basics session_intros steps_getip_parts)

lemma steps_ja_host_auth: "steps (ja_host_auth env h i)"
  unfolding ja_host_auth_def by (intro host_basics steps_ja_host_getip)

lemma steps_connect: "steps (ja_connect env h i)" "steps (ja_connect_to_port env h i txn)"
  unfolding ja_connect_def ja_connect_to_port_def connect_host_def
  by (intro host_basics steps_ja_host_getip)+

lemma steps_ja_host_lock: "steps (ja_host_lock env h i)"
  unfolding ja_host_lock_def
  by (intro host_basics steps_ja_host_getip; simp add: run_sql_def)

end

end
