(* ===== verification/Jaagent.thy ===== *)
theory Jaagent
  imports Jahost "HOL-Library.AList"
begin

text \<open>
  Icons that leave the database: job, file wait, file copy and reboot icons, which a forked
  child hands to an agent (\<open>jaruniconjob.c\<close>, \<open>jarunagent.c\<close>, \<open>jaruniconfwait.c\<close>,
  \<open>jaruniconfcopy.c\<close>, \<open>jaruniconreboot.c\<close>), the calculation icon, which runs a command
  (\<open>jaruniconcalc.c\<close>), and the agentless icon, which starts a session process
  (\<open>jaruniconless.c\<close>).  What the calling process does and what its child does are
  separate programs; a child has a connection of its own, except for the calculation
  icon's, which goes on using its parent's while the parent waits.
\<close>

section \<open>Requests to agents\<close>

abbreviation (input) JA_AGENT_METHOD_NORMAL :: int where "JA_AGENT_METHOD_NORMAL \<equiv> 0"
abbreviation (input) JA_AGENT_METHOD_TEST :: int where "JA_AGENT_METHOD_TEST \<equiv> 1"
abbreviation (input) JA_AGENT_METHOD_ABORT :: int where "JA_AGENT_METHOD_ABORT \<equiv> 2"
abbreviation (input) JA_AGENT_METHOD_KILL :: int where "JA_AGENT_METHOD_KILL \<equiv> 3"
abbreviation (input) JA_RESPONSE_SUCCEED :: int where "JA_RESPONSE_SUCCEED \<equiv> 0"

text \<open>
  The fields of \<open>ja_job_object\<close> that are sent; arguments and variables are kept as lists,
  which the code prints as JSON.
\<close>

record agent_request =
  rq_job :: uint64
  rq_host :: string
  rq_method :: int
  rq_type :: string
  rq_argument :: "string list"
  rq_script :: string
  rq_env :: "(string \<times> string) list"
  rq_user :: string
  rq_password :: string

definition no_request :: agent_request where
  "no_request = \<lparr>rq_job = 0, rq_host = [], rq_method = - 1, rq_type = [], rq_argument = [],
     rq_script = [], rq_env = [], rq_user = [], rq_password = []\<rparr>"

text \<open>A column of the settings that are kept as a list; \<^verbatim>\<open>%s\<close> of a \<^verbatim>\<open>NULL\<close> pointer.\<close>

definition column :: "nat \<Rightarrow> string option list \<Rightarrow> string" where
  "column k xs = (if k < length xs then or_empty (xs ! k) else [])"

definition printed :: "string option \<Rightarrow> string" where
  "printed s = (case s of None \<Rightarrow> ''(null)'' | Some x \<Rightarrow> x)"

text \<open>What the agent answers: the result and the message; \<open>None\<close> if nothing could be sent or received.\<close>

type_synonym agent = "agent_request \<Rightarrow> (int \<times> string) option"

definition no_response :: "string \<Rightarrow> string" where
  "no_response host = strlcpy 1024 (''Can not get the response from host: '' @ host)"

definition agent_error :: "agent \<Rightarrow> agent_request \<Rightarrow> string option" where
  "agent_error agent req = (case agent req of
     None \<Rightarrow> Some (no_response (rq_host req))
   | Some (rc, message) \<Rightarrow> if rc = JA_RESPONSE_SUCCEED then None else Some message)"

section \<open>The job icon\<close>

text \<open>\<^verbatim>\<open>json_object_object_add\<close> replaces a value of the same name.\<close>

fun jobcon_env :: "uint64 \<Rightarrow> string list \<Rightarrow> (string \<times> string) list \<Rightarrow> (string \<times> string) list prog" where
  "jobcon_env i [] e = ret e"
| "jobcon_env i (v # vs) e = do {
     x \<leftarrow> ja_get_value_before i v;
     jobcon_env i vs (AList.update v (or_empty x) e) }"

definition job_value_of :: "uint64 \<Rightarrow> string \<Rightarrow> string prog" where
  "job_value_of i p =
     (if length p > 1 then
        if p ! 0 = CHR ''$'' \<and> p ! 1 \<noteq> CHR ''$'' then do {
          x \<leftarrow> ja_get_value_before i (tl p);
          ret (or_empty x) }
        else if p ! 0 = CHR ''$'' then ret (strlcpy JA_MAX_DATA_LEN (tl p))
        else ret (strlcpy JA_MAX_DATA_LEN p)
      else ret (strlcpy JA_MAX_DATA_LEN p))"

fun job_value_env :: "uint64 \<Rightarrow> icon_value list \<Rightarrow> (string \<times> string) list \<Rightarrow> (string \<times> string) list prog" where
  "job_value_env i [] e = ret e"
| "job_value_env i (r # rs) e = do {
     x \<leftarrow> job_value_of i (iv_value r);
     job_value_env i rs (AList.update (iv_name r) x e) }"

definition jarun_icon_job_getenv :: "uint64 \<Rightarrow> (string \<times> string) list prog" where
  "jarun_icon_job_getenv i = do {
     names \<leftarrow> DBselect (\<lambda>t. map (snd \<circ> snd) (filter (\<lambda>r. fst r = i) (icon_jobcons (icons t))));
     e \<leftarrow> jobcon_env i names [];
     rows \<leftarrow> DBselect (\<lambda>t. filter (\<lambda>r. iv_job r = i) (icon_job_values (icons t)));
     job_value_env i rows e }"

definition job_refused :: "uint64 \<Rightarrow> uint64 \<Rightarrow> string \<Rightarrow> parg list \<Rightarrow> (rc + 'a) prog" where
  "job_refused inner_job_id inner_jobnet_id message_id args = do {
     rc \<leftarrow> refuse_icon inner_job_id message_id inner_jobnet_id args;
     ret (Inl rc) }"

text \<open>Command, user and variables of a job that is run or aborted (lines 199--232).\<close>

definition fill_job :: "uint64 \<Rightarrow> uint64 \<Rightarrow> int \<Rightarrow> agent_request \<Rightarrow> (rc + agent_request) prog" where
  "fill_job i n command_type req = do {
     row \<leftarrow> DBselect_row (\<lambda>t. filter (\<lambda>r. im_job r = i \<and> im_class r = command_type) (icon_commands (icons t)));
     case row of
       None \<Rightarrow> job_refused i n ''JARUNICONJOB200024'' [PU i]
     | Some c \<Rightarrow> do {
         row \<leftarrow> DBselect_row (select_job i);
         case row of
           None \<Rightarrow> job_refused i n ''JARUNICONJOB200024'' [PU i]
         | Some j \<Rightarrow> do {
             e \<leftarrow> jarun_icon_job_getenv i;
             ret (Inr (req\<lparr>rq_type := ''command'', rq_script := strlcpy JA_MAX_DATA_LEN (im_command c),
               rq_env := e, rq_user := strlcpy 1024 (printed (rj_user j)),
               rq_password := strlcpy 1024 (printed (rj_password j))\<rparr>)) }
       }
   }"

text \<open>The job that is aborted is named by the icon's \<open>inner_job_id_fs_link\<close> (lines 183--197).\<close>

definition abort_target :: "uint64 \<Rightarrow> uint64 \<Rightarrow> (rc + uint64) prog" where
  "abort_target i n = do {
     row \<leftarrow> DBselect_row (select_job i);
     case row of
       None \<Rightarrow> job_refused i n ''JARUNICONJOB200024'' [PU i]
     | Some j \<Rightarrow> ret (Inr (rj_fs_link j)) }"

text \<open>The part in front of the fork (lines 139--232): the result, or the request and the jobnet.\<close>

definition prepare_job :: "uint64 \<Rightarrow> int \<Rightarrow> (rc + agent_request \<times> uint64) prog" where
  "prepare_job i flag = do {
     row \<leftarrow> DBselect_row (\<lambda>t. filter (\<lambda>r. ih_job r = i) (icon_job_hosts (icons t)));
     undefined_id \<leftarrow> gets garbage;
     case row of
       None \<Rightarrow> job_refused i undefined_id ''JARUNICONJOB200017'' [PU i]
     | Some r \<Rightarrow> do {
         let n = ih_jobnet r;
         let host_name = strlcpy 128 (printed (ih_name r));
         host \<leftarrow> ja_host_getname i (ih_flag r) host_name;
         case host of
           None \<Rightarrow> job_refused i n ''JARUNICONJOB200028'' [PS host_name, PI (ih_flag r), PU i]
         | Some host \<Rightarrow> do {
             locked \<leftarrow> (if flag = JA_AGENT_METHOD_NORMAL \<or> flag = JA_AGENT_METHOD_TEST
                        then ja_host_lockinfo host else ret FAIL);
             if locked = SUCCEED then ret (Inl FAIL)
             else do {
               rc \<leftarrow> (if flag = JA_AGENT_METHOD_ABORT \<or> flag = JA_AGENT_METHOD_KILL
                      then ja_set_status_job i JA_JOB_STATUS_ABORT (- 1) (- 1) else ret SUCCEED);
               if rc = FAIL then ret (Inl FAIL)
               else do {
                 target \<leftarrow> (if flag = JA_AGENT_METHOD_ABORT then abort_target i n else ret (Inr i));
                 case target of
                   Inl rc \<Rightarrow> ret (Inl rc)
                 | Inr jobid \<Rightarrow> do {
                     let req = no_request\<lparr>rq_job := jobid, rq_host := strlcpy 128 host, rq_method := flag\<rparr>;
                     filled \<leftarrow> (if flag = JA_AGENT_METHOD_KILL then ret (Inr req)
                       else fill_job i n
                         (if flag = JA_AGENT_METHOD_ABORT then 2 else atoi (column 1 (ih_rest r))) req);
                     ret (case filled of Inl rc \<Rightarrow> Inl rc | Inr req \<Rightarrow> Inr (req, n)) }
               }
             }
           }
       }
   }"

definition jarun_icon_job :: "environment \<Rightarrow> uint64 \<Rightarrow> int \<Rightarrow> rc prog" where
  "jarun_icon_job env i flag = do {
     p \<leftarrow> prepare_job i flag;
     case p of
       Inl rc \<Rightarrow> ret rc
     | Inr (req, n) \<Rightarrow> if forks env then ret SUCCEED else refuse_icon i ''JARUNICONJOB200027'' n [PU i] }"

text \<open>The child (lines 243--274); a child returns nothing.\<close>

definition job_child :: "environment \<Rightarrow> agent \<Rightarrow> uint64 \<Rightarrow> uint64 \<Rightarrow> agent_request \<Rightarrow> unit prog" where
  "job_child env agent i n req = do {
     rc \<leftarrow> ja_connect env (rq_host req) i;
     if rc = FAIL then do { _ \<leftarrow> ja_set_runerr i 2; ret () }
     else (case agent_error agent req of
        None \<Rightarrow> ret ()
      | Some message \<Rightarrow> do {
          _ \<leftarrow> refuse_icon i ''JARUNICONJOB200012'' n [PU i, PS message];
          ret () }) }"

section \<open>\<open>jarun_agent\<close> and the file wait icon\<close>

definition prepare_agent :: "agent_request \<Rightarrow> string \<Rightarrow> int \<Rightarrow> uint64 \<Rightarrow> (rc + agent_request) prog" where
  "prepare_agent job host_name host_flag i = do {
     host \<leftarrow> ja_host_getname (rq_job job) host_flag host_name;
     case host of
       None \<Rightarrow> do {
         _ \<leftarrow> ja_log ''JARUNAGENT200001'' 0 None i [PS ''jarun_agent'', PS host_name, PI host_flag, PU i];
         rc \<leftarrow> ja_set_runerr (rq_job job) 2;
         ret (Inl rc) }
     | Some host \<Rightarrow> do {
         locked \<leftarrow> ja_host_lockinfo host;
         if locked = SUCCEED then ret (Inl FAIL)
         else do {
           rc \<leftarrow> (if rq_method job = JA_AGENT_METHOD_KILL
                  then ja_set_status_job (rq_job job) JA_JOB_STATUS_ABORT (- 1) (- 1) else ret SUCCEED);
           ret (if rc = FAIL then Inl FAIL else Inr (job\<lparr>rq_host := strlcpy 128 host\<rparr>)) }
       }
   }"

definition jarun_agent :: "environment \<Rightarrow> agent_request \<Rightarrow> string \<Rightarrow> int \<Rightarrow> uint64 \<Rightarrow> rc prog" where
  "jarun_agent env job host_name host_flag i = do {
     p \<leftarrow> prepare_agent job host_name host_flag i;
     case p of
       Inl rc \<Rightarrow> ret rc
     | Inr req \<Rightarrow>
         if forks env then ret SUCCEED
         else do {
           _ \<leftarrow> ja_log ''JARUNAGENT200002'' 0 None i [PS ''jarun_agent'', PU i];
           if rq_method req = JA_AGENT_METHOD_KILL then ret FAIL else ja_set_runerr (rq_job req) 2 }
   }"

text \<open>The child (lines 110--144).\<close>

definition agent_child :: "environment \<Rightarrow> agent \<Rightarrow> uint64 \<Rightarrow> agent_request \<Rightarrow> unit prog" where
  "agent_child env agent i req = do {
     rc \<leftarrow> ja_connect env (rq_host req) i;
     if rc = FAIL then do { _ \<leftarrow> ja_set_runerr (rq_job req) 2; ret () }
     else (case agent_error agent req of
        None \<Rightarrow> ret ()
      | Some message \<Rightarrow> do {
          _ \<leftarrow> ja_log ''JARUNAGENT200004'' 0 None i [PS ''jarun_agent'', PU i, PS message];
          if rq_method req \<noteq> JA_AGENT_METHOD_KILL
          then do { _ \<leftarrow> ja_set_runerr (rq_job req) 2; ret () } else ret () }) }"

text \<open>Settings of the icon: \<open>fwait_mode_flag, file_delete_flag, file_wait_time, file_name\<close>.\<close>

definition jarun_icon_fwait :: "environment \<Rightarrow> uint64 \<Rightarrow> int \<Rightarrow> rc prog" where
  "jarun_icon_fwait env i flag = do {
     row \<leftarrow> DBselect_row (\<lambda>t. filter (\<lambda>r. ih_job r = i) (icon_fwait_hosts (icons t)));
     case row of
       None \<Rightarrow> refuse_icon i ''JARUNICONFWAIT200001'' 0 [PS ''jarun_icon_fwait'', PU i]
     | Some r \<Rightarrow> do {
         file_name \<leftarrow> ja_cpy_value i (column 3 (ih_rest r));
         case file_name of
           None \<Rightarrow> refuse_icon i ''JARUNICONFWAIT200002'' 0
             [PS ''jarun_icon_fwait'', PS (column 3 (ih_rest r)), PU i]
         | Some file_name \<Rightarrow>
             let run = (flag = JA_AGENT_METHOD_NORMAL \<or> flag = JA_AGENT_METHOD_TEST) in
             jarun_agent env (no_request\<lparr>rq_job := i, rq_method := flag,
                 rq_argument := [file_name, column 1 (ih_rest r), column 2 (ih_rest r)],
                 rq_type := (if run then ''extjob'' else []),
                 rq_script := (if \<not> run then [] else if atoi (column 0 (ih_rest r)) = 0
                               then ''jafwait'' else ''jafcheck'')\<rparr>)
               (strlcpy 128 (printed (ih_name r))) (ih_flag r) i
       }
   }"

section \<open>The file copy icon\<close>

text \<open>
  Settings: \<open>to_host_flag, overwrite_flag, from_directory, from_file_name, to_host_name,
  to_directory\<close>.  Names that have been found and the texts behind them, one after the other.
\<close>

definition cpy_or_refuse :: "uint64 \<Rightarrow> string \<Rightarrow> (string \<Rightarrow> (rc + 'a) prog) \<Rightarrow> (rc + 'a) prog" where
  "cpy_or_refuse i src k = do {
     x \<leftarrow> ja_cpy_value i src;
     case x of
       None \<Rightarrow> job_refused i 0 ''JARUNICONFCOPY200004'' [PS ''jarun_icon_fcopy'', PS src, PU i]
     | Some v \<Rightarrow> k v }"

definition name_or_refuse ::
    "uint64 \<Rightarrow> int \<Rightarrow> string \<Rightarrow> string \<Rightarrow> (string \<Rightarrow> (rc + 'a) prog) \<Rightarrow> (rc + 'a) prog" where
  "name_or_refuse i flag host_name message_id k = do {
     x \<leftarrow> ja_host_getname i flag host_name;
     case x of
       None \<Rightarrow> job_refused i 0 message_id [PS ''jarun_icon_fcopy'', PS host_name, PI flag, PU i]
     | Some v \<Rightarrow> k v }"

record copy_request =
  cp_from :: string
  cp_to :: string
  cp_argument :: "string list"

definition prepare_fcopy :: "uint64 \<Rightarrow> (rc + copy_request) prog" where
  "prepare_fcopy i = do {
     row \<leftarrow> DBselect_row (\<lambda>t. filter (\<lambda>r. ih_job r = i) (icon_fcopy_hosts (icons t)));
     case row of
       None \<Rightarrow> job_refused i 0 ''JARUNICONFCOPY200001'' [PS ''jarun_icon_fcopy'', PU i]
     | Some r \<Rightarrow>
         (let c = (\<lambda>k. column k (ih_rest r)) in
          cpy_or_refuse i (c 2) (\<lambda>from_directory.
          cpy_or_refuse i (c 3) (\<lambda>from_file_name.
          cpy_or_refuse i (c 5) (\<lambda>to_directory.
          name_or_refuse i (ih_flag r) (strlcpy 128 (printed (ih_name r))) ''JARUNICONFCOPY200005'' (\<lambda>from_host.
          name_or_refuse i (atoi (c 0)) (strlcpy 128 (c 4)) ''JARUNICONFCOPY200006'' (\<lambda>to_host. do {
            locked \<leftarrow> ja_host_lockinfo from_host;
            if locked = SUCCEED then ret (Inl FAIL)
            else do {
              locked \<leftarrow> ja_host_lockinfo to_host;
              ret (if locked = SUCCEED then Inl FAIL
                   else Inr \<lparr>cp_from = from_host, cp_to = to_host,
                     cp_argument = [from_directory, from_file_name, to_directory, show_int (atoi (c 1))]\<rparr>) }
          }))))))
   }"

definition jarun_icon_fcopy :: "environment \<Rightarrow> uint64 \<Rightarrow> int \<Rightarrow> rc prog" where
  "jarun_icon_fcopy env i flag = do {
     p \<leftarrow> prepare_fcopy i;
     case p of
       Inl rc \<Rightarrow> ret rc
     | Inr req \<Rightarrow> if forks env then ret SUCCEED
         else refuse_icon i ''JARUNICONFCOPY200002'' 0 [PS ''jarun_icon_fcopy'', PU i] }"

text \<open>
  The child (lines 162--275): what the receiving host answers to \<open>putfile\<close> and how the
  copying itself ends are parameters, \<open>None\<close> for success, else the message.
\<close>

definition fcopy_ends :: "uint64 \<Rightarrow> string option option \<Rightarrow> unit prog" where
  "fcopy_ends i failure =
     (case failure of
        None \<Rightarrow> do { _ \<leftarrow> ja_flow i JA_FLOW_TYPE_NORMAL 1; ret () }
      | Some errmsg \<Rightarrow> do {
          _ \<leftarrow> (case errmsg of None \<Rightarrow> ret SUCCEED
               | Some m \<Rightarrow> ja_log ''JARUNICONFCOPY200003'' 0 None i [PS ''jarun_icon_fcopy'', PS m, PU i]);
          _ \<leftarrow> ja_set_runerr i 2;
          ret () })"

definition fcopy_child ::
    "environment \<Rightarrow> uint64 \<Rightarrow> copy_request \<Rightarrow> string option \<Rightarrow> string option \<Rightarrow> unit prog" where
  "fcopy_child env i req putfile copied = do {
     rc \<leftarrow> ja_connect env (cp_to req) i;
     if rc = FAIL then fcopy_ends i (Some None)
     else if putfile \<noteq> None then fcopy_ends i (Some putfile)
     else do {
       rc \<leftarrow> ja_connect env (cp_from req) i;
       if rc = FAIL then fcopy_ends i (Some None)
       else if copied \<noteq> None then fcopy_ends i (Some copied)
       else fcopy_ends i None }
   }"

section \<open>The reboot icon\<close>

text \<open>
  Settings: \<open>reboot_mode_flag, reboot_wait_time, timeout\<close>.  The host is locked until the
  reboot has been reported (\<open>jatrap_jobresult\<close>).
\<close>

definition prepare_reboot :: "environment \<Rightarrow> uint64 \<Rightarrow> int \<Rightarrow> (rc + agent_request) prog" where
  "prepare_reboot env i flag = do {
     row \<leftarrow> DBselect_row (\<lambda>t. filter (\<lambda>r. ih_job r = i) (icon_reboot_hosts (icons t)));
     case row of
       None \<Rightarrow> job_refused i 0 ''JARUNICONREBOOT200001'' [PS ''jarun_icon_reboot'', PU i]
     | Some r \<Rightarrow> do {
         let host_name = strlcpy 128 (printed (ih_name r));
         host \<leftarrow> ja_host_getname i (ih_flag r) host_name;
         case host of
           None \<Rightarrow> job_refused i 0 ''JARUNICONREBOOT200002''
             [PS ''jarun_icon_reboot'', PS host_name, PI (ih_flag r), PU i]
         | Some host \<Rightarrow>
             let req = Inr (no_request\<lparr>rq_job := i, rq_host := strlcpy 128 host, rq_method := flag,
                         rq_type := ''reboot'',
                         rq_argument := [show_int (atoi (column 0 (ih_rest r))),
                                         show_int (atoi (column 1 (ih_rest r)))]\<rparr>) in
             if flag = JA_JOB_METHOD_ABORT then do {
               rc \<leftarrow> ja_set_status_job i JA_JOB_STATUS_ABORT (- 1) (- 1);
               ret (if rc = FAIL then Inl FAIL else req) }
             else do {
               locked \<leftarrow> ja_host_lockinfo host;
               if locked = SUCCEED then ret (Inl FAIL)
               else do {
                 rc \<leftarrow> ja_host_lock env host i;
                 if rc = FAIL then do { rc \<leftarrow> ja_set_runerr i 2; ret (Inl rc) } else ret req }
             }
       }
   }"

definition jarun_icon_reboot :: "environment \<Rightarrow> uint64 \<Rightarrow> int \<Rightarrow> rc prog" where
  "jarun_icon_reboot env i flag = do {
     p \<leftarrow> prepare_reboot env i flag;
     case p of
       Inl rc \<Rightarrow> ret rc
     | Inr req \<Rightarrow>
         if forks env then ret SUCCEED
         else do {
           _ \<leftarrow> ja_log ''JARUNICONREBOOT200004'' 0 None i [PS ''jarun_icon_reboot'', PU i];
           if flag = JA_JOB_METHOD_ABORT then ret FAIL
           else do { _ \<leftarrow> ja_host_unlock (rq_host req); ja_set_runerr i 2 } }
   }"

text \<open>The child (lines 133--189).\<close>

definition reboot_failed :: "uint64 \<Rightarrow> int \<Rightarrow> string \<Rightarrow> unit prog" where
  "reboot_failed i flag host =
     (if flag = JA_JOB_METHOD_ABORT then ret ()
      else do { _ \<leftarrow> ja_host_unlock host; _ \<leftarrow> ja_set_runerr i 2; ret () })"

definition reboot_child :: "environment \<Rightarrow> agent \<Rightarrow> uint64 \<Rightarrow> agent_request \<Rightarrow> unit prog" where
  "reboot_child env agent i req = do {
     rc \<leftarrow> ja_connect env (rq_host req) i;
     if rc = FAIL then reboot_failed i (rq_method req) (rq_host req)
     else (case agent req of
        None \<Rightarrow> reboot_failed i (rq_method req) (rq_host req)
      | Some (res, message) \<Rightarrow>
          if res = JA_RESPONSE_SUCCEED then ret ()
          else do {
            _ \<leftarrow> ja_log ''JARUNICONREBOOT200006'' 0 None i [PS ''jarun_icon_reboot'', PU i, PS message];
            reboot_failed i (rq_method req) (rq_host req) }) }"

section \<open>What they keep\<close>

context db_steps
begin

lemma steps_job_refused: "steps (job_refused i n m args)"
  unfolding job_refused_def by (intro host_basics)

lemma steps_jobcon_env: "steps (jobcon_env i vs e)"
  by (induction vs arbitrary: e) (auto intro!: host_basics)

lemma steps_job_value_of: "steps (job_value_of i p)"
  unfolding job_value_of_def by (intro host_basics)

lemma steps_job_value_env: "steps (job_value_env i rs e)"
  by (induction rs arbitrary: e) (auto intro!: host_basics steps_job_value_of)

lemma steps_getenv: "steps (jarun_icon_job_getenv i)"
  unfolding jarun_icon_job_getenv_def by (intro host_basics steps_jobcon_env steps_job_value_env)

lemma steps_fill_job: "steps (fill_job i n c req)"
  unfolding fill_job_def by (intro host_basics steps_job_refused steps_getenv)

lemma steps_abort_target: "steps (abort_target i n)"
  unfolding abort_target_def by (intro host_basics steps_job_refused)

lemma steps_prepare_job: "steps (prepare_job i flag)"
  unfolding prepare_job_def
  by (intro host_basics steps_sum steps_job_refused steps_fill_job steps_abort_target; simp)

lemma steps_jarun_icon_job: "steps (jarun_icon_job env i flag)"
  unfolding jarun_icon_job_def by (intro host_basics steps_sum steps_prepare_job)

lemma steps_prepare_agent: "steps (prepare_agent job h f i)"
  unfolding prepare_agent_def by (intro host_basics; simp)

lemma steps_jarun_agent: "steps (jarun_agent env job h f i)"
  unfolding jarun_agent_def by (intro host_basics steps_sum steps_prepare_agent)

lemma steps_jarun_icon_fwait: "steps (jarun_icon_fwait env i flag)"
  unfolding jarun_icon_fwait_def by (intro host_basics steps_jarun_agent)

lemma steps_or_refuse:
  "(\<And>v. steps (k v)) \<Longrightarrow> steps (cpy_or_refuse i src k)"
  "(\<And>v. steps (k v)) \<Longrightarrow> steps (name_or_refuse i flag h m k)"
  unfolding cpy_or_refuse_def name_or_refuse_def by (intro host_basics steps_job_refused; simp)+

lemma steps_prepare_fcopy: "steps (prepare_fcopy i)"
  unfolding prepare_fcopy_def by (intro host_basics steps_or_refuse steps_job_refused)

lemma steps_jarun_icon_fcopy: "steps (jarun_icon_fcopy env i flag)"
  unfolding jarun_icon_fcopy_def by (intro host_basics steps_sum steps_prepare_fcopy)

lemmas agent_basics = host_basics steps_sum steps_jarun_icon_job steps_jarun_icon_fwait steps_jarun_icon_fcopy

end

context session_steps
begin

lemma steps_prepare_reboot: "steps (prepare_reboot env i flag)"
  unfolding prepare_reboot_def
  by (intro agent_basics steps_job_refused steps_ja_host_lock; simp)

lemma steps_jarun_icon_reboot: "steps (jarun_icon_reboot env i flag)"
  unfolding jarun_icon_reboot_def by (intro agent_basics steps_prepare_reboot)

lemma steps_children:
  "steps (job_child env agent i n req)" "steps (agent_child env agent i req)"
  "steps (fcopy_child env i creq putfile copied)" "steps (reboot_child env agent i req)"
  unfolding job_child_def agent_child_def fcopy_child_def fcopy_ends_def reboot_child_def reboot_failed_def
  by (intro agent_basics steps_connect)+

end

end
