(* ===== verification/Jaextjob.thy ===== *)
theory Jaextjob
  imports Jaagent
begin

text \<open>
  Icons that run commands of the server's host: calculation (\<open>jaruniconcalc.c\<close>,
  \<open>jaenv.c\<close>), extended jobs (\<open>jaruniconextjob.c\<close>) and agentless icons
  (\<open>jaruniconless.c\<close>).
\<close>

section \<open>Calculation\<close>

text \<open>
  The child sends its statements over the connection of its waiting parent; what it does to
  the statics of \<open>db.c\<close> is lost with it.
\<close>

definition rejoin :: "world \<Rightarrow> world \<Rightarrow> world" where
  "rejoin w w' = w'\<lparr>txn_level := txn_level w, txn_error := txn_error w, crashed := crashed w,
     no_valid_flag := no_valid_flag w\<rparr>"

definition as_child :: "'a prog \<Rightarrow> 'a prog" where
  "as_child m = State (\<lambda>w. case run_state m w of (x, w') \<Rightarrow> (x, rejoin w w'))"

definition setenv_ok :: "string \<Rightarrow> bool" where
  "setenv_ok key \<longleftrightarrow> key \<noteq> [] \<and> CHR ''='' \<notin> set key"

fun ja_setenv_rows :: "uint64 \<Rightarrow> job_value list \<Rightarrow> (string \<times> string) list \<Rightarrow> (string \<times> string) list option prog" where
  "ja_setenv_rows i [] e = ret (Some e)"
| "ja_setenv_rows i (r # rs) e =
     (if setenv_ok (v_name r) then ja_setenv_rows i rs (AList.update (v_name r) (v_value r) e)
      else do {
        _ \<leftarrow> ja_log ''JAENV300001'' 0 None i [PS ''ja_setenv'', PU i, PS (v_name r), PS (v_value r)];
        ret None })"

definition ja_setenv :: "uint64 \<Rightarrow> (string \<times> string) list option prog" where
  "ja_setenv i = do {
     rows \<leftarrow> DBselect (\<lambda>t. filter (\<lambda>r. v_job r = i) (vals_before t));
     ja_setenv_rows i rows [] }"

definition rtrim :: "char \<Rightarrow> string \<Rightarrow> string" where
  "rtrim c s = rev (dropWhile (\<lambda>x. x = c) (rev s))"

text \<open>
  The child's exit code as \<^verbatim>\<open>waitpid\<close> reports it.  An output of 4096 bytes or more
  leaves the buffer without a terminating NUL; the model cuts it there.
\<close>

definition calc_child :: "environment \<Rightarrow> uint64 \<Rightarrow> icon_calc \<Rightarrow> string \<Rightarrow> int prog" where
  "calc_child env i r cmd = do {
     e \<leftarrow> ja_setenv i;
     case e of
       None \<Rightarrow> ret 65024
     | Some e \<Rightarrow>
         (case popen env e cmd of
            None \<Rightarrow> do {
              _ \<leftarrow> ja_log ''JARUNICONCALC200003'' (ic_jobnet r) None i [PS ''jarun_icon_calc''];
              ret 64768 }
          | Some output \<Rightarrow>
              if output = [] then do {
                _ \<leftarrow> ja_log ''JARUNICONCALC200004'' (ic_jobnet r) None i [PS ''jarun_icon_calc'', PS cmd];
                ret 64512 }
              else do {
                _ \<leftarrow> ja_set_value_after i (ic_jobnet r) (strlcpy 1024 (ic_name r))
                       (Some (rtrim LF (take JA_MAX_DATA_LEN output)));
                ret 0 })
   }"

definition jarun_icon_calc :: "environment \<Rightarrow> uint64 \<Rightarrow> rc prog" where
  "jarun_icon_calc env i = do {
     row \<leftarrow> DBselect_row (\<lambda>t. filter (\<lambda>r. ic_job r = i) (icon_calcs (icons t)));
     case row of
       None \<Rightarrow> refuse_icon i ''JARUNICONCALC200001'' 0 [PS ''jarun_icon_calc'', PU i]
     | Some r \<Rightarrow>
         let cmd = (if ic_hand r = 0 then ja_format_expr (ic_formula r) else ja_format_date (ic_formula r)) in
         if \<not> forks env then refuse_icon i ''JARUNICONCALC200002'' (ic_jobnet r) [PS ''jarun_icon_calc'']
         else do {
           exit_code \<leftarrow> as_child (calc_child env i r cmd);
           if exit_code \<noteq> 0
           then refuse_icon i ''JARUNICONCALC200005'' (ic_jobnet r) [PS ''jarun_icon_calc'', PI exit_code]
           else ja_flow i JA_FLOW_TYPE_NORMAL 1 }
   }"

section \<open>Commands of the server's host\<close>

definition run_system :: "environment \<Rightarrow> string \<Rightarrow> int prog" where
  "run_system env cmd = do {
     _ \<leftarrow> modify (\<lambda>w. w\<lparr>spawned := spawned w @ [cmd]\<rparr>);
     ret (system_status env cmd) }"

text \<open>\<^verbatim>\<open>WIFEXITED\<close> and \<^verbatim>\<open>WEXITSTATUS\<close>\<close>

definition exit_state :: "int \<Rightarrow> int" where
  "exit_state rc = (if rc mod 128 = 0 then rc div 256 mod 256 else rc)"

section \<open>Extended jobs: when they are over\<close>

definition ja_get_zbxsnd_sender :: "string prog" where
  "ja_get_zbxsnd_sender = do {
     row \<leftarrow> DBselect_row (\<lambda>t. filter (\<lambda>p. fst p = ''ZBXSND_SENDER'') (params t));
     ret (case row of None \<Rightarrow> ''zabbix_sender'' | Some p \<Rightarrow> strlcpy 1024 (snd p)) }"

definition ja_get_sleep_time :: "environment \<Rightarrow> int \<Rightarrow> string \<Rightarrow> string" where
  "ja_get_sleep_time env now des_sec =
     (let t = seconds_later env now (atoi des_sec)
      in strlcpy 16 (pad 4 (tm_year t + 1900) @ pad 2 (tm_mon t + 1) @ pad 2 (tm_mday t) @
           pad 2 (tm_hour t) @ pad 2 (tm_min t) @ pad 2 (tm_sec t)))"

text \<open>\<open>[H]HMM[SS]\<close> with two digits for the hour.\<close>

definition two_digit_hour :: "string \<Rightarrow> string" where
  "two_digit_hour s = (if length s = 3 \<or> length s = 5 then strlcpy 7 (CHR ''0'' # s) else strlcpy 7 s)"

definition ja_check_wait_time :: "string \<Rightarrow> rc" where
  "ja_check_wait_time data =
     (if length data < 3 \<or> length data > 6 then FAIL
      else let hhmmss = two_digit_hour data;
               hour = atoi (strlcpy 3 hhmmss);
               minute = atoi (strlcpy 3 (drop 2 hhmmss));
               sec = (if length data > 4 then atoi (strlcpy 3 (drop 4 hhmmss)) else 0)
        in if hour < 0 \<or> hour > 99 then FAIL
           else if minute < 0 \<or> minute > 59 then FAIL
           else if sec < 0 \<or> sec > 59 then FAIL
           else SUCCEED)"

text \<open>
  The time of day, counted from the start of the day the main jobnet started; hours from 24
  on are hours of a later day.  \<^verbatim>\<open>mktime\<close> turns a day behind the end of the month into
  one of the next.
\<close>

definition ja_get_wait_time :: "environment \<Rightarrow> string \<Rightarrow> string \<Rightarrow> string option" where
  "ja_get_wait_time env des_time start_time =
     (let hhmmss = two_digit_hour des_time;
          w_ss = (if length hhmmss = 4 then ''00'' else strlcpy 3 (drop 4 hhmmss));
          w = atoi (strlcpy 5 hhmmss);
          pday = (if w \<ge> 2400 then w div 2400 else 0);
          wtime = w - 2400 * pday;
          year = atoi (strlcpy 5 start_time);
          mon = atoi (strlcpy 3 (drop 4 start_time));
          day = atoi (strlcpy 3 (drop 6 start_time))
      in case normal_time env \<lparr>tm_year = year - 1900, tm_mon = mon - 1, tm_mday = day + pday,
                tm_hour = 0, tm_min = 0, tm_sec = 0\<rparr> of
           None \<Rightarrow> None
         | Some t \<Rightarrow> Some (strlcpy 16 (pad 4 (tm_year t + 1900) @ pad 2 (tm_mon t + 1) @
                           pad 2 (tm_mday t) @ pad 4 wtime @ w_ss)))"

text \<open>
  The days of the week in a text, Sunday being 1: \<open>Inl 1\<close> for a wrong name, \<open>Inl 2\<close> for
  one that is named twice.
\<close>

definition toupper :: "char \<Rightarrow> char" where
  "toupper c = (let n = of_char c :: nat in if 97 \<le> n \<and> n \<le> 122 then char_of (n - 32) else c)"

definition week_days :: "string list" where
  "week_days = [''SUN'', ''MON'', ''TUE'', ''WED'', ''THU'', ''FRI'', ''SAT'']"

fun week_scan :: "int list \<Rightarrow> string list \<Rightarrow> int + int list" where
  "week_scan jw [] = Inr jw"
| "week_scan jw (tp # tps) =
     (let wday = map toupper tp in
      if wday \<notin> set week_days then Inl 1
      else let d = int (length (takeWhile (\<lambda>x. x \<noteq> wday) week_days)) + 1
        in if d \<in> set jw then Inl 2 else week_scan (jw @ [d]) tps)"

definition ja_check_week :: "string \<Rightarrow> int + int list" where
  "ja_check_week value =
     (if value = [] then Inr [1, 2, 3, 4, 5, 6, 7] else week_scan [] (strtok (CHR '' '') value))"

section \<open>Extended jobs: starting them\<close>

text \<open>An error message whose arguments end with the icon's path.\<close>

definition refuse_path :: "uint64 \<Rightarrow> string \<Rightarrow> parg list \<Rightarrow> rc prog" where
  "refuse_path i message_id args = do {
     path \<leftarrow> ja_get_jobid i;
     refuse_icon i message_id 0 (args @ [PS path]) }"

text \<open>Lock the icon's row, then write the time it waits for.\<close>

definition extjob_wait_until :: "uint64 \<Rightarrow> string \<Rightarrow> string \<Rightarrow> string \<Rightarrow> rc prog" where
  "extjob_wait_until i caller message_id wait_time = do {
     _ \<leftarrow> DBselect (\<lambda>t. filter (\<lambda>r. ix_job r = i) (icon_extjobs (icons t)));
     rc \<leftarrow> DBexecute (Wait_extjob i None (Some wait_time));
     if rc < ZBX_DB_OK then refuse_icon i message_id 0 [PS caller, PS wait_time, PU i]
     else ret SUCCEED }"

definition jarun_icon_extjob_sleep :: "environment \<Rightarrow> uint64 \<Rightarrow> string \<Rightarrow> rc prog" where
  "jarun_icon_extjob_sleep env i value =
     (if length value < 1 \<or> length value > 6 \<or> ja_check_number value = FAIL
      then refuse_path i ''JARUNICONEXTJOB200009'' [PS ''jarun_icon_extjob_sleep'', PS value, PU i]
      else do {
        now \<leftarrow> gets clock;
        extjob_wait_until i ''jarun_icon_extjob_sleep'' ''JARUNICONEXTJOB200010''
          (ja_get_sleep_time env now value) })"

definition jarun_icon_extjob_time :: "environment \<Rightarrow> uint64 \<Rightarrow> uint64 \<Rightarrow> string \<Rightarrow> rc prog" where
  "jarun_icon_extjob_time env n i value =
     (if ja_check_number value = FAIL \<or> ja_check_wait_time value = FAIL
      then refuse_path i ''JARUNICONEXTJOB200011'' [PS ''jarun_icon_extjob_time'', PS value, PU i]
      else do {
        row \<leftarrow> DBselect_row (select_jobnet n);
        case row of
          None \<Rightarrow> refuse_icon i ''JARUNICONEXTJOB200007'' 0 [PS ''jarun_icon_extjob_time'', PU n]
        | Some r \<Rightarrow> do {
            start_time \<leftarrow> ja_get_jobnet_summary_start (rn_main r);
            case start_time of
              None \<Rightarrow> refuse_icon i ''JARUNICONEXTJOB200005'' (rn_main r)
                [PS ''jarun_icon_extjob_time'', PU (rn_main r)]
            | Some start_time \<Rightarrow>
                (case ja_get_wait_time env value start_time of
                   None \<Rightarrow> do {
                     path \<leftarrow> ja_get_jobid i;
                     refuse_icon i ''JARUNICONEXTJOB200016'' (rn_main r)
                       [PS ''jarun_icon_extjob_time'', PS value, PS start_time, PU i, PS path] }
                 | Some wait_time \<Rightarrow>
                     extjob_wait_until i ''jarun_icon_extjob_time'' ''JARUNICONEXTJOB200012'' wait_time) }
      })"

definition jarun_icon_extjob_week :: "environment \<Rightarrow> uint64 \<Rightarrow> uint64 \<Rightarrow> string \<Rightarrow> rc prog" where
  "jarun_icon_extjob_week env n i value =
     (case ja_check_week value of
        Inl rc \<Rightarrow> refuse_path i (if rc = 2 then ''JARUNICONEXTJOB200017'' else ''JARUNICONEXTJOB200013'')
          [PS ''jarun_icon_extjob_week'', PS value, PU i]
      | Inr jw \<Rightarrow> do {
          now \<leftarrow> gets clock;
          let wday = wday_of env now + 1;
          let wd = (if wday \<in> set jw then wday else 0);
          or_fail (ja_set_value_after i n ''JOB_EXIT_CD'' (Some (strlcpy 3 (show_int wd))))
            (ja_flow i JA_FLOW_TYPE_NORMAL 1) })"

definition result_file :: "environment \<Rightarrow> uint64 \<Rightarrow> string" where
  "result_file env i = tmpdir env @ ''/extjob_result.'' @ show_u64 i"

definition jarun_icon_extjob_zbxsender :: "environment \<Rightarrow> uint64 \<Rightarrow> string \<Rightarrow> rc prog" where
  "jarun_icon_extjob_zbxsender env i value = do {
     cmd \<leftarrow> ja_get_zbxsnd_sender;
     let full_command = strlcpy 9216 (cmd @ '' -vv '' @ value @ '' > '' @ result_file env i @ '' 2>&1 &'');
     rc \<leftarrow> run_system env full_command;
     if rc \<noteq> 0 then do {
       path \<leftarrow> ja_get_jobid i;
       refuse_icon i ''JARUNICONEXTJOB200015'' 0
         [PS ''jarun_icon_extjob_zbxsender'', PU i, PS path, PI (exit_state rc), PS full_command] }
     else ret SUCCEED }"

abbreviation (input) JA_CMD_SLEEP :: string where "JA_CMD_SLEEP \<equiv> ''jacmdsleep''"
abbreviation (input) JA_CMD_TIME :: string where "JA_CMD_TIME \<equiv> ''jacmdtime''"
abbreviation (input) JA_CMD_WEEK :: string where "JA_CMD_WEEK \<equiv> ''jacmdweek''"
abbreviation (input) JA_CMD_ZBXSENDER :: string where "JA_CMD_ZBXSENDER \<equiv> ''zabbix_sender''"

text \<open>The column \<open>value\<close> is assumed to be filled.\<close>

definition jarun_icon_extjob :: "environment \<Rightarrow> uint64 \<Rightarrow> int \<Rightarrow> rc prog" where
  "jarun_icon_extjob env i test_flag = do {
     row \<leftarrow> DBselect_row (\<lambda>t. filter (\<lambda>r. ix_job r = i) (icon_extjobs (icons t)));
     case row of
       None \<Rightarrow> refuse_icon i ''JARUNICONEXTJOB200004'' 0 [PS ''jarun_icon_extjob'', PU i]
     | Some r \<Rightarrow>
         let command_id = strlcpy 33 (ix_command r) in
         if test_flag = JA_JOB_TEST_FLAG_ON \<and> (command_id = JA_CMD_SLEEP \<or> command_id = JA_CMD_TIME)
         then ja_flow i JA_FLOW_TYPE_NORMAL 1
         else do {
           value \<leftarrow> ja_replace_variable i (Some (ja_format_extjob (or_empty (ix_value r)))) 8192;
           case value of
             None \<Rightarrow> ja_set_runerr i 2
           | Some v \<Rightarrow>
               let value = lrtrim_spaces v in
               if command_id = JA_CMD_SLEEP then jarun_icon_extjob_sleep env i value
               else if command_id = JA_CMD_TIME then jarun_icon_extjob_time env (ix_jobnet r) i value
               else if command_id = JA_CMD_WEEK then jarun_icon_extjob_week env (ix_jobnet r) i value
               else if command_id = JA_CMD_ZBXSENDER then jarun_icon_extjob_zbxsender env i value
               else refuse_path i ''JARUNICONEXTJOB200008'' [PS ''jarun_icon_extjob'', PS command_id, PU i] }
   }"

section \<open>Agentless icons\<close>

abbreviation (input) JA_SESSION_FLAG_ONETIME :: int where "JA_SESSION_FLAG_ONETIME \<equiv> 0"
abbreviation (input) JA_SESSION_FLAG_CONNECT :: int where "JA_SESSION_FLAG_CONNECT \<equiv> 1"
abbreviation (input) JA_SESSION_FLAG_CONTINUE :: int where "JA_SESSION_FLAG_CONTINUE \<equiv> 2"
abbreviation (input) JA_SES_STATUS_BEGIN :: int where "JA_SES_STATUS_BEGIN \<equiv> 0"
abbreviation (input) JA_SES_STATUS_END :: int where "JA_SES_STATUS_END \<equiv> 1"

text \<open>
  A new session (lines 104--164): its row is committed before the process is started that
  works on it, so the icon's transaction is in two parts.
\<close>

definition new_session :: "string \<Rightarrow> uint64 \<Rightarrow> uint64 \<Rightarrow> int \<Rightarrow> session_row" where
  "new_session session_id main i operation =
     \<lparr>ss_id = session_id, ss_main = main, ss_job = i, ss_operation = operation,
      ss_status = JA_SES_STATUS_BEGIN, ss_force_stop = 0, ss_pid = 0\<rparr>"

definition session_command :: "environment \<Rightarrow> string \<Rightarrow> uint64 \<Rightarrow> int \<Rightarrow> string" where
  "session_command env session_id main test_flag = strlcpy 1024
     (extjob_path env @ ''/jobarg_session -S '' @ [QUOTE] @ session_id @ [QUOTE] @ '' -r '' @ [QUOTE] @
      show_u64 main @ [QUOTE] @ '' -T '' @ [QUOTE] @ show_int test_flag @ [QUOTE] @ '' -c '' @ [QUOTE] @
      config_file env @ [QUOTE] @ '' &'')"

definition start_session :: "environment \<Rightarrow> uint64 \<Rightarrow> string \<Rightarrow> uint64 \<Rightarrow> int \<Rightarrow> int \<Rightarrow> rc prog" where
  "start_session env i session_id main operation test_flag = do {
     row \<leftarrow> DBselect_row (\<lambda>t. [length (filter (\<lambda>s. ss_id s = session_id \<and> ss_main s = main) (sessions t))]);
     case row of
       None \<Rightarrow> refuse_icon i ''JARUNICONLESS200008'' 0 [PS ''jarun_icon_less'', PS session_id, PU main]
     | Some count \<Rightarrow>
         if count \<noteq> 0 then refuse_path i ''JARUNICONLESS200004''
           [PS ''jarun_icon_less'', PU main, PS session_id]
         else do {
           rc \<leftarrow> DBexecute (Insert_session (new_session session_id main i operation));
           if rc \<le> ZBX_DB_OK then refuse_icon i ''JARUNICONLESS200009'' 0
             [PS ''jarun_icon_less'', PS session_id, PU main]
           else do {
             _ \<leftarrow> DBcommit;
             _ \<leftarrow> DBbegin;
             let cmd = session_command env session_id main test_flag;
             rc \<leftarrow> run_system env cmd;
             if rc \<noteq> 0 then refuse_icon i ''JARUNICONLESS200003'' 0
               [PS ''jarun_icon_less'', PI (exit_state rc), PS cmd]
             else ret SUCCEED }
         }
   }"

text \<open>An open session that is idle (lines 166--208).\<close>

definition take_session :: "uint64 \<Rightarrow> string \<Rightarrow> uint64 \<Rightarrow> int \<Rightarrow> rc prog" where
  "take_session i session_id main operation = do {
     row \<leftarrow> DBselect_row (\<lambda>t. filter (\<lambda>s. ss_id s = session_id \<and> ss_main s = main) (sessions t));
     case row of
       None \<Rightarrow> refuse_path i ''JARUNICONLESS200005'' [PS ''jarun_icon_less'', PU main, PS session_id]
     | Some s \<Rightarrow>
         if ss_status s \<noteq> JA_SES_STATUS_END
         then refuse_path i ''JARUNICONLESS200010'' [PS ''jarun_icon_less'', PU main, PS session_id]
         else do {
           rc \<leftarrow> DBexecute (Take_session session_id main i operation);
           if rc \<le> ZBX_DB_OK then refuse_icon i ''JARUNICONLESS200006'' 0
             [PS ''jarun_icon_less'', PU i, PS session_id, PU i]
           else ret SUCCEED }
   }"

definition jarun_icon_less :: "environment \<Rightarrow> uint64 \<Rightarrow> int \<Rightarrow> rc prog" where
  "jarun_icon_less env i test_flag = do {
     row \<leftarrow> DBselect_row (\<lambda>t. filter (\<lambda>r. il_job r = i) (icon_lesses (icons t)));
     case row of
       None \<Rightarrow> refuse_icon i ''JARUNICONLESS200001'' 0 [PS ''jarun_icon_less'', PU i]
     | Some r \<Rightarrow> do {
         let session_id = strlcpy 1024 (il_session r);
         row \<leftarrow> DBselect_row (select_jobnet (il_jobnet r));
         case row of
           None \<Rightarrow> refuse_icon i ''JARUNICONLESS200002'' 0 [PS ''jarun_icon_less'', PU (il_jobnet r)]
         | Some n \<Rightarrow>
             if il_session_flag r = JA_SESSION_FLAG_ONETIME \<or> il_session_flag r = JA_SESSION_FLAG_CONNECT
             then start_session env i session_id (rn_main n) (il_session_flag r) test_flag
             else if il_session_flag r = JA_SESSION_FLAG_CONTINUE \<or> il_session_flag r = JA_SESSION_FLAG_CLOSE
             then take_session i session_id (rn_main n) (il_session_flag r)
             else refuse_icon i ''JARUNICONLESS200007'' 0
               [PS ''jarun_icon_less'', PU i, PS session_id, PU i, PI (il_session_flag r)] }
   }"

section \<open>What they keep\<close>

lemma run_as_child: "run_state (as_child m) w = (result m w, rejoin w (exec m w))"
  by (simp add: as_child_def result_def exec_def split: prod.splits)

context db_steps
begin

lemma steps_as_child: "(\<And>w w'. R w w' \<Longrightarrow> R w (rejoin w w')) \<Longrightarrow> steps m \<Longrightarrow> steps (as_child m)"
  by (simp add: steps_def run_as_child exec_def)

lemma steps_ja_setenv: "steps (ja_setenv i)"
proof -
  have "steps (ja_setenv_rows i rs e)" for rs e
    by (induction rs arbitrary: e) (auto intro!: agent_basics)
  then show ?thesis
    unfolding ja_setenv_def by (intro agent_basics)
qed

lemma steps_calc_child: "steps (calc_child env i r cmd)"
  unfolding calc_child_def by (intro agent_basics steps_ja_setenv)

lemma steps_jarun_icon_calc:
  "(\<And>w w'. R w w' \<Longrightarrow> R w (rejoin w w')) \<Longrightarrow> steps (jarun_icon_calc env i)"
  unfolding jarun_icon_calc_def by (intro agent_basics steps_as_child steps_calc_child)

lemma steps_run_system: "steps (run_system env cmd)"
  unfolding run_system_def by (intro agent_basics)

lemma steps_refuse_path: "steps (refuse_path i m args)"
  unfolding refuse_path_def by (intro agent_basics)

lemma steps_extjob_wait_until: "steps (extjob_wait_until i c m d)"
  unfolding extjob_wait_until_def by (intro agent_basics; simp add: run_sql_def)

lemma steps_extjob_commands:
  "steps (jarun_icon_extjob_sleep env i v)" "steps (jarun_icon_extjob_time env n i v)"
  "steps (jarun_icon_extjob_week env n i v)" "steps (jarun_icon_extjob_zbxsender env i v)"
  unfolding jarun_icon_extjob_sleep_def jarun_icon_extjob_time_def jarun_icon_extjob_week_def
    jarun_icon_extjob_zbxsender_def ja_get_zbxsnd_sender_def
  by (intro agent_basics steps_refuse_path steps_extjob_wait_until steps_run_system)+

lemma steps_jarun_icon_extjob: "steps (jarun_icon_extjob env i tf)"
  unfolding jarun_icon_extjob_def by (intro agent_basics steps_refuse_path steps_extjob_commands)

lemma steps_take_session: "steps (take_session i s m f)"
  unfolding take_session_def by (intro agent_basics steps_refuse_path; simp add: run_sql_def)

lemmas extjob_basics = agent_basics steps_refuse_path steps_run_system steps_jarun_icon_extjob

end

context session_steps
begin

lemma steps_start_session: "steps (start_session env i s m f tf)"
  unfolding start_session_def
  by (intro extjob_basics steps_DBcommit steps_DBbegin; simp add: run_sql_def)

lemma steps_jarun_icon_less: "steps (jarun_icon_less env i tf)"
  unfolding jarun_icon_less_def by (intro extjob_basics steps_start_session steps_take_session)

end

end
