(* ===== verification/Jajobicons.thy ===== *)
theory Jajobicons
  imports Jaextjob
begin

text \<open>
  Watching the icons that have been started (\<open>jajob/jajobicon*.c\<close>, \<open>jalibs/jatimeout.c\<close>):
  time limits, the end of extended jobs, and stopping icons.
\<close>

section \<open>Time limits\<close>

text \<open>
  The time limit is in minutes; \<^verbatim>\<open>mktime\<close> of the start time gets a structure whose
  \<^verbatim>\<open>tm_isdst\<close> was never set, so \<open>epoch\<close> stands for whatever it makes of it.
\<close>

definition ja_timeout_check :: "environment \<Rightarrow> string \<Rightarrow> string \<Rightarrow> int \<Rightarrow> rc" where
  "ja_timeout_check env timeout start_time now =
     (let timeout_sec = signed_take_bit 31 (atoi timeout * 60) in
      if timeout_sec = 0 \<or> atoi start_time = 0 then FAIL
      else if epoch env (int (dec_val start_time)) + timeout_sec > epoch env now then FAIL
      else SUCCEED)"

abbreviation (input) JC_JOB_TIMEOUT :: string where "JC_JOB_TIMEOUT \<equiv> ''JC00000005''"

text \<open>What all three functions do with an icon whose time is over.\<close>

definition icon_timed_out ::
    "string \<Rightarrow> string \<Rightarrow> string \<Rightarrow> uint64 \<Rightarrow> uint64 \<Rightarrow> string \<Rightarrow> string \<Rightarrow> rc prog" where
  "icon_timed_out caller warning message_id i n timeout start_time = do {
     row \<leftarrow> DBselect_row (select_job i);
     (main_jobnet, user) \<leftarrow> (case row of
         None \<Rightarrow> ret ([], [])
       | Some j \<Rightarrow> do {
           row2 \<leftarrow> DBselect_row (select_jobnet (rj_main j));
           ret (case row2 of None \<Rightarrow> ([], [])
                | Some m \<Rightarrow> (strlcpy 64 (rn_jobnet_id m), strlcpy 110 (rn_exec_user m))) });
     path \<leftarrow> ja_get_jobid i;
     _ \<leftarrow> ja_log warning n None i
            [PS caller, PU i, PS timeout, PS start_time, PS main_jobnet, PS path, PS user];
     rc \<leftarrow> DBexecute (Update_job (Job_is i) (job_cols\<lparr>js_timeout := Some 1\<rparr>));
     if rc < ZBX_DB_OK then refuse_icon i message_id 0 [PS caller, PU i]
     else do {
       _ \<leftarrow> ja_joblog JC_JOB_TIMEOUT n i;
       ret SUCCEED }
   }"

definition jajob_icon_job_timeout :: "environment \<Rightarrow> uint64 \<Rightarrow> string \<Rightarrow> rc prog" where
  "jajob_icon_job_timeout env i start_time = do {
     row \<leftarrow> DBselect_row (\<lambda>t. filter (\<lambda>r. ih_job r = i) (icon_job_hosts (icons t)));
     case row of
       None \<Rightarrow> refuse_icon i ''JAJOBICONJOB200002'' 0 [PS ''jajob_icon_job_timeout'', PU i]
     | Some r \<Rightarrow> do {
         let timeout = strlcpy 64 (column 2 (ih_rest r));
         now \<leftarrow> now_number;
         if ja_timeout_check env timeout start_time now = FAIL then ret SUCCEED
         else icon_timed_out ''jajob_icon_job_timeout'' ''JAJOBICONJOB300001'' ''JAJOBICONJOB200003''
           i (ih_jobnet r) timeout start_time }
   }"

definition jajob_icon_reboot_timeout :: "environment \<Rightarrow> uint64 \<Rightarrow> string \<Rightarrow> rc prog" where
  "jajob_icon_reboot_timeout env i start_time = do {
     row \<leftarrow> DBselect_row (\<lambda>t. filter (\<lambda>r. ih_job r = i) (icon_reboot_hosts (icons t)));
     case row of
       None \<Rightarrow> refuse_icon i ''JAJOBICONREBOOT200001'' 0 [PS ''jajob_icon_reboot_timeout'', PU i]
     | Some r \<Rightarrow> do {
         let timeout = strlcpy 64 (column 2 (ih_rest r));
         now \<leftarrow> now_number;
         if ja_timeout_check env timeout start_time now = FAIL then ret SUCCEED
         else icon_timed_out ''jajob_icon_reboot_timeout'' ''JAJOBICONREBOOT300001'' ''JAJOBICONREBOOT200002''
           i (ih_jobnet r) timeout start_time }
   }"

definition jajob_icon_less_timeout :: "environment \<Rightarrow> uint64 \<Rightarrow> string \<Rightarrow> rc prog" where
  "jajob_icon_less_timeout env i start_time = do {
     row \<leftarrow> DBselect_row (\<lambda>t. filter (\<lambda>r. il_job r = i) (icon_lesses (icons t)));
     case row of
       None \<Rightarrow> refuse_icon i ''JAJOBICONLESS200001'' 0 [PS ''jajob_icon_less_timeout'', PU i]
     | Some r \<Rightarrow> do {
         let timeout = strlcpy 64 (column 4 (il_rest r));
         now \<leftarrow> now_number;
         if ja_timeout_check env timeout start_time now = FAIL then ret SUCCEED
         else icon_timed_out ''jajob_icon_less_timeout'' ''JAJOBICONLESS300001'' ''JAJOBICONLESS200004''
           i (il_jobnet r) timeout start_time }
   }"

section \<open>Stopping icons\<close>

definition jajob_icon_job_abort :: "environment \<Rightarrow> uint64 \<Rightarrow> rc prog" where
  "jajob_icon_job_abort env i = do {
     row \<leftarrow> DBselect_row (\<lambda>t. filter (\<lambda>r. ih_job r = i) (icon_job_hosts (icons t)));
     case row of
       None \<Rightarrow> refuse_icon i ''JAJOBICONJOB200002'' 0 [PS ''jajob_icon_job_abort'', PU i]
     | Some r \<Rightarrow> jarun_icon_job env i
         (if atoi (column 0 (ih_rest r)) = 0 then JA_AGENT_METHOD_KILL else JA_AGENT_METHOD_ABORT) }"

abbreviation (input) JA_SES_FORCE_STOP_ON :: int where "JA_SES_FORCE_STOP_ON \<equiv> 1"
abbreviation (input) JA_SES_FORCE_STOP_KILL :: int where "JA_SES_FORCE_STOP_KILL \<equiv> 2"

definition jajob_icon_less_abort :: "environment \<Rightarrow> uint64 \<Rightarrow> int \<Rightarrow> rc prog" where
  "jajob_icon_less_abort env i force_stop = do {
     row \<leftarrow> DBselect_row (\<lambda>t. filter (\<lambda>r. il_job r = i) (icon_lesses (icons t)));
     case row of
       None \<Rightarrow> refuse_icon i ''JAJOBICONLESS200001'' 0 [PS ''jajob_icon_less_abort'', PU i]
     | Some r \<Rightarrow> do {
         let session_id = strlcpy 1024 (il_session r);
         row \<leftarrow> DBselect_row (select_jobnet (il_jobnet r));
         case row of
           None \<Rightarrow> refuse_icon i ''JAJOBICONLESS200002'' 0 [PS ''jajob_icon_less_abort'', PU (il_jobnet r)]
         | Some n \<Rightarrow> do {
             row \<leftarrow> DBselect_row (\<lambda>t. filter (\<lambda>s. ss_id s = session_id \<and> ss_main s = rn_main n) (sessions t));
             case row of
               None \<Rightarrow> ret SUCCEED
             | Some s \<Rightarrow>
                 if ss_pid s \<le> 0 \<or> \<not> alive env (ss_pid s) then do {
                   _ \<leftarrow> DBexecute (Drop_session session_id (rn_main n));
                   ja_set_runerr i 2 }
                 else if force_stop \<noteq> JA_SES_FORCE_STOP_ON then ret SUCCEED
                 else do {
                   rc \<leftarrow> DBexecute (Stop_session session_id (rn_main n));
                   if rc \<le> ZBX_DB_OK then refuse_icon i ''JAJOBICONLESS200003'' 0
                     [PS ''jajob_icon_less_abort'', PU (rn_main n), PS session_id, PU i]
                   else ret SUCCEED }
           }
       }
   }"

section \<open>Extended jobs\<close>

text \<open>\<^verbatim>\<open>fgets\<close> with a buffer of \<open>n + 1\<close> bytes.\<close>

fun fgets :: "nat \<Rightarrow> string \<Rightarrow> string \<times> string" where
  "fgets 0 s = ([], s)"
| "fgets n [] = ([], [])"
| "fgets (Suc n) (c # s) =
     (if c = LF then ([c], s) else let (l, rest) = fgets n s in (c # l, rest))"

lemma fgets_shorter: "length (snd (fgets n s)) \<le> length s"
  by (induction n s rule: fgets.induct) (auto split: prod.splits)

definition fgets_line :: "char \<Rightarrow> string \<Rightarrow> string \<times> string" where
  "fgets_line c s = fgets 4095 (c # s)"

lemma fgets_shrinks: "length (snd (fgets (Suc n) (c # s))) \<le> length s"
  using fgets_shorter [of n s] by (auto split: prod.splits)

lemma fgets_line_shorter: "length (snd (fgets_line c s)) \<le> length s"
proof -
  have n: "4095 = Suc 4094"
    by simp
  show ?thesis
    unfolding fgets_line_def n by (rule fgets_shrinks)
qed

function file_lines :: "string \<Rightarrow> string list" where
  "file_lines [] = []"
| "file_lines (c # s) = (let r = fgets_line c s in fst r # file_lines (snd r))"
  by pat_completeness auto
termination
  by (relation "measure length") (simp_all add: less_Suc_eq_le fgets_line_shorter)

fun strstr :: "string \<Rightarrow> string \<Rightarrow> bool" where
  "strstr [] p \<longleftrightarrow> p = []"
| "strstr (c # s) p \<longleftrightarrow> take (length p) (c # s) = p \<or> strstr s p"

text \<open>
  The output of \<^verbatim>\<open>zabbix_sender\<close>: 0 when it has sent everything, 1 for an error, 2 as
  long as it runs, with the last line.  The first line is the one an error message shows
  when it is the error itself, later it is the line before.
\<close>

fun sender_lines :: "string \<Rightarrow> bool \<Rightarrow> string list \<Rightarrow> int \<times> string" where
  "sender_lines save_line sw [] = (2, save_line)"
| "sender_lines save_line sw (l # ls) =
     (let line = chop_last CR (chop_last LF l);
          save_line = (if sw then save_line else line)
      in if strstr line ''usage: '' \<or> strstr line ''Sending failed.'' \<or> strstr line ''sent: 0;''
         then (1, save_line)
         else if strstr line ''sent: '' then (0, line)
         else if strstr line ''sh: '' then (1, save_line)
         else sender_lines line True ls)"

definition ja_zbxsender_result_check :: "environment \<Rightarrow> uint64 \<Rightarrow> string \<Rightarrow> (int \<times> string) prog" where
  "ja_zbxsender_result_check env i file_name =
     (case files env file_name of
        None \<Rightarrow> do {
          path \<leftarrow> ja_get_jobid i;
          _ \<leftarrow> ja_log ''JAJOBICONEXTJOB200004'' 0 None i
                 [PS ''ja_zbxsender_result_check'', PS file_name, PU i, PS path];
          ret (1, []) }
      | Some text \<Rightarrow>
          (case sender_lines [] False (file_lines text) of
             (rc, save_line) \<Rightarrow>
               if rc = 1 then do {
                 path \<leftarrow> ja_get_jobid i;
                 _ \<leftarrow> ja_log ''JAJOBICONEXTJOB200005'' 0 None i
                        [PS ''ja_zbxsender_result_check'', PS save_line, PU i, PS path];
                 ret (1, save_line) }
               else ret (rc, save_line)))"

text \<open>The values of an icon whose command has failed, with what \<open>ja_file_load\<close> reads.\<close>

definition sender_failed :: "environment \<Rightarrow> uint64 \<Rightarrow> uint64 \<Rightarrow> string \<Rightarrow> rc prog" where
  "sender_failed env i n file_name = do {
     _ \<leftarrow> ja_set_value_after i n ''JOB_EXIT_CD'' (Some ''255'');
     _ \<leftarrow> ja_set_value_after i n ''STD_ERR'' (Some []);
     _ \<leftarrow> ja_set_value_after i n ''STD_OUT'' (Some (take 64000 (or_empty (files env file_name))));
     ja_set_runerr i 2 }"

text \<open>That the result file is removed in the end is not modelled.\<close>

definition watch_sender :: "environment \<Rightarrow> uint64 \<Rightarrow> uint64 \<Rightarrow> int \<Rightarrow> rc prog" where
  "watch_sender env i n wait_count = do {
     let file_name = result_file env i;
     (rc, save_line) \<leftarrow> ja_zbxsender_result_check env i file_name;
     if rc = 0 then do {
       _ \<leftarrow> ja_set_value_after i n ''JOB_EXIT_CD'' (Some ''0'');
       _ \<leftarrow> ja_set_value_after i n ''STD_OUT'' (Some save_line);
       _ \<leftarrow> ja_set_value_after i n ''STD_ERR'' (Some []);
       ja_flow i JA_FLOW_TYPE_NORMAL 1 }
     else if rc = 1 then sender_failed env i n file_name
     else if wait_count \<ge> extjob_waittime env then do {
       path \<leftarrow> ja_get_jobid i;
       _ \<leftarrow> ja_log ''JAJOBICONEXTJOB200002'' 0 None i
              [PS ''jajob_icon_extjob'', PS save_line, PU i, PS path];
       sender_failed env i n file_name }
     else do {
       _ \<leftarrow> DBselect (\<lambda>t. filter (\<lambda>r. ix_job r = i) (icon_extjobs (icons t)));
       rc \<leftarrow> DBexecute (Wait_extjob i (Some (wait_count + 1)) None);
       if rc < ZBX_DB_OK then refuse_icon i ''JAJOBICONEXTJOB200003'' 0
         [PS ''jajob_icon_extjob'', PI (wait_count + 1), PU i]
       else ret SUCCEED }
   }"

definition jajob_icon_extjob :: "environment \<Rightarrow> uint64 \<Rightarrow> uint64 \<Rightarrow> rc prog" where
  "jajob_icon_extjob env i n = do {
     row \<leftarrow> DBselect_row (\<lambda>t. filter (\<lambda>r. ix_job r = i) (icon_extjobs (icons t)));
     case row of
       None \<Rightarrow> refuse_icon i ''JAJOBICONEXTJOB200001'' 0 [PS ''jajob_icon_extjob'', PU i]
     | Some r \<Rightarrow> do {
         let command_id = strlcpy 33 (ix_command r);
         let wait_time = strlcpy 16 (or_empty (ix_wait_time r));
         if command_id = JA_CMD_WEEK then ret SUCCEED
         else if command_id = JA_CMD_ZBXSENDER then watch_sender env i n (ix_wait_count r)
         else if command_id = JA_CMD_SLEEP \<or> command_id = JA_CMD_TIME then do {
           now \<leftarrow> gets clock;
           let now_time = pad 14 (now div 1000);
           if now_time < wait_time then ret SUCCEED else ja_flow i JA_FLOW_TYPE_NORMAL 1 }
         else ret SUCCEED }
   }"

definition jajob_icon_extjob_kill :: "uint64 \<Rightarrow> rc prog" where
  "jajob_icon_extjob_kill i = do {
     row \<leftarrow> DBselect_row (\<lambda>t. filter (\<lambda>r. ix_job r = i) (icon_extjobs (icons t)));
     case row of
       None \<Rightarrow> refuse_icon i ''JAJOBICONEXTJOB200001'' 0 [PS ''jajob_icon_extjob_kill'', PU i]
     | Some r \<Rightarrow> if strlcpy 33 (ix_command r) = JA_CMD_WEEK then ret SUCCEED else ja_set_runerr i 2 }"

section \<open>What they keep\<close>

context db_steps
begin

lemma steps_icon_timed_out: "steps (icon_timed_out c x m i n a b)"
  unfolding icon_timed_out_def by (intro extjob_basics; simp add: run_sql_def)

lemma steps_timeouts:
  "steps (jajob_icon_job_timeout env i st)" "steps (jajob_icon_reboot_timeout env i st)"
  "steps (jajob_icon_less_timeout env i st)"
  unfolding jajob_icon_job_timeout_def jajob_icon_reboot_timeout_def jajob_icon_less_timeout_def
  by (intro extjob_basics steps_icon_timed_out)+

lemma steps_aborts:
  "steps (jajob_icon_job_abort env i)" "steps (jajob_icon_less_abort env i f)" "steps (jajob_icon_extjob_kill i)"
  unfolding jajob_icon_job_abort_def jajob_icon_less_abort_def jajob_icon_extjob_kill_def
  by (intro extjob_basics; simp add: run_sql_def)+

lemma steps_sender: "steps (ja_zbxsender_result_check env i f)" "steps (sender_failed env i n f)"
  unfolding ja_zbxsender_result_check_def sender_failed_def by (intro extjob_basics)+

lemma steps_jajob_icon_extjob: "steps (jajob_icon_extjob env i n)"
  unfolding jajob_icon_extjob_def watch_sender_def
  by (intro extjob_basics steps_sender; simp add: run_sql_def)

end

end
