(* ===== verification/Jarun.thy ===== *)
theory Jarun
  imports Jajobicons
begin

text \<open>
  The process that runs ready icons (\<open>jarun/jarun.c\<close>, \<open>jarun/jarunnormal.c\<close>,
  \<open>jarun/jarunskip.c\<close>).  Each ready icon is run in a transaction of its own, which is
  rolled back when the icon's run function fails.
\<close>

text \<open>
  The run function of the icons that change monitored objects of Zabbix
  (\<open>jaruniconzabbixlink.c\<close>) is a parameter: what the calling process itself does in it is a
  program on its world.
\<close>

type_synonym zabbix_link = "uint64 \<Rightarrow> int \<Rightarrow> rc prog"

text \<open>What is relied on: it keeps a relation that every statement keeps.\<close>

definition link_keeps :: "(world \<Rightarrow> world \<Rightarrow> bool) \<Rightarrow> zabbix_link \<Rightarrow> bool" where
  "link_keeps R zl \<longleftrightarrow> (\<forall>i f w. R w (exec (zl i f) w))"

section \<open>\<open>jarunnormal.c\<close>, \<open>jarunskip.c\<close>\<close>

definition run_icon :: "environment \<Rightarrow> zabbix_link \<Rightarrow> libc \<Rightarrow> uint64 \<Rightarrow> int \<Rightarrow> int \<Rightarrow> rc prog" where
  "run_icon env zl lc inner_job_id job_type test_flag =
     (if job_type = JA_JOB_TYPE_START then jarun_icon_common inner_job_id
      else if job_type = JA_JOB_TYPE_END then jarun_icon_end inner_job_id
      else if job_type = JA_JOB_TYPE_IF then jarun_icon_if lc inner_job_id test_flag
      else if job_type = JA_JOB_TYPE_VALUE then jarun_icon_value inner_job_id
      else if job_type = JA_JOB_TYPE_JOB then
        jarun_icon_job env inner_job_id (if test_flag = JA_JOB_TEST_FLAG_ON then JA_AGENT_METHOD_TEST
                                   else JA_AGENT_METHOD_NORMAL)
      else if job_type = JA_JOB_TYPE_JOBNET then jarun_icon_jobnet inner_job_id
      else if job_type = JA_JOB_TYPE_M then jarun_icon_common inner_job_id
      else if job_type = JA_JOB_TYPE_W then jarun_icon_common inner_job_id
      else if job_type = JA_JOB_TYPE_L then jarun_icon_common inner_job_id
      else if job_type = JA_JOB_TYPE_EXTJOB then jarun_icon_extjob env inner_job_id test_flag
      else if job_type = JA_JOB_TYPE_CALC then jarun_icon_calc env inner_job_id
      else if job_type = JA_JOB_TYPE_TASK then jarun_icon_task inner_job_id test_flag
      else if job_type = JA_JOB_TYPE_INFO then jarun_icon_info inner_job_id
      else if job_type = JA_JOB_TYPE_IFEND then jarun_icon_common inner_job_id
      else if job_type = JA_JOB_TYPE_FCOPY then jarun_icon_fcopy env inner_job_id JA_AGENT_METHOD_NORMAL
      else if job_type = JA_JOB_TYPE_FWAIT then jarun_icon_fwait env inner_job_id test_flag
      else if job_type = JA_JOB_TYPE_REBOOT then jarun_icon_reboot env inner_job_id test_flag
      else if job_type = JA_JOB_TYPE_REL then jarun_icon_release inner_job_id
      else if job_type = JA_JOB_TYPE_LESS then jarun_icon_less env inner_job_id test_flag
      else if job_type = JA_JOB_TYPE_LINK then zl inner_job_id test_flag
      else refuse_icon inner_job_id ''JARUNNORMAL200001'' 0
             [PS ''jarun_normal'', PI job_type, PU inner_job_id])"

definition jarun_normal :: "environment \<Rightarrow> zabbix_link \<Rightarrow> libc \<Rightarrow> uint64 \<Rightarrow> int \<Rightarrow> int \<Rightarrow> rc prog" where
  "jarun_normal env zl lc inner_job_id job_type test_flag =
     or_fail (jarun_value_before inner_job_id) (
     or_fail (ja_set_run inner_job_id) (
     or_fail (ja_set_run_job_id inner_job_id) (
     or_fail (ja_value_before_after inner_job_id) (
     run_icon env zl lc inner_job_id job_type test_flag))))"

definition jarun_skip :: "uint64 \<Rightarrow> uint64 \<Rightarrow> int \<Rightarrow> rc prog" where
  "jarun_skip inner_job_id inner_jobnet_id job_type =
     or_fail (jarun_value_before inner_job_id) (
     or_fail (ja_joblog JC_JOB_SKIP 0 inner_job_id) (
     or_fail (ja_value_before_after inner_job_id) (
     if job_type \<in> {JA_JOB_TYPE_START, JA_JOB_TYPE_END, JA_JOB_TYPE_M, JA_JOB_TYPE_W,
                     JA_JOB_TYPE_IF, JA_JOB_TYPE_IFEND, JA_JOB_TYPE_L}
     then refuse_icon inner_job_id ''JARUNSKIP200001'' inner_jobnet_id
            [PS ''jarun_skip'', PI job_type, PU inner_job_id]
     else ja_flow inner_job_id JA_FLOW_TYPE_NORMAL 1)))"

section \<open>\<open>process_jarun\<close>\<close>

text \<open>One icon, inside its transaction (lines 103--126).\<close>

definition run_method :: "environment \<Rightarrow> zabbix_link \<Rightarrow> libc \<Rightarrow> run_job \<Rightarrow> rc prog" where
  "run_method env zl lc r =
     (if rj_method r = JA_JOB_METHOD_NORMAL then do {
        _ \<leftarrow> ja_joblog JC_JOB_START (rj_jobnet r) (rj_id r);
        jarun_normal env zl lc (rj_id r) (rj_type r) (rj_test r) }
      else if rj_method r = JA_JOB_METHOD_WAIT then ret FAIL
      else if rj_method r = JA_JOB_METHOD_SKIP then jarun_skip (rj_id r) (rj_jobnet r) (rj_type r)
      else if rj_method r = JA_JOB_METHOD_ABORT then do {
        _ \<leftarrow> ja_log ''JARUN300001'' (rj_jobnet r) None (rj_id r) [PS ''process_jarun'', PU (rj_id r)];
        ret SUCCEED }
      else if rj_method r = JA_JOB_METHOD_RERUN then do {
        _ \<leftarrow> ja_joblog JC_JOB_RERUN (rj_jobnet r) (rj_id r);
        jarun_normal env zl lc (rj_id r) (rj_type r) (rj_test r) }
      else do {
        _ \<leftarrow> ja_log ''JARUN200001'' (rj_jobnet r) None (rj_id r)
               [PI (rj_method r), PU (rj_id r), PI (rj_type r)];
        ret SUCCEED })"

definition end_transaction :: "rc \<Rightarrow> unit prog" where
  "end_transaction rc = (if rc = SUCCEED then DBcommit else DBrollback)"

text \<open>
  One round of the loop; the row is what the query at its start had returned, the second
  query sees whether another process has taken the icon since.
\<close>

definition jarun_round :: "environment \<Rightarrow> zabbix_link \<Rightarrow> libc \<Rightarrow> run_job \<Rightarrow> rc prog" where
  "jarun_round env zl lc r = do {
     _ \<leftarrow> DBbegin;
     row2 \<leftarrow> DBselect_row (\<lambda>t. filter (\<lambda>j. rj_status j = JA_JOB_STATUS_READY) (select_job (rj_id r) t));
     if row2 = None then do { _ \<leftarrow> DBcommit; ret SUCCEED }
     else do {
       rc \<leftarrow> run_method env zl lc r;
       _ \<leftarrow> end_transaction rc;
       ret rc
     }
   }"

fun jarun_rounds :: "environment \<Rightarrow> zabbix_link \<Rightarrow> libc \<Rightarrow> rc \<Rightarrow> run_job list \<Rightarrow> rc prog" where
  "jarun_rounds env zl lc rc [] = ret rc"
| "jarun_rounds env zl lc rc (r # rs) = do {
     rc \<leftarrow> jarun_round env zl lc r;
     jarun_rounds env zl lc rc rs }"

definition process_jarun :: "environment \<Rightarrow> zabbix_link \<Rightarrow> libc \<Rightarrow> rc prog" where
  "process_jarun env zl lc = do {
     rows \<leftarrow> DBselect (\<lambda>t. filter (\<lambda>r. rj_status r = JA_JOB_STATUS_READY) (jobs t));
     jarun_rounds env zl lc FAIL rows }"

section \<open>What running icons keeps\<close>

text \<open>
  Reboot and agentless icons end transactions of their own, calculation icons have a child
  in the middle of them.
\<close>

context db_steps
begin

lemma steps_zabbix_link: "link_keeps R zl \<Longrightarrow> steps (zl i f)"
  by (simp add: link_keeps_def steps_def exec_def)

lemma steps_run_icon_with:
  assumes "ty = JA_JOB_TYPE_CALC \<Longrightarrow> steps (jarun_icon_calc env i)"
    and "ty = JA_JOB_TYPE_REBOOT \<Longrightarrow> steps (jarun_icon_reboot env i tf)"
    and "ty = JA_JOB_TYPE_LESS \<Longrightarrow> steps (jarun_icon_less env i tf)"
    and "ty = JA_JOB_TYPE_LINK \<Longrightarrow> link_keeps R zl"
  shows "steps (run_icon env zl lc i ty tf)"
  unfolding run_icon_def by (intro extjob_basics steps_zabbix_link [where zl = zl] assms)

lemma steps_run_method_with:
  assumes "steps (run_icon env zl lc (rj_id r) (rj_type r) (rj_test r))"
  shows "steps (run_method env zl lc r)"
  unfolding run_method_def jarun_normal_def jarun_skip_def by (intro extjob_basics assms)

end

text \<open>Relations that survive transaction control and the return from a child.\<close>

locale forking_steps = session_steps R for R :: "world \<Rightarrow> world \<Rightarrow> bool" +
  assumes rejoin_step: "R w w' \<Longrightarrow> R w (rejoin w w')"
begin

lemma steps_run_icon: "link_keeps R zl \<Longrightarrow> steps (run_icon env zl lc i ty tf)"
  by (intro steps_run_icon_with steps_jarun_icon_calc rejoin_step steps_jarun_icon_reboot
      steps_jarun_icon_less)

lemma steps_jarun_round: "link_keeps R zl \<Longrightarrow> steps (jarun_round env zl lc r)"
  unfolding jarun_round_def end_transaction_def
  by (intro session_intros steps_run_method_with steps_run_icon)

lemma steps_jarun_rounds: "link_keeps R zl \<Longrightarrow> steps (jarun_rounds env zl lc rc rs)"
  by (induction rs arbitrary: rc) (auto intro!: session_intros steps_jarun_round)

lemma steps_process_jarun: "link_keeps R zl \<Longrightarrow> steps (process_jarun env zl lc)"
  unfolding process_jarun_def by (intro session_intros steps_jarun_rounds)

end

interpretation ok_forking: forking_steps ok_kept
  by unfold_locales (simp add: ok_kept_def world_ok_def rejoin_def)

interpretation graph_forking: forking_steps graph_kept
  by unfold_locales (simp add: graph_kept_def rejoin_def)

section \<open>Transactions of the process\<close>

lemma rejoin_held: "held w w' \<Longrightarrow> held w (rejoin w w')"
  by (simp add: held_def rejoin_def)

lemma rejoin_shielded: "shielded w w' \<Longrightarrow> shielded w (rejoin w w')"
  by (simp add: shielded_def rejoin_def no_loss_def)

lemma hold_jarun_icon_less: "hold.steps (jarun_icon_less env i tf)"
  unfolding jarun_icon_less_def start_session_def
  by (intro hold.extjob_basics hold.steps_take_session hold_recommit; simp add: run_sql_def)

text \<open>Rebooting is excluded, as its host is looked up inside the transaction (last section of this theory).\<close>

lemma hold_run_icon:
  "ty \<noteq> JA_JOB_TYPE_REBOOT \<Longrightarrow> (ty = JA_JOB_TYPE_LINK \<Longrightarrow> link_keeps held zl) \<Longrightarrow>
   hold.steps (run_icon env zl lc i ty tf)"
  by (intro hold.steps_run_icon_with hold.steps_jarun_icon_calc rejoin_held hold_jarun_icon_less) auto

lemma balanced_jarun_round:
  assumes "rj_type r \<noteq> JA_JOB_TYPE_REBOOT" "link_keeps held zl"
  shows "bal.steps (jarun_round env zl lc r)"
proof -
  have run: "closes (State_Monad.bind (run_method env zl lc r)
      (\<lambda>rc. State_Monad.bind (end_transaction rc) (\<lambda>_. ret rc)))"
    unfolding end_transaction_def
    by (intro closes_after_held hold.steps_run_method_with hold_run_icon assms balanced_intros)
  have taken: "closes (State_Monad.bind DBcommit (\<lambda>_. ret SUCCEED))"
    by (intro closes_then closes_DBcommit bal.steps_return)
  show ?thesis
    unfolding jarun_round_def
    by (rule balanced_transaction, rule closes_after [OF txn.steps_DBselect_row], rule closes_if [OF taken run])
qed

lemma balanced_jarun_rounds:
  "list_all (\<lambda>r. rj_type r \<noteq> JA_JOB_TYPE_REBOOT) rs \<Longrightarrow> link_keeps held zl \<Longrightarrow>
   bal.steps (jarun_rounds env zl lc rc rs)"
  by (induction rs arbitrary: rc) (auto intro!: balanced_intros balanced_jarun_round)

text \<open>
  An icon that is still ready and whose run function fails leaves the database as it was,
  whatever statements the server rejected on the way.
\<close>

lemma failed_round:
  assumes "no_loss w" "txn_level w = 0" "srv w = Idle" "\<not> txn_error w" "db w = durable w"
    and "rj_type r \<noteq> JA_JOB_TYPE_REBOOT" "rj_type r \<noteq> JA_JOB_TYPE_LESS" "rj_type r \<noteq> JA_JOB_TYPE_LINK"
    and "result (jarun_round env zl lc r) w = FAIL"
  shows "db (exec (jarun_round env zl lc r) w) = db w \<and> durable (exec (jarun_round env zl lc r) w) = db w"
proof -
  let ?q = "DBselect_row (\<lambda>t. filter (\<lambda>j. rj_status j = JA_JOB_STATUS_READY) (select_job (rj_id r) t))"
  let ?body = "do { row2 \<leftarrow> ?q; if row2 = None then ret SUCCEED else run_method env zl lc r }"
  let ?t = "do { _ \<leftarrow> DBbegin; rc \<leftarrow> ?body; if rc = SUCCEED then DBcommit else DBrollback }"
  have same: "exec (jarun_round env zl lc r) w = exec ?t w"
    "result (jarun_round env zl lc r) w = result ?body (exec DBbegin w)"
    unfolding jarun_round_def end_transaction_def exec_bind result_bind
    by (cases "result ?q (exec DBbegin w) = None"; simp only: if_True if_False exec_bind result_bind exec_ret simp_thms)+
  have "shield.steps (run_icon env zl lc (rj_id r) (rj_type r) (rj_test r))"
    using assms(6-8) by (intro shield.steps_run_icon_with shield.steps_jarun_icon_calc rejoin_shielded) simp_all
  then have steps: "shield.steps ?body" "hold.steps ?body"
    using assms(6,8)
    by (intro shield.steps_bind shield.steps_DBselect_row shield.steps_if shield.steps_return
        shield.steps_run_method_with hold.steps_bind hold.steps_DBselect_row hold.steps_if hold.steps_return
        hold.steps_run_method_with hold_run_icon; simp)+
  have "result ?body (exec DBbegin w) = FAIL"
    using assms(9) unfolding same(2) .
  from failed_transaction [OF assms(1-5) steps this] show ?thesis
    unfolding same(1) .
qed

section \<open>A rollback in the middle\<close>

text \<open>
  When the query for a host is rejected, \<open>ja_host_getip\<close> rolls back the transaction of its
  caller, which goes on outside any transaction and ends it once more.
\<close>

definition silent :: "world \<Rightarrow> world \<Rightarrow> bool" where
  "silent w w' \<longleftrightarrow> (faults w = [] \<longrightarrow> faults w' = [])"

lemma pq_exec_silent: "faults w = [] \<Longrightarrow> faults (snd (pq_exec rq w)) = []"
  by (simp add: pq_exec_def)

interpretation silence: db_steps silent
  using pq_exec_silent
  by unfold_locales
    (auto simp: silent_def zbx_db_vexecute_def after_query_def zbx_db_vselect_def exec_def
      split: prod.splits reply.splits, (metis snd_conv)+)

lemma commit_outside: "txn_level w = 0 \<Longrightarrow> faults w = [] \<Longrightarrow> crashed (exec DBcommit w)"
  by (cases "srv w")
    (auto simp: exec_def DBcommit_def DBtxn_operation_def until_up_def zbx_db_commit_def
      zbx_db_rollback_def assert_fail_def zbx_db_vexecute_def pq_exec_def accept_def)

lemma rollback_outside: "txn_level w = 0 \<Longrightarrow> faults w = [] \<Longrightarrow> crashed (exec DBrollback w)"
  by (cases "srv w")
    (auto simp: exec_def DBrollback_def DBtxn_operation_def until_up_def
      zbx_db_rollback_def assert_fail_def zbx_db_vexecute_def pq_exec_def accept_def)

lemma end_transaction_outside:
  "txn_level w = 0 \<Longrightarrow> faults w = [] \<Longrightarrow> crashed (exec (end_transaction rc) w)"
  by (simp add: end_transaction_def exec_bind exec_ret commit_outside rollback_outside)

lemma refused_lock_leaves_outside:
  assumes "txn_level w = 1" "srv w = In_txn" "\<not> txn_error w" "faults w = [Rejected]"
    and "zabbix_version env \<in> {1, 2, 3}"
  shows "txn_level (exec (ja_host_lock env host i) w) = 0 \<and> faults (exec (ja_host_lock env host i) w) = []"
proof -
  let ?v = "w\<lparr>faults := [], srv := Aborted, txn_error := True\<rparr>"
  have query: "run_state (DBselect_result (select_host (zabbix_version env) host)) w = (None, ?v)"
    using assms(1-4)
    by (simp add: DBselect_result_def until_up_def zbx_db_vselect_def pq_exec_def refuse_def)
  let ?u = "exec DBrollback ?v"
  have u: "txn_level ?u = 0" "faults ?u = []"
    using DBrollback_level [of ?v] assms(1)
    by (auto simp: exec_def DBrollback_def DBtxn_operation_def until_up_def zbx_db_rollback_def
        zbx_db_vexecute_def pq_exec_def accept_def)
  let ?l = "getip_fails i ''JAHOST200007'' [PI (zabbix_version env)]"
  have "run_state (ja_host_getip env host i JA_TXN_ON) w = run_state ?l ?u"
    using assms(5) query by (simp add: ja_host_getip_def exec_def split: prod.splits)
  then have "exec (ja_host_lock env host i) w = exec ?l ?u"
    by (simp add: ja_host_lock_def getip_fails_def exec_def split: prod.splits)
  moreover have "txn_level (exec ?l ?u) = 0" "faults (exec ?l ?u) = []"
    using txn.steps_exec [OF txn.steps_getip_parts(1)] silence.steps_exec [OF silence.steps_getip_parts(1)] u
    by (simp_all add: same_txn_def silent_def)
  ultimately show ?thesis
    by simp
qed

lemma silent_end:
  assumes "txn_level w = 0" "faults w = []" "txn.steps m" "silence.steps m"
  shows "crashed (exec (State_Monad.bind m end_transaction) w)"
  using txn.steps_exec [OF assms(3), of w] silence.steps_exec [OF assms(4), of w] assms(1,2)
  by (simp add: exec_bind same_txn_def silent_def end_transaction_outside)

end
