(* ===== verification/Jaboot.thy ===== *)
theory Jaboot
  imports Jarun
begin

text \<open>
  The process that boots jobnets whose time has come and deletes finished jobnets and old
  logs (\<open>jaboot/jaboot.c\<close>).  \<open>mktime\<close> is an argument: the broken-down time it leaves
  in its own argument.
\<close>

section \<open>Keep spans\<close>

definition local_tm :: "int \<Rightarrow> tm" where
  "local_tm c = \<lparr>tm_year = c div 10 ^ 13 - 1900, tm_mon = c div 10 ^ 11 mod 100 - 1,
     tm_mday = c div 10 ^ 9 mod 100, tm_hour = c div 10 ^ 7 mod 100,
     tm_min = c div 10 ^ 5 mod 100, tm_sec = c div 10 ^ 3 mod 100\<rparr>"

definition get_purge_date :: "(tm \<Rightarrow> tm) \<Rightarrow> int \<Rightarrow> string prog" where
  "get_purge_date mktime minutes = do {
     now \<leftarrow> gets clock;
     let t = local_tm now;
     let t = mktime (t\<lparr>tm_min := tm_min t - minutes\<rparr>);
     ret (pad 4 (tm_year t + 1900) @ pad 2 (tm_mon t + 1) @ pad 2 (tm_mday t) @
          pad 2 (tm_hour t) @ pad 2 (tm_min t)) }"

definition keep_span :: "string \<Rightarrow> int \<Rightarrow> int prog" where
  "keep_span name dflt = do {
     row \<leftarrow> DBselect_row (\<lambda>t. filter (\<lambda>p. fst p = name) (params t));
     ret (case row of
            None \<Rightarrow> dflt
          | Some p \<Rightarrow> let minutes = (if length (snd p) \<le> 10 then atoi (snd p) else dflt)
                      in if minutes < 0 then dflt else minutes) }"

definition get_jobnet_keep_span :: "int prog" where
  "get_jobnet_keep_span = keep_span ''JOBNET_KEEP_SPAN'' 60"

definition get_joblog_keep_span :: "int prog" where
  "get_joblog_keep_span = keep_span ''JOBLOG_KEEP_SPAN'' 129600"

section \<open>Booting\<close>

definition get_running_jobnet :: "string \<Rightarrow> int option prog" where
  "get_running_jobnet jobnet_id = do {
     row \<leftarrow> DBselect_row (\<lambda>t. [length (filter (\<lambda>s. rs_jobnet_id s = jobnet_id \<and>
       rs_status s \<in> {JA_JOBNET_STATUS_READY, JA_JOBNET_STATUS_RUN}) (summaries t))]);
     case row of
       None \<Rightarrow> do {
         _ \<leftarrow> ja_log ''JABOOT200001'' 0 (Some jobnet_id) 0
                [PS ''ja_run_jobnet_summary_table'', PS (jobnet_id @ '' (1 2)'')];
         ret None }
     | Some n \<Rightarrow> ret (Some (int n)) }"

definition update_failed :: "uint64 \<Rightarrow> string \<Rightarrow> string \<Rightarrow> rc prog" where
  "update_failed n table key = do {
     _ \<leftarrow> ja_log ''JABOOT200002'' n None 0 [PS table, PS key];
     ret FAIL }"

definition skip_state_jobnet :: "uint64 \<Rightarrow> string \<Rightarrow> int \<Rightarrow> rc prog" where
  "skip_state_jobnet n jobnet_id sched = do {
     now \<leftarrow> now_number;
     rc \<leftarrow> DBexecute (Update_jobnet (Jobnet_is n) (jobnet_cols\<lparr>ns_status := Some JA_JOBNET_STATUS_END,
            ns_start := Some now, ns_end := Some now\<rparr>));
     if rc \<le> ZBX_DB_OK then update_failed n ''ja_run_jobnet_table'' (show_u64 n)
     else do {
       rc \<leftarrow> DBexecute (Update_summary n (summary_cols\<lparr>su_status := Some JA_JOBNET_STATUS_END,
              su_load := Some JA_SUMMARY_LOAD_STATUS_SKIP, su_start := Some now, su_end := Some now\<rparr>));
       if rc \<le> ZBX_DB_OK then update_failed n ''ja_run_jobnet_summary_table'' (show_u64 n)
       else do {
         _ \<leftarrow> ja_log ''JABOOT000001'' n None 0 [PS (show_u64 n), PS jobnet_id, PS (show_int sched)];
         ret SUCCEED }
     }
   }"

definition delay_state_jobnet :: "uint64 \<Rightarrow> rc prog" where
  "delay_state_jobnet n = do {
     rc \<leftarrow> DBexecute (Update_summary n (summary_cols\<lparr>su_load := Some JA_SUMMARY_LOAD_STATUS_DELAY\<rparr>));
     if rc < ZBX_DB_OK then update_failed n ''ja_run_jobnet_summary_table'' (show_u64 n)
     else ret SUCCEED }"

definition error_state_jobnet :: "uint64 \<Rightarrow> string \<Rightarrow> int \<Rightarrow> int \<Rightarrow> rc prog" where
  "error_state_jobnet n jobnet_id update_date sched = do {
     row \<leftarrow> DBselect_row (\<lambda>t. filter (\<lambda>r. rj_jobnet r = n \<and> rj_type r = JA_JOB_TYPE_START) (jobs t));
     case row of
       None \<Rightarrow> do {
         _ \<leftarrow> ja_log ''JABOOT200003'' n None 0 [PS (show_u64 n), PS jobnet_id, PS (show_int update_date)];
         ret FAIL }
     | Some r \<Rightarrow> do {
         rc \<leftarrow> DBexecute (Update_job (Job_is (rj_id r)) (job_cols\<lparr>js_status := Some JA_JOB_STATUS_RUNERR\<rparr>));
         if rc \<le> ZBX_DB_OK then update_failed n ''ja_run_job_table'' (show_u64 (rj_id r))
         else do {
           rc \<leftarrow> DBexecute (Update_jobnet (Jobnet_is n) (jobnet_cols\<lparr>ns_status := Some JA_JOBNET_STATUS_RUNERR\<rparr>));
           if rc \<le> ZBX_DB_OK then update_failed n ''ja_run_jobnet_table'' (show_u64 n)
           else do {
             rc \<leftarrow> DBexecute (Update_summary n (summary_cols\<lparr>su_status := Some JA_JOBNET_STATUS_RUN,
                    su_job_status := Some JA_SUMMARY_JOB_STATUS_ERROR,
                    su_load := Some JA_SUMMARY_LOAD_STATUS_DELAY\<rparr>));
             if rc \<le> ZBX_DB_OK then update_failed n ''ja_run_jobnet_summary_table'' (show_u64 n)
             else do {
               _ \<leftarrow> ja_log ''JABOOT200006'' n None 0 [PS (show_u64 n), PS jobnet_id, PS (show_int sched)];
               _ \<leftarrow> ja_joblog JC_JOBNET_START_ERR n 0;
               ret SUCCEED }
           }
         }
       }
   }"

definition start_jobnet :: "uint64 \<Rightarrow> string \<Rightarrow> rc prog" where
  "start_jobnet n jobnet_id = do {
     rc \<leftarrow> DBexecute (Update_summary n (summary_cols\<lparr>su_status := Some JA_JOBNET_STATUS_READY,
            su_load := Some JA_SUMMARY_LOAD_STATUS_NORMAL\<rparr>));
     if rc \<le> ZBX_DB_OK then do {
       _ \<leftarrow> ja_log ''JABOOT200002'' 0 (Some jobnet_id) 0
              [PS ''ja_run_jobnet_summary_table'', PS (show_u64 n)];
       ret FAIL
     } else ret SUCCEED }"

text \<open>
  Which jobnets are due (lines 445--450).  The query compares numbers, the delay check of
  the loop compares the decimal texts (\<^verbatim>\<open>strcmp\<close>).
\<close>

definition due :: "string \<Rightarrow> tables \<Rightarrow> run_summary list" where
  "due now_date t = sort_key (\<lambda>s. (rs_sched s, rs_id s))
     (filter (\<lambda>s. rs_status s = JA_JOBNET_STATUS_BEGIN \<and> rs_pending s \<noteq> JA_SUMMARY_START_PENDING_ON \<and>
        (rs_sched s \<le> int (dec_val now_date) \<or> rs_sched s = 0)) (summaries t))"

definition too_late :: "string \<Rightarrow> run_summary \<Rightarrow> bool" where
  "too_late now_date s \<longleftrightarrow>
     (rs_run_type s = JA_JOBNET_RUN_TYPE_NORMAL \<or> rs_run_type s = JA_JOBNET_RUN_TYPE_SCHEDULED) \<and>
     show_int (rs_sched s) < now_date \<and> rs_load s \<noteq> JA_SUMMARY_LOAD_STATUS_DELAY \<and>
     rs_pending s = JA_SUMMARY_START_PENDING_NONE"

text \<open>What the loop does with a jobnet, inside its transaction (lines 460--539).\<close>

definition boot_one :: "string \<Rightarrow> run_summary \<Rightarrow> rc prog" where
  "boot_one now_date s =
     (if too_late now_date s then
        error_state_jobnet (rs_id s) (rs_jobnet_id s) (rs_update s) (rs_sched s)
      else if rs_multiple s = JA_JOBNET_MULTIPLE_SKIP then do {
        running \<leftarrow> get_running_jobnet (rs_jobnet_id s);
        case running of
          None \<Rightarrow> ret FAIL
        | Some n \<Rightarrow> if n > 0 then skip_state_jobnet (rs_id s) (rs_jobnet_id s) (rs_sched s)
                    else start_jobnet (rs_id s) (rs_jobnet_id s) }
      else if rs_multiple s = JA_JOBNET_MULTIPLE_DELAY then do {
        running \<leftarrow> get_running_jobnet (rs_jobnet_id s);
        case running of
          None \<Rightarrow> ret FAIL
        | Some n \<Rightarrow> if n > 0 then delay_state_jobnet (rs_id s)
                    else start_jobnet (rs_id s) (rs_jobnet_id s) }
      else start_jobnet (rs_id s) (rs_jobnet_id s))"

definition boot_round :: "string \<Rightarrow> run_summary \<Rightarrow> unit prog" where
  "boot_round now_date s = do {
     _ \<leftarrow> DBbegin;
     rc \<leftarrow> boot_one now_date s;
     end_transaction rc }"

definition jobnet_boot :: "string \<Rightarrow> unit prog" where
  "jobnet_boot now_date = do {
     rows \<leftarrow> DBselect (due now_date);
     do_rows (boot_round now_date) rows }"

section \<open>Purging\<close>

definition get_running_jobs :: "uint64 \<Rightarrow> int option prog" where
  "get_running_jobs n = do {
     row \<leftarrow> DBselect_row (\<lambda>t. [length (filter (\<lambda>r. rj_main r = n \<and>
       rj_status r \<in> {JA_JOB_STATUS_READY, JA_JOB_STATUS_RUN}) (jobs t))]);
     case row of
       None \<Rightarrow> do {
         _ \<leftarrow> ja_log ''JABOOT200001'' n None 0 [PS ''ja_run_job_table'', PS (show_u64 n @ '' (1 2)'')];
         ret None }
     | Some k \<Rightarrow> ret (Some (int k)) }"

definition old_summaries :: "string \<Rightarrow> tables \<Rightarrow> run_summary list" where
  "old_summaries purge_date t = filter (\<lambda>s. rs_end s \<le> int (dec_val (purge_date @ ''59'')) \<and>
     rs_status s \<in> {JA_JOBNET_STATUS_END, JA_JOBNET_STATUS_ENDERR}) (summaries t)"

definition purge_one :: "run_summary \<Rightarrow> unit prog" where
  "purge_one s = do {
     rc \<leftarrow> DBexecute (Purge_jobnet (rs_id s));
     if rc \<le> ZBX_DB_OK then do {
       _ \<leftarrow> DBrollback;
       _ \<leftarrow> ja_log ''JABOOT200004'' (rs_id s) None 0
              [PS (show_u64 (rs_id s)), PS (rs_jobnet_id s), PS (show_int (rs_update s))];
       ret ()
     } else DBcommit }"

text \<open>A stopped jobnet some of whose icons are still running is kept (lines 631--649).\<close>

fun purge_rounds :: "run_summary list \<Rightarrow> rc prog" where
  "purge_rounds [] = ret SUCCEED"
| "purge_rounds (s # ss) = do {
     _ \<leftarrow> DBbegin;
     running \<leftarrow> (if rs_status s = JA_JOBNET_STATUS_ENDERR then get_running_jobs (rs_id s)
                else ret (Some 0));
     case running of
       None \<Rightarrow> do { _ \<leftarrow> DBrollback; ret FAIL }
     | Some n \<Rightarrow>
         if n > 0 then do { _ \<leftarrow> DBcommit; purge_rounds ss }
         else do { _ \<leftarrow> purge_one s; purge_rounds ss }
   }"

definition jobnet_purge :: "string \<Rightarrow> rc prog" where
  "jobnet_purge purge_date = do {
     rows \<leftarrow> DBselect (old_summaries purge_date);
     purge_rounds rows }"

definition log_purge_one :: "uint64 \<Rightarrow> unit prog" where
  "log_purge_one n = do {
     _ \<leftarrow> DBbegin;
     rc \<leftarrow> DBexecute (Purge_log n);
     if rc \<le> ZBX_DB_OK then do {
       _ \<leftarrow> DBrollback;
       _ \<leftarrow> ja_log ''JABOOT200005'' n None 0 [PS (show_u64 n)];
       ret ()
     } else DBcommit }"

definition joblog_purge :: "string \<Rightarrow> unit prog" where
  "joblog_purge purge_date = do {
     rows \<leftarrow> DBselect (\<lambda>t. remdups (map lg_main
       (filter (\<lambda>r. lg_date r \<le> int (dec_val (purge_date @ ''59999''))) (run_log t))));
     do_rows log_purge_one rows }"

text \<open>One round of \<open>main_jaboot_loop\<close> (lines 758--794).\<close>

definition jaboot_cycle :: "(tm \<Rightarrow> tm) \<Rightarrow> int \<Rightarrow> int \<Rightarrow> unit prog" where
  "jaboot_cycle mktime jobnet_keep_span joblog_keep_span = do {
     now \<leftarrow> gets clock;
     let now_date = pad 12 (now div 10 ^ 5);
     jobnet_purge_date \<leftarrow> get_purge_date mktime jobnet_keep_span;
     joblog_purge_date \<leftarrow> get_purge_date mktime joblog_keep_span;
     _ \<leftarrow> jobnet_purge jobnet_purge_date;
     _ \<leftarrow> joblog_purge joblog_purge_date;
     jobnet_boot now_date }"

section \<open>What booting and purging keep\<close>

context db_steps
begin

lemma steps_update_failed: "steps (update_failed n tb k)"
  unfolding update_failed_def by (intro icon_intros)

lemma steps_boot_states:
  "steps (skip_state_jobnet n j sc)" "steps (delay_state_jobnet n)"
  "steps (error_state_jobnet n j u sc)" "steps (start_jobnet n j)"
  unfolding skip_state_jobnet_def delay_state_jobnet_def error_state_jobnet_def start_jobnet_def
  by (intro icon_intros steps_update_failed; simp add: run_sql_def)+

lemma steps_running_counts: "steps (get_running_jobnet j)" "steps (get_running_jobs n)"
  unfolding get_running_jobnet_def get_running_jobs_def by (intro icon_intros)+

lemma steps_boot_one: "steps (boot_one d s)"
  unfolding boot_one_def by (intro icon_intros steps_boot_states steps_running_counts)

lemma steps_get_purge_date: "steps (get_purge_date m sp)"
  unfolding get_purge_date_def by (intro icon_intros)

end

context session_steps
begin

lemma steps_jobnet_boot: "steps (jobnet_boot d)"
  unfolding jobnet_boot_def boot_round_def end_transaction_def
  by (intro session_intros steps_boot_one)

end

context purge_steps
begin

lemma steps_purge_one: "steps (purge_one s)"
  unfolding purge_one_def by (intro session_intros steps_purge steps_ja_log; simp)

lemma steps_purge_rounds: "steps (purge_rounds ss)"
  by (induction ss)
    (subst purge_rounds.simps, intro session_intros steps_purge_one steps_running_counts; simp)+

lemma steps_jobnet_purge: "steps (jobnet_purge d)"
  unfolding jobnet_purge_def by (intro session_intros steps_purge_rounds)

lemma steps_joblog_purge: "steps (joblog_purge d)"
  unfolding joblog_purge_def log_purge_one_def
  by (intro session_intros steps_purge steps_ja_log; simp)

lemma steps_jaboot_cycle: "steps (jaboot_cycle m a b)"
  unfolding jaboot_cycle_def
  by (intro session_intros steps_get_purge_date steps_jobnet_purge steps_joblog_purge steps_jobnet_boot)

end

lemma balanced_jobnet_boot: "bal.steps (jobnet_boot d)"
  unfolding jobnet_boot_def boot_round_def end_transaction_def
  by (intro balanced_intros txn.steps_boot_one same_txn_balanced txn.steps_DBselect)

lemmas log_balanced = same_txn_balanced [OF txn.steps_ja_log]

lemma closes_purge_one: "closes (purge_one s)"
  unfolding purge_one_def by (intro balanced_intros txn_statement log_balanced)

lemma balanced_purge_rounds: "bal.steps (purge_rounds ss)"
proof (induction ss)
  case (Cons s ss)
  have closes_opt: "closes (case x of None \<Rightarrow> m | Some n \<Rightarrow> k n)"
    if "closes m" "\<And>n. closes (k n)" for x :: "int option" and m and k :: "int \<Rightarrow> rc prog"
    using that by (cases x) auto
  show ?case
    unfolding purge_rounds.simps
    by (intro balanced_transaction closes_after closes_opt closes_if closes_then closes_DBrollback
        closes_DBcommit closes_purge_one Cons.IH bal.steps_return txn.steps_if
        txn.steps_running_counts txn.steps_return)
qed (simp add: bal.steps_return)

lemma balanced_joblog_purge: "bal.steps (joblog_purge d)"
  unfolding joblog_purge_def log_purge_one_def
  by (intro balanced_intros txn_statement log_balanced same_txn_balanced txn.steps_DBselect)

lemma balanced_jaboot_cycle: "bal.steps (jaboot_cycle m a b)"
  unfolding jaboot_cycle_def jobnet_purge_def
  by (intro balanced_intros balanced_purge_rounds balanced_joblog_purge balanced_jobnet_boot
      same_txn_balanced txn.steps_get_purge_date txn.steps_DBselect)

end
