(* ===== verification/Jajobnet.thy ===== *)
theory Jajobnet
  imports Jarun
begin

text \<open>
  The process that drives the jobnets (\<open>jajobnet/jajobnet.c\<close>, \<open>jajobnetready.c\<close>,
  \<open>jajobnetrun.c\<close>, \<open>jajobnetkill.c\<close>, \<open>jajobnetsummaryready.c\<close>): starting a jobnet,
  deriving its status from the states of its icons, stopping it.
\<close>

section \<open>Starting\<close>

definition jajobnet_summary_ready :: "uint64 \<Rightarrow> rc prog" where
  "jajobnet_summary_ready inner_jobnet_id =
     or_fail (ja_set_status_jobnet inner_jobnet_id JA_JOBNET_STATUS_READY 0 0)
       (ja_set_status_jobnet_summary inner_jobnet_id JA_JOBNET_STATUS_RUN 1 0)"

text \<open>The values every jobnet starts with (lines 70--92); failures to set them are ignored.\<close>

definition set_jobnet_values :: "uint64 \<Rightarrow> run_jobnet \<Rightarrow> unit prog" where
  "set_jobnet_values n r = do {
     _ \<leftarrow> ja_set_value_jobnet_before n ''JOBNET_ID'' (Some (rn_jobnet_id r));
     _ \<leftarrow> ja_set_value_jobnet_before n ''JOBNET_NAME'' (Some (rn_name r));
     _ \<leftarrow> ja_set_value_jobnet_before n ''USER_NAME'' (Some (rn_user r));
     _ \<leftarrow> ja_set_value_jobnet_before n ''MANAGEMENT_ID'' (Some (show_u64 (rn_id r)));
     if rn_main_flag r = JA_JOBNET_MAIN_FLAG_MAIN then do {
       now \<leftarrow> now_string;
       _ \<leftarrow> ja_set_value_jobnet_before n ''JOBNET_BOOT_TIME'' (Some (strlcpy 13 now));
       let sched = show_int (rn_sched r);
       _ \<leftarrow> ja_set_value_jobnet_before n ''JOBNET_SCHEDULED_TIME''
              (Some (if atoi sched = 0 then [] else sched));
       ret ()
     } else ret ()
   }"

definition start_icons_of :: "uint64 \<Rightarrow> tables \<Rightarrow> run_job list" where
  "start_icons_of n t = filter (\<lambda>r. rj_jobnet r = n \<and> rj_type r = JA_JOB_TYPE_START) (jobs t)"

definition jajobnet_ready :: "uint64 \<Rightarrow> rc prog" where
  "jajobnet_ready inner_jobnet_id = do {
     row \<leftarrow> DBselect_row (select_jobnet inner_jobnet_id);
     case row of
       None \<Rightarrow> do {
         _ \<leftarrow> ja_log ''JAJOBNETREADY200001'' inner_jobnet_id None 0
                [PS ''jajobnet_ready'', PU inner_jobnet_id];
         ja_set_enderr_jobnet inner_jobnet_id }
     | Some r \<Rightarrow> do {
         _ \<leftarrow> set_jobnet_values inner_jobnet_id r;
         or_fail (ja_set_run_jobnet inner_jobnet_id) (do {
           rows \<leftarrow> DBselect (start_icons_of inner_jobnet_id);
           let icon_start_id = (case rows of [s] \<Rightarrow> rj_id s | _ \<Rightarrow> 0);
           if icon_start_id = 0 then do {
             _ \<leftarrow> ja_log ''JAJOBNETREADY200002'' inner_jobnet_id None 0
                    [PS ''jajobnet_ready'', PI (int (length rows)), PU inner_jobnet_id];
             ja_set_enderr_jobnet inner_jobnet_id
           } else or_fail (ja_value_before_jobnet_out inner_jobnet_id icon_start_id)
               (ja_set_status_job icon_start_id JA_JOB_STATUS_READY 0 0)
         })
       }
   }"

section \<open>Deriving the status of a jobnet\<close>

record tally =
  end_id :: uint64         \<comment> \<open>\<open>icon_end_id\<close>: an end icon that has been reached\<close>
  test_mode :: int         \<comment> \<open>\<open>test_flag\<close> of the last icon\<close>
  n_icons :: int           \<comment> \<open>\<open>count\<close>\<close>
  n_ready :: int
  n_run :: int
  n_runerr :: int
  n_end :: int
  n_start_icons :: int
  n_end_icons :: int
  n_end_reached :: int     \<comment> \<open>\<open>end_icons_end\<close>\<close>
  n_timeout :: int

definition no_icons :: tally where
  "no_icons = \<lparr>end_id = 0, test_mode = 0, n_icons = 0, n_ready = 0, n_run = 0, n_runerr = 0,
     n_end = 0, n_start_icons = 0, n_end_icons = 0, n_end_reached = 0, n_timeout = 0\<rparr>"

text \<open>The counters after one more icon (lines 227--273, without the error exit).\<close>

definition count_icon :: "run_job \<Rightarrow> tally \<Rightarrow> tally" where
  "count_icon r c =
     (let stopped = (rj_status r = JA_JOB_STATUS_RUNERR \<or> rj_status r = JA_JOB_STATUS_ABORT);
          reached = (rj_status r = JA_JOB_STATUS_END \<and> rj_type r = JA_JOB_TYPE_END);
          ended = (rj_status r = JA_JOB_STATUS_END \<or> stopped \<and> rj_continue r = JA_JOB_CONTINUE_FLAG_ON);
          one = (\<lambda>b. if b then 1 else 0)
      in \<lparr>end_id = (if reached then rj_id r else end_id c), test_mode = rj_test r,
          n_icons = n_icons c + 1,
          n_ready = n_ready c + one (rj_status r = JA_JOB_STATUS_READY),
          n_run = n_run c + one (rj_status r = JA_JOB_STATUS_RUN),
          n_runerr = n_runerr c + one (stopped \<and> rj_continue r \<noteq> JA_JOB_CONTINUE_FLAG_ON),
          n_end = n_end c + one ended,
          n_start_icons = n_start_icons c + one (rj_type r = JA_JOB_TYPE_START),
          n_end_icons = n_end_icons c + one (rj_type r = JA_JOB_TYPE_END),
          n_end_reached = n_end_reached c + one reached,
          n_timeout = n_timeout c + one (rj_timeout r = 1)\<rparr>)"

datatype count_result = Icon_error | Two_ends | Counted tally

fun count_icons :: "tally \<Rightarrow> run_job list \<Rightarrow> count_result" where
  "count_icons c [] = Counted c"
| "count_icons c (r # rs) =
     (if rj_status r = JA_JOB_STATUS_ENDERR then Icon_error
      else let c = count_icon r c in
           if n_end_reached c > 1 \<and> test_mode c = 0 then Two_ends else count_icons c rs)"

text \<open>
  The new status and timeout flag (lines 292--355): \<open>Inl\<close> for an error with its message,
  \<open>Inr None\<close> when nothing changes.
\<close>

definition renew_status :: "int \<Rightarrow> tally \<Rightarrow> int option" where
  "renew_status status c =
     (if status = JA_JOBNET_STATUS_RUNERR \<and> n_runerr c = 0 then Some JA_JOBNET_STATUS_RUN
      else if status = JA_JOBNET_STATUS_RUN \<and> n_runerr c > 0 then Some JA_JOBNET_STATUS_RUNERR
      else None)"

definition jobnet_decide ::
    "uint64 \<Rightarrow> int \<Rightarrow> int \<Rightarrow> tally \<Rightarrow> (string \<times> parg list) + (int \<times> int) option" where
  "jobnet_decide n status timeout_flag c =
     (if n_start_icons c \<noteq> 1 then
        Inl (''JAJOBNETRUN200003'', [PS ''jajobnet_run'', PI (n_start_icons c), PU n])
      else if n_end_icons c = 0 then Inl (''JAJOBNETRUN200004'', [PS ''jajobnet_run'', PU n])
      else if test_mode c = 0 \<and> n_end_reached c \<noteq> 0 \<and> (n_ready c > 0 \<or> n_run c > 0 \<or> n_runerr c > 0) then
        Inl (''JAJOBNETRUN200005'', [PS ''jajobnet_run'', PU n, PI (n_ready c), PI (n_run c)])
      else
        let new_status =
              (if test_mode c = 0 then
                 (if n_end_reached c = 0 then renew_status status c else Some JA_JOBNET_STATUS_END)
               else if n_icons c = n_end c then Some JA_JOBNET_STATUS_END
               else renew_status status c);
            new_timeout =
              (if timeout_flag = 1 \<and> n_timeout c = 0 then Some 0
               else if timeout_flag = 0 \<and> n_timeout c > 0 then Some 1 else None)
        in Inr (if new_status = None \<and> new_timeout = None then None
                else Some (assign new_status status, assign new_timeout timeout_flag)))"

text \<open>Writing the status to the jobnet (lines 70--95).\<close>

definition sync_jobnet :: "uint64 \<Rightarrow> int \<Rightarrow> int \<Rightarrow> rc prog" where
  "sync_jobnet inner_jobnet_id status timeout_flag =
     (if status = JA_JOBNET_STATUS_RUN then do {
        rc \<leftarrow> DBexecute (Update_jobnet (Jobnet_is inner_jobnet_id)
               (jobnet_cols\<lparr>ns_status := Some status, ns_timeout := Some timeout_flag\<rparr>));
        if ZBX_DB_OK > rc then ret FAIL else ret SUCCEED }
      else if status = JA_JOBNET_STATUS_END then ja_set_end_jobnet inner_jobnet_id
      else if status = JA_JOBNET_STATUS_RUNERR then ja_set_runerr_jobnet inner_jobnet_id
      else if status = JA_JOBNET_STATUS_ENDERR then ja_set_enderr_jobnet inner_jobnet_id
      else ret FAIL)"

text \<open>Status and job status for the summary of a main jobnet (lines 99--118).\<close>

definition summary_state :: "int \<Rightarrow> int \<Rightarrow> int \<times> int" where
  "summary_state status timeout_flag =
     (if status = JA_JOBNET_STATUS_END then
        (JA_JOBNET_STATUS_END, if timeout_flag = 1 then JA_SUMMARY_JOB_STATUS_TIMEOUT
                               else JA_SUMMARY_JOB_STATUS_NORMAL)
      else if status = JA_JOBNET_STATUS_RUNERR \<or> status = JA_JOBNET_STATUS_ENDERR then
        (JA_JOBNET_STATUS_RUN, JA_SUMMARY_JOB_STATUS_ERROR)
      else (JA_JOBNET_STATUS_RUN, if timeout_flag = 1 then JA_SUMMARY_JOB_STATUS_TIMEOUT
                                  else JA_SUMMARY_JOB_STATUS_NORMAL))"

text \<open>Passing the status on to the jobnet icon (lines 122--166).\<close>

definition sync_icon :: "uint64 \<Rightarrow> uint64 \<Rightarrow> int \<Rightarrow> int \<Rightarrow> rc prog" where
  "sync_icon icon_jobnet_id icon_end_id status timeout_flag =
     (if status = JA_JOBNET_STATUS_RUN then do {
        rc \<leftarrow> DBexecute (Update_job (Job_is icon_jobnet_id)
               (job_cols\<lparr>js_status := Some status, js_timeout := Some timeout_flag\<rparr>));
        if ZBX_DB_OK > rc then ret FAIL else ret SUCCEED }
      else if status = JA_JOBNET_STATUS_END then do {
        row \<leftarrow> DBselect_row (select_link icon_jobnet_id);
        let icon_inner_jobnet_id = (case row of None \<Rightarrow> 0 | Some l \<Rightarrow> in_jobnet l);
        exit_code \<leftarrow> ja_get_value_after icon_end_id ''JOB_EXIT_CD'';
        case exit_code of
          None \<Rightarrow> ret FAIL
        | Some code \<Rightarrow>
            or_fail (ja_set_value_after icon_jobnet_id icon_inner_jobnet_id ''JOB_EXIT_CD'' (Some code))
              (ja_flow icon_jobnet_id JA_FLOW_TYPE_NORMAL 1) }
      else if status = JA_JOBNET_STATUS_RUNERR then ja_set_runerr icon_jobnet_id 2
      else if status = JA_JOBNET_STATUS_ENDERR then ja_set_enderr icon_jobnet_id 0
      else ret FAIL)"

definition jajobnet_run_sync :: "uint64 \<Rightarrow> uint64 \<Rightarrow> uint64 \<Rightarrow> int \<Rightarrow> int \<Rightarrow> rc prog" where
  "jajobnet_run_sync inner_jobnet_id icon_jobnet_id icon_end_id status timeout_flag =
     or_fail (sync_jobnet inner_jobnet_id status timeout_flag)
       (if icon_jobnet_id = 0 then
          (let (s, j) = summary_state status timeout_flag in ja_set_jobstatus inner_jobnet_id s j)
        else sync_icon icon_jobnet_id icon_end_id status timeout_flag)"

definition select_icons :: "uint64 \<Rightarrow> tables \<Rightarrow> run_job list" where
  "select_icons n t = filter (\<lambda>r. rj_jobnet r = n) (jobs t)"

text \<open>After an error the end icon's id does not matter (\<open>sync_icon\<close> with \<open>ENDERR\<close>).\<close>

definition jajobnet_run :: "uint64 \<Rightarrow> uint64 \<Rightarrow> int \<Rightarrow> int \<Rightarrow> rc prog" where
  "jajobnet_run inner_jobnet_id icon_jobnet_id status timeout_flag = do {
     rows \<leftarrow> DBselect (select_icons inner_jobnet_id);
     let failed = jajobnet_run_sync inner_jobnet_id icon_jobnet_id 0 JA_JOBNET_STATUS_ENDERR 0;
     case count_icons no_icons rows of
       Icon_error \<Rightarrow> failed
     | Two_ends \<Rightarrow> do {
         _ \<leftarrow> ja_log ''JAJOBNETRUN200002'' inner_jobnet_id None 0
                [PS ''jajobnet_run'', PU inner_jobnet_id];
         failed }
     | Counted c \<Rightarrow>
         (case jobnet_decide inner_jobnet_id status timeout_flag c of
            Inl (message_id, args) \<Rightarrow> do {
              _ \<leftarrow> ja_log message_id inner_jobnet_id None 0 args;
              failed }
          | Inr None \<Rightarrow> ret SUCCEED
          | Inr (Some (renew, renew_timeout)) \<Rightarrow>
              jajobnet_run_sync inner_jobnet_id icon_jobnet_id (end_id c) renew renew_timeout)
   }"

section \<open>Stopping a jobnet\<close>

definition kill_icon :: "environment \<Rightarrow> run_job \<Rightarrow> unit prog" where
  "kill_icon env r =
     (if rj_status r \<noteq> JA_JOB_STATUS_RUN then ret ()
      else if rj_type r = JA_JOB_TYPE_JOB then do { _ \<leftarrow> jarun_icon_job env (rj_id r) JA_AGENT_METHOD_KILL; ret () }
      else if rj_type r = JA_JOB_TYPE_EXTJOB then do { _ \<leftarrow> jajob_icon_extjob_kill (rj_id r); ret () }
      else if rj_type r = JA_JOB_TYPE_FWAIT then do { _ \<leftarrow> jarun_icon_fwait env (rj_id r) JA_AGENT_METHOD_KILL; ret () }
      else if rj_type r = JA_JOB_TYPE_LESS then do { _ \<leftarrow> jajob_icon_less_abort env (rj_id r) JA_SES_FORCE_STOP_KILL; ret () }
      else ret ())"

definition active_icons :: "uint64 \<Rightarrow> tables \<Rightarrow> run_job list" where
  "active_icons main t = filter (\<lambda>r. rj_main r = main \<and>
     rj_status r \<in> {JA_JOB_STATUS_READY, JA_JOB_STATUS_RUN}) (jobs t)"

definition jajobnet_kill :: "environment \<Rightarrow> uint64 \<Rightarrow> rc prog" where
  "jajobnet_kill env inner_jobnet_id = do {
     row \<leftarrow> DBselect_row (select_jobnet inner_jobnet_id);
     _ \<leftarrow> (case row of None \<Rightarrow> ret SUCCEED | Some r \<Rightarrow>
            ja_log ''JAJOBNET000001'' inner_jobnet_id None 0
              [PS ''jajobnet_kill'', PU inner_jobnet_id, PS (rn_jobnet_id r), PS (rn_exec_user r)]);
     _ \<leftarrow> DBselect (\<lambda>t. filter (\<lambda>r. rj_main r = inner_jobnet_id) (jobs t));
     db_ret \<leftarrow> DBexecute (Update_job (Job_main_status inner_jobnet_id JA_JOB_STATUS_READY)
       (job_cols\<lparr>js_status := Some JA_JOB_STATUS_BEGIN\<rparr>));
     if db_ret < ZBX_DB_OK then ret FAIL
     else do {
       db_ret \<leftarrow> DBexecute (Update_job (Job_main_type inner_jobnet_id JA_JOB_TYPE_JOBNET
           [JA_JOB_STATUS_RUN, JA_JOB_STATUS_RUNERR])
         (job_cols\<lparr>js_status := Some JA_JOB_STATUS_ENDERR\<rparr>));
       if db_ret < ZBX_DB_OK then ret FAIL
       else do {
         db_ret \<leftarrow> DBexecute (Update_jobnet (Jobnet_main inner_jobnet_id
             [JA_JOBNET_STATUS_RUN, JA_JOBNET_STATUS_RUNERR])
           (jobnet_cols\<lparr>ns_status := Some JA_JOBNET_STATUS_ENDERR\<rparr>));
         if db_ret < ZBX_DB_OK then ret FAIL
         else do {
           db_ret \<leftarrow> DBexecute (Delete_session inner_jobnet_id);
           if db_ret < ZBX_DB_OK then ret FAIL
           else do {
             rows \<leftarrow> DBselect (active_icons inner_jobnet_id);
             _ \<leftarrow> do_rows (kill_icon env) rows;
             if rows = [] then
               ja_set_jobstatus inner_jobnet_id JA_JOBNET_STATUS_ENDERR JA_SUMMARY_JOB_STATUS_ERROR
             else do {
               _ \<leftarrow> ja_log ''JAJOBNET000002'' inner_jobnet_id None 0
                 [PS ''jajobnet_kill'', PU inner_jobnet_id,
                  PI (int (length (filter (\<lambda>r. rj_status r = JA_JOB_STATUS_READY) rows))),
                  PI (int (length (filter (\<lambda>r. rj_status r = JA_JOB_STATUS_RUN) rows)))];
               ret SUCCEED }
           }
         }
       }
     }
   }"

section \<open>The process\<close>

definition summary_round :: "environment \<Rightarrow> run_summary \<Rightarrow> unit prog" where
  "summary_round env s = do {
     _ \<leftarrow> DBbegin;
     rc \<leftarrow> (if rs_status s = JA_JOBNET_STATUS_READY then jajobnet_summary_ready (rs_id s)
           else if rs_status s = JA_JOBNET_STATUS_RUN \<and> rs_abort s = 1 then do {
             rc \<leftarrow> jajobnet_kill env (rs_id s);
             _ \<leftarrow> ja_joblog JC_JOBNET_ERR_END (rs_id s) 0;
             ret rc }
           else ret SUCCEED);
     end_transaction rc }"

definition process_jajobnet_summary :: "environment \<Rightarrow> unit prog" where
  "process_jajobnet_summary env = do {
     rows \<leftarrow> DBselect (\<lambda>t. filter (\<lambda>s. rs_status s \<in> {JA_JOBNET_STATUS_READY, JA_JOBNET_STATUS_RUN})
       (summaries t));
     do_rows (summary_round env) rows }"

definition jobnet_round :: "run_jobnet \<Rightarrow> unit prog" where
  "jobnet_round r = do {
     _ \<leftarrow> DBbegin;
     rc \<leftarrow> (if rn_status r = JA_JOBNET_STATUS_READY then jajobnet_ready (rn_id r)
           else if rn_status r = JA_JOBNET_STATUS_RUN \<or> rn_status r = JA_JOBNET_STATUS_RUNERR
           then jajobnet_run (rn_id r) (rn_job r) (rn_status r) (rn_timeout r)
           else ret SUCCEED);
     end_transaction rc }"

definition process_jajobnet :: "unit prog" where
  "process_jajobnet = do {
     rows \<leftarrow> DBselect (\<lambda>t. filter (\<lambda>r. rn_status r \<in> {JA_JOBNET_STATUS_READY, JA_JOBNET_STATUS_RUN,
       JA_JOBNET_STATUS_RUNERR}) (jobnets t));
     do_rows jobnet_round rows }"

definition jajobnet_cycle :: "environment \<Rightarrow> unit prog" where
  "jajobnet_cycle env = do { _ \<leftarrow> process_jajobnet_summary env; process_jajobnet }"

section \<open>What driving jobnets keeps\<close>

context db_steps
begin

lemma steps_jajobnet_summary_ready: "steps (jajobnet_summary_ready n)"
  unfolding jajobnet_summary_ready_def by (intro icon_intros; simp)

lemma steps_set_jobnet_values: "steps (set_jobnet_values n r)"
  unfolding set_jobnet_values_def by (intro icon_intros)

lemma steps_jajobnet_ready: "steps (jajobnet_ready n)"
  unfolding jajobnet_ready_def by (intro icon_intros steps_set_jobnet_values; simp)

lemma steps_sync_jobnet: "0 \<le> s \<Longrightarrow> s \<le> 5 \<Longrightarrow> steps (sync_jobnet n s tf)"
  unfolding sync_jobnet_def by (intro icon_intros; simp add: run_sql_def)

lemma steps_sync_icon: "0 \<le> s \<Longrightarrow> s \<le> 5 \<Longrightarrow> steps (sync_icon i e s tf)"
  unfolding sync_icon_def by (intro icon_intros; simp add: run_sql_def)

lemma steps_jajobnet_run_sync: "0 \<le> s \<Longrightarrow> s \<le> 5 \<Longrightarrow> steps (jajobnet_run_sync n i e s tf)"
  unfolding jajobnet_run_sync_def
  by (intro icon_intros steps_sync_jobnet steps_sync_icon) (auto simp: summary_state_def split: if_splits)

lemma decide_range:
  "jobnet_decide n s tf c = Inr (Some (s', tf')) \<Longrightarrow> 0 \<le> s \<Longrightarrow> s \<le> 5 \<Longrightarrow> 0 \<le> s' \<and> s' \<le> 5"
  by (auto simp: jobnet_decide_def renew_status_def Let_def split: if_splits)

lemma steps_count_result:
  "(x = Icon_error \<Longrightarrow> steps a) \<Longrightarrow> (x = Two_ends \<Longrightarrow> steps b) \<Longrightarrow>
   (\<And>c. x = Counted c \<Longrightarrow> steps (f c)) \<Longrightarrow> steps (case_count_result a b f x)"
  by (cases x) auto

lemma steps_jajobnet_run: "0 \<le> s \<Longrightarrow> s \<le> 5 \<Longrightarrow> steps (jajobnet_run n i s tf)"
  unfolding jajobnet_run_def Let_def
  by (intro icon_intros steps_count_result steps_sum)
    (auto intro!: steps_jajobnet_run_sync dest: decide_range)

lemma steps_kill_icon: "steps (kill_icon env r)"
  unfolding kill_icon_def by (intro extjob_basics steps_aborts)

lemma steps_jajobnet_kill: "steps (jajobnet_kill env n)"
  unfolding jajobnet_kill_def by (intro icon_intros steps_kill_icon; simp add: run_sql_def)

lemma steps_summary_body:
  "steps (if rs_status s = JA_JOBNET_STATUS_READY then jajobnet_summary_ready (rs_id s)
     else if rs_status s = JA_JOBNET_STATUS_RUN \<and> rs_abort s = 1 then do {
       rc \<leftarrow> jajobnet_kill env (rs_id s);
       _ \<leftarrow> ja_joblog JC_JOBNET_ERR_END (rs_id s) 0;
       ret rc }
     else ret SUCCEED)"
  by (intro icon_intros steps_jajobnet_summary_ready steps_jajobnet_kill)

lemma steps_jobnet_body:
  "steps (if rn_status r = JA_JOBNET_STATUS_READY then jajobnet_ready (rn_id r)
     else if rn_status r = JA_JOBNET_STATUS_RUN \<or> rn_status r = JA_JOBNET_STATUS_RUNERR
     then jajobnet_run (rn_id r) (rn_job r) (rn_status r) (rn_timeout r)
     else ret SUCCEED)"
  by (intro icon_intros steps_jajobnet_ready steps_jajobnet_run) auto

end

context session_steps
begin

lemma steps_summary_round: "steps (summary_round env s)"
  unfolding summary_round_def end_transaction_def by (intro session_intros steps_summary_body)

lemma steps_jobnet_round: "steps (jobnet_round r)"
  unfolding jobnet_round_def end_transaction_def by (intro session_intros steps_jobnet_body)

lemma steps_jajobnet_cycle: "steps (jajobnet_cycle env)"
  unfolding jajobnet_cycle_def process_jajobnet_summary_def process_jajobnet_def
  by (intro session_intros steps_summary_round steps_jobnet_round)

end

lemma balanced_summary_round: "bal.steps (summary_round env s)"
  unfolding summary_round_def end_transaction_def
  by (intro balanced_intros txn.steps_summary_body)

lemma balanced_jobnet_round: "bal.steps (jobnet_round r)"
  unfolding jobnet_round_def end_transaction_def
  by (intro balanced_intros txn.steps_jobnet_body)

lemma balanced_jajobnet_cycle: "bal.steps (jajobnet_cycle env)"
  unfolding jajobnet_cycle_def process_jajobnet_summary_def process_jajobnet_def
  by (intro balanced_intros balanced_summary_round balanced_jobnet_round same_txn_balanced
      txn.steps_DBselect)

end
