(* ===== verification/Logging.thy ===== *)
theory Logging
  imports Jalog
begin

text \<open>
  What a log entry does to the database on a quiet server: it adds a value to the icon it is
  about, a row to the execution log and a message to the outbox, and nothing else.
\<close>

definition only_log :: "tables \<Rightarrow> tables \<Rightarrow> bool" where
  "only_log t t' \<longleftrightarrow> t' = t\<lparr>vals_after := vals_after t', run_log := run_log t', outbox := outbox t'\<rparr>"

lemma only_log_refl: "only_log t t"
  by (simp add: only_log_def)

lemma only_log_trans:
  assumes "only_log t t'" "only_log t' t''"
  shows "only_log t t''"
proof -
  from assms(1) obtain vs l b where t': "t' = t\<lparr>vals_after := vs, run_log := l, outbox := b\<rparr>"
    unfolding only_log_def by blast
  show ?thesis
    using assms(2) unfolding only_log_def t' by simp
qed

lemma only_logD:
  "only_log t t' \<Longrightarrow> jobs t' = jobs t" "only_log t t' \<Longrightarrow> jobnets t' = jobnets t"
  "only_log t t' \<Longrightarrow> summaries t' = summaries t" "only_log t t' \<Longrightarrow> flows t' = flows t"
  "only_log t t' \<Longrightarrow> icons t' = icons t" "only_log t t' \<Longrightarrow> vals_before t' = vals_before t"
  "only_log t t' \<Longrightarrow> job_of i t' = job_of i t" "only_log t t' \<Longrightarrow> jobnet_of n t' = jobnet_of n t"
  "only_log t t' \<Longrightarrow> summary_of n t' = summary_of n t" "only_log t t' \<Longrightarrow> sessions t' = sessions t"
proof -
  have "jobs t' = jobs t \<and> jobnets t' = jobnets t \<and> summaries t' = summaries t \<and> flows t' = flows t \<and>
      icons t' = icons t \<and> vals_before t' = vals_before t \<and> sessions t' = sessions t"
    if "only_log t t'"
  proof -
    from that obtain vs l b where "t' = t\<lparr>vals_after := vs, run_log := l, outbox := b\<rparr>"
      unfolding only_log_def by blast
    then show ?thesis
      by simp
  qed
  then show "only_log t t' \<Longrightarrow> jobs t' = jobs t" "only_log t t' \<Longrightarrow> jobnets t' = jobnets t"
    "only_log t t' \<Longrightarrow> summaries t' = summaries t" "only_log t t' \<Longrightarrow> flows t' = flows t"
    "only_log t t' \<Longrightarrow> icons t' = icons t" "only_log t t' \<Longrightarrow> vals_before t' = vals_before t"
    "only_log t t' \<Longrightarrow> job_of i t' = job_of i t" "only_log t t' \<Longrightarrow> jobnet_of n t' = jobnet_of n t"
    "only_log t t' \<Longrightarrow> summary_of n t' = summary_of n t" "only_log t t' \<Longrightarrow> sessions t' = sessions t"
    by (simp_all add: job_of_def jobnet_of_def summary_of_def)
qed

text \<open>For an icon \<open>i\<close> that exists, or no icon at all.\<close>

definition logged :: "uint64 \<Rightarrow> world \<Rightarrow> world \<Rightarrow> bool" where
  "logged i w w' \<longleftrightarrow> (calm w \<and> (i = 0 \<or> job_of i (db w) \<noteq> None) \<longrightarrow>
     calm w' \<and> srv w' = srv w \<and> same_txn w w' \<and> only_log (db w) (db w'))"

lemma exec_log_sql:
  "log_sql i s \<Longrightarrow> i = 0 \<or> job_of i t \<noteq> None \<Longrightarrow>
   \<exists>n q' t'. exec_sql s q t = Some (n, q', t') \<and> only_log t t'"
proof (cases s)
  case (Insert_value v j n name val)
  assume "log_sql i s" "i = 0 \<or> job_of i t \<noteq> None"
  with Insert_value show ?thesis
    by (auto simp: insert_values_def only_log_def)
qed (auto simp: add_log_def only_log_def)

lemma vexecute_calm:
  "calm w \<Longrightarrow> exec_sql s (seq_next w) (db w) = Some (n, q, t) \<Longrightarrow>
   exec (zbx_db_vexecute (Statement s)) w = put_tables q t w"
  by (auto simp: zbx_db_vexecute_def pq_exec_def accept_def calm_def put_tables_def exec_def)

lemma query_calm: "calm w \<Longrightarrow> after_query w = w"
  by (auto simp: after_query_def zbx_db_vselect_def pq_exec_def accept_def calm_def exec_def)

lemma vexecute_logged: "log_sql i s \<Longrightarrow> logged i w (exec (zbx_db_vexecute (Statement s)) w)"
  using exec_log_sql [of i s "db w" "seq_next w"]
  by (auto simp: logged_def vexecute_calm) (auto simp: same_txn_def)

lemma query_logged: "logged i w (after_query w)"
  by (auto simp: logged_def query_calm same_txn_def only_log_refl)

interpretation logging: sql_steps "logged i" "log_sql i" for i
proof unfold_locales
  show "logged i w w" for w
    by (auto simp: logged_def same_txn_def only_log_refl)
  show "logged i u w" if "logged i u v" "logged i v w" for u v w
    using that by (auto simp: logged_def only_logD intro: same_txn_trans only_log_trans)
  show "logged i w (exec (zbx_db_vexecute (Statement s)) w)" if "log_sql i s" for w s
    by (rule vexecute_logged) (rule that)
  show "logged i w (after_query w)" for w
    by (rule query_logged)
  show "logged i w (w\<lparr>logfile := l\<rparr>)" for w l
    by (auto simp: logged_def same_txn_def only_log_refl calm_def)
  show "logged i w (w\<lparr>no_valid_flag := v\<rparr>)" for w v
    by (auto simp: logged_def same_txn_def only_log_refl calm_def)
  show "logged i w (w\<lparr>spawned := c\<rparr>)" for w c
    by (auto simp: logged_def same_txn_def only_log_refl calm_def)
qed

lemma ja_log_logged: "logged i w (exec (ja_log m n j i args) w)"
  by (rule logging.steps_exec [OF logging.steps_ja_log_if])

lemma ja_log_yields:
  assumes "calm w" "i = 0 \<or> job_of i (db w) \<noteq> None"
  shows "\<exists>r q t. yields (ja_log m n j i args) w r q t \<and> only_log (db w) t"
  using ja_log_logged [of i w m n j args] assms
  by (auto simp: logged_def yields_def reaches_def run_exec)

end
