(* ===== verification/Flow.thy ===== *)
theory Flow
  imports Jastatus Variables Logging
begin

text \<open>
  The behaviour of the flow on a quiet server: what one arrival does to an icon, how an icon
  with several predecessors counts them, and the effect of the status setters.
\<close>

section \<open>Status setters\<close>

lemma matches_eq [simp]:
  "job_matches (Job_is i) = (\<lambda>r. rj_id r = i)"
  "job_matches (Job_in_jobnet n) = (\<lambda>r. rj_jobnet r = n)"
  "jobnet_matches (Jobnet_is n) = (\<lambda>r. rn_id r = n)"
  by (simp_all add: fun_eq_iff)

lemma set_status_job_yields:
  "calm w \<Longrightarrow> yields (ja_set_status_job i s a b) w SUCCEED (seq_next w)
    ((db w)\<lparr>jobs := upd_where (\<lambda>r. rj_id r = i)
       (set_job (job_cols\<lparr>js_status := Some s, js_start := time_arg a (clock w div 1000),
          js_end := time_arg b (clock w div 1000)\<rparr>)) (jobs (db w))\<rparr>)"
  by (simp add: ja_set_status_job_def now_number_def yields_simps)

lemma set_status_jobnet_yields:
  "calm w \<Longrightarrow> yields (ja_set_status_jobnet n s a b) w SUCCEED (seq_next w)
    ((db w)\<lparr>jobnets := upd_where (\<lambda>r. rn_id r = n)
       (set_jobnet (jobnet_cols\<lparr>ns_status := Some s, ns_start := time_arg a (clock w div 1000),
          ns_end := time_arg b (clock w div 1000)\<rparr>)) (jobnets (db w))\<rparr>)"
  by (simp add: ja_set_status_jobnet_def now_number_def yields_simps)

lemma select_jobnet_row:
  "(case select_jobnet n t of [] \<Rightarrow> None | r # _ \<Rightarrow> Some r) = jobnet_of n t"
  by (simp add: select_jobnet_def jobnet_of_def row_of_filter)

lemma get_status_jobnet_yields:
  "calm w \<Longrightarrow> yields (ja_get_status_jobnet n) w
    (case jobnet_of n (db w) of None \<Rightarrow> - 1 | Some r \<Rightarrow> rn_status r) (seq_next w) (db w)"
  by (simp add: ja_get_status_jobnet_def yields_simps select_jobnet_row)

section \<open>One arrival\<close>

lemma select_job_row:
  "(case select_job i t of [] \<Rightarrow> None | r # _ \<Rightarrow> Some r) = job_of i t"
  by (simp add: select_job_def job_of_def row_of_filter)

definition arrive_rows :: "uint64 \<Rightarrow> uint64 \<Rightarrow> tables \<Rightarrow> job_value list" where
  "arrive_rows i j t = map (\<lambda>r. r\<lparr>v_job := j\<rparr>) (filter (\<lambda>r. v_job r = i) (vals_after t))"

text \<open>The tables after icon \<open>i\<close> has flowed into icon \<open>j\<close> with new status and count.\<close>

definition arrived :: "uint64 \<Rightarrow> uint64 \<Rightarrow> int \<Rightarrow> int \<Rightarrow> nat \<Rightarrow> tables \<Rightarrow> tables" where
  "arrived i j u c q t = t\<lparr>
     jobs := upd_where (\<lambda>r. rj_id r = j) (\<lambda>r. r\<lparr>rj_status := u, rj_end_count := c\<rparr>) (jobs t),
     vals_before := vals_before t @ number_values q (arrive_rows i j t)\<rparr>"

lemma set_job_status_count:
  "set_job (job_cols\<lparr>js_status := Some u, js_end_count := Some c\<rparr>) =
     (\<lambda>r. r\<lparr>rj_status := u, rj_end_count := c\<rparr>)"
  by (simp add: set_job_def fun_eq_iff)

lemma job_of_arrived:
  "job_of k (arrived i j u c q t) =
     map_option (\<lambda>r. if rj_id r = j then r\<lparr>rj_status := u, rj_end_count := c\<rparr> else r) (job_of k t)"
  by (simp add: arrived_def job_of_def row_of_upd_where)

lemma exec_copy_after_before:
  "job_of j t \<noteq> None \<Longrightarrow> exec_sql (Copy_after_before i j) q t =
     Some (length (arrive_rows i j t), q + length (arrive_rows i j t),
       t\<lparr>vals_before := vals_before t @ number_values q (arrive_rows i j t)\<rparr>)"
  by (simp add: insert_values_def arrive_rows_def list_all_iff)

lemma copy_after_before_yields:
  "calm w \<Longrightarrow> job_of j (db w) \<noteq> None \<Longrightarrow>
   yields (ja_value_after_before i j) w SUCCEED (seq_next w + length (arrive_rows i j (db w)))
    ((db w)\<lparr>vals_before := vals_before (db w) @ number_values (seq_next w) (arrive_rows i j (db w))\<rparr>)"
  unfolding ja_value_after_before_def
  by (simp add: yields_simps exec_copy_after_before del: exec_sql.simps)

lemma flow_set_status_yields:
  assumes "calm w" "job_of j (db w) = Some r" "flow_decide j r = Inr (u, c)"
    and "rj_type r \<noteq> JA_JOB_TYPE_JOBNET \<or> u \<noteq> JA_JOB_STATUS_READY"
  shows "yields (ja_flow_set_status i j) w SUCCEED
    (seq_next w + length (arrive_rows i j (db w))) (arrived i j u c (seq_next w) (db w))"
proof -
  have no_link: "(rj_type r = JA_JOB_TYPE_JOBNET \<and> u = JA_JOB_STATUS_READY) = False"
    using assms(4) by auto
  let ?t = "(db w)\<lparr>jobs := upd_where (\<lambda>r. rj_id r = j)
    (\<lambda>r. r\<lparr>rj_status := u, rj_end_count := c\<rparr>) (jobs (db w))\<rparr>"
  have "job_of j ?t \<noteq> None"
    using assms(2) by (simp add: job_of_def row_of_upd_where)
  then have "yields (ja_value_after_before i j) (put_tables (seq_next w) ?t w) SUCCEED
      (seq_next w + length (arrive_rows i j (db w))) (arrived i j u c (seq_next w) (db w))"
    using copy_after_before_yields [of "put_tables (seq_next w) ?t w" j i] assms(1)
    by (simp add: arrived_def arrive_rows_def)
  then show ?thesis
    using assms
    by (simp add: ja_flow_set_status_def yields_simps select_job_row no_link set_job_status_count)
qed

section \<open>Counting arrivals\<close>

text \<open>
  \<open>is\<close> flow into \<open>j\<close> one after the other.
\<close>

definition arrivals :: "uint64 \<Rightarrow> uint64 list \<Rightarrow> rc prog" where
  "arrivals j is = each_row (\<lambda>i. ja_flow_set_status i j) is"

definition counting :: "run_job \<Rightarrow> bool" where
  "counting r \<longleftrightarrow> rj_type r \<notin> {JA_JOB_TYPE_IFEND, JA_JOB_TYPE_L, JA_JOB_TYPE_JOBNET}"

lemma flow_decide_counting:
  "counting r \<Longrightarrow> rj_status r = JA_JOB_STATUS_BEGIN \<Longrightarrow>
   flow_decide j r = Inr (if rj_boot_count r \<le> rj_end_count r + 1 then JA_JOB_STATUS_READY
     else JA_JOB_STATUS_BEGIN, rj_end_count r + 1)"
  by (simp add: flow_decide_def counting_def Let_def)

lemma arrivals_count:
  "calm w \<Longrightarrow> job_of j (db w) = Some r \<Longrightarrow> counting r \<Longrightarrow> rj_status r = JA_JOB_STATUS_BEGIN \<Longrightarrow>
   is \<noteq> [] \<Longrightarrow> rj_end_count r + int (length is) \<le> rj_boot_count r \<Longrightarrow>
   \<exists>q t. yields (arrivals j is) w SUCCEED q t \<and>
     job_of j t = Some (r\<lparr>rj_status := if rj_boot_count r \<le> rj_end_count r + int (length is)
                                      then JA_JOB_STATUS_READY else JA_JOB_STATUS_BEGIN,
                         rj_end_count := rj_end_count r + int (length is)\<rparr>)"
proof (induction "is" arbitrary: w r)
  case (Cons i "is")
  let ?u = "if rj_boot_count r \<le> rj_end_count r + 1 then JA_JOB_STATUS_READY else JA_JOB_STATUS_BEGIN"
  let ?r = "r\<lparr>rj_status := ?u, rj_end_count := rj_end_count r + 1\<rparr>"
  let ?q = "seq_next w + length (arrive_rows i j (db w))"
  let ?t = "arrived i j ?u (rj_end_count r + 1) (seq_next w) (db w)"
  have id: "rj_id r = j"
    using Cons.prems(2) by (auto simp: job_of_def dest: row_of_SomeD)
  have first: "yields (ja_flow_set_status i j) w SUCCEED ?q ?t"
    by (rule flow_set_status_yields [OF Cons.prems(1,2) flow_decide_counting])
      (use Cons.prems in \<open>auto simp: counting_def\<close>)
  have here: "job_of j ?t = Some ?r"
    using Cons.prems(2) id by (simp add: job_of_arrived)
  show ?case
  proof (cases "is = []")
    case True
    have "yields (arrivals j (i # is)) w SUCCEED ?q ?t"
      unfolding arrivals_def True each_row.simps
      by (rule yields_or_fail [OF first]) (auto simp: reaches_def yields_return)
    with here show ?thesis
      unfolding True by (intro exI conjI) auto
  next
    case False
    then have len: "1 \<le> int (length is)"
      by (cases "is") auto
    with Cons.prems(6) have first_begin: "?u = JA_JOB_STATUS_BEGIN"
      by auto
    obtain w1 where w1: "run_state (ja_flow_set_status i j) w = (SUCCEED, w1)" "reaches w ?q ?t w1"
      using yields_run [OF first] by blast
    have "\<exists>q t. yields (arrivals j is) w1 SUCCEED q t \<and>
       job_of j t = Some (?r\<lparr>rj_status := if rj_boot_count ?r \<le> rj_end_count ?r + int (length is)
                                         then JA_JOB_STATUS_READY else JA_JOB_STATUS_BEGIN,
                           rj_end_count := rj_end_count ?r + int (length is)\<rparr>)"
      by (rule Cons.IH) (use w1(2) here first_begin False Cons.prems in \<open>auto simp: reaches_def counting_def\<close>)
    then obtain q t where rest: "yields (arrivals j is) w1 SUCCEED q t"
      and t: "job_of j t = Some (?r\<lparr>rj_status := if rj_boot_count ?r \<le> rj_end_count ?r + int (length is)
                                         then JA_JOB_STATUS_READY else JA_JOB_STATUS_BEGIN,
                           rj_end_count := rj_end_count ?r + int (length is)\<rparr>)"
      by blast
    have "yields (arrivals j (i # is)) w SUCCEED q t"
      unfolding arrivals_def each_row.simps or_fail_def
      using w1 rest by (auto simp: yields_def arrivals_def intro: reaches_trans)
    with t show ?thesis
      by (auto simp: algebra_simps; blast)
  qed
qed simp

section \<open>Ending an icon\<close>

definition only_vals :: "tables \<Rightarrow> tables \<Rightarrow> bool" where
  "only_vals t t' \<longleftrightarrow> t' = t\<lparr>vals_before := vals_before t', vals_after := vals_after t',
     run_log := run_log t', outbox := outbox t'\<rparr>"

lemma only_valsE:
  assumes "only_vals t t'"
  obtains us vs l b where "t' = t\<lparr>vals_before := us, vals_after := vs, run_log := l, outbox := b\<rparr>"
  using assms unfolding only_vals_def by blast

lemma only_valsI: "only_vals t (t\<lparr>vals_before := us, vals_after := vs, run_log := l, outbox := b\<rparr>)"
  by (simp add: only_vals_def)

lemma only_log_vals: "only_log t t' \<Longrightarrow> only_vals t t'"
proof -
  assume "only_log t t'"
  then obtain vs l b where "t' = t\<lparr>vals_after := vs, run_log := l, outbox := b\<rparr>"
    unfolding only_log_def by blast
  then show ?thesis
    by (simp add: only_vals_def)
qed

lemma only_vals_trans: "only_vals t t' \<Longrightarrow> only_vals t' t'' \<Longrightarrow> only_vals t t''"
  by (elim only_valsE) (simp add: only_vals_def)

lemma only_valsD:
  assumes "only_vals t t'"
  shows "jobs t' = jobs t" "jobnets t' = jobnets t" "flows t' = flows t" "icons t' = icons t"
  by (rule only_valsE [OF assms], simp)+

text \<open>
  \<open>ends m w r f\<close>: on a quiet server \<open>m\<close> returns \<open>r\<close>, and apart from what logging, cleaning
  and passing on values do it only applies \<open>f\<close> to the icons.
\<close>

definition ends :: "'a prog \<Rightarrow> world \<Rightarrow> 'a \<Rightarrow> (run_job list \<Rightarrow> run_job list) \<Rightarrow> bool" where
  "ends m w r f \<longleftrightarrow> (\<exists>q t t0. yields m w r q t \<and> only_vals (db w) t0 \<and> t = t0\<lparr>jobs := f (jobs t0)\<rparr>)"

lemma ends_known: "run_state m w = (x, w) \<Longrightarrow> ends (k x) w r f \<Longrightarrow> ends (State_Monad.bind m k) w r f"
  by (simp add: ends_def yields_def)

lemma jobs_same [simp]: "t\<lparr>jobs := jobs t\<rparr> = t"
  by simp

lemma endsI: "yields m w r q t \<Longrightarrow> only_log (db w) t \<Longrightarrow> ends m w r id"
  unfolding ends_def by (intro exI [of _ q] exI [of _ t]) (simp add: only_log_vals)

lemma only_vals_jobs:
  assumes "only_vals (t\<lparr>jobs := js\<rparr>) t'"
  shows "\<exists>t0. only_vals t t0 \<and> t' = t0\<lparr>jobs := js\<rparr>"
proof (rule only_valsE [OF assms])
  fix us vs l b
  assume t': "t' = t\<lparr>jobs := js, vals_before := us, vals_after := vs, run_log := l, outbox := b\<rparr>"
  show ?thesis
    by (intro exI [of _ "t\<lparr>vals_before := us, vals_after := vs, run_log := l, outbox := b\<rparr>"] conjI
        only_valsI) (simp add: t')
qed

lemma ends_bind:
  assumes "ends m w x f" "\<And>w'. calm w' \<Longrightarrow> clock w' = clock w \<Longrightarrow> message_file w' = message_file w \<Longrightarrow>
      jobs (db w') = f (jobs (db w)) \<Longrightarrow> jobnets (db w') = jobnets (db w) \<Longrightarrow>
      flows (db w') = flows (db w) \<Longrightarrow> icons (db w') = icons (db w) \<Longrightarrow> ends (k x) w' r g"
  shows "ends (State_Monad.bind m k) w r (g \<circ> f)"
proof -
  obtain q t t0 where t: "yields m w x q t" "only_vals (db w) t0" "t = t0\<lparr>jobs := f (jobs t0)\<rparr>"
    using assms(1) by (auto simp: ends_def)
  obtain w1 where w1: "run_state m w = (x, w1)" "reaches w q t w1"
    using yields_run [OF t(1)] by blast
  have "ends (k x) w1 r g"
  proof (rule assms(2))
    have db: "db w1 = t0\<lparr>jobs := f (jobs t0)\<rparr>"
      using w1(2) t(3) by (simp add: reaches_def)
    show "calm w1" "clock w1 = clock w" "message_file w1 = message_file w"
      using w1(2) by (simp_all add: reaches_def same_txn_def)
    show "jobs (db w1) = f (jobs (db w))" "jobnets (db w1) = jobnets (db w)"
      "flows (db w1) = flows (db w)" "icons (db w1) = icons (db w)"
      unfolding db by (simp_all add: only_valsD [OF t(2)])
  qed
  then obtain q2 t2 t1 where k: "yields (k x) w1 r q2 t2" "only_vals t t1" "t2 = t1\<lparr>jobs := g (jobs t1)\<rparr>"
    using w1(2) by (auto simp: ends_def reaches_def)
  have "yields (State_Monad.bind m k) w r q2 t2"
    using w1 k(1) by (auto simp: yields_def intro: reaches_trans)
  moreover obtain t3 where t3: "only_vals t0 t3" "t1 = t3\<lparr>jobs := f (jobs t0)\<rparr>"
    using only_vals_jobs k(2) unfolding t(3) by blast
  ultimately show ?thesis
    using k(3) only_vals_trans [OF t(2) t3(1)] only_valsD(1) [OF t3(1)]
    unfolding ends_def by (intro exI [of _ q2] exI [of _ t2] exI [of _ t3]) simp
qed

lemma ends_or_fail:
  assumes "ends m w SUCCEED f" "\<And>w'. calm w' \<Longrightarrow> clock w' = clock w \<Longrightarrow> message_file w' = message_file w \<Longrightarrow>
      jobs (db w') = f (jobs (db w)) \<Longrightarrow> jobnets (db w') = jobnets (db w) \<Longrightarrow>
      flows (db w') = flows (db w) \<Longrightarrow> icons (db w') = icons (db w) \<Longrightarrow> ends k w' r g"
  shows "ends (or_fail m k) w r (g \<circ> f)"
  unfolding or_fail_def
proof (rule ends_bind [OF assms(1)])
  fix w'
  assume "calm w'" "clock w' = clock w" "message_file w' = message_file w"
    "jobs (db w') = f (jobs (db w))" "jobnets (db w') = jobnets (db w)"
    "flows (db w') = flows (db w)" "icons (db w') = icons (db w)"
  note k = assms(2) [OF this]
  show "ends (if SUCCEED = FAIL then ret FAIL else k) w' r g"
    unfolding if_not_P [OF rc.distinct(1)] by (rule k)
qed

lemma ends_log: "calm w \<Longrightarrow> i = 0 \<or> job_of i (db w) \<noteq> None \<Longrightarrow> \<exists>r. ends (ja_log m n j i args) w r id"
  by (drule (1) ja_log_yields [of w i m n j args]) (elim exE conjE, rule exI, rule endsI)

lemma ends_clean: "calm w \<Longrightarrow> ends (ja_clean_value_after i) w SUCCEED id"
proof -
  have loop: "calm w \<Longrightarrow> \<exists>t. yields (clean_loop (Delete_value_seq After) nm rs) w SUCCEED (seq_next w) t \<and>
      only_log (db w) t" for nm rs w
  proof (induction rs arbitrary: nm w)
    case (Cons p rs)
    obtain s n where p: "p = (s, n)"
      by (cases p)
    let ?t = "(db w)\<lparr>vals_after := del_where (\<lambda>r. v_seq r = s) (vals_after (db w))\<rparr>"
    show ?case
    proof (cases "n = nm")
      case True
      have "only_log (db w) ?t"
        by (simp add: only_log_def)
      with Cons.IH [of "put_tables (seq_next w) ?t w" nm] Cons.prems True p show ?thesis
        by (auto simp: yields_simps intro: only_log_trans)
    qed (use Cons p in auto)
  qed (auto simp: yields_ret_iff only_log_refl)
  assume w: "calm w"
  obtain t where t: "yields (clean_loop (Delete_value_seq After) [] (select_clean After i (db w))) w SUCCEED
      (seq_next w) t" "only_log (db w) t"
    using loop [OF w] by blast
  have "yields (ja_clean_value_after i) w SUCCEED (seq_next w) t"
    using t(1) w by (simp add: ja_clean_value_after_def yields_select_bind)
  then show ?thesis
    using t(2) by (rule endsI)
qed

lemma ends_job_status:
  "calm w \<Longrightarrow> ends (ja_set_status_job i s a b) w SUCCEED
    (upd_where (\<lambda>r. rj_id r = i) (set_job (job_cols\<lparr>js_status := Some s,
       js_start := time_arg a (clock w div 1000), js_end := time_arg b (clock w div 1000)\<rparr>)))"
  unfolding ends_def
  by (intro exI conjI, rule set_status_job_yields) (simp_all add: only_log_vals only_log_refl)

lemma ends_select_row:
  "calm w \<Longrightarrow> ends (k (case f (db w) of [] \<Rightarrow> None | x # _ \<Rightarrow> Some x)) w r g \<Longrightarrow>
   ends (State_Monad.bind (DBselect_row f) k) w r g"
  by (simp add: ends_def yields_select_row_bind)

lemma ends_select:
  "calm w \<Longrightarrow> ends (k (f (db w))) w r g \<Longrightarrow> ends (State_Monad.bind (DBselect f) k) w r g"
  by (simp add: ends_def yields_select_bind)

text \<open>Programs that only read.\<close>

definition reads :: "'a prog \<Rightarrow> bool" where
  "reads m \<longleftrightarrow> (\<forall>w. calm w \<longrightarrow> exec m w = w)"

lemma reads_bind: "reads m \<Longrightarrow> (\<And>x. reads (f x)) \<Longrightarrow> reads (State_Monad.bind m f)"
  by (auto simp: reads_def exec_def split: prod.splits)

lemma reads_select_row: "reads (DBselect_row f)"
  by (simp add: reads_def exec_def)

lemma reads_ret: "reads (ret x)"
  by (simp add: reads_def exec_def)

lemma reads_if: "(b \<Longrightarrow> reads m) \<Longrightarrow> (\<not> b \<Longrightarrow> reads m') \<Longrightarrow> reads (if b then m else m')"
  by simp

lemma reads_option:
  "(x = None \<Longrightarrow> reads m) \<Longrightarrow> (\<And>y. x = Some y \<Longrightarrow> reads (f y)) \<Longrightarrow>
   reads (case x of None \<Rightarrow> m | Some y \<Rightarrow> f y)"
  by (cases x) auto

lemma reads_prod: "(\<And>a b. reads (f a b)) \<Longrightarrow> reads (case x of (a, b) \<Rightarrow> f a b)"
  by (cases x) auto

lemma reads_jobid_loop: "reads (jobid_loop idx i m p)"
  by (induction idx i m p rule: jobid_loop.induct)
    (subst jobid_loop.simps, intro reads_bind reads_select_row reads_option reads_if reads_ret; simp)

lemma reads_ja_get_jobid: "reads (ja_get_jobid i)"
  unfolding ja_get_jobid_def Let_def
  by (intro reads_bind reads_if reads_ret reads_prod reads_select_row reads_jobid_loop)

lemma reads_main_names: "reads (main_names n)"
  unfolding main_names_def by (intro reads_bind reads_if reads_ret reads_select_row)

lemma ends_reads:
  assumes "calm w" "reads m" "\<And>x. ends (k x) w r g"
  shows "ends (State_Monad.bind m k) w r g"
proof -
  have "run_state (State_Monad.bind m k) w = run_state (k (result m w)) w"
    using assms(1,2) by (simp add: reads_def result_def exec_def split: prod.splits) (metis snd_conv)
  then show ?thesis
    using assms(3) by (simp add: ends_def yields_def)
qed

section \<open>The execution log of an icon\<close>

text \<open>Icons without an exit code: every icon but job and agentless icons.\<close>

definition plain :: "uint64 \<Rightarrow> world \<Rightarrow> run_job \<Rightarrow> bool" where
  "plain i w r \<longleftrightarrow> calm w \<and> i \<noteq> 0 \<and> job_of i (db w) = Some r \<and> jobnet_of (rj_jobnet r) (db w) \<noteq> None \<and>
     rj_jobnet r \<noteq> 0 \<and> rj_type r \<notin> {JA_JOB_TYPE_JOB, JA_JOB_TYPE_LESS}"

lemma plain_flag:
  "plain i w r \<Longrightarrow> run_state (joblog_flag m 0 n i) w = (Some 1, w)"
  by (auto simp: joblog_flag_def plain_def select_job_row)

lemma find_in: "row_of k x rs = Some r \<Longrightarrow> r \<in> set rs"
  by (drule row_of_SomeD) simp

lemma plain_log_row:
  assumes "plain i w r"
  shows "job_log_rows d m i (rj_jobnet r) (db w) \<noteq> []"
proof -
  obtain a where a: "jobnet_of (rj_jobnet r) (db w) = Some a"
    using assms by (auto simp: plain_def)
  have "a \<in> set (jobnets (db w))" "rn_id a = rj_jobnet r"
    using row_of_SomeD [OF a [unfolded jobnet_of_def]] by auto
  moreover have "r \<in> set (jobs (db w))" "rj_id r = i"
    using assms row_of_SomeD [of rj_id i "jobs (db w)" r] by (auto simp: plain_def job_of_def)
  ultimately have "job_log_row d m a r None \<in> set (job_log_rows d m i (rj_jobnet r) (db w))"
    by (force simp: job_log_rows_def)
  then show ?thesis
    by auto
qed

lemma ends_joblog:
  assumes "plain i w r"
  shows "ends (ja_joblog m 0 i) w SUCCEED id"
proof -
  let ?rows = "job_log_rows (clock w) m i (rj_jobnet r) (db w)"
  have "yields (ja_joblog m 0 i) w SUCCEED (seq_next w) ((db w)\<lparr>run_log := run_log (db w) @ ?rows\<rparr>)"
    using assms plain_flag [OF assms] plain_log_row [OF assms]
    by (auto simp: ja_joblog_def yields_simps plain_def select_job_row add_log_def yields_def
        DBexecute_calm put_tables_reaches)
  then show ?thesis
    by (rule endsI) (simp add: only_log_def)
qed

lemma plain_kept:
  "plain i w r \<Longrightarrow> calm w' \<Longrightarrow> jobs (db w') = id (jobs (db w)) \<Longrightarrow> jobnets (db w') = jobnets (db w) \<Longrightarrow>
   plain i w' r"
  by (simp add: plain_def job_of_def jobnet_of_def)

text \<open>An icon ends: status and end time are written, the jobs are otherwise left alone.\<close>

definition with_status :: "uint64 \<Rightarrow> int \<Rightarrow> int \<Rightarrow> run_job list \<Rightarrow> run_job list" where
  "with_status i s now = upd_where (\<lambda>r. rj_id r = i) (\<lambda>r. r\<lparr>rj_status := s, rj_end := now\<rparr>)"

lemma ends_with_status:
  "calm w \<Longrightarrow> ends (ja_set_status_job i s (- 1) 1) w SUCCEED (with_status i s (clock w div 1000))"
  using ends_job_status [of w i s "- 1" 1] by (simp add: with_status_def time_arg_def set_job_def [abs_def])

lemma ends_set_end:
  assumes "plain i w r"
  shows "ends (ja_set_end i 1) w SUCCEED (with_status i JA_JOB_STATUS_END (clock w div 1000))"
proof -
  have w: "calm w"
    using assms by (simp add: plain_def)
  have "ends (ja_set_end i 1) w SUCCEED ((with_status i JA_JOB_STATUS_END (clock w div 1000) \<circ> id) \<circ> id)"
    unfolding ja_set_end_def
  proof (simp only: one_neq_zero if_False, rule ends_or_fail [OF ends_clean [OF w]])
    fix w1
    assume w1: "calm w1" "clock w1 = clock w" "jobs (db w1) = id (jobs (db w))"
      "jobnets (db w1) = jobnets (db w)"
    show "ends (or_fail (ja_joblog ''JC00000004'' 0 i) (ja_set_status_job i 3 (- 1) 1)) w1 SUCCEED
        (with_status i 3 (clock w div 1000) \<circ> id)"
      by (rule ends_or_fail [OF ends_joblog [OF plain_kept [OF assms w1(1,3,4)]]])
        (metis ends_with_status w1(2))
  qed
  then show ?thesis
    by (simp only: comp_id)
qed

section \<open>A refused arrival\<close>

lemma ends_ret: "calm w \<Longrightarrow> ends (ret x) w x id"
  by (rule endsI [OF yields_return [OF _ refl refl] only_log_refl])

lemma ends_log_then:
  assumes "calm w" "i = 0 \<or> job_of i (db w) \<noteq> None"
    and "\<And>w'. calm w' \<Longrightarrow> clock w' = clock w \<Longrightarrow> message_file w' = message_file w \<Longrightarrow>
      jobs (db w') = jobs (db w) \<Longrightarrow> jobnets (db w') = jobnets (db w) \<Longrightarrow>
      flows (db w') = flows (db w) \<Longrightarrow> icons (db w') = icons (db w) \<Longrightarrow> ends k w' r g"
  shows "ends (State_Monad.bind (ja_log m n j i args) (\<lambda>_. k)) w r g"
proof -
  obtain x where x: "ends (ja_log m n j i args) w x id"
    using ends_log [OF assms(1,2)] by blast
  have "ends (State_Monad.bind (ja_log m n j i args) (\<lambda>_. k)) w r (g \<circ> id)"
    by (rule ends_bind [OF x], rule assms(3)) (simp_all only: id_apply)
  then show ?thesis
    by (simp only: comp_id)
qed

lemma ends_set_enderr:
  assumes "plain i w r"
  shows "ends (ja_set_enderr i 1) w SUCCEED (with_status i JA_JOB_STATUS_ENDERR (clock w div 1000))"
proof -
  have w: "calm w"
    using assms by (simp add: plain_def)
  let ?log = "do {
    row \<leftarrow> DBselect_row (select_job i);
    (w_main_jobnet_id, w_user) \<leftarrow> main_names (case row of None \<Rightarrow> 0 | Some r \<Rightarrow> rj_main r);
    path \<leftarrow> ja_get_jobid i;
    _ \<leftarrow> ja_log ''JAJOBNETRUN200001'' 0 None i
           [PS ''ja_set_enderr'', PU i, PS w_main_jobnet_id, PS path, PS w_user];
    ret SUCCEED }"
  have log: "ends ?log w' SUCCEED id" if w': "plain i w' r" for w'
  proof -
    have c: "calm w'" "i = 0 \<or> job_of i (db w') \<noteq> None"
      using w' by (simp_all add: plain_def)
    show ?thesis
      by (intro ends_select_row ends_reads reads_main_names reads_ja_get_jobid c)
        (auto intro!: ends_reads ends_log_then ends_ret reads_ja_get_jobid c)
  qed
  have logged: "ends (or_fail (ja_joblog JC_JOB_ERR_END 0 i) ?log) w' SUCCEED id" if w': "plain i w' r" for w'
  proof -
    have "ends (or_fail (ja_joblog JC_JOB_ERR_END 0 i) ?log) w' SUCCEED (id \<circ> id)"
      by (rule ends_or_fail [OF ends_joblog [OF w']], rule log, rule plain_kept [OF w'])
    then show ?thesis
      by (simp only: comp_id)
  qed
  let ?st = "with_status i JA_JOB_STATUS_ENDERR (clock w div 1000)"
  have "ends (ja_set_enderr i 1) w SUCCEED ((?st \<circ> id) \<circ> id)"
    unfolding ja_set_enderr_def
  proof (rule ends_or_fail [OF ends_clean [OF w]], unfold if_P [OF refl])
    fix w1
    assume w1: "calm w1" "clock w1 = clock w" "jobs (db w1) = id (jobs (db w))"
      "jobnets (db w1) = jobnets (db w)"
    show "ends (do { logged \<leftarrow> or_fail (ja_joblog JC_JOB_ERR_END 0 i) ?log;
        if logged = FAIL then ret FAIL else ja_set_status_job i JA_JOB_STATUS_ENDERR (- 1) 1 })
        w1 SUCCEED (?st \<circ> id)"
      by (rule ends_bind [OF logged [OF plain_kept [OF assms w1(1,3,4)]]])
        (simp only: if_not_P [OF rc.distinct(1)], metis ends_with_status w1(2))
  qed
  then show ?thesis
    by (simp only: comp_id)
qed

lemma ends_flow_refused:
  assumes "plain i w r"
  shows "ends (flow_refused i m args) w SUCCEED (with_status i JA_JOB_STATUS_ENDERR (clock w div 1000))"
proof -
  have c: "calm w" "i = 0 \<or> job_of i (db w) \<noteq> None"
    using assms by (simp_all add: plain_def)
  show ?thesis
    unfolding flow_refused_def
  proof (rule ends_log_then [OF c])
    fix w'
    assume w': "calm w'" "clock w' = clock w" "jobs (db w') = jobs (db w)" "jobnets (db w') = jobnets (db w)"
    have "plain i w' r"
      using plain_kept [OF assms w'(1) _ w'(4)] w'(3) by simp
    from ends_set_enderr [OF this] show "ends (ja_set_enderr i 1) w' SUCCEED
        (with_status i JA_JOB_STATUS_ENDERR (clock w div 1000))"
      unfolding w'(2) .
  qed
qed

lemma ends_refused_arrival:
  assumes "plain i w r" "job_of j (db w) = Some s" "flow_decide j s = Inl (Some x)"
  shows "ends (ja_flow_set_status i j) w SUCCEED (with_status i JA_JOB_STATUS_ENDERR (clock w div 1000))"
proof -
  have "ends (flow_refused i (fst x) (snd x)) w SUCCEED (with_status i JA_JOB_STATUS_ENDERR (clock w div 1000))"
    by (rule ends_flow_refused [OF assms(1)])
  then show ?thesis
    unfolding ja_flow_set_status_def using assms
    by (intro ends_select_row) (auto simp: plain_def select_job_row split: prod.splits)
qed

section \<open>Leaving an icon\<close>

definition arrive :: "uint64 \<Rightarrow> run_job \<Rightarrow> run_job" where
  "arrive j r = (case flow_decide j r of Inr (u, c) \<Rightarrow> r\<lparr>rj_status := u, rj_end_count := c\<rparr> | Inl _ \<Rightarrow> r)"

text \<open>The successor accepts the arrival and is not a jobnet about to be started again.\<close>

definition accepts :: "run_job \<Rightarrow> bool" where
  "accepts r \<longleftrightarrow> (\<exists>u c. flow_decide (rj_id r) r = Inr (u, c) \<and>
     (rj_type r \<noteq> JA_JOB_TYPE_JOBNET \<or> u \<noteq> JA_JOB_STATUS_READY))"

lemma arrive_id [simp]: "rj_id (arrive j r) = rj_id r"
  by (simp add: arrive_def split: sum.split prod.split)

lemma distinct_rows: "distinct (map rj_id js) \<Longrightarrow> r \<in> set js \<Longrightarrow> s \<in> set js \<Longrightarrow> rj_id r = rj_id s \<Longrightarrow> r = s"
  by (auto simp: distinct_map inj_on_def)

lemma upd_where_unique:
  "distinct (map rj_id js) \<Longrightarrow> row_of rj_id j js = Some s \<Longrightarrow> f s = g s \<Longrightarrow>
   upd_where (\<lambda>r. rj_id r = j) f js = upd_where (\<lambda>r. rj_id r = j) g js"
  unfolding upd_where_def
  by (rule map_cong [OF refl]) (auto dest: row_of_SomeD distinct_rows)

lemma ends_arrival:
  assumes "calm w" "distinct (map rj_id (jobs (db w)))" "job_of j (db w) = Some s" "accepts s"
  shows "ends (ja_flow_set_status i j) w SUCCEED (upd_where (\<lambda>r. rj_id r = j) (arrive j))"
proof -
  have id: "rj_id s = j"
    using assms(3) row_of_SomeD [of rj_id j "jobs (db w)" s] by (simp add: job_of_def)
  then obtain u c where d: "flow_decide j s = Inr (u, c)"
    "rj_type s \<noteq> JA_JOB_TYPE_JOBNET \<or> u \<noteq> JA_JOB_STATUS_READY"
    using assms(4) by (auto simp: accepts_def)
  let ?us = "vals_before (db w) @ number_values (seq_next w) (arrive_rows i j (db w))"
  have same: "upd_where (\<lambda>r. rj_id r = j) (\<lambda>r. r\<lparr>rj_status := u, rj_end_count := c\<rparr>) (jobs (db w)) =
      upd_where (\<lambda>r. rj_id r = j) (arrive j) (jobs (db w))"
    by (rule upd_where_unique [of _ _ s]) (use assms(2,3) in \<open>simp_all add: job_of_def arrive_def d(1)\<close>)
  have "yields (ja_flow_set_status i j) w SUCCEED (seq_next w + length (arrive_rows i j (db w)))
      (arrived i j u c (seq_next w) (db w))"
    by (rule flow_set_status_yields [OF assms(1,3) d])
  moreover have "only_vals (db w) ((db w)\<lparr>vals_before := ?us\<rparr>)"
    by (simp add: only_vals_def)
  moreover have "arrived i j u c (seq_next w) (db w) =
      (db w)\<lparr>vals_before := ?us, jobs := upd_where (\<lambda>r. rj_id r = j) (arrive j) (jobs (db w))\<rparr>"
    by (simp add: arrived_def same)
  ultimately show ?thesis
    unfolding ends_def by (intro exI [of _ "(db w)\<lparr>vals_before := ?us\<rparr>"] exI conjI; simp)
qed

definition arrive_all :: "uint64 set \<Rightarrow> run_job list \<Rightarrow> run_job list" where
  "arrive_all S = map (\<lambda>r. if rj_id r \<in> S then arrive (rj_id r) r else r)"

lemma ends_arrivals:
  assumes "calm w" "distinct (map rj_id (jobs (db w)))" "distinct (map rf_to (filter p fs))"
    and "\<And>f. f \<in> set fs \<Longrightarrow> p f \<Longrightarrow> \<exists>s. job_of (rf_to f) (db w) = Some s \<and> accepts s"
  shows "ends (each_row (\<lambda>f. if p f then ja_flow_set_status i (rf_to f) else ret SUCCEED) fs) w SUCCEED
    (arrive_all (rf_to ` set (filter p fs)))"
  using assms
proof (induction fs arbitrary: w)
  case Nil
  then show ?case
    using ends_ret [of w SUCCEED] by (simp add: arrive_all_def id_def)
next
  case (Cons f fs)
  show ?case
  proof (cases "p f")
    case False
    have "ends (or_fail (ret SUCCEED) (each_row (\<lambda>f. if p f then ja_flow_set_status i (rf_to f) else ret SUCCEED) fs))
        w SUCCEED (arrive_all (rf_to ` set (filter p fs)) \<circ> id)"
    proof (rule ends_or_fail [OF ends_ret [OF Cons.prems(1)]])
      fix w'
      assume w': "calm w'" "jobs (db w') = id (jobs (db w))"
      show "ends (each_row (\<lambda>f. if p f then ja_flow_set_status i (rf_to f) else ret SUCCEED) fs) w' SUCCEED
          (arrive_all (rf_to ` set (filter p fs)))"
        by (rule Cons.IH) (use Cons.prems False w' in \<open>auto simp: job_of_def\<close>)
    qed
    then show ?thesis
      using False by simp
  next
    case True
    let ?j = "rf_to f"
    let ?f = "upd_where (\<lambda>r. rj_id r = ?j) (arrive ?j)"
    obtain s where s: "job_of ?j (db w) = Some s" "accepts s"
      using Cons.prems(4) [of f] True by auto
    have other: "rf_to g \<noteq> ?j" if "g \<in> set fs" "p g" for g
    proof
      assume "rf_to g = ?j"
      moreover have "rf_to g \<in> rf_to ` set (filter p fs)"
        using that by auto
      moreover have "?j \<notin> rf_to ` set (filter p fs)"
        using Cons.prems(3) True by simp
      ultimately show False
        by simp
    qed
    have "ends (or_fail (ja_flow_set_status i ?j)
        (each_row (\<lambda>f. if p f then ja_flow_set_status i (rf_to f) else ret SUCCEED) fs))
        w SUCCEED (arrive_all (rf_to ` set (filter p fs)) \<circ> ?f)"
    proof (rule ends_or_fail [OF ends_arrival [OF Cons.prems(1,2) s]])
      fix w'
      assume w': "calm w'" "jobs (db w') = ?f (jobs (db w))"
      show "ends (each_row (\<lambda>f. if p f then ja_flow_set_status i (rf_to f) else ret SUCCEED) fs) w' SUCCEED
          (arrive_all (rf_to ` set (filter p fs)))"
      proof (rule Cons.IH [OF w'(1)])
        show "distinct (map rj_id (jobs (db w')))"
          using Cons.prems(2) by (simp add: w'(2) map_upd_where)
        show "distinct (map rf_to (filter p fs))"
          using Cons.prems(3) True by simp
        show "\<exists>s. job_of (rf_to g) (db w') = Some s \<and> accepts s" if g: "g \<in> set fs" "p g" for g
        proof -
          obtain s' where s': "job_of (rf_to g) (db w) = Some s'" "accepts s'"
            using Cons.prems(4) [of g] g by auto
          have "rj_id s' = rf_to g"
            using row_of_SomeD s'(1) by (force simp: job_of_def)
          with s' other [OF g] show ?thesis
            by (simp add: job_of_def w'(2) row_of_upd_where)
        qed
      qed
    qed
    moreover have "arrive_all (rf_to ` set (filter p fs)) \<circ> ?f = arrive_all (rf_to ` set (filter p (f # fs)))"
      (is "?l = ?r")
    proof
      fix js
      have j: "?j \<notin> rf_to ` set (filter p fs)"
      proof
        assume "?j \<in> rf_to ` set (filter p fs)"
        then obtain g where "g \<in> set fs" "p g" "?j = rf_to g"
          by auto
        with other [of g] show False
          by simp
      qed
      show "?l js = ?r js"
        unfolding arrive_all_def upd_where_def comp_def map_map
        by (rule map_cong [OF refl]) (use True j in \<open>simp only: o_apply arrive_id filter.simps if_True
          list.set image_insert insert_iff if_distrib cong: if_cong, simp\<close>)
    qed
    ultimately show ?thesis
      using True by simp
  qed
qed

lemma job_of_arrive_all:
  "job_of i (t\<lparr>jobs := arrive_all S js\<rparr>) =
     map_option (\<lambda>r. if rj_id r \<in> S then arrive (rj_id r) r else r) (row_of rj_id i js)"
  unfolding job_of_def arrive_all_def by (induction js) auto

lemma arrive_all_row:
  "row_of rj_id i (arrive_all S js) =
     map_option (\<lambda>r. if rj_id r \<in> S then arrive (rj_id r) r else r) (row_of rj_id i js)"
  unfolding arrive_all_def by (induction js) auto

lemma arrive_keeps [simp]: "rj_jobnet (arrive j r) = rj_jobnet r" "rj_type (arrive j r) = rj_type r"
  by (simp_all add: arrive_def split: sum.split prod.split)

lemma plain_arrive_all:
  assumes "plain i w r" "calm w'" "jobs (db w') = arrive_all S (jobs (db w))" "jobnets (db w') = jobnets (db w)"
  shows "\<exists>r'. plain i w' r'"
  using assms by (auto simp: plain_def job_of_def jobnet_of_def arrive_all_row)

lemma ends_cong: "ends m w r f \<Longrightarrow> f = g \<Longrightarrow> ends m w r g"
  by simp

text \<open>
  \<open>ja_flow\<close> in a running jobnet: what the loop over the flows does, then the end of the icon.
\<close>

definition flow_loop :: "uint64 \<Rightarrow> int \<Rightarrow> run_flow list \<Rightarrow> rc prog" where
  "flow_loop i ty = each_row (\<lambda>f. if flow_taken ty (rf_type f)
     then ja_flow_set_status i (rf_to f) else ret SUCCEED)"

lemma ends_flow_loop:
  assumes "plain i w r" "select_flows i (db w) = f # fs" "jobnet_of (rf_jobnet f) (db w) = Some a"
    and "rn_status a \<in> {JA_JOBNET_STATUS_RUN, JA_JOBNET_STATUS_RUNERR}"
    and loop: "\<And>w1. calm w1 \<Longrightarrow> clock w1 = clock w \<Longrightarrow> jobs (db w1) = jobs (db w) \<Longrightarrow>
      jobnets (db w1) = jobnets (db w) \<Longrightarrow> ends (flow_loop i ty (f # fs)) w1 SUCCEED h"
    and keeps: "\<And>w1. calm w1 \<Longrightarrow> jobs (db w1) = h (jobs (db w)) \<Longrightarrow>
      jobnets (db w1) = jobnets (db w) \<Longrightarrow> \<exists>r'. plain i w1 r'"
  shows "ends (ja_flow i ty 1) w SUCCEED (with_status i JA_JOB_STATUS_END (clock w div 1000) \<circ> h)"
proof -
  have w: "calm w"
    using assms(1) by (simp add: plain_def)
  let ?over = "with_status i JA_JOB_STATUS_END (clock w div 1000)"
  have all: "ends (or_fail (flow_loop i ty (f # fs)) (ja_set_end i 1)) w1 SUCCEED (?over \<circ> h)"
    if w1: "calm w1" "clock w1 = clock w" "jobs (db w1) = jobs (db w)" "jobnets (db w1) = jobnets (db w)"
    for w1
  proof (rule ends_or_fail [OF loop [OF w1]])
    fix w2
    assume w2: "calm w2" "clock w2 = clock w1" "jobs (db w2) = h (jobs (db w1))" "jobnets (db w2) = jobnets (db w1)"
    then obtain r' where "plain i w2 r'"
      using keeps [OF w2(1)] w1(3,4) by metis
    from ends_set_end [OF this] show "ends (ja_set_end i 1) w2 SUCCEED ?over"
      by (simp only: w2(2) w1(2))
  qed
  have "ends (ja_flow i ty 1) w SUCCEED ((?over \<circ> h) \<circ> id)"
    unfolding ja_flow.simps
  proof (rule ends_or_fail [OF ends_clean [OF w]])
    fix w1
    assume w1: "calm w1" "clock w1 = clock w" "jobs (db w1) = id (jobs (db w))"
      "jobnets (db w1) = jobnets (db w)" "flows (db w1) = flows (db w)"
    have running: "\<not> (rn_status a \<noteq> JA_JOBNET_STATUS_RUN \<and> rn_status a \<noteq> JA_JOBNET_STATUS_RUNERR)"
      using assms(4) by auto
    have jobs1: "jobs (db w1) = jobs (db w)"
      using w1(3) by simp
    have rows: "select_flows i (db w1) = f # fs"
      using assms(2) w1(5) by (simp add: select_flows_def)
    have st: "run_state (ja_get_status_jobnet (rf_jobnet f)) w1 = (rn_status a, w1)"
      using assms(3) w1(1,4) by (simp add: ja_get_status_jobnet_def select_jobnet_row jobnet_of_def
          DBselect_row_calm)
    show "ends (do {
         rows \<leftarrow> DBselect (select_flows i);
         case rows of
           [] \<Rightarrow> do { n \<leftarrow> gets garbage;
             _ \<leftarrow> ja_log ''JAFLOW200003'' n None i [PS ''ja_flow'', PU i];
             ja_set_enderr i 1 }
         | f # _ \<Rightarrow> do {
             jobnet_status \<leftarrow> ja_get_status_jobnet (rf_jobnet f);
             if jobnet_status \<noteq> JA_JOBNET_STATUS_RUN \<and> jobnet_status \<noteq> JA_JOBNET_STATUS_RUNERR then do {
               _ \<leftarrow> ja_log ''JAFLOW200005'' (rf_jobnet f) None i [PS ''ja_flow'', PI jobnet_status, PU (rf_jobnet f)];
               ja_set_runerr i (- 99) }
             else or_fail (each_row (\<lambda>f. if flow_taken ty (rf_type f)
                 then ja_flow_set_status i (rf_to f) else ret SUCCEED) rows)
               (ja_set_end i 1) } }) w1 SUCCEED (?over \<circ> h)"
      by (rule ends_select [OF w1(1)], simp only: rows list.case, fold flow_loop_def)
        (rule ends_known [OF st], unfold if_not_P [OF running], rule all [OF w1(1,2) jobs1 w1(4)])
  qed
  then show ?thesis
    by (simp only: comp_id)
qed

text \<open>
  Every taken successor accepts: each of them is updated once, values are passed on, and the
  icon ends.
\<close>

definition taken_targets :: "int \<Rightarrow> run_flow list \<Rightarrow> uint64 list" where
  "taken_targets ty fs = map rf_to (filter (\<lambda>g. flow_taken ty (rf_type g)) fs)"

lemma ends_flow:
  assumes "plain i w r" "distinct (map rj_id (jobs (db w)))"
    and "select_flows i (db w) = f # fs" "jobnet_of (rf_jobnet f) (db w) = Some a"
    and "rn_status a \<in> {JA_JOBNET_STATUS_RUN, JA_JOBNET_STATUS_RUNERR}"
    and "distinct (taken_targets ty (f # fs))"
    and "\<And>j. j \<in> set (taken_targets ty (f # fs)) \<Longrightarrow> \<exists>s. job_of j (db w) = Some s \<and> accepts s"
  shows "ends (ja_flow i ty 1) w SUCCEED
    (with_status i JA_JOB_STATUS_END (clock w div 1000) \<circ> arrive_all (set (taken_targets ty (f # fs))))"
  using assms(1,3-5)
proof (rule ends_flow_loop)
  fix w1
  assume w1: "calm w1" "jobs (db w1) = jobs (db w)"
  have targets: "set (taken_targets ty (f # fs)) =
      rf_to ` set (filter (\<lambda>g. flow_taken ty (rf_type g)) (f # fs))"
    by (simp add: taken_targets_def)
  show "ends (flow_loop i ty (f # fs)) w1 SUCCEED (arrive_all (set (taken_targets ty (f # fs))))"
    unfolding flow_loop_def targets
  proof (rule ends_arrivals [OF w1(1)])
    show "distinct (map rj_id (jobs (db w1)))"
      "distinct (map rf_to (filter (\<lambda>g. flow_taken ty (rf_type g)) (f # fs)))"
      using w1(2) assms(2,6) by (simp_all only: taken_targets_def)
    show "\<exists>s. job_of (rf_to g) (db w1) = Some s \<and> accepts s"
      if "g \<in> set (f # fs)" "flow_taken ty (rf_type g)" for g
      using assms(7) [of "rf_to g"] that w1(2) by (auto simp: job_of_def taken_targets_def)
  qed
qed (rule plain_arrive_all [OF assms(1)])

text \<open>
  The only successor refuses: the icon is set to end in error, then ends normally.
\<close>

lemma ends_flow_refusing:
  assumes "plain i w r" "select_flows i (db w) = [f]" "flow_taken ty (rf_type f)"
    and "jobnet_of (rf_jobnet f) (db w) = Some a"
    and "rn_status a \<in> {JA_JOBNET_STATUS_RUN, JA_JOBNET_STATUS_RUNERR}"
    and "job_of (rf_to f) (db w) = Some s" "flow_decide (rf_to f) s = Inl (Some x)"
  shows "ends (ja_flow i ty 1) w SUCCEED (with_status i JA_JOB_STATUS_END (clock w div 1000) \<circ>
    with_status i JA_JOB_STATUS_ENDERR (clock w div 1000))"
  using assms(1,2,4,5)
proof (rule ends_flow_loop)
  let ?err = "with_status i JA_JOB_STATUS_ENDERR (clock w div 1000)"
  fix w1
  assume w1: "calm w1" "clock w1 = clock w" "jobs (db w1) = jobs (db w)" "jobnets (db w1) = jobnets (db w)"
  have first: "ends (ja_flow_set_status i (rf_to f)) w1 SUCCEED ?err"
    using ends_refused_arrival [OF plain_kept [OF assms(1) w1(1) _ w1(4)] _ assms(7)] assms(6) w1(2,3)
    by (simp add: job_of_def)
  have "ends (or_fail (ja_flow_set_status i (rf_to f)) (ret SUCCEED)) w1 SUCCEED (id \<circ> ?err)"
    by (rule ends_or_fail [OF first ends_ret])
  then show "ends (flow_loop i ty [f]) w1 SUCCEED ?err"
    using assms(3) by (simp add: flow_loop_def)
qed (use assms(1) in \<open>auto simp: plain_def job_of_def jobnet_of_def with_status_def row_of_upd_where\<close>)

section \<open>What a caller sees\<close>

lemma endsD:
  assumes "ends m w r f"
  shows "result m w = r" "jobs (db (exec m w)) = f (jobs (db w))" "jobnets (db (exec m w)) = jobnets (db w)"
    "flows (db (exec m w)) = flows (db w)" "calm (exec m w)"
proof -
  obtain q t t0 where t: "yields m w r q t" "only_vals (db w) t0" "t = t0\<lparr>jobs := f (jobs t0)\<rparr>"
    using assms by (auto simp: ends_def)
  show "result m w = r" "jobs (db (exec m w)) = f (jobs (db w))" "jobnets (db (exec m w)) = jobnets (db w)"
    "flows (db (exec m w)) = flows (db w)" "calm (exec m w)"
    using yieldsD [OF t(1)] by (simp_all add: t(3) only_valsD [OF t(2)])
qed

lemma job_of_with_status:
  "row_of rj_id i (with_status i s now js) = map_option (\<lambda>r. r\<lparr>rj_status := s, rj_end := now\<rparr>) (row_of rj_id i js)"
  by (cases "row_of rj_id i js") (auto simp: with_status_def row_of_upd_where dest: row_of_SomeD)

end
