(* ===== verification/Jobnets.thy ===== *)
theory Jobnets
  imports Jajobnet Flow
begin

text \<open>
  What the jobnet process does to the status of a jobnet: the status it derives from the
  icons, starting a jobnet, stopping it.
\<close>

section \<open>Programs that work on jobnets\<close>

text \<open>
  \<open>moves m w r f g\<close>: on a quiet server \<open>m\<close> returns \<open>r\<close>, applies \<open>f\<close> to the jobnets and
  \<open>g\<close> to the summaries and leaves the icons and the graph alone.
\<close>

definition moves :: "'a prog \<Rightarrow> world \<Rightarrow> 'a \<Rightarrow> (run_jobnet list \<Rightarrow> run_jobnet list) \<Rightarrow>
    (run_summary list \<Rightarrow> run_summary list) \<Rightarrow> bool" where
  "moves m w r f g \<longleftrightarrow> (\<exists>q t. yields m w r q t \<and> jobs t = jobs (db w) \<and> flows t = flows (db w) \<and>
     icons t = icons (db w) \<and> jobnets t = f (jobnets (db w)) \<and> summaries t = g (summaries (db w)))"

lemma movesI:
  "yields m w r q t \<Longrightarrow> jobs t = jobs (db w) \<Longrightarrow> flows t = flows (db w) \<Longrightarrow> icons t = icons (db w) \<Longrightarrow>
   jobnets t = f (jobnets (db w)) \<Longrightarrow> summaries t = g (summaries (db w)) \<Longrightarrow> moves m w r f g"
  unfolding moves_def by blast

lemma movesD:
  assumes "moves m w r f g"
  shows "result m w = r" "jobs (db (exec m w)) = jobs (db w)" "flows (db (exec m w)) = flows (db w)"
    "jobnets (db (exec m w)) = f (jobnets (db w))" "summaries (db (exec m w)) = g (summaries (db w))"
proof -
  obtain q t where t: "yields m w r q t" "jobs t = jobs (db w)" "flows t = flows (db w)"
    "jobnets t = f (jobnets (db w))" "summaries t = g (summaries (db w))"
    using assms by (auto simp: moves_def)
  show "result m w = r" "jobs (db (exec m w)) = jobs (db w)" "flows (db (exec m w)) = flows (db w)"
    "jobnets (db (exec m w)) = f (jobnets (db w))" "summaries (db (exec m w)) = g (summaries (db w))"
    using yieldsD [OF t(1)] t(2-5) by simp_all
qed

lemma moves_bind:
  assumes "moves m w x f g" "\<And>w'. calm w' \<Longrightarrow> clock w' = clock w \<Longrightarrow> jobs (db w') = jobs (db w) \<Longrightarrow>
      jobnets (db w') = f (jobnets (db w)) \<Longrightarrow> summaries (db w') = g (summaries (db w)) \<Longrightarrow> moves (k x) w' r f' g'"
  shows "moves (State_Monad.bind m k) w r (f' \<circ> f) (g' \<circ> g)"
proof -
  obtain q t where t: "yields m w x q t" "jobs t = jobs (db w)" "flows t = flows (db w)" "icons t = icons (db w)"
    "jobnets t = f (jobnets (db w))" "summaries t = g (summaries (db w))"
    using assms(1) by (auto simp: moves_def)
  obtain w1 where w1: "run_state m w = (x, w1)" "reaches w q t w1"
    using yields_run [OF t(1)] by blast
  have db: "db w1 = t"
    using w1(2) by (simp add: reaches_def)
  have "moves (k x) w1 r f' g'"
    by (rule assms(2)) (use w1(2) t db in \<open>simp_all add: reaches_def same_txn_def\<close>)
  then obtain q2 t2 where k: "yields (k x) w1 r q2 t2" "jobs t2 = jobs t" "flows t2 = flows t" "icons t2 = icons t"
    "jobnets t2 = f' (jobnets t)" "summaries t2 = g' (summaries t)"
    by (auto simp: moves_def db)
  have "yields (State_Monad.bind m k) w r q2 t2"
    using w1 k(1) by (auto simp: yields_def intro: reaches_trans)
  then show ?thesis
    by (rule movesI) (simp_all add: k(2-6) t(2-6))
qed

lemma moves_or_fail:
  assumes "moves m w SUCCEED f g" "\<And>w'. calm w' \<Longrightarrow> clock w' = clock w \<Longrightarrow> jobs (db w') = jobs (db w) \<Longrightarrow>
      jobnets (db w') = f (jobnets (db w)) \<Longrightarrow> summaries (db w') = g (summaries (db w)) \<Longrightarrow> moves k w' r f' g'"
  shows "moves (or_fail m k) w r (f' \<circ> f) (g' \<circ> g)"
  unfolding or_fail_def
proof (rule moves_bind [OF assms(1)])
  fix w'
  assume "calm w'" "clock w' = clock w" "jobs (db w') = jobs (db w)"
    "jobnets (db w') = f (jobnets (db w))" "summaries (db w') = g (summaries (db w))"
  note k = assms(2) [OF this]
  show "moves (if SUCCEED = FAIL then ret FAIL else k) w' r f' g'"
    unfolding if_not_P [OF rc.distinct(1)] by (rule k)
qed

lemma moves_id: "moves m w r (f \<circ> id) (g \<circ> id) \<Longrightarrow> moves m w r f g"
  by (simp only: comp_id)

lemma moves_log_then:
  assumes "calm w" "\<And>w'. calm w' \<Longrightarrow> clock w' = clock w \<Longrightarrow> jobs (db w') = jobs (db w) \<Longrightarrow>
      jobnets (db w') = jobnets (db w) \<Longrightarrow> summaries (db w') = summaries (db w) \<Longrightarrow> moves k w' r f g"
  shows "moves (State_Monad.bind (ja_log m n j 0 args) (\<lambda>_. k)) w r f g"
proof -
  obtain x q t where t: "yields (ja_log m n j 0 args) w x q t" "only_log (db w) t"
    using ja_log_yields [OF assms(1), of 0 m n j args] by blast
  then have log: "moves (ja_log m n j 0 args) w x id id"
    using movesI [OF t(1), of id id] by (simp add: only_logD [OF t(2)])
  show ?thesis
    by (rule moves_id, rule moves_bind [OF log]) (rule assms(2); simp)
qed

section \<open>The statements\<close>

lemma moves_ret: "calm w \<Longrightarrow> moves (ret x) w x id id"
  by (rule movesI [OF yields_return [OF _ refl refl]]) simp_all

lemma moves_clean_after: "calm w \<Longrightarrow> moves (ja_clean_value_jobnet_after n) w SUCCEED id id"
proof -
  have loop: "calm w \<Longrightarrow> moves (clean_loop (Delete_net_value_seq After) nm rs) w SUCCEED id id" for nm rs w
  proof (induction rs arbitrary: nm w)
    case (Cons p rs)
    obtain s n where p: "p = (s, n)"
      by (cases p)
    let ?t = "(db w)\<lparr>nets_after := del_where (\<lambda>r. w_seq r = s) (nets_after (db w))\<rparr>"
    show ?case
    proof (cases "n = nm")
      case True
      with Cons.IH [of "put_tables (seq_next w) ?t w" nm] Cons.prems p show ?thesis
        by (auto simp: moves_def yields_simps)
    qed (use Cons p in \<open>auto simp: moves_def\<close>)
  qed (auto simp: moves_ret)
  assume "calm w"
  from loop [OF this] this show ?thesis
    by (simp add: ja_clean_value_jobnet_after_def moves_def yields_select_bind)
qed

definition net_status :: "uint64 \<Rightarrow> int \<Rightarrow> int option \<Rightarrow> int option \<Rightarrow> run_jobnet list \<Rightarrow> run_jobnet list" where
  "net_status n s a b = upd_where (\<lambda>r. rn_id r = n)
     (set_jobnet (jobnet_cols\<lparr>ns_status := Some s, ns_start := a, ns_end := b\<rparr>))"

lemma moves_status_jobnet:
  "calm w \<Longrightarrow> moves (ja_set_status_jobnet n s a b) w SUCCEED
    (net_status n s (time_arg a (clock w div 1000)) (time_arg b (clock w div 1000))) id"
  by (rule movesI [OF set_status_jobnet_yields]) (simp_all add: net_status_def)

lemma moves_joblog:
  assumes "calm w" "n \<noteq> 0" "jobnet_of n (db w) \<noteq> None" "m \<noteq> JC_JOBNET_ERR_END"
  shows "moves (ja_joblog m n 0) w SUCCEED id id"
proof -
  have "filter (\<lambda>r. rn_id r = n) (jobnets (db w)) \<noteq> []"
    using assms(3) by (auto simp: jobnet_of_def row_of_filter split: list.splits)
  then have "yields (ja_joblog m n 0) w SUCCEED (seq_next w) ((db w)\<lparr>run_log := run_log (db w) @
      map (jobnet_log_row (clock w) m) (filter (\<lambda>r. rn_id r = n) (jobnets (db w)))\<rparr>)"
    using assms by (auto simp: ja_joblog_def joblog_flag_def yields_simps add_log_def yields_def
        DBexecute_calm put_tables_reaches)
  then show ?thesis
    by (rule movesI) simp_all
qed

text \<open>The three ends of a running jobnet.\<close>

lemma moves_set_end:
  assumes "calm w" "n \<noteq> 0" "jobnet_of n (db w) \<noteq> None"
  shows "moves (ja_set_end_jobnet n) w SUCCEED
    (net_status n JA_JOBNET_STATUS_END None (Some (clock w div 1000))) id"
  unfolding ja_set_end_jobnet_def
proof (rule moves_id, rule moves_or_fail [OF moves_clean_after [OF assms(1)]])
  fix w1
  assume w1: "calm w1" "clock w1 = clock w" "jobnets (db w1) = id (jobnets (db w))"
  have row: "jobnet_of n (db w1) \<noteq> None"
    using assms(3) w1(3) by (simp add: jobnet_of_def)
  show "moves (or_fail (ja_joblog JC_JOBNET_END n 0) (ja_set_status_jobnet n JA_JOBNET_STATUS_END (- 1) 1)) w1
      SUCCEED (net_status n JA_JOBNET_STATUS_END None (Some (clock w div 1000))) id"
  proof (rule moves_id, rule moves_or_fail [OF moves_joblog [OF w1(1) assms(2) row]])
    fix w2
    assume "calm w2" "clock w2 = clock w1"
    then show "moves (ja_set_status_jobnet n JA_JOBNET_STATUS_END (- 1) 1) w2 SUCCEED
        (net_status n JA_JOBNET_STATUS_END None (Some (clock w div 1000))) id"
      using moves_status_jobnet [of w2 n JA_JOBNET_STATUS_END "- 1" 1] w1(2) by (simp add: time_arg_def)
  qed simp
qed

lemma moves_set_error:
  assumes "calm w"
  shows "moves (ja_set_runerr_jobnet n) w SUCCEED
      (net_status n JA_JOBNET_STATUS_RUNERR None (Some (clock w div 1000))) id"
    and "moves (ja_set_enderr_jobnet n) w SUCCEED
      (net_status n JA_JOBNET_STATUS_ENDERR None (Some (clock w div 1000))) id"
proof -
  have st: "moves (ja_set_status_jobnet n s (- 1) 1) w1 SUCCEED (net_status n s None (Some (clock w div 1000))) id"
    if "calm w1" "clock w1 = clock w" for s w1
    using moves_status_jobnet [of w1 n s "- 1" 1] that by (simp add: time_arg_def)
  show "moves (ja_set_runerr_jobnet n) w SUCCEED
      (net_status n JA_JOBNET_STATUS_RUNERR None (Some (clock w div 1000))) id"
    unfolding ja_set_runerr_jobnet_def
    by (rule moves_id, rule moves_or_fail [OF moves_clean_after [OF assms]], rule st)
  show "moves (ja_set_enderr_jobnet n) w SUCCEED
      (net_status n JA_JOBNET_STATUS_ENDERR None (Some (clock w div 1000))) id"
    unfolding ja_set_enderr_jobnet_def
    by (rule moves_id, rule moves_or_fail [OF moves_clean_after [OF assms]], rule st)
qed

definition summary_status :: "uint64 \<Rightarrow> int \<Rightarrow> int \<Rightarrow> int \<Rightarrow> run_summary list \<Rightarrow> run_summary list" where
  "summary_status n s j now = upd_where (\<lambda>r. rs_id r = n)
     (let ended = (s = JA_JOBNET_STATUS_END \<or> s = JA_JOBNET_STATUS_ENDERR)
      in set_summary (summary_cols\<lparr>su_status := Some s, su_job_status := Some j,
           su_end := (if ended then Some now else None), su_running := (if ended then Some ([], []) else None)\<rparr>))"

lemma moves_jobstatus:
  "calm w \<Longrightarrow> moves (ja_set_jobstatus n s j) w SUCCEED id (summary_status n s j (clock w div 1000))"
proof -
  assume w: "calm w"
  let ?ended = "s = JA_JOBNET_STATUS_END \<or> s = JA_JOBNET_STATUS_ENDERR"
  let ?t = "(db w)\<lparr>summaries := summary_status n s j (clock w div 1000) (summaries (db w)),
     sessions := (if ?ended then del_where (\<lambda>r. ss_main r = n) (sessions (db w)) else sessions (db w))\<rparr>"
  have "yields (ja_set_jobstatus n s j) w SUCCEED (seq_next w) ?t"
    using w by (cases ?ended)
      (auto simp: ja_set_jobstatus_def now_number_def yields_simps summary_status_def Let_def)
  then show ?thesis
    by (rule movesI) simp_all
qed

section \<open>Counting icons\<close>

definition reached_end :: "run_job \<Rightarrow> bool" where
  "reached_end r \<longleftrightarrow> rj_status r = JA_JOB_STATUS_END \<and> rj_type r = JA_JOB_TYPE_END"

text \<open>Stopped, and not to be continued.\<close>

definition halted :: "run_job \<Rightarrow> bool" where
  "halted r \<longleftrightarrow> (rj_status r = JA_JOB_STATUS_RUNERR \<or> rj_status r = JA_JOB_STATUS_ABORT) \<and>
     rj_continue r \<noteq> JA_JOB_CONTINUE_FLAG_ON"

definition active :: "run_job \<Rightarrow> bool" where
  "active r \<longleftrightarrow> rj_status r = JA_JOB_STATUS_READY \<or> rj_status r = JA_JOB_STATUS_RUN"

definition number :: "('r \<Rightarrow> bool) \<Rightarrow> 'r list \<Rightarrow> int" where
  "number p rs = int (length (filter p rs))"

lemma number_simps [simp]: "number p [] = 0" "number p (r # rs) = (if p r then 1 else 0) + number p rs"
  by (simp_all add: number_def)

lemma number_pos [simp]: "0 \<le> number p rs" "0 < number p rs \<longleftrightarrow> (\<exists>r \<in> set rs. p r)"
  "number p rs = 0 \<longleftrightarrow> (\<forall>r \<in> set rs. \<not> p r)"
  by (simp_all add: number_def filter_empty_conv length_greater_0_conv del: length_greater_0_conv)
    (auto simp: filter_empty_conv)

lemma fold_count:
  "n_ready (fold count_icon rs c) = n_ready c + number (\<lambda>r. rj_status r = JA_JOB_STATUS_READY) rs"
  "n_run (fold count_icon rs c) = n_run c + number (\<lambda>r. rj_status r = JA_JOB_STATUS_RUN) rs"
  "n_runerr (fold count_icon rs c) = n_runerr c + number halted rs"
  "n_start_icons (fold count_icon rs c) = n_start_icons c + number (\<lambda>r. rj_type r = JA_JOB_TYPE_START) rs"
  "n_end_icons (fold count_icon rs c) = n_end_icons c + number (\<lambda>r. rj_type r = JA_JOB_TYPE_END) rs"
  "n_end_reached (fold count_icon rs c) = n_end_reached c + number reached_end rs"
  by (induction rs arbitrary: c) (simp_all add: count_icon_def Let_def halted_def reached_end_def)

lemma fold_test_mode:
  "\<forall>r \<in> set rs. rj_test r = 0 \<Longrightarrow> test_mode c = 0 \<Longrightarrow> test_mode (fold count_icon rs c) = 0"
  by (induction rs arbitrary: c) (simp_all add: count_icon_def Let_def)

lemma count_icons_fold:
  "\<forall>r \<in> set rs. rj_test r = 0 \<Longrightarrow> (\<forall>r \<in> set rs. rj_status r \<noteq> JA_JOB_STATUS_ENDERR) \<Longrightarrow>
   n_end_reached c + number reached_end rs \<le> 1 \<Longrightarrow> count_icons c rs = Counted (fold count_icon rs c)"
proof (induction rs arbitrary: c)
  case (Cons r rs)
  have step: "n_end_reached (count_icon r c) = n_end_reached c + (if reached_end r then 1 else 0)"
    by (simp add: count_icon_def Let_def reached_end_def)
  moreover have "n_end_reached (count_icon r c) + number reached_end rs \<le> 1"
    using Cons.prems(3) step by simp
  moreover from this have "\<not> n_end_reached (count_icon r c) > 1"
    using number_pos(1) [of reached_end rs] by linarith
  ultimately show ?case
    using Cons.IH [of "count_icon r c"] Cons.prems by (simp add: Let_def)
qed simp

lemma count_icons_fails:
  "\<forall>r \<in> set rs. rj_test r = 0 \<Longrightarrow>
   (\<exists>r \<in> set rs. rj_status r = JA_JOB_STATUS_ENDERR) \<or> n_end_reached c \<le> 1 \<and> 1 < n_end_reached c + number reached_end rs \<Longrightarrow>
   count_icons c rs = Icon_error \<or> count_icons c rs = Two_ends"
proof (induction rs arbitrary: c)
  case (Cons r rs)
  have step: "n_end_reached (count_icon r c) = n_end_reached c + (if reached_end r then 1 else 0)"
    "test_mode (count_icon r c) = rj_test r"
    by (simp_all add: count_icon_def Let_def reached_end_def)
  show ?case
  proof (cases "rj_status r = JA_JOB_STATUS_ENDERR \<or> n_end_reached (count_icon r c) > 1")
    case False
    then have "count_icons (count_icon r c) rs = Icon_error \<or> count_icons (count_icon r c) rs = Two_ends"
      using Cons.IH [of "count_icon r c"] Cons.prems step by auto
    with False show ?thesis
      by (simp add: Let_def)
  qed (use Cons.prems step in \<open>auto simp: Let_def\<close>)
qed auto

section \<open>The status of a jobnet\<close>

text \<open>
  What the icons of a jobnet that is not a test run say about it: an error in an icon or in
  the graph, the end reached with nothing left to do, a stopped icon, or going on.
\<close>

definition broken :: "run_job list \<Rightarrow> bool" where
  "broken rs \<longleftrightarrow> (\<exists>r \<in> set rs. rj_status r = JA_JOB_STATUS_ENDERR) \<or> 1 < number reached_end rs \<or>
     number (\<lambda>r. rj_type r = JA_JOB_TYPE_START) rs \<noteq> 1 \<or> (\<forall>r \<in> set rs. rj_type r \<noteq> JA_JOB_TYPE_END) \<or>
     (\<exists>r \<in> set rs. reached_end r) \<and> (\<exists>r \<in> set rs. active r \<or> halted r)"

definition verdict :: "run_job list \<Rightarrow> int" where
  "verdict rs = (if broken rs then JA_JOBNET_STATUS_ENDERR
     else if \<exists>r \<in> set rs. reached_end r then JA_JOBNET_STATUS_END
     else if \<exists>r \<in> set rs. halted r then JA_JOBNET_STATUS_RUNERR
     else JA_JOBNET_STATUS_RUN)"

lemma decide_verdict:
  assumes "\<forall>r \<in> set rs. rj_test r = 0" "\<forall>r \<in> set rs. rj_status r \<noteq> JA_JOB_STATUS_ENDERR"
    and "number reached_end rs \<le> 1" "s = JA_JOBNET_STATUS_RUN \<or> s = JA_JOBNET_STATUS_RUNERR"
  shows "case jobnet_decide n s tf (fold count_icon rs no_icons) of
      Inl _ \<Rightarrow> broken rs
    | Inr None \<Rightarrow> verdict rs = s
    | Inr (Some (s', tf')) \<Rightarrow> verdict rs = s'"
proof -
  define c where "c = fold count_icon rs no_icons"
  have c: "n_ready c > 0 \<or> n_run c > 0 \<longleftrightarrow> (\<exists>r \<in> set rs. active r)" "n_runerr c > 0 \<longleftrightarrow> (\<exists>r \<in> set rs. halted r)"
    "n_runerr c = 0 \<longleftrightarrow> \<not> (\<exists>r \<in> set rs. halted r)"
    "n_start_icons c = number (\<lambda>r. rj_type r = JA_JOB_TYPE_START) rs"
    "n_end_icons c = 0 \<longleftrightarrow> (\<forall>r \<in> set rs. rj_type r \<noteq> JA_JOB_TYPE_END)"
    "n_end_reached c \<noteq> 0 \<longleftrightarrow> (\<exists>r \<in> set rs. reached_end r)" "test_mode c = 0"
    using fold_test_mode [OF assms(1), of no_icons]
    by (auto simp: c_def fold_count no_icons_def active_def)
  have b: "broken rs \<longleftrightarrow> n_start_icons c \<noteq> 1 \<or> n_end_icons c = 0 \<or>
      n_end_reached c \<noteq> 0 \<and> (n_ready c > 0 \<or> n_run c > 0 \<or> n_runerr c > 0)"
    unfolding broken_def c(4) [symmetric] c(5) [symmetric] c(6) [symmetric]
    using assms(2,3) c(1,2) by auto
  show ?thesis
  proof (cases "broken rs")
    case True
    then show ?thesis
      unfolding c_def [symmetric] jobnet_decide_def c(7) using b by (simp, safe; simp)
  next
    case False
    let ?new = "if n_end_reached c = 0 then renew_status s c else Some JA_JOBNET_STATUS_END"
    have "verdict rs = assign ?new s"
      using False assms(4) c(2,3,6) by (auto simp: verdict_def renew_status_def assign_def)
    moreover have "\<exists>x. jobnet_decide n s tf c = Inr (if ?new = None \<and> x = None then None
        else Some (assign ?new s, assign x tf))"
    proof (rule exI)
      have ok: "n_start_icons c = 1" "n_end_icons c \<noteq> 0"
        "\<not> (n_end_reached c \<noteq> 0 \<and> (n_ready c > 0 \<or> n_run c > 0 \<or> n_runerr c > 0))"
        using False b by blast+
      let ?x = "if tf = 1 \<and> n_timeout c = 0 then Some 0
        else if tf = 0 \<and> n_timeout c > 0 then Some 1 else None"
      show "jobnet_decide n s tf c = Inr (if ?new = None \<and> ?x = None then None
          else Some (assign ?new s, assign ?x tf))"
        unfolding jobnet_decide_def Let_def using ok c(7) by simp
    qed
    ultimately show ?thesis
      unfolding c_def [symmetric] by (auto simp: assign_def)
  qed
qed

text \<open>The status of jobnet (or summary) \<open>n\<close> becomes \<open>s\<close>, every other row stays.\<close>

definition gives :: "('r \<Rightarrow> uint64) \<Rightarrow> ('r \<Rightarrow> int) \<Rightarrow> uint64 \<Rightarrow> int \<Rightarrow> ('r list \<Rightarrow> 'r list) \<Rightarrow> bool" where
  "gives k st n s f \<longleftrightarrow> (\<forall>rs m. map_option st (row_of k m (f rs)) =
     (if m = n then map_option (\<lambda>_. s) (row_of k n rs) else map_option st (row_of k m rs)))"

lemma givesD: "gives k st n s f \<Longrightarrow> row_of k n rs = Some r \<Longrightarrow> map_option st (row_of k n (f rs)) = Some s"
  by (simp add: gives_def)

lemma gives_upd_where:
  "(\<And>r. k (u r) = k r) \<Longrightarrow> (\<And>r. st (u r) = s) \<Longrightarrow> gives k st n s (upd_where (\<lambda>r. k r = n) u)"
  by (auto simp: gives_def row_of_upd_where option.map_comp comp_def dest!: row_of_SomeD intro!: map_option_cong)

lemma gives_net_status: "gives rn_id rn_status n s (net_status n s a b)"
  unfolding net_status_def by (rule gives_upd_where) simp_all

lemma gives_summary_status: "gives rs_id rs_status n s (summary_status n s j now)"
  unfolding summary_status_def Let_def by (rule gives_upd_where) simp_all

lemma moves_sync_jobnet:
  assumes "calm w" "n \<noteq> 0" "jobnet_of n (db w) \<noteq> None"
    and "s \<in> {JA_JOBNET_STATUS_RUN, JA_JOBNET_STATUS_END, JA_JOBNET_STATUS_RUNERR, JA_JOBNET_STATUS_ENDERR}"
  shows "\<exists>f. moves (sync_jobnet n s tf) w SUCCEED f id \<and> gives rn_id rn_status n s f"
proof (cases "s = JA_JOBNET_STATUS_RUN")
  case True
  let ?u = "set_jobnet (jobnet_cols\<lparr>ns_status := Some s, ns_timeout := Some tf\<rparr>)"
  have "yields (sync_jobnet n s tf) w SUCCEED (seq_next w)
      ((db w)\<lparr>jobnets := upd_where (\<lambda>r. rn_id r = n) ?u (jobnets (db w))\<rparr>)"
    using True assms(1) by (auto simp: sync_jobnet_def yields_simps)
  then have "moves (sync_jobnet n s tf) w SUCCEED (upd_where (\<lambda>r. rn_id r = n) ?u) id"
    by (rule movesI) simp_all
  moreover have "gives rn_id rn_status n s (upd_where (\<lambda>r. rn_id r = n) ?u)"
    by (rule gives_upd_where) simp_all
  ultimately show ?thesis
    by blast
next
  case False
  let ?f = "net_status n s None (Some (clock w div 1000))"
  have "moves (sync_jobnet n s tf) w SUCCEED ?f id"
    using assms(4) False moves_set_end [OF assms(1-3)] moves_set_error [OF assms(1)]
    by (auto simp: sync_jobnet_def)
  with gives_net_status show ?thesis
    by blast
qed

lemma moves_run_sync:
  assumes "calm w" "n \<noteq> 0" "jobnet_of n (db w) \<noteq> None"
    and "s \<in> {JA_JOBNET_STATUS_RUN, JA_JOBNET_STATUS_END, JA_JOBNET_STATUS_RUNERR, JA_JOBNET_STATUS_ENDERR}"
  shows "\<exists>f g. moves (jajobnet_run_sync n 0 e s tf) w SUCCEED f g \<and> gives rn_id rn_status n s f \<and>
    gives rs_id rs_status n (fst (summary_state s tf)) g"
proof -
  obtain f where f: "moves (sync_jobnet n s tf) w SUCCEED f id" "gives rn_id rn_status n s f"
    using moves_sync_jobnet [OF assms] by blast
  obtain st j where sj: "summary_state s tf = (st, j)"
    by (cases "summary_state s tf")
  have "moves (jajobnet_run_sync n 0 e s tf) w SUCCEED (id \<circ> f) (summary_status n st j (clock w div 1000) \<circ> id)"
    unfolding jajobnet_run_sync_def if_P [OF refl] sj Let_def prod.case
  proof (rule moves_or_fail [OF f(1)])
    fix w'
    assume "calm w'" "clock w' = clock w"
    then show "moves (ja_set_jobstatus n st j) w' SUCCEED id (summary_status n st j (clock w div 1000))"
      using moves_jobstatus [of w' n st j] by simp
  qed
  with f(2) gives_summary_status [of n st j "clock w div 1000"] show ?thesis
    by (auto simp: sj)
qed

text \<open>
  One visit of the jobnet process to a main jobnet: afterwards the jobnet has the status
  its icons call for, and nothing happened to the icons.
\<close>

lemma moves_jajobnet_run:
  assumes "calm w" "n \<noteq> 0" "jobnet_of n (db w) = Some r"
    and "s = JA_JOBNET_STATUS_RUN \<or> s = JA_JOBNET_STATUS_RUNERR" "rn_status r = s"
    and "\<forall>r \<in> set (select_icons n (db w)). rj_test r = 0"
  shows "\<exists>f g. moves (jajobnet_run n 0 s tf) w SUCCEED f g \<and>
    map_option rn_status (row_of rn_id n (f (jobnets (db w)))) = Some (verdict (select_icons n (db w)))"
proof -
  let ?rs = "select_icons n (db w)"
  let ?done = "\<lambda>m. \<exists>f g. moves m w SUCCEED f g \<and>
    map_option rn_status (row_of rn_id n (f (jobnets (db w)))) = Some (verdict ?rs)"
  have row: "jobnet_of n (db w) \<noteq> None"
    using assms(3) by simp
  have sync: "?done (jajobnet_run_sync n 0 e s' tf')"
    if "verdict ?rs = s'" for e s' tf'
  proof -
    have "s' \<in> {JA_JOBNET_STATUS_RUN, JA_JOBNET_STATUS_END, JA_JOBNET_STATUS_RUNERR, JA_JOBNET_STATUS_ENDERR}"
      using that by (auto simp: verdict_def split: if_splits)
    from moves_run_sync [OF assms(1,2) row this, of e tf'] obtain f g where
      "moves (jajobnet_run_sync n 0 e s' tf') w SUCCEED f g" "gives rn_id rn_status n s' f"
      by blast
    then show ?thesis
      using givesD [of rn_id rn_status n s' f "jobnets (db w)" r] assms(3) that
      by (auto simp: jobnet_of_def)
  qed
  have failed: "?done (jajobnet_run_sync n 0 0 JA_JOBNET_STATUS_ENDERR 0)" if "broken ?rs"
    by (rule sync) (use that in \<open>simp add: verdict_def\<close>)
  have logged: "?done (State_Monad.bind (ja_log m n None 0 args) (\<lambda>_. jajobnet_run_sync n 0 0 JA_JOBNET_STATUS_ENDERR 0))"
    if b: "broken ?rs" for m args
  proof -
    have "moves (jajobnet_run_sync n 0 0 JA_JOBNET_STATUS_ENDERR 0) w' SUCCEED
        (net_status n JA_JOBNET_STATUS_ENDERR None (Some (clock w div 1000)))
        (summary_status n JA_JOBNET_STATUS_RUN JA_SUMMARY_JOB_STATUS_ERROR (clock w div 1000))"
      if w': "calm w'" "clock w' = clock w" for w'
    proof -
      have "moves (or_fail (ja_set_enderr_jobnet n) (ja_set_jobstatus n JA_JOBNET_STATUS_RUN JA_SUMMARY_JOB_STATUS_ERROR)) w'
          SUCCEED (id \<circ> net_status n JA_JOBNET_STATUS_ENDERR None (Some (clock w' div 1000)))
          (summary_status n JA_JOBNET_STATUS_RUN JA_SUMMARY_JOB_STATUS_ERROR (clock w' div 1000) \<circ> id)"
        by (rule moves_or_fail [OF moves_set_error(2) [OF w'(1)]]) (metis moves_jobstatus)
      then show ?thesis
        using w'(2) by (simp add: jajobnet_run_sync_def sync_jobnet_def summary_state_def)
    qed
    from moves_log_then [OF assms(1) this, of m n None args] show ?thesis
      using b assms(3) givesD [OF gives_net_status, of n "jobnets (db w)" r JA_JOBNET_STATUS_ENDERR None
          "Some (clock w div 1000)"]
      unfolding jobnet_of_def verdict_def by auto
  qed
  have stays: "?done (ret SUCCEED)" if "verdict ?rs = s"
    using moves_ret [OF assms(1)] assms(3,5) that by (fastforce simp: jobnet_of_def)
  have "?done (case count_icons no_icons ?rs of
       Icon_error \<Rightarrow> jajobnet_run_sync n 0 0 JA_JOBNET_STATUS_ENDERR 0
     | Two_ends \<Rightarrow> do {
         _ \<leftarrow> ja_log ''JAJOBNETRUN200002'' n None 0 [PS ''jajobnet_run'', PU n];
         jajobnet_run_sync n 0 0 JA_JOBNET_STATUS_ENDERR 0 }
     | Counted c \<Rightarrow>
         (case jobnet_decide n s tf c of
            Inl (message_id, args) \<Rightarrow> do {
              _ \<leftarrow> ja_log message_id n None 0 args;
              jajobnet_run_sync n 0 0 JA_JOBNET_STATUS_ENDERR 0 }
          | Inr None \<Rightarrow> ret SUCCEED
          | Inr (Some (renew, renew_timeout)) \<Rightarrow> jajobnet_run_sync n 0 (end_id c) renew renew_timeout))"
  proof (cases "(\<exists>r \<in> set ?rs. rj_status r = JA_JOB_STATUS_ENDERR) \<or> 1 < number reached_end ?rs")
    case True
    then have "count_icons no_icons ?rs = Icon_error \<or> count_icons no_icons ?rs = Two_ends"
      using count_icons_fails [OF assms(6), of no_icons] by (auto simp: no_icons_def)
    moreover have b: "broken ?rs"
      using True by (auto simp: broken_def)
    ultimately show ?thesis
    proof (elim disjE)
      assume e: "count_icons no_icons ?rs = Icon_error"
      show ?thesis
        unfolding e count_result.case by (rule failed [OF b])
    next
      assume e: "count_icons no_icons ?rs = Two_ends"
      show ?thesis
        unfolding e count_result.case by (rule logged [OF b])
    qed
  next
    case False
    then have c: "count_icons no_icons ?rs = Counted (fold count_icon ?rs no_icons)"
      using count_icons_fold [OF assms(6), of no_icons] by (auto simp: no_icons_def)
    have "case jobnet_decide n s tf (fold count_icon ?rs no_icons) of
        Inl _ \<Rightarrow> broken ?rs | Inr None \<Rightarrow> verdict ?rs = s | Inr (Some (s', tf')) \<Rightarrow> verdict ?rs = s'"
      by (rule decide_verdict [OF assms(6) _ _ assms(4)]) (use False in auto)
    then show ?thesis
      unfolding c count_result.case
      using logged sync stays by (auto split: sum.split option.split prod.split)
  qed
  then show ?thesis
    using assms(1) by (simp add: jajobnet_run_def Let_def moves_def yields_select_bind)
qed

section \<open>Stopping a jobnet\<close>

definition same_rows :: "world \<Rightarrow> world \<Rightarrow> bool" where
  "same_rows w w' \<longleftrightarrow> (calm w \<longrightarrow> calm w' \<and> jobs (db w') = jobs (db w) \<and>
     jobnets (db w') = jobnets (db w) \<and> summaries (db w') = summaries (db w) \<and> icons (db w') = icons (db w))"

lemma same_rows_refl: "same_rows w w"
  by (simp add: same_rows_def)

lemma log_rows: "same_rows w (exec (ja_log m n j 0 args) w)"
  unfolding same_rows_def
proof
  assume w: "calm w"
  obtain x q t where t: "yields (ja_log m n j 0 args) w x q t" "only_log (db w) t"
    using ja_log_yields [OF w, of 0 m n j args] by blast
  show "calm (exec (ja_log m n j 0 args) w) \<and> jobs (db (exec (ja_log m n j 0 args) w)) = jobs (db w) \<and>
      jobnets (db (exec (ja_log m n j 0 args) w)) = jobnets (db w) \<and>
      summaries (db (exec (ja_log m n j 0 args) w)) = summaries (db w) \<and>
      icons (db (exec (ja_log m n j 0 args) w)) = icons (db w)"
    using yieldsD [OF t(1)] by (simp add: only_logD [OF t(2)])
qed

text \<open>The two statements on the icons and the one on the jobnets.\<close>

definition stop_job :: "uint64 \<Rightarrow> run_job \<Rightarrow> run_job" where
  "stop_job n r = (if rj_main r \<noteq> n then r
     else if rj_status r = JA_JOB_STATUS_READY then r\<lparr>rj_status := JA_JOB_STATUS_BEGIN\<rparr>
     else if rj_type r = JA_JOB_TYPE_JOBNET \<and> rj_status r \<in> {JA_JOB_STATUS_RUN, JA_JOB_STATUS_RUNERR}
     then r\<lparr>rj_status := JA_JOB_STATUS_ENDERR\<rparr> else r)"

definition stop_net :: "uint64 \<Rightarrow> run_jobnet \<Rightarrow> run_jobnet" where
  "stop_net n r = (if rn_main r = n \<and> rn_status r \<in> {JA_JOBNET_STATUS_RUN, JA_JOBNET_STATUS_RUNERR}
     then r\<lparr>rn_status := JA_JOBNET_STATUS_ENDERR\<rparr> else r)"

lemma set_job_status: "set_job (job_cols\<lparr>js_status := Some s\<rparr>) r = r\<lparr>rj_status := s\<rparr>"
  by (simp add: set_job_def)

lemma set_net_status: "set_jobnet (jobnet_cols\<lparr>ns_status := Some s\<rparr>) r = r\<lparr>rn_status := s\<rparr>"
  by (simp add: set_jobnet_def)

lemma stop_jobs:
  "upd_where (job_matches (Job_main_type n JA_JOB_TYPE_JOBNET [JA_JOB_STATUS_RUN, JA_JOB_STATUS_RUNERR]))
     (set_job (job_cols\<lparr>js_status := Some JA_JOB_STATUS_ENDERR\<rparr>))
     (upd_where (job_matches (Job_main_status n JA_JOB_STATUS_READY))
       (set_job (job_cols\<lparr>js_status := Some JA_JOB_STATUS_BEGIN\<rparr>)) js) = map (stop_job n) js"
  by (induction js) (auto simp: upd_where_def stop_job_def set_job_status)

lemma stop_nets:
  "upd_where (jobnet_matches (Jobnet_main n [JA_JOBNET_STATUS_RUN, JA_JOBNET_STATUS_RUNERR]))
     (set_jobnet (jobnet_cols\<lparr>ns_status := Some JA_JOBNET_STATUS_ENDERR\<rparr>)) ns = map (stop_net n) ns"
  by (induction ns) (auto simp: upd_where_def stop_net_def set_net_status)

definition stopped_tables :: "uint64 \<Rightarrow> tables \<Rightarrow> tables" where
  "stopped_tables n t = t\<lparr>jobs := map (stop_job n) (jobs t), jobnets := map (stop_net n) (jobnets t),
     sessions := del_where (\<lambda>r. ss_main r = n) (sessions t)\<rparr>"

lemma kill_statements:
  assumes "calm w"
  shows "run_state (do {
     _ \<leftarrow> DBselect f;
     db_ret \<leftarrow> DBexecute (Update_job (Job_main_status n JA_JOB_STATUS_READY)
       (job_cols\<lparr>js_status := Some JA_JOB_STATUS_BEGIN\<rparr>));
     if db_ret < ZBX_DB_OK then ret FAIL
     else do {
       db_ret \<leftarrow> DBexecute (Update_job (Job_main_type n JA_JOB_TYPE_JOBNET
           [JA_JOB_STATUS_RUN, JA_JOB_STATUS_RUNERR])
         (job_cols\<lparr>js_status := Some JA_JOB_STATUS_ENDERR\<rparr>));
       if db_ret < ZBX_DB_OK then ret FAIL
       else do {
         db_ret \<leftarrow> DBexecute (Update_jobnet (Jobnet_main n
             [JA_JOBNET_STATUS_RUN, JA_JOBNET_STATUS_RUNERR])
           (jobnet_cols\<lparr>ns_status := Some JA_JOBNET_STATUS_ENDERR\<rparr>));
         if db_ret < ZBX_DB_OK then ret FAIL
         else do {
           db_ret \<leftarrow> DBexecute (Delete_session n);
           if db_ret < ZBX_DB_OK then ret FAIL else k
         }
       }
     }
   }) w = run_state k (put_tables (seq_next w) (stopped_tables n (db w)) w)"
  using assms stop_jobs [of n "jobs (db w)"] stop_nets [of n "jobnets (db w)"]
  by (simp add: DBexecute_calm stopped_tables_def)

lemma stop_job_not_ready: "rj_main (stop_job n r) = n \<Longrightarrow> rj_status (stop_job n r) \<noteq> JA_JOB_STATUS_READY"
  by (auto simp: stop_job_def split: if_splits)

text \<open>
  The running icons: a job icon whose settings name its host is handed to a child and its
  status becomes ``abort''.  The other kinds of icons that run outside the database are left
  out here; what stopping them does depends on their own tables.
\<close>

definition kill_job :: "uint64 \<Rightarrow> run_job \<Rightarrow> run_job" where
  "kill_job n r =
     (if rj_main r = n \<and> rj_type r = JA_JOB_TYPE_JOB \<and> rj_status r = JA_JOB_STATUS_RUN
      then r\<lparr>rj_status := JA_JOB_STATUS_ABORT\<rparr> else stop_job n r)"

definition reachable_job :: "tables \<Rightarrow> run_job \<Rightarrow> bool" where
  "reachable_job t r \<longleftrightarrow>
     rj_type r \<notin> {JA_JOB_TYPE_EXTJOB, JA_JOB_TYPE_FWAIT, JA_JOB_TYPE_LESS} \<and>
     (rj_type r = JA_JOB_TYPE_JOB \<longrightarrow>
        (case filter (\<lambda>h. ih_job h = rj_id r) (icon_job_hosts (icons t)) of
           [] \<Rightarrow> False | h # _ \<Rightarrow> ih_flag h = 0))"

definition abort_jobs :: "uint64 set \<Rightarrow> run_job list \<Rightarrow> run_job list" where
  "abort_jobs is js = map (\<lambda>r. if rj_id r \<in> is then r\<lparr>rj_status := JA_JOB_STATUS_ABORT\<rparr> else r) js"

lemma abort_jobs_twice: "abort_jobs is (abort_jobs js rs) = abort_jobs (js \<union> is) rs"
  by (auto simp: abort_jobs_def)

lemma abort_jobs_none: "abort_jobs {} rs = rs"
  by (simp add: abort_jobs_def)

definition running_jobs :: "run_job list \<Rightarrow> uint64 set" where
  "running_jobs rs = rj_id ` {r \<in> set rs. rj_type r = JA_JOB_TYPE_JOB \<and> rj_status r = JA_JOB_STATUS_RUN}"

lemma run_kill_job:
  assumes "calm w" "forks env" "reachable_job (db w) r"
    and "rj_type r = JA_JOB_TYPE_JOB" "rj_status r = JA_JOB_STATUS_RUN"
  shows "run_state (kill_icon env r) w = ((),
    put_tables (seq_next w) (db w\<lparr>jobs := abort_jobs {rj_id r} (jobs (db w))\<rparr>) w)"
proof -
  obtain h hs where h: "filter (\<lambda>h. ih_job h = rj_id r) (icon_job_hosts (icons (db w))) = h # hs" "ih_flag h = 0"
    using assms(3,4) by (auto simp: reachable_job_def split: list.splits)
  have "upd_where (job_matches (Job_is (rj_id r)))
      (set_job (job_cols\<lparr>js_status := Some JA_JOB_STATUS_ABORT, js_start := None, js_end := None\<rparr>)) (jobs (db w)) =
      abort_jobs {rj_id r} (jobs (db w))"
    by (simp add: upd_where_def abort_jobs_def set_job_def)
  then show ?thesis
    using assms(1,2,4,5) h
    by (simp add: kill_icon_def jarun_icon_job_def prepare_job_def ja_host_getname_def Let_def
        ja_set_status_job_def now_number_def time_arg_def DBexecute_calm)
qed

lemma run_kill_other:
  "reachable_job t r \<Longrightarrow> rj_type r \<noteq> JA_JOB_TYPE_JOB \<or> rj_status r \<noteq> JA_JOB_STATUS_RUN \<Longrightarrow>
   kill_icon env r = ret ()"
  by (auto simp: kill_icon_def reachable_job_def)

lemma run_kill_icons:
  assumes "calm w" "forks env" "\<forall>r \<in> set rs. reachable_job (db w) r"
  shows "calm (exec (do_rows (kill_icon env) rs) w) \<and> db (exec (do_rows (kill_icon env) rs) w) =
    db w\<lparr>jobs := abort_jobs (running_jobs rs) (jobs (db w))\<rparr>"
  using assms
proof (induction rs arbitrary: w)
  case Nil
  then show ?case
    by (simp add: running_jobs_def abort_jobs_none exec_ret)
next
  case (Cons r rs)
  show ?case
  proof (cases "rj_type r = JA_JOB_TYPE_JOB \<and> rj_status r = JA_JOB_STATUS_RUN")
    case True
    let ?t = "db w\<lparr>jobs := abort_jobs {rj_id r} (jobs (db w))\<rparr>"
    have "\<forall>r \<in> set rs. reachable_job ?t r"
      using Cons.prems(3) by (simp add: reachable_job_def)
    moreover have "running_jobs (r # rs) = {rj_id r} \<union> running_jobs rs"
      using True by (auto simp: running_jobs_def)
    moreover have "exec (kill_icon env r) w = put_tables (seq_next w) ?t w"
      using True Cons.prems run_kill_job [of w env r] by (simp add: exec_def)
    ultimately show ?thesis
      using Cons.IH [of "put_tables (seq_next w) ?t w"] Cons.prems(1,2)
      by (simp add: abort_jobs_twice exec_bind)
  next
    case False
    have "running_jobs (r # rs) = running_jobs rs"
      using False by (auto simp: running_jobs_def)
    moreover have "kill_icon env r = ret ()"
      using False Cons.prems(3) by (intro run_kill_other [of "db w"]) auto
    ultimately show ?thesis
      using Cons.IH [of w] Cons.prems by (simp add: exec_bind exec_ret)
  qed
qed

lemma stop_job_keeps [simp]:
  "rj_id (stop_job n r) = rj_id r" "rj_main (stop_job n r) = rj_main r" "rj_type (stop_job n r) = rj_type r"
  by (simp_all add: stop_job_def)

lemma stop_job_running:
  "rj_main r = n \<Longrightarrow> rj_status (stop_job n r) = JA_JOB_STATUS_RUN \<Longrightarrow> stop_job n r = r"
  by (auto simp: stop_job_def split: if_splits)

lemma abort_stopped:
  assumes "distinct (map rj_id js)"
  shows "abort_jobs (running_jobs (filter (\<lambda>r. rj_main r = n \<and>
      rj_status r \<in> {JA_JOB_STATUS_READY, JA_JOB_STATUS_RUN}) (map (stop_job n) js))) (map (stop_job n) js) =
    map (kill_job n) js"
proof -
  let ?rs = "filter (\<lambda>r. rj_main r = n \<and> rj_status r \<in> {JA_JOB_STATUS_READY, JA_JOB_STATUS_RUN})
    (map (stop_job n) js)"
  have iff: "rj_id r \<in> running_jobs ?rs \<longleftrightarrow>
      rj_main r = n \<and> rj_type r = JA_JOB_TYPE_JOB \<and> rj_status r = JA_JOB_STATUS_RUN" if "r \<in> set js" for r
  proof
    assume "rj_id r \<in> running_jobs ?rs"
    then obtain r' where r': "r' \<in> set js" "rj_id r' = rj_id r" "rj_main r' = n"
      "rj_type r' = JA_JOB_TYPE_JOB" "rj_status (stop_job n r') = JA_JOB_STATUS_RUN"
      by (auto simp: running_jobs_def)
    then have "r' = r"
      using assms that by (auto simp: distinct_map dest: inj_onD)
    with r' show "rj_main r = n \<and> rj_type r = JA_JOB_TYPE_JOB \<and> rj_status r = JA_JOB_STATUS_RUN"
      using stop_job_running [of r n] by simp
  next
    assume r: "rj_main r = n \<and> rj_type r = JA_JOB_TYPE_JOB \<and> rj_status r = JA_JOB_STATUS_RUN"
    then have "stop_job n r = r"
      by (simp add: stop_job_def)
    with r that show "rj_id r \<in> running_jobs ?rs"
      by (force simp: running_jobs_def)
  qed
  have "(if rj_id r \<in> running_jobs ?rs
      then stop_job n r\<lparr>rj_status := JA_JOB_STATUS_ABORT\<rparr> else stop_job n r) = kill_job n r" if "r \<in> set js" for r
  proof (cases "rj_id r \<in> running_jobs ?rs")
    case True
    then have "rj_main r = n" "rj_type r = JA_JOB_TYPE_JOB" "rj_status r = JA_JOB_STATUS_RUN"
      using iff [OF that] by blast+
    moreover from this have "stop_job n r = r"
      by (simp add: stop_job_def)
    ultimately show ?thesis
      using True by (simp only: kill_job_def if_True simp_thms)
  next
    case False
    then show ?thesis
      using iff [OF that] by (simp only: kill_job_def if_False)
  qed
  then show ?thesis
    unfolding abort_jobs_def map_map by (intro map_cong refl) (simp only: comp_def stop_job_keeps)
qed

lemma after_kill:
  assumes "calm w" "forks env" "distinct (map rj_id (jobs (db w)))"
    and "\<forall>r \<in> set (jobs (db w)). rj_main r = n \<and> rj_status r = JA_JOB_STATUS_RUN \<longrightarrow> reachable_job (db w) r"
  shows "jobs (db (exec (jajobnet_kill env n) w)) = map (kill_job n) (jobs (db w)) \<and>
    jobnets (db (exec (jajobnet_kill env n) w)) = map (stop_net n) (jobnets (db w)) \<and>
    result (jajobnet_kill env n) w = SUCCEED \<and>
    ((\<forall>r \<in> set (map (stop_job n) (jobs (db w))). rj_main r = n \<longrightarrow> rj_status r \<noteq> JA_JOB_STATUS_RUN) \<longrightarrow>
      (\<forall>s. summary_of n (db w) = Some s \<longrightarrow> (\<exists>s'. summary_of n (db (exec (jajobnet_kill env n) w)) = Some s' \<and>
        rs_status s' = JA_JOBNET_STATUS_ENDERR)))"
proof -
  let ?first = "\<lambda>row. case row of None \<Rightarrow> ret SUCCEED | Some r \<Rightarrow>
            ja_log ''JAJOBNET000001'' n None 0
              [PS ''jajobnet_kill'', PU n, PS (rn_jobnet_id r), PS (rn_exec_user r)]"
  let ?kills = "\<lambda>rows. do {
     _ \<leftarrow> do_rows (kill_icon env) rows;
     if rows = [] then ja_set_jobstatus n JA_JOBNET_STATUS_ENDERR JA_SUMMARY_JOB_STATUS_ERROR
     else do {
       _ \<leftarrow> ja_log ''JAJOBNET000002'' n None 0
         [PS ''jajobnet_kill'', PU n,
          PI (int (length (filter (\<lambda>r. rj_status r = JA_JOB_STATUS_READY) rows))),
          PI (int (length (filter (\<lambda>r. rj_status r = JA_JOB_STATUS_RUN) rows)))];
       ret SUCCEED } }"
  define w1 where "w1 = exec (?first (case select_jobnet n (db w) of [] \<Rightarrow> None | r # _ \<Rightarrow> Some r)) w"
  have w1: "calm w1" "jobs (db w1) = jobs (db w)" "jobnets (db w1) = jobnets (db w)"
    "summaries (db w1) = summaries (db w)" "icons (db w1) = icons (db w)"
    using log_rows [of w] same_rows_refl [of w] assms(1) unfolding w1_def same_rows_def
    by (auto simp: exec_ret split: option.split)
  define w2 where "w2 = put_tables (seq_next w1) (stopped_tables n (db w1)) w1"
  have w2: "calm w2" "jobs (db w2) = map (stop_job n) (jobs (db w))"
    "jobnets (db w2) = map (stop_net n) (jobnets (db w))" "summaries (db w2) = summaries (db w)"
    "icons (db w2) = icons (db w)"
    using w1 by (simp_all add: w2_def stopped_tables_def)
  let ?rows = "active_icons n (db w2)"
  have row: "result (DBselect_row (select_jobnet n)) w = (case select_jobnet n (db w) of [] \<Rightarrow> None | r # _ \<Rightarrow> Some r)"
    "exec (DBselect_row (select_jobnet n)) w = w"
    using assms(1) by (simp_all add: result_def exec_def)
  have "run_state (jajobnet_kill env n) w = run_state (do { rows \<leftarrow> DBselect (active_icons n); ?kills rows }) w2"
    unfolding jajobnet_kill_def run_bind [of "DBselect_row _"] row run_bind [of "?first _"]
      w1_def [symmetric] w2_def
    by (rule kill_statements [OF w1(1)])
  also have "\<dots> = run_state (?kills ?rows) w2"
    using w2(1) by (simp del: DBselect_row_calm)
  finally have run: "run_state (jajobnet_kill env n) w = run_state (?kills ?rows) w2" .
  define w3 where "w3 = exec (do_rows (kill_icon env) ?rows) w2"
  have reach: "\<forall>r \<in> set ?rows. reachable_job (db w2) r"
  proof
    fix r
    assume "r \<in> set ?rows"
    then obtain r0 where r0: "r0 \<in> set (jobs (db w))" "r = stop_job n r0" "rj_main r0 = n"
      "rj_status r = JA_JOB_STATUS_READY \<or> rj_status r = JA_JOB_STATUS_RUN"
      by (auto simp: active_icons_def w2(2))
    then have "rj_status r = JA_JOB_STATUS_RUN"
      using stop_job_not_ready [of n r0] by simp
    then have "stop_job n r0 = r0"
      using r0 stop_job_running by blast
    with r0 \<open>rj_status r = JA_JOB_STATUS_RUN\<close> show "reachable_job (db w2) r"
      using assms(4) w2(5) by (simp add: reachable_job_def)
  qed
  have "abort_jobs (running_jobs ?rows) (jobs (db w2)) = map (kill_job n) (jobs (db w))"
    unfolding active_icons_def w2(2) by (rule abort_stopped [OF assms(3)])
  then have w3: "calm w3" "jobs (db w3) = map (kill_job n) (jobs (db w))"
    "jobnets (db w3) = map (stop_net n) (jobnets (db w))" "summaries (db w3) = summaries (db w)"
    using w2 run_kill_icons [OF w2(1) assms(2) reach] by (simp_all add: w3_def)
  have ex: "exec (jajobnet_kill env n) w = exec (?kills ?rows) w2" "result (jajobnet_kill env n) w = result (?kills ?rows) w2"
    by (simp_all only: exec_def result_def run)
  show ?thesis
  proof (cases "?rows = []")
    case True
    have "exec (?kills ?rows) w2 = exec (ja_set_jobstatus n JA_JOBNET_STATUS_ENDERR JA_SUMMARY_JOB_STATUS_ERROR) w3"
      "result (?kills ?rows) w2 = result (ja_set_jobstatus n JA_JOBNET_STATUS_ENDERR JA_SUMMARY_JOB_STATUS_ERROR) w3"
      unfolding exec_bind result_bind w3_def [symmetric] if_P [OF True] by (rule refl)+
    note fin = movesD [OF moves_jobstatus [OF w3(1), of n JA_JOBNET_STATUS_ENDERR JA_SUMMARY_JOB_STATUS_ERROR]]
      this
    have "\<exists>s'. summary_of n (db (exec (jajobnet_kill env n) w)) = Some s' \<and> rs_status s' = JA_JOBNET_STATUS_ENDERR"
      if "summary_of n (db w) = Some s" for s
      using givesD [OF gives_summary_status, of n "summaries (db w)" s JA_JOBNET_STATUS_ENDERR
          JA_SUMMARY_JOB_STATUS_ERROR "clock w3 div 1000"] that
      by (auto simp: ex(1) fin w3(4) summary_of_def)
    then show ?thesis
      by (simp add: ex fin w3)
  next
    case False
    then obtain r where "r \<in> set ?rows"
      by (meson last_in_set)
    then have r: "r \<in> set (map (stop_job n) (jobs (db w)))" "rj_main r = n"
      "rj_status r = JA_JOB_STATUS_READY \<or> rj_status r = JA_JOB_STATUS_RUN"
      by (simp_all only: active_icons_def w2 set_filter mem_Collect_eq insert_iff empty_iff simp_thms)
    have run: "rj_status r = JA_JOB_STATUS_RUN"
      using r stop_job_not_ready by (metis imageE list.set_map)
    have "exec (?kills ?rows) w2 = exec (ja_log ''JAJOBNET000002'' n None 0
         [PS ''jajobnet_kill'', PU n,
          PI (int (length (filter (\<lambda>r. rj_status r = JA_JOB_STATUS_READY) ?rows))),
          PI (int (length (filter (\<lambda>r. rj_status r = JA_JOB_STATUS_RUN) ?rows)))]) w3"
      "result (?kills ?rows) w2 = SUCCEED"
      unfolding exec_bind result_bind w3_def [symmetric] if_not_P [OF False] exec_ret by (rule refl)+
    with log_rows [of w3] w3 have "jobs (db (exec (?kills ?rows) w2)) = map (kill_job n) (jobs (db w))"
      "jobnets (db (exec (?kills ?rows) w2)) = map (stop_net n) (jobnets (db w))"
      "result (?kills ?rows) w2 = SUCCEED"
      by (simp_all only: same_rows_def simp_thms)
    moreover have "\<not> (\<forall>r \<in> set (map (stop_job n) (jobs (db w))). rj_main r = n \<longrightarrow> rj_status r \<noteq> JA_JOB_STATUS_RUN)"
      using r run by blast
    ultimately show ?thesis
      unfolding ex by blast
  qed
qed

end
