(* ===== verification/Booting.thy ===== *)
theory Booting
  imports Jaboot Jobnets
begin

text \<open>
  What the boot process does: which due jobnets it starts, skips or delays, which old ones
  it deletes, and what becomes of a process whose commit the server has rejected.
\<close>

section \<open>A process with a failed transaction outside any transaction\<close>

text \<open>Every query returns nothing, so no cycle finds anything to do, for ever.\<close>

lemma select_stuck: "txn_error w \<Longrightarrow> exec (DBselect q) w = w" "txn_error w \<Longrightarrow> result (DBselect q) w = []"
  by (simp_all add: exec_def result_def DBselect_failed)

lemma stuck_cycles:
  assumes "txn_error w"
  shows "exec (process_jarun env zl lc) w = w" "exec (jajobnet_cycle env) w = w"
    "exec (jaboot_cycle mktime a b) w = w"
  using assms
  by (simp_all add: process_jarun_def jajobnet_cycle_def process_jajobnet_summary_def process_jajobnet_def
      jaboot_cycle_def get_purge_date_def jobnet_purge_def joblog_purge_def jobnet_boot_def Let_def
      exec_bind result_bind exec_ret gets_now select_stuck)

section \<open>Starting, skipping, delaying\<close>

definition runs :: "string \<Rightarrow> tables \<Rightarrow> bool" where
  "runs j t \<longleftrightarrow> (\<exists>s \<in> set (summaries t). rs_jobnet_id s = j \<and>
     rs_status s \<in> {JA_JOBNET_STATUS_READY, JA_JOBNET_STATUS_RUN})"

text \<open>What the decision writes into the row of the summary and into that of the jobnet.\<close>

definition skipped :: "bool \<Rightarrow> run_summary \<Rightarrow> bool" where
  "skipped running s \<longleftrightarrow> running \<and> rs_multiple s = JA_JOBNET_MULTIPLE_SKIP"

definition boot_summary :: "bool \<Rightarrow> run_summary \<Rightarrow> int \<Rightarrow> summary_set" where
  "boot_summary running s now =
     (if skipped running s then summary_cols\<lparr>su_status := Some JA_JOBNET_STATUS_END,
        su_load := Some JA_SUMMARY_LOAD_STATUS_SKIP, su_start := Some now, su_end := Some now\<rparr>
      else if running \<and> rs_multiple s = JA_JOBNET_MULTIPLE_DELAY
      then summary_cols\<lparr>su_load := Some JA_SUMMARY_LOAD_STATUS_DELAY\<rparr>
      else summary_cols\<lparr>su_status := Some JA_JOBNET_STATUS_READY, su_load := Some JA_SUMMARY_LOAD_STATUS_NORMAL\<rparr>)"

definition boot_jobnets :: "bool \<Rightarrow> run_summary \<Rightarrow> int \<Rightarrow> run_jobnet list \<Rightarrow> run_jobnet list" where
  "boot_jobnets running s now =
     (if skipped running s then upd_where (\<lambda>r. rn_id r = rs_id s)
        (set_jobnet (jobnet_cols\<lparr>ns_status := Some JA_JOBNET_STATUS_END, ns_start := Some now, ns_end := Some now\<rparr>))
      else id)"

lemma count_row: "row_of k n rs \<noteq> None \<Longrightarrow> 0 < count_where (\<lambda>r. k r = n) rs"
  by (auto simp: count_where_def row_of_filter split: list.splits)

text \<open>An update of an existing row, checked for having changed one, and what follows.\<close>

lemma moves_summary_then:
  assumes "calm w" "summary_of n (db w) \<noteq> None"
    and "\<And>w'. calm w' \<Longrightarrow> clock w' = clock w \<Longrightarrow> jobnets (db w') = jobnets (db w) \<Longrightarrow> moves k w' r f id"
  shows "moves (do { rc \<leftarrow> DBexecute (Update_summary n u); if rc \<le> ZBX_DB_OK then bad else k }) w r
    f (upd_where (\<lambda>r. rs_id r = n) (set_summary u))"
proof -
  let ?c = "count_where (\<lambda>r. rs_id r = n) (summaries (db w))"
  have "exec_sql (Update_summary n u) (seq_next w) (db w) = Some (?c,
      seq_next w, (db w)\<lparr>summaries := upd_where (\<lambda>r. rs_id r = n) (set_summary u) (summaries (db w))\<rparr>)"
    by simp
  from movesI [OF yields_execute [OF assms(1) this]]
  have upd: "moves (DBexecute (Update_summary n u)) w (int ?c) id (upd_where (\<lambda>r. rs_id r = n) (set_summary u))"
    by simp
  have "\<not> int ?c \<le> ZBX_DB_OK"
    using assms(2) count_row [of rs_id n "summaries (db w)"] by (simp add: summary_of_def)
  then have "moves (if int ?c \<le> ZBX_DB_OK then bad else k) w' r f id"
    if "calm w'" "clock w' = clock w" "jobnets (db w') = id (jobnets (db w))" for w'
    using assms(3) [of w'] that by simp
  from moves_bind [OF upd, where k = "\<lambda>rc. if rc \<le> ZBX_DB_OK then bad else k", OF this] show ?thesis
    by simp
qed

lemma moves_jobnet_then:
  assumes "calm w" "jobnet_of n (db w) \<noteq> None"
    and "\<And>w'. calm w' \<Longrightarrow> clock w' = clock w \<Longrightarrow> summaries (db w') = summaries (db w) \<Longrightarrow> moves k w' r id g"
  shows "moves (do { rc \<leftarrow> DBexecute (Update_jobnet (Jobnet_is n) u); if rc \<le> ZBX_DB_OK then bad else k }) w r
    (upd_where (\<lambda>r. rn_id r = n) (set_jobnet u)) g"
proof -
  let ?c = "count_where (\<lambda>r. rn_id r = n) (jobnets (db w))"
  have "exec_sql (Update_jobnet (Jobnet_is n) u) (seq_next w) (db w) = Some (?c,
      seq_next w, (db w)\<lparr>jobnets := upd_where (\<lambda>r. rn_id r = n) (set_jobnet u) (jobnets (db w))\<rparr>)"
    by simp
  from movesI [OF yields_execute [OF assms(1) this]]
  have upd: "moves (DBexecute (Update_jobnet (Jobnet_is n) u)) w (int ?c) (upd_where (\<lambda>r. rn_id r = n) (set_jobnet u)) id"
    by simp
  have "\<not> int ?c \<le> ZBX_DB_OK"
    using assms(2) count_row [of rn_id n "jobnets (db w)"] by (simp add: jobnet_of_def)
  then have "moves (if int ?c \<le> ZBX_DB_OK then bad else k) w' r id g"
    if "calm w'" "clock w' = clock w" "summaries (db w') = id (summaries (db w))" for w'
    using assms(3) [of w'] that by simp
  from moves_bind [OF upd, where k = "\<lambda>rc. if rc \<le> ZBX_DB_OK then bad else k", OF this] show ?thesis
    by simp
qed

lemma moves_gets_bind: "moves (State_Monad.bind (gets h) k) w r f g \<longleftrightarrow> moves (k (h w)) w r f g"
  by (simp add: moves_def yields_gets_bind)

lemma moves_log: "calm w \<Longrightarrow> moves (do { _ \<leftarrow> ja_log m n j 0 args; ret x }) w x id id"
  by (rule moves_log_then) (simp_all add: moves_ret)

lemma moves_boot_states:
  assumes "calm w" "summary_of n (db w) \<noteq> None" "jobnet_of n (db w) \<noteq> None"
  shows "moves (start_jobnet n j) w SUCCEED id (upd_where (\<lambda>r. rs_id r = n)
      (set_summary (summary_cols\<lparr>su_status := Some JA_JOBNET_STATUS_READY, su_load := Some JA_SUMMARY_LOAD_STATUS_NORMAL\<rparr>)))"
    and "moves (delay_state_jobnet n) w SUCCEED id (upd_where (\<lambda>r. rs_id r = n)
      (set_summary (summary_cols\<lparr>su_load := Some JA_SUMMARY_LOAD_STATUS_DELAY\<rparr>)))"
    and "moves (skip_state_jobnet n j sc) w SUCCEED
      (upd_where (\<lambda>r. rn_id r = n) (set_jobnet (jobnet_cols\<lparr>ns_status := Some JA_JOBNET_STATUS_END,
        ns_start := Some (clock w div 1000), ns_end := Some (clock w div 1000)\<rparr>)))
      (upd_where (\<lambda>r. rs_id r = n) (set_summary (summary_cols\<lparr>su_status := Some JA_JOBNET_STATUS_END,
        su_load := Some JA_SUMMARY_LOAD_STATUS_SKIP, su_start := Some (clock w div 1000),
        su_end := Some (clock w div 1000)\<rparr>)))"
proof -
  show "moves (start_jobnet n j) w SUCCEED id (upd_where (\<lambda>r. rs_id r = n)
      (set_summary (summary_cols\<lparr>su_status := Some JA_JOBNET_STATUS_READY, su_load := Some JA_SUMMARY_LOAD_STATUS_NORMAL\<rparr>)))"
    unfolding start_jobnet_def by (rule moves_summary_then [OF assms(1,2)]) (rule moves_ret)
  show "moves (delay_state_jobnet n) w SUCCEED id (upd_where (\<lambda>r. rs_id r = n)
      (set_summary (summary_cols\<lparr>su_load := Some JA_SUMMARY_LOAD_STATUS_DELAY\<rparr>)))"
    by (rule movesI [where q = "seq_next w" and t = "(db w)\<lparr>summaries := upd_where (\<lambda>r. rs_id r = n)
      (set_summary (summary_cols\<lparr>su_load := Some JA_SUMMARY_LOAD_STATUS_DELAY\<rparr>)) (summaries (db w))\<rparr>"])
      (use assms(1) in \<open>simp_all add: delay_state_jobnet_def yields_simps\<close>)
  let ?now = "clock w div 1000"
  have log: "moves (do { _ \<leftarrow> ja_log ''JABOOT000001'' n None 0 args; ret SUCCEED }) w' SUCCEED id id"
    if "calm w'" for w' args
    using that by (rule moves_log)
  show "moves (skip_state_jobnet n j sc) w SUCCEED
      (upd_where (\<lambda>r. rn_id r = n) (set_jobnet (jobnet_cols\<lparr>ns_status := Some JA_JOBNET_STATUS_END,
        ns_start := Some ?now, ns_end := Some ?now\<rparr>)))
      (upd_where (\<lambda>r. rs_id r = n) (set_summary (summary_cols\<lparr>su_status := Some JA_JOBNET_STATUS_END,
        su_load := Some JA_SUMMARY_LOAD_STATUS_SKIP, su_start := Some ?now, su_end := Some ?now\<rparr>)))"
    unfolding skip_state_jobnet_def now_number_def moves_gets_bind
  proof (rule moves_jobnet_then [OF assms(1,3)])
    fix w'
    assume w': "calm w'" "summaries (db w') = summaries (db w)"
    then have "summary_of n (db w') \<noteq> None"
      using assms(2) by (simp add: summary_of_def)
    from moves_summary_then [OF w'(1) this log]
    show "moves (do {
        rc \<leftarrow> DBexecute (Update_summary n (summary_cols\<lparr>su_status := Some JA_JOBNET_STATUS_END,
          su_load := Some JA_SUMMARY_LOAD_STATUS_SKIP, su_start := Some ?now, su_end := Some ?now\<rparr>));
        if rc \<le> ZBX_DB_OK then update_failed n ''ja_run_jobnet_summary_table'' (show_u64 n)
        else do {
          _ \<leftarrow> ja_log ''JABOOT000001'' n None 0 [PS (show_u64 n), PS j, PS (show_int sc)];
          ret SUCCEED } }) w' SUCCEED id
      (upd_where (\<lambda>r. rs_id r = n) (set_summary (summary_cols\<lparr>su_status := Some JA_JOBNET_STATUS_END,
        su_load := Some JA_SUMMARY_LOAD_STATUS_SKIP, su_start := Some ?now, su_end := Some ?now\<rparr>)))"
      by simp
  qed
qed

lemma get_running_bind:
  "calm w \<Longrightarrow> run_state (State_Monad.bind (get_running_jobnet j) k) w =
   run_state (k (Some (int (length (filter (\<lambda>s. rs_jobnet_id s = j \<and>
     rs_status s \<in> {JA_JOBNET_STATUS_READY, JA_JOBNET_STATUS_RUN}) (summaries (db w))))))) w"
  by (simp add: get_running_jobnet_def run_bind result_def exec_def)

lemma running_count: "0 < int (length (filter (\<lambda>s. rs_jobnet_id s = j \<and>
     rs_status s \<in> {JA_JOBNET_STATUS_READY, JA_JOBNET_STATUS_RUN}) (summaries t))) \<longleftrightarrow> runs j t"
  by (auto simp: runs_def filter_empty_conv)

lemma moves_running_bind:
  assumes "calm w"
  shows "moves (do { running \<leftarrow> get_running_jobnet j;
      case running of None \<Rightarrow> ret FAIL | Some n \<Rightarrow> if n > 0 then a else b }) w r f g \<longleftrightarrow>
    moves (if runs j (db w) then a else b) w r f g"
  unfolding moves_def yields_def get_running_bind [OF assms] option.case running_count by (rule refl)

text \<open>The decision on a due jobnet that is not too late.\<close>

lemma moves_boot_one:
  assumes "calm w" "summary_of (rs_id s) (db w) \<noteq> None" "jobnet_of (rs_id s) (db w) \<noteq> None"
    and "\<not> too_late d s"
  shows "moves (boot_one d s) w SUCCEED
    (boot_jobnets (runs (rs_jobnet_id s) (db w)) s (clock w div 1000))
    (upd_where (\<lambda>r. rs_id r = rs_id s)
      (set_summary (boot_summary (runs (rs_jobnet_id s) (db w)) s (clock w div 1000))))"
  using moves_boot_states [OF assms(1-3)] assms(4)
  by (simp add: boot_one_def moves_running_bind [OF assms(1)] boot_jobnets_def boot_summary_def skipped_def)

section \<open>Purging\<close>

text \<open>A jobnet is kept while an icon of it is ready or running after the jobnet was killed.\<close>

definition still_active :: "tables \<Rightarrow> run_summary \<Rightarrow> bool" where
  "still_active t s \<longleftrightarrow> rs_status s = JA_JOBNET_STATUS_ENDERR \<and>
     (\<exists>r \<in> set (jobs t). rj_main r = rs_id s \<and> rj_status r \<in> {JA_JOB_STATUS_READY, JA_JOB_STATUS_RUN})"

definition purged :: "uint64 \<Rightarrow> world \<Rightarrow> world" where
  "purged n w = w\<lparr>db := purge_jobnets n (db w), durable := purge_jobnets n (db w)\<rparr>"

lemma outside_begun:
  assumes "outside w"
  shows "calm (w\<lparr>txn_level := 1, srv := In_txn\<rparr>)" "in_transaction (w\<lparr>txn_level := 1, srv := In_txn\<rparr>)"
    "w\<lparr>txn_level := 1, srv := In_txn\<rparr>\<lparr>durable := db w, srv := Idle, txn_level := 0\<rparr> = w"
  using assms by (cases w, simp add: outside_def in_transaction_def calm_def)+

lemma get_running_jobs_run:
  "calm w \<Longrightarrow> run_state (get_running_jobs n) w = (Some (int (length (filter (\<lambda>r. rj_main r = n \<and>
     rj_status r \<in> {JA_JOB_STATUS_READY, JA_JOB_STATUS_RUN}) (jobs (db w))))), w)"
  by (simp add: get_running_jobs_def)

lemma running_run:
  assumes "calm w"
  shows "\<exists>n. run_state (if rs_status s = JA_JOBNET_STATUS_ENDERR then get_running_jobs (rs_id s) else ret (Some 0)) w
      = (Some n, w) \<and> (0 < n \<longleftrightarrow> still_active (db w) s)"
  using assms by (auto simp: get_running_jobs_run still_active_def filter_empty_conv)

lemma purge_one_run:
  assumes "in_transaction w" "\<exists>r \<in> set (jobnets (db w)). rn_main r = rs_id s"
  shows "run_state (purge_one s) w =
    ((), put_tables (seq_next w) (purge_jobnets (rs_id s) (db w)) w
      \<lparr>durable := purge_jobnets (rs_id s) (db w), srv := Idle, txn_level := 0\<rparr>)"
proof -
  let ?w = "put_tables (seq_next w) (purge_jobnets (rs_id s) (db w)) w"
  have c: "0 < count_where (\<lambda>r. rn_main r = rs_id s) (jobnets (db w))"
    using assms(2) by (auto simp: count_where_def filter_empty_conv)
  have w: "calm w"
    using assms(1) by (simp add: in_transaction_def)
  have "in_transaction ?w"
    using assms(1) by (simp add: in_transaction_def)
  from DBcommit_calm [OF this] c show ?thesis
    by (simp add: purge_one_def DBexecute_calm [OF w])
qed

lemma purge_round:
  assumes "outside w" "\<exists>r \<in> set (jobnets (db w)). rn_main r = rs_id s"
  shows "run_state (purge_rounds (s # ss)) w =
    run_state (purge_rounds ss) (if still_active (db w) s then w else purged (rs_id s) w)"
proof -
  let ?b = "w\<lparr>txn_level := 1, srv := In_txn\<rparr>"
  note b = outside_begun [OF assms(1)]
  obtain n where n: "run_state (if rs_status s = JA_JOBNET_STATUS_ENDERR then get_running_jobs (rs_id s) else ret (Some 0)) ?b
      = (Some n, ?b)" "0 < n \<longleftrightarrow> still_active (db w) s"
    using running_run [OF b(1), of s] by auto
  have b': "exec DBbegin w = ?b"
    by (simp add: exec_def DBbegin_calm [OF assms(1)])
  have n': "result (if rs_status s = JA_JOBNET_STATUS_ENDERR then get_running_jobs (rs_id s) else ret (Some 0)) ?b = Some n"
    "exec (if rs_status s = JA_JOBNET_STATUS_ENDERR then get_running_jobs (rs_id s) else ret (Some 0)) ?b = ?b"
    by (simp_all only: result_def exec_def n(1) fst_conv snd_conv)
  have begun: "run_state (purge_rounds (s # ss)) w =
      run_state (if n > 0 then do { _ \<leftarrow> DBcommit; purge_rounds ss } else do { _ \<leftarrow> purge_one s; purge_rounds ss }) ?b"
    unfolding purge_rounds.simps run_bind [of DBbegin] b'
      run_bind [of "if rs_status s = JA_JOBNET_STATUS_ENDERR then _ else _"] n' option.case
    by (rule refl)
  have idle: "srv w = Idle" "txn_level w = 0"
    using assms(1) by (simp_all add: outside_def)
  show ?thesis
  proof (cases "still_active (db w) s")
    case True
    with begun n(2) b(3) DBcommit_calm [OF b(2)] show ?thesis
      by simp
  next
    case False
    have "put_tables (seq_next ?b) (purge_jobnets (rs_id s) (db w)) ?b
        \<lparr>durable := purge_jobnets (rs_id s) (db w), srv := Idle, txn_level := 0\<rparr> = purged (rs_id s) w"
      using idle by (cases w) (simp add: purged_def put_tables_def)
    with False begun n(2) purge_one_run [OF b(2), of s] assms(2) show ?thesis
      by simp
  qed
qed

text \<open>Rows of one jobnet run: its jobnets, its icons and its summary share the main id.\<close>

definition mains_ok :: "tables \<Rightarrow> bool" where
  "mains_ok t \<longleftrightarrow> distinct (map rn_id (jobnets t)) \<and>
     (\<forall>s \<in> set (summaries t). \<exists>r \<in> set (jobnets t). rn_id r = rs_id s \<and> rn_main r = rs_id s) \<and>
     (\<forall>j \<in> set (jobs t). \<exists>r \<in> set (jobnets t). rn_id r = rj_jobnet j \<and> rn_main r = rj_main j)"

lemma mains_okD:
  assumes "mains_ok t"
  shows "s \<in> set (summaries t) \<Longrightarrow> rs_id s \<in> rn_id ` {r \<in> set (jobnets t). rn_main r = m} \<longleftrightarrow> rs_id s = m"
    and "j \<in> set (jobs t) \<Longrightarrow> rj_jobnet j \<in> rn_id ` {r \<in> set (jobnets t). rn_main r = m} \<longleftrightarrow> rj_main j = m"
    and "a \<in> set (jobnets t) \<Longrightarrow> rn_id a \<in> rn_id ` {r \<in> set (jobnets t). rn_main r = m} \<longleftrightarrow> rn_main a = m"
proof -
  have same: "r = r'" if "r \<in> set (jobnets t)" "r' \<in> set (jobnets t)" "rn_id r = rn_id r'" for r r'
    using assms that by (auto simp: mains_ok_def distinct_map inj_on_def)
  show "s \<in> set (summaries t) \<Longrightarrow> rs_id s \<in> rn_id ` {r \<in> set (jobnets t). rn_main r = m} \<longleftrightarrow> rs_id s = m"
    using assms same unfolding mains_ok_def by (auto simp: image_iff) metis+
  show "j \<in> set (jobs t) \<Longrightarrow> rj_jobnet j \<in> rn_id ` {r \<in> set (jobnets t). rn_main r = m} \<longleftrightarrow> rj_main j = m"
    using assms same unfolding mains_ok_def by (auto simp: image_iff) metis+
  show "a \<in> set (jobnets t) \<Longrightarrow> rn_id a \<in> rn_id ` {r \<in> set (jobnets t). rn_main r = m} \<longleftrightarrow> rn_main a = m"
    using same by (auto simp: image_iff)
qed

lemma purge_jobnets_rows:
  assumes "mains_ok t"
  shows "summaries (purge_jobnets m t) = filter (\<lambda>s. rs_id s \<noteq> m) (summaries t)"
    "jobnets (purge_jobnets m t) = filter (\<lambda>r. rn_main r \<noteq> m) (jobnets t)"
    "jobs (purge_jobnets m t) = filter (\<lambda>j. rj_main j \<noteq> m) (jobs t)"
proof -
  have e: "set (map rn_id (filter (\<lambda>r. rn_main r = m) (jobnets t))) = rn_id ` {r \<in> set (jobnets t). rn_main r = m}"
    by auto
  show "summaries (purge_jobnets m t) = filter (\<lambda>s. rs_id s \<noteq> m) (summaries t)"
    "jobnets (purge_jobnets m t) = filter (\<lambda>r. rn_main r \<noteq> m) (jobnets t)"
    "jobs (purge_jobnets m t) = filter (\<lambda>j. rj_main j \<noteq> m) (jobs t)"
    unfolding purge_jobnets_def Let_def e
    by (simp_all add: del_where_def mains_okD [OF assms] cong: filter_cong)
qed

lemma mains_ok_purge: "mains_ok t \<Longrightarrow> mains_ok (purge_jobnets m t)"
proof -
  assume t: "mains_ok t"
  then show ?thesis
    unfolding mains_ok_def purge_jobnets_rows [OF t]
    by (simp add: distinct_map_filter) (metis)
qed

text \<open>The rounds delete, one jobnet run after the other, everything that is not active.\<close>

lemma purge_rounds_rows:
  assumes "outside w" "mains_ok (db w)" "distinct (map rs_id ss)"
    and "\<forall>s \<in> set ss. \<exists>r \<in> set (jobnets (db w)). rn_main r = rs_id s"
  defines "gone \<equiv> rs_id ` {s \<in> set ss. \<not> still_active (db w) s}"
  shows "result (purge_rounds ss) w = SUCCEED \<and> outside (exec (purge_rounds ss) w) \<and>
    summaries (db (exec (purge_rounds ss) w)) = filter (\<lambda>s. rs_id s \<notin> gone) (summaries (db w)) \<and>
    jobnets (db (exec (purge_rounds ss) w)) = filter (\<lambda>r. rn_main r \<notin> gone) (jobnets (db w)) \<and>
    jobs (db (exec (purge_rounds ss) w)) = filter (\<lambda>j. rj_main j \<notin> gone) (jobs (db w))"
  using assms(1-4) unfolding gone_def
proof (induction ss arbitrary: w)
  case Nil
  then show ?case
    by (simp add: exec_ret)
next
  case (Cons s ss)
  let ?w = "if still_active (db w) s then w else purged (rs_id s) w"
  have out: "outside ?w"
    using Cons.prems(1) by (simp add: purged_def outside_def calm_def)
  have step: "result (purge_rounds (s # ss)) w = result (purge_rounds ss) ?w"
    "exec (purge_rounds (s # ss)) w = exec (purge_rounds ss) ?w"
    using purge_round [OF Cons.prems(1), of s ss] Cons.prems(4) by (simp_all add: result_def exec_def)
  have rows: "summaries (db ?w) = filter (\<lambda>x. still_active (db w) s \<or> rs_id x \<noteq> rs_id s) (summaries (db w))"
    "jobnets (db ?w) = filter (\<lambda>r. still_active (db w) s \<or> rn_main r \<noteq> rs_id s) (jobnets (db w))"
    "jobs (db ?w) = filter (\<lambda>j. still_active (db w) s \<or> rj_main j \<noteq> rs_id s) (jobs (db w))"
    by (simp_all add: purged_def purge_jobnets_rows [OF Cons.prems(2)])
  have ok: "mains_ok (db ?w)"
    using Cons.prems(2) by (simp add: purged_def mains_ok_purge)
  have other: "rs_id x \<noteq> rs_id s" if "x \<in> set ss" for x
    using Cons.prems(3) that by (metis list.simps(9) distinct.simps(2) image_eqI list.set_map)
  have active: "still_active (db ?w) x \<longleftrightarrow> still_active (db w) x" if "x \<in> set ss" for x
    unfolding still_active_def [of _ x] rows(3) using other [OF that] by auto
  have rest: "\<forall>x \<in> set ss. \<exists>r \<in> set (jobnets (db ?w)). rn_main r = rs_id x"
    using Cons.prems(4) other unfolding rows(2) by fastforce
  have same: "rs_id ` {x \<in> set ss. \<not> still_active (db ?w) x} = rs_id ` {x \<in> set ss. \<not> still_active (db w) x}"
    using active by blast
  show ?case
    using Cons.IH [OF out ok _ rest] Cons.prems(3) unfolding step same rows filter_filter
    by (auto intro!: filter_cong)
qed

lemma jobnet_purge_rows:
  assumes "outside w" "mains_ok (db w)" "distinct (map rs_id (summaries (db w)))"
    and gone: "gone = rs_id ` {s \<in> set (old_summaries d (db w)). \<not> still_active (db w) s}"
  shows "result (jobnet_purge d) w = SUCCEED \<and>
    summaries (db (exec (jobnet_purge d) w)) = filter (\<lambda>s. rs_id s \<notin> gone) (summaries (db w)) \<and>
    jobnets (db (exec (jobnet_purge d) w)) = filter (\<lambda>r. rn_main r \<notin> gone) (jobnets (db w)) \<and>
    jobs (db (exec (jobnet_purge d) w)) = filter (\<lambda>j. rj_main j \<notin> gone) (jobs (db w)) \<and>
    durable (exec (jobnet_purge d) w) = db (exec (jobnet_purge d) w)"
proof -
  let ?ss = "old_summaries d (db w)"
  have run: "run_state (jobnet_purge d) w = run_state (purge_rounds ?ss) w"
    using assms(1) by (simp add: jobnet_purge_def outside_def)
  have "distinct (map rs_id ?ss)"
    using assms(3) by (simp add: old_summaries_def distinct_map_filter)
  moreover have "\<forall>s \<in> set ?ss. \<exists>r \<in> set (jobnets (db w)). rn_main r = rs_id s"
    using assms(2) by (auto simp: old_summaries_def mains_ok_def)
  ultimately have "result (purge_rounds ?ss) w = SUCCEED \<and> outside (exec (purge_rounds ?ss) w) \<and>
    summaries (db (exec (purge_rounds ?ss) w)) = filter (\<lambda>s. rs_id s \<notin> gone) (summaries (db w)) \<and>
    jobnets (db (exec (purge_rounds ?ss) w)) = filter (\<lambda>r. rn_main r \<notin> gone) (jobnets (db w)) \<and>
    jobs (db (exec (purge_rounds ?ss) w)) = filter (\<lambda>j. rj_main j \<notin> gone) (jobs (db w))"
    unfolding gone by (rule purge_rounds_rows [OF assms(1,2)])
  then show ?thesis
    using run by (simp add: result_def exec_def outside_def)
qed

end
