(* ===== verification/Example.thy ===== *)
theory Example
  imports Utf8 Settings Booting
begin

text \<open>
  A small running jobnet on which the properties are instantiated: jobnet 1 with a start
  icon 10, a value icon 11 and an end icon 12 in a row, next to it the jobnet 2 that waits
  to be booted.
\<close>

definition demo_job :: "uint64 \<Rightarrow> int \<Rightarrow> int \<Rightarrow> string \<Rightarrow> run_job" where
  "demo_job i ty st name = \<lparr>rj_id = i, rj_jobnet = 1, rj_main = 1, rj_fs_link = 0, rj_invo = 1, rj_type = ty, rj_test = 0,
     rj_method = 0, rj_force = 0, rj_timeout = 0, rj_status = st, rj_boot_count = 1, rj_end_count = 0,
     rj_start = 0, rj_end = 0, rj_job_id = name, rj_name = None, rj_continue = 0,
     rj_x = 0, rj_y = 0, rj_user = None, rj_password = None\<rparr>"

lemma demo_job_sel [simp]:
  "rj_id (demo_job i ty st n) = i" "rj_jobnet (demo_job i ty st n) = 1" "rj_main (demo_job i ty st n) = 1"
  "rj_type (demo_job i ty st n) = ty" "rj_test (demo_job i ty st n) = 0" "rj_status (demo_job i ty st n) = st"
  "rj_boot_count (demo_job i ty st n) = 1" "rj_end_count (demo_job i ty st n) = 0"
  "rj_method (demo_job i ty st n) = 0" "rj_timeout (demo_job i ty st n) = 0"
  "rj_continue (demo_job i ty st n) = 0" "rj_job_id (demo_job i ty st n) = n"
  "(demo_job i ty st n)\<lparr>rj_status := st'\<rparr> = demo_job i ty st' n"
  by (simp_all add: demo_job_def)

definition demo_flow :: "uint64 \<Rightarrow> uint64 \<Rightarrow> uint64 \<Rightarrow> run_flow" where
  "demo_flow i a b = \<lparr>rf_id = i, rf_jobnet = 1, rf_from = a, rf_to = b, rf_type = 0, rf_width = 1\<rparr>"

lemma demo_flow_sel [simp]:
  "rf_id (demo_flow i a b) = i" "rf_jobnet (demo_flow i a b) = 1" "rf_from (demo_flow i a b) = a"
  "rf_to (demo_flow i a b) = b" "rf_type (demo_flow i a b) = 0"
  by (simp_all add: demo_flow_def)

definition demo_jobnet :: "uint64 \<Rightarrow> int \<Rightarrow> string \<Rightarrow> run_jobnet" where
  "demo_jobnet n st name = \<lparr>rn_id = n, rn_main = n, rn_job = 0, rn_update = 0, rn_run_type = 0,
     rn_main_flag = 0, rn_timeout = 0, rn_status = st, rn_sched = 0, rn_start = 0, rn_end = 0,
     rn_public = 0, rn_multiple = 1, rn_jobnet_id = name, rn_user = ''admin'', rn_name = name, rn_memo = None,
     rn_exec_user = ''admin'', rn_schedule = None, rn_calendar = None,
     rn_boot = None, rn_initial = 0, rn_running_id = None, rn_running_name = None\<rparr>"

lemma demo_jobnet_sel [simp]:
  "rn_id (demo_jobnet n st name) = n" "rn_status (demo_jobnet n st name) = st"
  "rn_main (demo_jobnet n st name) = n" "rn_timeout (demo_jobnet n st name) = 0"
  by (simp_all add: demo_jobnet_def)

definition demo_summary :: "uint64 \<Rightarrow> int \<Rightarrow> int \<Rightarrow> string \<Rightarrow> run_summary" where
  "demo_summary n st sched name = \<lparr>rs_id = n, rs_update = 0, rs_run_type = JA_JOBNET_RUN_TYPE_IMMEDIATE, rs_status = st,
     rs_job_status = 0, rs_abort = 0, rs_load = 0, rs_sched = sched, rs_start = 0, rs_end = 0,
     rs_public = 0, rs_multiple = 1, rs_jobnet_id = name, rs_user = ''admin'', rs_name = name,
     rs_memo = None, rs_schedule = None, rs_calendar = None, rs_boot = None, rs_exec_user = ''admin'', rs_running_id = None, rs_running_name = None,
     rs_pending = 0, rs_initial = 0\<rparr>"

definition demo_icons :: icon_tables where
  "demo_icons = \<lparr>icon_jobnets = [], icon_ends = [\<lparr>ie_job = 12, ie_jobnet = 1, ie_stop = 0, ie_code = ''3''\<rparr>],
     icon_ifs = [], icon_values = [\<lparr>iv_job = 11, iv_jobnet = 1, iv_name = ''X'', iv_value = ''hello''\<rparr>],
     icon_tasks = [], icon_releases = [], icon_calcs = [], icon_job_hosts = [],
     icon_fcopy_hosts = [], icon_fwait_hosts = [], icon_reboot_hosts = [], icon_lesses = [],
     icon_infos = [], icon_extjobs = [], icon_commands = [], icon_job_values = [], icon_jobcons = [],
     icon_links = []\<rparr>"

definition demo_tables :: tables where
  "demo_tables = \<lparr>
     jobs = [demo_job 10 JA_JOB_TYPE_START JA_JOB_STATUS_RUN ''START'',
             demo_job 11 JA_JOB_TYPE_VALUE JA_JOB_STATUS_BEGIN ''VALUE'',
             demo_job 12 JA_JOB_TYPE_END JA_JOB_STATUS_BEGIN ''END''],
     jobnets = [demo_jobnet 1 JA_JOBNET_STATUS_RUN ''NET1'', demo_jobnet 2 JA_JOBNET_STATUS_BEGIN ''NET2''],
     summaries = [demo_summary 1 JA_JOBNET_STATUS_RUN 0 ''NET1'',
                  demo_summary 2 JA_JOBNET_STATUS_BEGIN 202401010000 ''NET1''],
     flows = [demo_flow 20 10 11,
              demo_flow 21 11 12],
     vals_before = [],
     vals_after = [\<lparr>v_job = 10, v_jobnet = 1, v_name = ''X'', v_value = ''old'', v_seq = 1\<rparr>,
                   \<lparr>v_job = 10, v_jobnet = 1, v_name = ''X'', v_value = ''new'', v_seq = 2\<rparr>],
     nets_before = [], nets_after = [], run_log = [], outbox = [], sessions = [],
     next_ids = [(JA_RUN_ID_JOBNET_EX, 1600000000000000000)], params = [], controls = [],
     calendars = [], calendar_days = [], icons = demo_icons, designs = no_designs,
     host_locks = [], users = [], users_groups = [], usrgrps = [], hosts = [], hostmacros = []\<rparr>"

definition demo :: world where
  "demo = \<lparr>db = demo_tables, durable = demo_tables, srv = Idle, txn_level = 0, txn_error = False,
     crashed = False, faults = [], seq_next = 3, clock = 20240102030405678, message_file = None,
     error_cmds = None, logfile = [], spawned = [], garbage = 0, no_valid_flag = 0\<rparr>"

lemma demo_simps [simp]:
  "db demo = demo_tables" "durable demo = demo_tables" "srv demo = Idle" "txn_level demo = 0"
  "\<not> txn_error demo" "\<not> crashed demo" "faults demo = []" "seq_next demo = 3" "message_file demo = None"
  "clock demo = 20240102030405678"
  by (simp_all add: demo_def)

lemma demo_calm [simp]: "calm demo" "outside demo" "no_loss demo"
  by (simp_all add: calm_def outside_def no_loss_def)

lemma demo_rows [simp]:
  "job_of 10 demo_tables = Some (demo_job 10 JA_JOB_TYPE_START JA_JOB_STATUS_RUN ''START'')"
  "job_of 11 demo_tables = Some (demo_job 11 JA_JOB_TYPE_VALUE JA_JOB_STATUS_BEGIN ''VALUE'')"
  "job_of 12 demo_tables = Some (demo_job 12 JA_JOB_TYPE_END JA_JOB_STATUS_BEGIN ''END'')"
  "jobnet_of 1 demo_tables = Some (demo_jobnet 1 JA_JOBNET_STATUS_RUN ''NET1'')"
  "jobnet_of 2 demo_tables = Some (demo_jobnet 2 JA_JOBNET_STATUS_BEGIN ''NET2'')"
  by (simp_all add: job_of_def jobnet_of_def demo_tables_def demo_job_def demo_jobnet_def)

lemma demo_tables_ok: "tables_ok 3 demo_tables"
proof -
  have "keys_ok demo_tables"
    by (simp add: keys_ok_def demo_tables_def demo_job_def demo_jobnet_def demo_summary_def)
  moreover have "refs_ok demo_tables"
    by (simp add: refs_ok_def demo_tables_def demo_job_def demo_jobnet_def demo_summary_def)
  moreover have "range_ok demo_tables"
    by (simp add: range_ok_def demo_tables_def demo_job_def demo_jobnet_def demo_summary_def)
  moreover have "seqs_ok 3 demo_tables"
    unfolding seqs_ok_def
  proof
    fix v
    show "distinct (map v_seq (job_values v demo_tables)) \<and>
        list_all (\<lambda>r. v_seq r < 3) (job_values v demo_tables) \<and>
        distinct (map w_seq (net_values v demo_tables)) \<and>
        list_all (\<lambda>r. w_seq r < 3) (net_values v demo_tables)"
      by (cases v) (simp_all add: demo_tables_def)
  qed
  ultimately show ?thesis
    by (simp add: tables_ok_def)
qed

lemma demo_ok [simp]: "world_ok demo"
  by (simp add: world_ok_def demo_tables_ok)

text \<open>An environment in which every call succeeds, and a Zabbix link that does nothing.\<close>

definition demo_env :: environment where
  "demo_env = \<lparr>zabbix_version = 2, agent_port = 10055, extjob_path = ''/usr/bin'', config_file = ''ja.conf'',
     tmpdir = ''/tmp'', extjob_waittime = 600, forks = True, system_status = \<lambda>_. 0, popen = \<lambda>_ _. None,
     seconds_later = \<lambda>t n. local_tm t, wday_of = \<lambda>_. 0, normal_time = Some, epoch = id,
     tcp_connects = \<lambda>_ _. True, peer_is = \<lambda>_. True, files = \<lambda>_. None, alive = \<lambda>_. False\<rparr>"

lemma demo_env_simps [simp]: "forks demo_env" "zabbix_version demo_env = 2" "peer_is demo_env h"
  by (simp_all add: demo_env_def)

definition idle_link :: zabbix_link where
  "idle_link = (\<lambda>_ _. ret SUCCEED)"

lemma idle_keeps [simp]:
  "link_keeps ok_kept idle_link" "link_keeps held idle_link" "link_keeps graph_kept idle_link"
  by (simp_all add: link_keeps_def idle_link_def exec_ret ok_kept_def held_def graph_kept_def)

text \<open>A C library without regular expressions, which reads every number as 0.\<close>

definition demo_libc :: libc where
  "demo_libc = \<lparr>regexp = \<lambda>_ _. False, atof = \<lambda>_. 0\<rparr>"

lemma demo_lists [simp]:
  "jobs demo_tables = [demo_job 10 JA_JOB_TYPE_START JA_JOB_STATUS_RUN ''START'',
     demo_job 11 JA_JOB_TYPE_VALUE JA_JOB_STATUS_BEGIN ''VALUE'',
     demo_job 12 JA_JOB_TYPE_END JA_JOB_STATUS_BEGIN ''END'']"
  "flows demo_tables = [demo_flow 20 10 11,
     demo_flow 21 11 12]"
  "vals_before demo_tables = []" "sessions demo_tables = []"
  by (simp_all add: demo_tables_def)

lemma demo_plain: "plain 10 demo (demo_job 10 JA_JOB_TYPE_START JA_JOB_STATUS_RUN ''START'')"
  by (simp add: plain_def demo_job_def [of 10])

lemma demo_flows:
  "select_flows 10 demo_tables = [demo_flow 20 10 11]"
  by (simp add: select_flows_def)

text \<open>The value icon is running while the end icon has already ended.\<close>

definition demo_stuck :: world where
  "demo_stuck = demo\<lparr>db := demo_tables\<lparr>jobs :=
     [demo_job 11 JA_JOB_TYPE_VALUE JA_JOB_STATUS_RUN ''VALUE'',
      demo_job 12 JA_JOB_TYPE_END JA_JOB_STATUS_END ''END'']\<rparr>\<rparr>"

lemma demo_stuck_simps [simp]:
  "db demo_stuck = demo_tables\<lparr>jobs := [demo_job 11 JA_JOB_TYPE_VALUE JA_JOB_STATUS_RUN ''VALUE'',
     demo_job 12 JA_JOB_TYPE_END JA_JOB_STATUS_END ''END'']\<rparr>"
  "clock demo_stuck = 20240102030405678" "calm demo_stuck"
  using demo_calm(1) by (simp_all add: demo_stuck_def calm_def)

lemma demo_stuck_rows [simp]:
  "job_of 11 (db demo_stuck) = Some (demo_job 11 JA_JOB_TYPE_VALUE JA_JOB_STATUS_RUN ''VALUE'')"
  "job_of 12 (db demo_stuck) = Some (demo_job 12 JA_JOB_TYPE_END JA_JOB_STATUS_END ''END'')"
  "jobnet_of 1 (db demo_stuck) = Some (demo_jobnet 1 JA_JOBNET_STATUS_RUN ''NET1'')"
  by (simp_all add: job_of_def jobnet_of_def demo_job_def demo_tables_def demo_jobnet_def)

lemma demo_stuck_plain: "plain 11 demo_stuck (demo_job 11 JA_JOB_TYPE_VALUE JA_JOB_STATUS_RUN ''VALUE'')"
  using demo_stuck_rows by (simp add: plain_def demo_job_def del: demo_stuck_rows demo_stuck_simps(1))

text \<open>The value icon is ready, but held.\<close>

definition demo_held :: world where
  "demo_held = demo\<lparr>db := demo_tables\<lparr>jobs := [demo_job 11 JA_JOB_TYPE_VALUE JA_JOB_STATUS_READY ''VALUE'']\<rparr>,
     durable := demo_tables\<lparr>jobs := [demo_job 11 JA_JOB_TYPE_VALUE JA_JOB_STATUS_READY ''VALUE'']\<rparr>\<rparr>"

definition held_job :: run_job where
  "held_job = (demo_job 11 JA_JOB_TYPE_VALUE JA_JOB_STATUS_READY ''VALUE'')\<lparr>rj_method := JA_JOB_METHOD_WAIT\<rparr>"

lemma demo_held_outside: "no_loss demo_held" "txn_level demo_held = 0" "srv demo_held = Idle"
  "\<not> txn_error demo_held" "db demo_held = durable demo_held" "outside demo_held"
  using demo_calm by (simp_all add: demo_held_def no_loss_def outside_def calm_def)

lemma demo_held_waits: "result (jarun_round demo_env idle_link demo_libc held_job) demo_held = FAIL"
proof -
  have "exec DBbegin demo_held = demo_held\<lparr>txn_level := 1, srv := In_txn\<rparr>"
    by (simp add: exec_def DBbegin_calm demo_held_outside)
  moreover have "calm (demo_held\<lparr>txn_level := 1, srv := In_txn\<rparr>)"
    using demo_held_outside(4) by (simp add: calm_def demo_held_def)
  ultimately show ?thesis
    by (simp add: jarun_round_def result_bind run_method_def held_job_def select_job_def demo_held_def
        exec_ret result_def [of "DBselect_row _"] exec_def [of "DBselect_row _"])
qed

text \<open>A job icon of the jobnet is running on the host \<open>H\<close>.\<close>

definition demo_working :: world where
  "demo_working = demo\<lparr>db := demo_tables\<lparr>
     jobs := [demo_job 10 JA_JOB_TYPE_JOB JA_JOB_STATUS_RUN ''JOB'',
              demo_job 11 JA_JOB_TYPE_VALUE JA_JOB_STATUS_READY ''VALUE''],
     icons := demo_icons\<lparr>icon_job_hosts := [\<lparr>ih_job = 10, ih_jobnet = 1, ih_flag = 0, ih_name = Some ''H'',
       ih_rest = [Some ''0'', Some ''0'', Some ''5'', Some ''1-9'']\<rparr>]\<rparr>\<rparr>\<rparr>"

lemma demo_working_simps [simp]:
  "calm demo_working"
  "jobs (db demo_working) = [demo_job 10 JA_JOB_TYPE_JOB JA_JOB_STATUS_RUN ''JOB'',
     demo_job 11 JA_JOB_TYPE_VALUE JA_JOB_STATUS_READY ''VALUE'']"
  "icon_job_hosts (icons (db demo_working)) = [\<lparr>ih_job = 10, ih_jobnet = 1, ih_flag = 0, ih_name = Some ''H'',
     ih_rest = [Some ''0'', Some ''0'', Some ''5'', Some ''1-9'']\<rparr>]"
  using demo_calm(1) by (simp_all add: demo_working_def calm_def)

text \<open>The start icon has the variable \<open>WHO\<close>.\<close>

definition demo_vars :: world where
  "demo_vars = demo\<lparr>db := demo_tables\<lparr>vals_before :=
     [\<lparr>v_job = 10, v_jobnet = 1, v_name = ''WHO'', v_value = ''world'', v_seq = 1\<rparr>]\<rparr>\<rparr>"

lemma demo_vars_simps [simp]:
  "calm demo_vars" "variables_of 10 (db demo_vars) = [(''WHO'', ''world'')]"
  using demo_calm(1) by (simp_all add: demo_vars_def calm_def variables_of_def)

text \<open>Inside a transaction of the demonstration process, with answers of the server to come.\<close>

definition demo_txn :: "db_answer list \<Rightarrow> world" where
  "demo_txn fs = demo\<lparr>txn_level := 1, srv := In_txn, faults := fs\<rparr>"

lemma demo_txn_simps [simp]:
  "txn_level (demo_txn fs) = 1" "srv (demo_txn fs) = In_txn" "faults (demo_txn fs) = fs"
  "\<not> txn_error (demo_txn fs)" "durable (demo_txn fs) = demo_tables" "db (demo_txn fs) = demo_tables"
  "seq_next (demo_txn fs) = 3"
  by (simp_all add: demo_txn_def)

lemma demo_summary_sel [simp]:
  "rs_id (demo_summary n st sched name) = n" "rs_status (demo_summary n st sched name) = st"
  "rs_jobnet_id (demo_summary n st sched name) = name" "rs_multiple (demo_summary n st sched name) = 1"
  "rs_end (demo_summary n st sched name) = 0" "rs_sched (demo_summary n st sched name) = sched"
  "rs_run_type (demo_summary n st sched name) = JA_JOBNET_RUN_TYPE_IMMEDIATE" "rs_load (demo_summary n st sched name) = 0"
  "rs_pending (demo_summary n st sched name) = 0"
  by (simp_all add: demo_summary_def)

lemma demo_nets [simp]:
  "jobnets demo_tables = [demo_jobnet 1 JA_JOBNET_STATUS_RUN ''NET1'', demo_jobnet 2 JA_JOBNET_STATUS_BEGIN ''NET2'']"
  "summaries demo_tables = [demo_summary 1 JA_JOBNET_STATUS_RUN 0 ''NET1'',
     demo_summary 2 JA_JOBNET_STATUS_BEGIN 202401010000 ''NET1'']"
  by (simp_all add: demo_tables_def)

text \<open>Jobnet 1 has been killed and icon 10 is still running, jobnet 2 has ended.\<close>

definition demo_old :: world where
  "demo_old = (let t = demo_tables\<lparr>summaries := [demo_summary 1 JA_JOBNET_STATUS_ENDERR 0 ''NET1'',
     demo_summary 2 JA_JOBNET_STATUS_END 0 ''NET2'']\<rparr> in demo\<lparr>db := t, durable := t\<rparr>)"

lemma demo_old_simps [simp]:
  "outside demo_old" "jobs (db demo_old) = jobs demo_tables" "jobnets (db demo_old) = jobnets demo_tables"
  "summaries (db demo_old) = [demo_summary 1 JA_JOBNET_STATUS_ENDERR 0 ''NET1'',
     demo_summary 2 JA_JOBNET_STATUS_END 0 ''NET2'']"
  using demo_calm by (simp_all add: demo_old_def outside_def calm_def Let_def)

end
