(* ===== verification/Calendar.thy ===== *)
theory Calendar
  imports Jastr
begin

text \<open>
  The date arithmetic of the loader (\<open>jaloader/jaloader.c\<close>, lines 74--449): the ends of
  months, the search window, shifting a date by days or months, and the time at which a
  jobnet is due.  Dates are the texts the code passes around, \<open>YYYYMMDD\<close> and
  \<open>YYYYMMDDhhmm\<close>.  \<^verbatim>\<open>mktime\<close> is modelled as it normalises the fields of a
  \<^verbatim>\<open>struct tm\<close>, for a local time without daylight saving.
\<close>

section \<open>\<^verbatim>\<open>mktime\<close>\<close>

text \<open>Months are numbered through all years, so that a year is twelve of them.\<close>

definition month_days :: "int \<Rightarrow> int" where
  "month_days k = maxday (k div 12) (k mod 12 + 1)"

lemma maxday_values:
  "maxday y 1 = 31" "maxday y 2 = (if leap y then 29 else 28)" "maxday y 3 = 31" "maxday y 4 = 30"
  "maxday y 5 = 31" "maxday y 6 = 30" "maxday y 7 = 31" "maxday y 8 = 31" "maxday y 9 = 30"
  "maxday y 10 = 31" "maxday y 11 = 30" "maxday y 12 = 31"
  by (simp_all add: maxday_def days_in_month_def nat_numeral)

lemma twelve:
  "0 \<le> m \<Longrightarrow> m < 12 \<Longrightarrow> m = 0 \<or> m = 1 \<or> m = 2 \<or> m = 3 \<or> m = 4 \<or> m = 5 \<or> m = 6 \<or> m = 7 \<or>
   m = 8 \<or> m = 9 \<or> m = 10 \<or> m = (11 :: int)"
  by presburger

text \<open>Counting on by one.\<close>

lemma div_step:
  assumes "0 < (n :: int)"
  shows "(x + 1) div n = x div n + (if (x + 1) mod n = 0 then 1 else 0)"
    and "(x + 1) mod n = (if (x + 1) mod n = 0 then 0 else x mod n + 1)"
proof -
  define d r where "d = (x + 1) div n" and "r = (x + 1) mod n"
  have eq: "x + 1 = n * d + r"
    unfolding d_def r_def by (simp only: mult_div_mod_eq)
  have r: "0 \<le> r" "r < n"
    using assms by (simp_all add: r_def)
  have "x div n = (if r = 0 then d - 1 else d) \<and> x mod n = (if r = 0 then n - 1 else r - 1)"
  proof (cases "r = 0")
    case True
    with eq have "x = n * (d - 1) + (n - 1)"
      by (simp add: algebra_simps)
    with assms True show ?thesis
      using int_div_pos_eq [of x n "d - 1" "n - 1"] int_mod_pos_eq [of x n "d - 1" "n - 1"] by auto
  next
    case False
    with eq r have "x = n * d + (r - 1)" "0 \<le> r - 1" "r - 1 < n"
      by simp_all
    with False show ?thesis
      using int_div_pos_eq [of x n d "r - 1"] int_mod_pos_eq [of x n d "r - 1"] by auto
  qed
  then show "(x + 1) div n = x div n + (if (x + 1) mod n = 0 then 1 else 0)"
    "(x + 1) mod n = (if (x + 1) mod n = 0 then 0 else x mod n + 1)"
    unfolding d_def [symmetric] r_def [symmetric] by (auto split: if_splits)
qed

lemma month_step:
  "k mod 12 = 11 \<Longrightarrow> (k + 1) div 12 = k div 12 + (1 :: int) \<and> (k + 1) mod 12 = 0"
  "k mod 12 \<noteq> 11 \<Longrightarrow> (k + 1) div 12 = k div 12 \<and> (k + 1) mod 12 = k mod 12 + (1 :: int)"
proof -
  have r: "(k + 1) mod 12 = 0 \<longleftrightarrow> k mod 12 = 11"
    by presburger
  then show "k mod 12 = 11 \<Longrightarrow> (k + 1) div 12 = k div 12 + 1 \<and> (k + 1) mod 12 = 0"
    using div_step(1) [of 12 k] by presburger
  show "k mod 12 \<noteq> 11 \<Longrightarrow> (k + 1) div 12 = k div 12 \<and> (k + 1) mod 12 = k mod 12 + 1"
    using div_step [of 12 k] r by (simp split: if_splits)
qed

lemma month_days_bounds: "28 \<le> month_days k" "month_days k \<le> 31"
proof -
  have "0 \<le> k mod 12" "k mod 12 < 12"
    by simp_all
  then have "k mod 12 = 0 \<or> k mod 12 = 1 \<or> k mod 12 = 2 \<or> k mod 12 = 3 \<or> k mod 12 = 4 \<or>
    k mod 12 = 5 \<or> k mod 12 = 6 \<or> k mod 12 = 7 \<or> k mod 12 = 8 \<or> k mod 12 = 9 \<or> k mod 12 = 10 \<or>
    k mod 12 = 11"
    by (rule twelve)
  then consider "k mod 12 = 0" | "k mod 12 = 1" | "k mod 12 = 2" | "k mod 12 = 3" | "k mod 12 = 4"
    | "k mod 12 = 5" | "k mod 12 = 6" | "k mod 12 = 7" | "k mod 12 = 8" | "k mod 12 = 9"
    | "k mod 12 = 10" | "k mod 12 = 11"
    by blast
  then show "28 \<le> month_days k" "month_days k \<le> 31"
    by (cases; simp add: month_days_def maxday_values)+
qed

function normal_day :: "int \<Rightarrow> int \<Rightarrow> int \<times> int" where
  "normal_day k d =
     (if d < 1 then normal_day (k - 1) (d + month_days (k - 1))
      else if d > month_days k then normal_day (k + 1) (d - month_days k)
      else (k, d))"
  by auto
termination
proof (relation "measure (\<lambda>(k, d). nat (if d < 1 then 40 - d else d))")
  fix k d :: int
  show "d < 1 \<Longrightarrow> ((k - 1, d + month_days (k - 1)), (k, d)) \<in> measure (\<lambda>(k, d). nat (if d < 1 then 40 - d else d))"
    using month_days_bounds [of "k - 1"] by auto
  show "\<not> d < 1 \<Longrightarrow> d > month_days k \<Longrightarrow>
      ((k + 1, d - month_days k), (k, d)) \<in> measure (\<lambda>(k, d). nat (if d < 1 then 40 - d else d))"
    using month_days_bounds [of k] by auto
qed simp

declare normal_day.simps [simp del]

definition mk_time :: "tm \<Rightarrow> tm" where
  "mk_time t =
     (let m = tm_min t + tm_sec t div 60;
          h = tm_hour t + m div 60;
          (k, d) = normal_day ((tm_year t + 1900) * 12 + tm_mon t) (tm_mday t + h div 24)
      in \<lparr>tm_year = k div 12 - 1900, tm_mon = k mod 12, tm_mday = d, tm_hour = h mod 24,
          tm_min = m mod 60, tm_sec = tm_sec t mod 60\<rparr>)"

text \<open>The clock is kept as the digits \<open>YYYYMMDDhhmmssmmm\<close> of the local time.\<close>

definition local_time :: "int \<Rightarrow> tm" where
  "local_time c = \<lparr>tm_year = c div 10 ^ 13 - 1900, tm_mon = c div 10 ^ 11 mod 100 - 1,
     tm_mday = c div 10 ^ 9 mod 100, tm_hour = c div 10 ^ 7 mod 100, tm_min = c div 10 ^ 5 mod 100,
     tm_sec = c div 10 ^ 3 mod 100\<rparr>"

section \<open>The functions of the loader\<close>

definition get_end_of_month :: "string \<Rightarrow> int" where
  "get_end_of_month p_date =
     (let year = atoi (strlcpy 5 p_date); mon = atoi (strlcpy 3 (drop 4 p_date)) in
      if mon = 2 then
        (let leap_year = (if year mod 4 = 0 then if year mod 100 = 0 then year mod 400 = 0 else True else False)
         in if leap_year then 29 else 28)
      else if mon = 4 then 30 else if mon = 6 then 30 else if mon = 9 then 30 else if mon = 11 then 30
      else 31)"

definition minute_text :: "tm \<Rightarrow> string" where
  "minute_text t = pad 4 (tm_year t + 1900) @ pad 2 (tm_mon t + 1) @ pad 2 (tm_mday t) @
     pad 2 (tm_hour t) @ pad 2 (tm_min t)"

text \<open>\<open>(start_date, end_date)\<close>, the later and the earlier end of the window.\<close>

definition get_search_date :: "int \<Rightarrow> int \<Rightarrow> string \<times> string" where
  "get_search_date load_span now =
     (let t = local_time now
      in (minute_text (mk_time (t\<lparr>tm_min := tm_min t + load_span\<rparr>)), minute_text t))"

text \<open>The \<^verbatim>\<open>struct tm\<close> of the beginning of a day.\<close>

definition midnight :: "int \<Rightarrow> int \<Rightarrow> int \<Rightarrow> tm" where
  "midnight year mon day = \<lparr>tm_year = year - 1900, tm_mon = mon - 1, tm_mday = day, tm_hour = 0,
     tm_min = 0, tm_sec = 0\<rparr>"

definition shift_month :: "string \<Rightarrow> int \<Rightarrow> string" where
  "shift_month edit_date months =
     (let t = mk_time (midnight (atoi (strlcpy 5 edit_date)) (atoi (strlcpy 3 (drop 4 edit_date)) + months) 1)
      in strlcpy 9 (pad 4 (tm_year t + 1900) @ pad 2 (tm_mon t + 1)))"

definition day_text :: "tm \<Rightarrow> string" where
  "day_text t = pad 4 (tm_year t + 1900) @ pad 2 (tm_mon t + 1) @ pad 2 (tm_mday t)"

definition day_shifted :: "string \<Rightarrow> int \<Rightarrow> tm" where
  "day_shifted date days =
     mk_time (midnight (atoi (strlcpy 5 date)) (atoi (strlcpy 3 (drop 4 date)))
       (atoi (strlcpy 3 (drop 6 date)) + days))"

definition shift_days :: "string \<Rightarrow> int \<Rightarrow> string" where
  "shift_days edit_date days = strlcpy 9 (day_text (day_shifted edit_date days))"

definition make_end_operating_date :: "string \<Rightarrow> string \<Rightarrow> string" where
  "make_end_operating_date end_date boot_time =
     (let i_bt = atoi boot_time in
      if i_bt < 2400 then strlcpy 9 end_date
      else strlcpy 9 (day_text (day_shifted end_date (- (i_bt div 2400)))))"

text \<open>The short text written at offset 8 is only reached when eight characters precede it.\<close>

definition make_scheduled_time :: "string \<Rightarrow> string \<Rightarrow> string" where
  "make_scheduled_time operating_date boot_time =
     (let i_bt = atoi boot_time in
      if i_bt < 2400 then
        (let t = strlcpy 13 operating_date
         in if length t < 8 then t else take 8 t @ strlcpy 5 boot_time)
      else
        (let i_sday = i_bt div 2400; w_bt = i_bt - 2400 * i_sday
         in strlcpy 13 (day_text (day_shifted operating_date i_sday) @ pad 4 w_bt)))"

text \<open>\<^verbatim>\<open>strcmp(a, b) <= 0\<close>\<close>

fun strcmp_le :: "string \<Rightarrow> string \<Rightarrow> bool" where
  "strcmp_le [] b \<longleftrightarrow> True"
| "strcmp_le (x # a) [] \<longleftrightarrow> False"
| "strcmp_le (x # a) (y # b) \<longleftrightarrow>
     (of_char x :: nat) < of_char y \<or> (x = y \<and> strcmp_le a b)"

text \<open>The check of lines 2146 and 2297.\<close>

definition in_window :: "string \<Rightarrow> string \<Rightarrow> string \<Rightarrow> bool" where
  "in_window start_date end_date scheduled_time \<longleftrightarrow>
     strcmp_le scheduled_time start_date \<and> strcmp_le end_date scheduled_time"

section \<open>Counting days\<close>

text \<open>The days of the Gregorian calendar before a year, a month, and up to a date.\<close>

definition year_start :: "int \<Rightarrow> int" where
  "year_start y = 365 * y + (y - 1) div 4 - (y - 1) div 100 + (y - 1) div 400"

primrec days_to :: "int \<Rightarrow> nat \<Rightarrow> int" where
  "days_to y 0 = 0"
| "days_to y (Suc m) = days_to y m + maxday y (int m + 1)"

definition month_start :: "int \<Rightarrow> int" where
  "month_start k = year_start (k div 12) + days_to (k div 12) (nat (k mod 12))"

definition day_number :: "int \<Rightarrow> int \<Rightarrow> int" where
  "day_number k d = month_start k + d"

definition date_ok :: "int \<Rightarrow> int \<Rightarrow> bool" where
  "date_ok k d \<longleftrightarrow> 0 \<le> k \<and> k < 120000 \<and> 1 \<le> d \<and> d \<le> month_days k"

definition ymd_text :: "int \<Rightarrow> int \<Rightarrow> string" where
  "ymd_text k d = pad 4 (k div 12) @ pad 2 (k mod 12 + 1) @ pad 2 d"

lemma year_start_Suc: "year_start (y + 1) = year_start y + 365 + (if leap y then 1 else 0)"
proof -
  have step: "0 < n \<Longrightarrow> y div n = (y - 1) div n + (if y mod n = 0 then 1 else 0)" for n
    using div_step(1) [of n "y - 1"] unfolding diff_add_cancel .
  have dvd: "y mod 400 = 0 \<Longrightarrow> y mod 100 = 0" "y mod 100 = 0 \<Longrightarrow> y mod 4 = 0"
    unfolding mod_eq_0_iff_dvd by (rule dvd_trans [rotated], assumption, simp)+
  have cases: "a4 - b1 + c4 = a3 - b0 + c3 + (if p \<and> (\<not> q \<or> r) then 1 else 0)"
    if "a4 = a3 + (if p then 1 else 0)" "b1 = b0 + (if q then 1 else 0)" "c4 = c3 + (if r then 1 else 0)"
      "r \<Longrightarrow> q" "q \<Longrightarrow> p" for a4 a3 b1 b0 c4 c3 :: int and p q r
    using that by (cases p; cases q; cases r) simp_all
  have quarter: "y div 4 - y div 100 + y div 400 =
      (y - 1) div 4 - (y - 1) div 100 + (y - 1) div 400 + (if leap y then 1 else 0)"
    unfolding leap_def by (rule cases [OF step step step dvd]) simp_all
  have shuffle: "365 * y + 365 * 1 + a4 - b4 + c4 = 365 * y + a - b + c + 365 + (if l then 1 else 0)"
    if "a4 - b4 + c4 = a - b + c + (if l then 1 else 0)" for a4 b4 c4 a b c :: int and l
    using that by simp
  show ?thesis
    unfolding year_start_def add_diff_cancel_right' distrib_left by (rule shuffle [OF quarter])
qed

lemma year_days: "days_to y 12 = 365 + (if leap y then 1 else 0)"
  by (simp add: eval_nat_numeral maxday_values)

lemma month_start_Suc: "month_start (k + 1) = month_start k + month_days k"
proof (cases "k mod 12 = 11")
  case True
  note month_step(1) [OF this]
  moreover have "days_to y 12 = days_to y 11 + maxday y 12" for y
    using days_to.simps(2) [of y 11] by simp
  ultimately show ?thesis
    using True by (simp add: month_start_def month_days_def year_start_Suc flip: year_days)
next
  case False
  note month_step(2) [OF this]
  moreover have "nat (k mod 12 + 1) = Suc (nat (k mod 12))"
    by (simp add: Suc_nat_eq_nat_zadd1 add.commute)
  ultimately show ?thesis
    by (simp add: month_start_def month_days_def)
qed

lemma month_start_less: "j < k \<Longrightarrow> month_start j + month_days j \<le> month_start k"
proof (induction "nat (k - j)" arbitrary: j)
  case (Suc n)
  show ?case
  proof (cases "j + 1 < k")
    case True
    with Suc have "month_start (j + 1) + month_days (j + 1) \<le> month_start k"
      by simp
    then show ?thesis
      using month_days_bounds(1) [of "j + 1"] by (simp add: month_start_Suc)
  next
    case False
    with Suc.prems have "k = j + 1"
      by simp
    then show ?thesis
      by (simp add: month_start_Suc)
  qed
qed simp

lemma normal_day_number: "normal_day k d = (k', d') \<Longrightarrow> day_number k' d' = day_number k d"
proof (induction k d rule: normal_day.induct)
  case (1 k d)
  have "month_start (k - 1 + 1) = month_start (k - 1) + month_days (k - 1)"
    by (rule month_start_Suc)
  with 1 show ?case
    by (subst (asm) normal_day.simps) (auto simp: day_number_def month_start_Suc split: if_splits)
qed

lemma normal_day_ok: "normal_day k d = (k', d') \<Longrightarrow> 1 \<le> d' \<and> d' \<le> month_days k'"
  by (induction k d rule: normal_day.induct)
    (subst (asm) (3) normal_day.simps, auto split: if_splits)

lemma normal_day_id: "1 \<le> d \<Longrightarrow> d \<le> month_days k \<Longrightarrow> normal_day k d = (k, d)"
  by (subst normal_day.simps) simp

section \<open>Reading the texts\<close>

lemma month_parts: "0 \<le> (k :: int) \<Longrightarrow> k < 120000 \<Longrightarrow> 0 \<le> k div 12 \<and> k div 12 < 10000 \<and> 0 \<le> k mod 12 \<and> k mod 12 < 12"
proof -
  assume "0 \<le> k" "k < 120000"
  then show ?thesis
    using pos_mod_bound [of 12 k] pos_mod_sign [of 12 k] pos_imp_zdiv_nonneg_iff [of 12 k]
      zdiv_mono1 [of k 119999 12] by simp
qed

lemma ymd_text_length: "date_ok k d \<Longrightarrow> length (ymd_text k d) = 8"
  using month_parts [of k] month_days_bounds [of k] by (simp add: ymd_text_def date_ok_def pad_length)

lemma ymd_text_parts:
  assumes "date_ok k d"
  shows "atoi (strlcpy 5 (ymd_text k d @ s)) = k div 12"
    and "atoi (strlcpy 3 (drop 4 (ymd_text k d @ s))) = k mod 12 + 1"
    and "atoi (strlcpy 3 (drop 6 (ymd_text k d @ s))) = d"
proof -
  have k: "0 \<le> k div 12" "k div 12 < 10000" "0 \<le> k mod 12" "k mod 12 < 12" "1 \<le> d" "d \<le> 31"
    using assms month_parts [of k] month_days_bounds [of k] by (auto simp: date_ok_def)
  then have len: "length (pad 4 (k div 12)) = 4" "length (pad 2 (k mod 12 + 1)) = 2" "length (pad 2 d) = 2"
    by (simp_all add: pad_length)
  show "atoi (strlcpy 5 (ymd_text k d @ s)) = k div 12"
    using k by (simp add: ymd_text_def strlcpy_def len atoi_pad)
  show "atoi (strlcpy 3 (drop 4 (ymd_text k d @ s))) = k mod 12 + 1"
    using k by (simp add: ymd_text_def strlcpy_def len atoi_pad)
  show "atoi (strlcpy 3 (drop 6 (ymd_text k d @ s))) = d"
    using k by (simp add: ymd_text_def strlcpy_def len atoi_pad)
qed

lemma midnight_month: "(tm_year (midnight y m d) + 1900) * 12 + tm_mon (midnight y m d) = y * 12 + (m - 1)"
  by (simp add: midnight_def)

lemma mk_time_midnight:
  "normal_day (y * 12 + (m - 1)) d = (k, e) \<Longrightarrow>
   mk_time (midnight y m d) = midnight (k div 12) (k mod 12 + 1) e"
  unfolding mk_time_def Let_def midnight_month by (simp add: midnight_def)

lemma day_text_midnight: "day_text (midnight (k div 12) (k mod 12 + 1) e) = ymd_text k e"
  by (simp add: day_text_def midnight_def ymd_text_def)

lemma day_shifted_text:
  assumes "date_ok k d" "normal_day k (d + n) = (k', d')"
  shows "day_text (day_shifted (ymd_text k d @ s) n) = ymd_text k' d'"
proof -
  have "k div 12 * 12 + (k mod 12 + 1 - 1) = k"
    by simp
  with assms show ?thesis
    unfolding day_shifted_def ymd_text_parts [OF assms(1)]
    by (subst mk_time_midnight [of _ _ _ k' d']) (simp_all add: day_text_midnight)
qed

lemma day_number_less:
  assumes "j < k" "d \<le> month_days j" "1 \<le> e"
  shows "day_number j d < day_number k e"
  using month_start_less [OF assms(1)] assms(2,3) by (simp add: day_number_def)

text \<open>Staying between the years 0 and 9999 is a matter of the number of the day.\<close>

definition calendar_days_ok :: "int \<Rightarrow> bool" where
  "calendar_days_ok n \<longleftrightarrow> day_number 0 1 \<le> n \<and> n < day_number 120000 1"

lemma normal_day_in:
  assumes "normal_day k d = (k', d')" "calendar_days_ok (day_number k d)"
  shows "date_ok k' d'"
proof -
  note d' = normal_day_ok [OF assms(1)]
  have n: "day_number k' d' = day_number k d"
    using normal_day_number [OF assms(1)] .
  have "0 \<le> k'"
    using day_number_less [of k' 0 d' 1] d' n assms(2) by (cases "k' < 0") (auto simp: calendar_days_ok_def)
  moreover have "\<not> 120000 < k'"
    using day_number_less [of 120000 k' 1 d'] d' n assms(2) month_days_bounds(1) [of 120000]
    by (auto simp: calendar_days_ok_def)
  moreover have "k' \<noteq> 120000"
    using d' n assms(2) by (auto simp: calendar_days_ok_def day_number_def)
  ultimately show ?thesis
    using d' by (simp add: date_ok_def)
qed

lemma shift_days_number:
  assumes "date_ok k d" "calendar_days_ok (day_number k d + n)"
  shows "\<exists>k' d'. date_ok k' d' \<and> shift_days (ymd_text k d) n = ymd_text k' d' \<and>
    day_number k' d' = day_number k d + n"
proof -
  obtain k' d' where nd: "normal_day k (d + n) = (k', d')"
    by (cases "normal_day k (d + n)")
  have num: "day_number k' d' = day_number k d + n"
    using normal_day_number [OF nd] by (simp add: day_number_def)
  have ok: "date_ok k' d'"
    by (rule normal_day_in [OF nd]) (use assms(2) in \<open>simp add: day_number_def add.assoc\<close>)
  moreover have "shift_days (ymd_text k d) n = ymd_text k' d'"
    using day_shifted_text [OF assms(1) nd, of "[]"] ymd_text_length [OF ok] by (simp add: shift_days_def)
  ultimately show ?thesis
    using num by blast
qed

lemma end_of_month:
  assumes "atoi (strlcpy 5 s) = y" "atoi (strlcpy 3 (drop 4 s)) = m + 1" "0 \<le> m" "m < 12"
  shows "get_end_of_month s = maxday y (m + 1)"
  using twelve [OF assms(3,4)] unfolding get_end_of_month_def Let_def assms(1,2)
  by (elim disjE) (simp_all add: maxday_values leap_def)

lemma get_end_of_month_days:
  assumes "0 \<le> k" "k < 120000"
  shows "get_end_of_month (pad 4 (k div 12) @ pad 2 (k mod 12 + 1)) = month_days k"
proof -
  note p = month_parts [OF assms]
  have "atoi (strlcpy 5 (pad 4 (k div 12) @ pad 2 (k mod 12 + 1))) = k div 12"
    "atoi (strlcpy 3 (drop 4 (pad 4 (k div 12) @ pad 2 (k mod 12 + 1)))) = k mod 12 + 1"
    using p by (simp_all add: strlcpy_def pad_length atoi_pad)
  then show ?thesis
    unfolding month_days_def using p by (intro end_of_month) simp_all
qed

section \<open>The order of texts is the order of times\<close>

lemma digit_order:
  "is_digit c \<Longrightarrow> is_digit e \<Longrightarrow> (of_char c :: nat) < of_char e \<longleftrightarrow> digit_val c < digit_val e"
  "is_digit c \<Longrightarrow> is_digit e \<Longrightarrow> c = e \<longleftrightarrow> digit_val c = digit_val e"
proof -
  assume d: "is_digit c" "is_digit e"
  then show "(of_char c :: nat) < of_char e \<longleftrightarrow> digit_val c < digit_val e"
    by (auto simp: is_digit_def digit_val_def)
  have "c = e \<longleftrightarrow> (of_char c :: nat) = of_char e"
    by simp
  also have "\<dots> \<longleftrightarrow> digit_val c = digit_val e"
    using d unfolding is_digit_def digit_val_def by linarith
  finally show "c = e \<longleftrightarrow> digit_val c = digit_val e" .
qed

lemma dec_val_append: "dec_val (a @ b) = dec_val a * 10 ^ length b + dec_val b"
  by (induction b rule: rev_induct) (simp_all add: algebra_simps flip: append_assoc)

lemma dec_val_less: "list_all is_digit s \<Longrightarrow> dec_val s < 10 ^ length s"
proof (induction s rule: rev_induct)
  case (snoc c s)
  then have "dec_val s + 1 \<le> 10 ^ length s" "digit_val c \<le> 9"
    by (auto simp: is_digit_def digit_val_def)
  then show ?case
    by simp
qed simp

lemma dec_val_Cons: "dec_val (c # s) = digit_val c * 10 ^ length s + dec_val s"
  using dec_val_append [of "[c]" s] by (simp add: dec_val_def)

lemma strcmp_digits:
  "length a = length b \<Longrightarrow> list_all is_digit a \<Longrightarrow> list_all is_digit b \<Longrightarrow>
   strcmp_le a b \<longleftrightarrow> dec_val a \<le> dec_val b"
proof (induction a b rule: list_induct2)
  case (Cons x a y b)
  let ?n = "10 ^ length b :: nat"
  have lt: "dec_val a < ?n" "dec_val b < ?n"
    using Cons dec_val_less [of a] dec_val_less [of b] by auto
  have step: "digit_val x * ?n + ?n \<le> digit_val y * ?n" if "digit_val x < digit_val y" for x y
    using mult_le_mono1 [of "Suc (digit_val x)" "digit_val y" ?n] that by simp
  consider "digit_val x < digit_val y" | "digit_val x = digit_val y" | "digit_val y < digit_val x"
    by linarith
  then show ?case
    using Cons digit_order [of x y] lt step [of x y] step [of y x]
    by cases (auto simp: dec_val_Cons)
qed simp

lemma strcmp_append:
  "length a = length b \<Longrightarrow>
   strcmp_le (a @ s) (b @ t) \<longleftrightarrow> (a \<noteq> b \<and> strcmp_le a b) \<or> (a = b \<and> strcmp_le s t)"
  by (induction a b rule: list_induct2) auto

lemma strcmp_pad:
  "0 \<le> i \<Longrightarrow> i < 10 ^ w \<Longrightarrow> 0 \<le> j \<Longrightarrow> j < 10 ^ w \<Longrightarrow> 0 < w \<Longrightarrow> strcmp_le (pad w i) (pad w j) \<longleftrightarrow> i \<le> j"
  by (simp add: strcmp_digits pad_length pad_digits dec_val_pad nat_le_eq_zle)

lemma pad_inj: "0 \<le> i \<Longrightarrow> 0 \<le> j \<Longrightarrow> pad w i = pad w j \<longleftrightarrow> i = j"
  by (metis dec_val_pad nat_0_le)

lemma strcmp_pads:
  assumes "0 \<le> i" "i < 10 ^ w" "0 \<le> j" "j < 10 ^ w" "0 < w"
  shows "strcmp_le (pad w i @ s) (pad w j @ t) \<longleftrightarrow> i < j \<or> (i = j \<and> strcmp_le s t)"
  using assms by (subst strcmp_append) (auto simp: pad_length strcmp_pad pad_inj)

lemma day_number_le:
  assumes "date_ok k d" "date_ok k' d'"
  shows "day_number k d \<le> day_number k' d' \<longleftrightarrow> k < k' \<or> (k = k' \<and> d \<le> d')"
    and "day_number k d = day_number k' d' \<longleftrightarrow> k = k' \<and> d = d'"
proof -
  have "k < k' \<Longrightarrow> day_number k d < day_number k' d'" "k' < k \<Longrightarrow> day_number k' d' < day_number k d"
    using assms by (auto simp: date_ok_def intro!: day_number_less)
  then show "day_number k d \<le> day_number k' d' \<longleftrightarrow> k < k' \<or> (k = k' \<and> d \<le> d')"
    "day_number k d = day_number k' d' \<longleftrightarrow> k = k' \<and> d = d'"
    by (cases k k' rule: linorder_cases; simp; simp add: day_number_def)+
qed

lemma strcmp_triple:
  assumes "0 \<le> a" "a < 10 ^ 4" "0 \<le> b" "b < 99" "0 \<le> c" "c < 10 ^ 2"
    "0 \<le> a'" "a' < 10 ^ 4" "0 \<le> b'" "b' < 99" "0 \<le> c'" "c' < 10 ^ 2"
  shows "strcmp_le (pad 4 a @ pad 2 (b + 1) @ pad 2 c @ s) (pad 4 a' @ pad 2 (b' + 1) @ pad 2 c' @ t) \<longleftrightarrow>
    a < a' \<or> (a = a' \<and> (b < b' \<or> (b = b' \<and> (c < c' \<or> (c = c' \<and> strcmp_le s t)))))"
  using assms by (auto simp: strcmp_pads)

lemma month_order:
  "k div 12 < k' div 12 \<or> (k div 12 = k' div 12 \<and> k mod 12 < k' mod 12) \<longleftrightarrow> k < (k' :: int)"
  "k div 12 = k' div 12 \<and> k mod 12 = k' mod 12 \<longleftrightarrow> k = k'"
proof -
  have "a < a' \<or> (a = a' \<and> b < b') \<longleftrightarrow> 12 * a + b < 12 * a' + b'"
    "a = a' \<and> b = b' \<longleftrightarrow> 12 * a + b = 12 * a' + b'"
    if "0 \<le> b" "b < 12" "0 \<le> b'" "b' < 12" for a a' b b' :: int
    using that by - (linarith, cases a a' rule: linorder_cases, auto)
  from this [of "k mod 12" "k' mod 12" "k div 12" "k' div 12"]
  show "k div 12 < k' div 12 \<or> (k div 12 = k' div 12 \<and> k mod 12 < k' mod 12) \<longleftrightarrow> k < k'"
    "k div 12 = k' div 12 \<and> k mod 12 = k' mod 12 \<longleftrightarrow> k = k'"
    unfolding mult_div_mod_eq by simp_all
qed

lemma strcmp_dates:
  assumes "date_ok k d" "date_ok k' d'"
  shows "strcmp_le (ymd_text k d @ s) (ymd_text k' d' @ t) \<longleftrightarrow>
    day_number k d < day_number k' d' \<or> (k = k' \<and> d = d' \<and> strcmp_le s t)"
proof -
  have p: "0 \<le> k div 12" "k div 12 < 10 ^ 4" "0 \<le> k mod 12" "k mod 12 < 99" "0 \<le> d" "d < 10 ^ 2"
    "0 \<le> k' div 12" "k' div 12 < 10 ^ 4" "0 \<le> k' mod 12" "k' mod 12 < 99" "0 \<le> d'" "d' < 10 ^ 2"
    using assms month_parts [of k] month_parts [of k'] month_days_bounds(2) [of k] month_days_bounds(2) [of k']
    by (auto simp: date_ok_def)
  have "strcmp_le (ymd_text k d @ s) (ymd_text k' d' @ t) \<longleftrightarrow> k div 12 < k' div 12 \<or>
      (k div 12 = k' div 12 \<and> (k mod 12 < k' mod 12 \<or> (k mod 12 = k' mod 12 \<and> (d < d' \<or> (d = d' \<and> strcmp_le s t)))))"
    unfolding ymd_text_def append_assoc by (rule strcmp_triple [OF p])
  also have "\<dots> \<longleftrightarrow> k < k' \<or> (k = k' \<and> (d < d' \<or> (d = d' \<and> strcmp_le s t)))"
    using month_order [of k k'] by blast
  also have "\<dots> \<longleftrightarrow> day_number k d < day_number k' d' \<or> (k = k' \<and> d = d' \<and> strcmp_le s t)"
    using day_number_le [OF assms] day_number_le(1) [OF assms(2,1)] by auto
  finally show ?thesis .
qed

section \<open>When a jobnet is due\<close>

text \<open>
  Minutes since the beginning of the calendar; \<open>stamp\<close> is the text of a minute.  A boot time
  \<open>hhmm\<close> may go past 24 hours: its hours count from the beginning of the operating day.
\<close>

definition minute_number :: "int \<Rightarrow> int \<Rightarrow> int \<Rightarrow> int \<Rightarrow> int" where
  "minute_number k d h m = day_number k d * 1440 + h * 60 + m"

definition stamp :: "int \<Rightarrow> int \<Rightarrow> int \<Rightarrow> int \<Rightarrow> string" where
  "stamp k d h m = ymd_text k d @ pad 2 h @ pad 2 m"

definition stamp_ok :: "int \<Rightarrow> int \<Rightarrow> int \<Rightarrow> int \<Rightarrow> bool" where
  "stamp_ok k d h m \<longleftrightarrow> date_ok k d \<and> 0 \<le> h \<and> h < 24 \<and> 0 \<le> m \<and> m < 60"

definition boot_text :: "int \<Rightarrow> int \<Rightarrow> string" where
  "boot_text h m = pad 2 h @ pad 2 m"

lemma strcmp_stamps:
  assumes "stamp_ok k d h m" "stamp_ok k' d' h' m'"
  shows "strcmp_le (stamp k d h m) (stamp k' d' h' m') \<longleftrightarrow> minute_number k d h m \<le> minute_number k' d' h' m'"
proof -
  have ok: "date_ok k d" "date_ok k' d'" "0 \<le> h" "h < 24" "0 \<le> m" "m < 60" "0 \<le> h'" "h' < 24" "0 \<le> m'" "m' < 60"
    using assms by (auto simp: stamp_ok_def)
  then have "strcmp_le (pad 2 h @ pad 2 m) (pad 2 h' @ pad 2 m') \<longleftrightarrow> h * 60 + m \<le> h' * 60 + m'"
    by (subst strcmp_pads) (auto simp: strcmp_pad)
  then show ?thesis
    unfolding stamp_def strcmp_dates [OF ok(1,2)] minute_number_def
    using day_number_le(2) [OF ok(1,2)] ok(3-) by auto
qed

lemma atoi_boot:
  assumes "0 \<le> h" "h < 100" "0 \<le> m" "m < 60"
  shows "atoi (boot_text h m) = h * 100 + m"
proof -
  have "dec_val (boot_text h m) = nat (h * 100 + m)"
    using assms by (simp add: boot_text_def dec_val_append dec_val_pad pad_length nat_add_distrib nat_mult_distrib)
  moreover have "list_all is_digit (boot_text h m)" "boot_text h m \<noteq> []"
    using assms by (simp_all add: boot_text_def pad_digits pad_nonempty)
  ultimately show ?thesis
    using assms by (simp add: atoi_digits)
qed

lemma pad_unique:
  assumes "length s = w" "list_all is_digit s" "dec_val s = nat i" "0 \<le> i" "i < 10 ^ w" "0 < w"
  shows "pad w i = s"
proof -
  have eq: "s = t" if "length s = length t" "list_all is_digit s" "list_all is_digit t" "dec_val s = dec_val t" for s t
    using that
  proof (induction s t rule: list_induct2)
    case (Cons x a y b)
    let ?n = "10 ^ length b :: nat"
    have lt: "dec_val a < ?n" "dec_val b < ?n"
      using Cons dec_val_less [of a] dec_val_less [of b] by auto
    have "digit_val x * ?n + dec_val a = digit_val y * ?n + dec_val b"
      using Cons by (simp add: dec_val_Cons)
    then have "digit_val x = digit_val y" "dec_val a = dec_val b"
      using lt by (metis div_less div_mult_self3 add.right_neutral not_less0, metis mod_less mod_mult_self3)
    with Cons digit_order [of x y] show ?case
      by simp
  qed simp
  show ?thesis
    by (rule eq) (use assms in \<open>simp_all add: pad_length pad_digits dec_val_pad\<close>)
qed

lemma pad_split:
  "0 \<le> a \<Longrightarrow> a < 100 \<Longrightarrow> 0 \<le> b \<Longrightarrow> b < 100 \<Longrightarrow> pad 4 (a * 100 + b) = pad 2 a @ pad 2 b"
  by (rule pad_unique)
    (simp_all add: pad_length pad_digits dec_val_append dec_val_pad nat_add_distrib nat_mult_distrib)

lemma make_scheduled_time_stamp:
  assumes "date_ok k d" "0 \<le> h" "h < 100" "0 \<le> m" "m < 60" "calendar_days_ok (day_number k d + h div 24)"
  shows "\<exists>k' d'. stamp_ok k' d' (h mod 24) m \<and> day_number k' d' = day_number k d + h div 24 \<and>
    make_scheduled_time (ymd_text k d) (boot_text h m) = stamp k' d' (h mod 24) m"
proof (cases "h < 24")
  case True
  have "length (boot_text h m) = 4"
    using assms by (simp add: boot_text_def pad_length)
  then have "make_scheduled_time (ymd_text k d) (boot_text h m) = stamp k d (h mod 24) m"
    using assms True
    by (simp add: make_scheduled_time_def atoi_boot ymd_text_length stamp_def boot_text_def [symmetric])
  then show ?thesis
    using assms True by (intro exI [of _ k] exI [of _ d]) (simp add: stamp_ok_def)
next
  case False
  have "(h * 100 + m) div 100 = h"
    using assms by (simp add: div_mult_self4)
  then have bt: "\<not> h * 100 + m < 2400" "(h * 100 + m) div 2400 = h div 24"
    using False assms zdiv_zmult2_eq [of 24 "h * 100 + m" 100] by simp_all
  obtain k' d' where nd: "normal_day k (d + h div 24) = (k', d')"
    by (cases "normal_day k (d + h div 24)")
  have ok: "date_ok k' d'"
    by (rule normal_day_in [OF nd]) (use assms(6) in \<open>simp add: day_number_def add.assoc\<close>)
  have "h * 100 + m - 2400 * (h div 24) = h mod 24 * 100 + m"
    by (simp add: minus_div_mult_eq_mod [symmetric])
  note w = this
  have pad4: "pad 4 (h * 100 + m - 2400 * (h div 24)) = pad 2 (h mod 24) @ pad 2 m"
    unfolding w by (rule pad_split) (use assms pos_mod_bound [of 24 h] in simp_all)
  have "make_scheduled_time (ymd_text k d) (boot_text h m) = stamp k' d' (h mod 24) m"
    unfolding make_scheduled_time_def Let_def
    using bt pad4 day_shifted_text [OF assms(1) nd, of "[]"] ymd_text_length [OF ok] assms
    by (simp add: atoi_boot stamp_def strlcpy_def pad_length)
  moreover have "day_number k' d' = day_number k d + h div 24"
    using normal_day_number [OF nd] by (simp add: day_number_def)
  moreover have "stamp_ok k' d' (h mod 24) m"
    using ok assms by (simp add: stamp_ok_def)
  ultimately show ?thesis
    by blast
qed

text \<open>The search window, in minutes.\<close>

definition clock_digits :: "int \<Rightarrow> int \<Rightarrow> int \<Rightarrow> int \<Rightarrow> int \<Rightarrow> int \<Rightarrow> int" where
  "clock_digits k d h m s r =
     ((((((k div 12) * 100 + (k mod 12 + 1)) * 100 + d) * 100 + h) * 100 + m) * 100 + s) * 1000 + r"

lemma digit_group: "0 \<le> b \<Longrightarrow> b < (n :: int) \<Longrightarrow> (a * n + b) div n = a \<and> (a * n + b) mod n = b"
  by simp

lemma digit_shift:
  assumes "c div p = q" "q = a * n + b" "0 \<le> b" "b < (n :: int)"
  shows "c div (p * n) = a" "c div p mod n = b"
  using assms digit_group [of b n a] by (simp_all add: zdiv_zmult2_eq [of n c p])

lemma local_time_digits:
  assumes "stamp_ok k d h m" "0 \<le> s" "s < 60" "0 \<le> r" "r < 1000"
  shows "local_time (clock_digits k d h m s r) =
    \<lparr>tm_year = k div 12 - 1900, tm_mon = k mod 12, tm_mday = d, tm_hour = h, tm_min = m, tm_sec = s\<rparr>"
proof -
  have b: "0 \<le> d" "d < 100" "0 \<le> h" "h < 100" "0 \<le> m" "m < 100" "0 \<le> k mod 12 + 1" "k mod 12 + 1 < 100"
    using assms month_days_bounds(2) [of k] pos_mod_bound [of 12 k] pos_mod_sign [of 12 k]
    by (auto simp: stamp_ok_def date_ok_def)
  define y where "y = k div 12"
  define mo where "mo = y * 100 + (k mod 12 + 1)"
  define dd where "dd = mo * 100 + d"
  define hh where "hh = dd * 100 + h"
  define mm where "mm = hh * 100 + m"
  define ss where "ss = mm * 100 + s"
  define c where "c = clock_digits k d h m s r"
  have c3: "c div 1000 = ss"
    using digit_group [of r 1000 ss] assms
    by (simp add: c_def clock_digits_def ss_def mm_def hh_def dd_def mo_def y_def)
  have c5: "c div (1000 * 100) = mm" "c div 1000 mod 100 = s"
    by (rule digit_shift [OF c3 ss_def]; use assms in simp)+
  have c7: "c div (1000 * 100 * 100) = hh" "c div (1000 * 100) mod 100 = m"
    by (rule digit_shift [OF c5(1) mm_def]; use b in simp)+
  have c9: "c div (1000 * 100 * 100 * 100) = dd" "c div (1000 * 100 * 100) mod 100 = h"
    by (rule digit_shift [OF c7(1) hh_def]; use b in simp)+
  have c11: "c div (1000 * 100 * 100 * 100 * 100) = mo" "c div (1000 * 100 * 100 * 100) mod 100 = d"
    by (rule digit_shift [OF c9(1) dd_def]; use b in simp)+
  have c13: "c div (1000 * 100 * 100 * 100 * 100 * 100) = y"
      "c div (1000 * 100 * 100 * 100 * 100) mod 100 = k mod 12 + 1"
    by (rule digit_shift [OF c11(1) mo_def]; use b in simp)+
  have powers: "10 ^ 3 = (1000 :: int)" "10 ^ 5 = (1000 * 100 :: int)" "10 ^ 7 = (1000 * 100 * 100 :: int)"
    "10 ^ 9 = (1000 * 100 * 100 * 100 :: int)" "10 ^ 11 = (1000 * 100 * 100 * 100 * 100 :: int)"
    "10 ^ 13 = (1000 * 100 * 100 * 100 * 100 * 100 :: int)"
    by simp_all
  show ?thesis
    unfolding local_time_def powers c_def [symmetric] c5(2) c7(2) c9(2) c11(2) c13 y_def by simp
qed

lemma minute_text_stamp:
  "minute_text \<lparr>tm_year = k div 12 - 1900, tm_mon = k mod 12, tm_mday = d, tm_hour = h, tm_min = m, tm_sec = s\<rparr>
     = stamp k d h m"
  by (simp add: minute_text_def stamp_def ymd_text_def)

lemma get_search_date_stamps:
  assumes "stamp_ok k d h m" "0 \<le> s" "s < 60" "0 \<le> r" "r < 1000"
    and "calendar_days_ok (day_number k d + (h * 60 + m + n) div 1440)"
  shows "\<exists>k' d' h' m'. stamp_ok k' d' h' m' \<and> minute_number k' d' h' m' = minute_number k d h m + n \<and>
    get_search_date n (clock_digits k d h m s r) = (stamp k' d' h' m', stamp k d h m)"
proof -
  let ?h = "h + (m + n) div 60"
  obtain k' d' where nd: "normal_day k (d + ?h div 24) = (k', d')"
    by (cases "normal_day k (d + ?h div 24)")
  have day: "?h div 24 = (h * 60 + m + n) div 1440"
    using zdiv_zmult2_eq [of 24 "h * 60 + (m + n)" 60] div_mult_self3 [of 60 h "m + n"]
    by (simp add: add.commute add.assoc)
  have ok: "date_ok k' d'"
    by (rule normal_day_in [OF nd]) (use assms(6) in \<open>simp add: day day_number_def add.assoc\<close>)
  have "get_search_date n (clock_digits k d h m s r) = (stamp k' d' (?h mod 24) ((m + n) mod 60), stamp k d h m)"
    using nd assms unfolding get_search_date_def Let_def local_time_digits [OF assms(1-5)]
    by (simp add: mk_time_def minute_text_stamp Let_def)
  moreover have "stamp_ok k' d' (?h mod 24) ((m + n) mod 60)"
    using ok by (simp add: stamp_ok_def)
  moreover have "minute_number k' d' (?h mod 24) ((m + n) mod 60) = minute_number k d h m + n"
  proof -
    have "day_number k' d' = day_number k d + ?h div 24"
      using normal_day_number [OF nd] by (simp add: day_number_def)
    moreover have "24 * (?h div 24) + ?h mod 24 = ?h" "60 * ((m + n) div 60) + (m + n) mod 60 = m + n"
      by (rule mult_div_mod_eq)+
    moreover have "(D + q) * 1440 + x * 60 + y = D * 1440 + h * 60 + m + n"
      if "24 * q + x = h + p" "60 * p + y = m + n" for D q x p y :: int
      using that by (simp add: algebra_simps)
    ultimately show ?thesis
      unfolding minute_number_def by metis
  qed
  ultimately show ?thesis
    by blast
qed

text \<open>The check of the window, and the days the query in front of it lets through.\<close>

definition sql_int :: "string \<Rightarrow> int" where
  "sql_int s = int (dec_val s)"

lemma sql_int_dates:
  assumes "date_ok k d" "date_ok k' d'"
  shows "sql_int (ymd_text k d) \<le> sql_int (ymd_text k' d') \<longleftrightarrow> day_number k d \<le> day_number k' d'"
proof -
  have dig: "list_all is_digit (ymd_text k d)" if "date_ok k d" for k d
    using that month_parts [of k] by (auto simp: ymd_text_def date_ok_def pad_digits)
  have "sql_int (ymd_text k d) \<le> sql_int (ymd_text k' d') \<longleftrightarrow> strcmp_le (ymd_text k d @ []) (ymd_text k' d' @ [])"
    using assms by (simp add: sql_int_def strcmp_digits dig ymd_text_length)
  also have "\<dots> \<longleftrightarrow> day_number k d \<le> day_number k' d'"
    unfolding strcmp_dates [OF assms] using day_number_le(2) [OF assms] by auto
  finally show ?thesis .
qed

lemma make_end_operating_date_text:
  assumes "date_ok k d" "0 \<le> h" "h < 100" "0 \<le> m" "m < 60" "calendar_days_ok (day_number k d - h div 24)"
  shows "\<exists>k' d'. date_ok k' d' \<and> day_number k' d' = day_number k d - h div 24 \<and>
    make_end_operating_date (ymd_text k d @ s) (boot_text h m) = ymd_text k' d'"
proof (cases "h < 24")
  case True
  then have "make_end_operating_date (ymd_text k d @ s) (boot_text h m) = ymd_text k d"
    using assms by (simp add: make_end_operating_date_def atoi_boot strlcpy_def ymd_text_length)
  then show ?thesis
    using assms True by (intro exI [of _ k] exI [of _ d]) simp
next
  case False
  have "(h * 100 + m) div 100 = h"
    using assms by (simp add: div_mult_self4)
  then have bt: "\<not> h * 100 + m < 2400" "(h * 100 + m) div 2400 = h div 24"
    using False assms zdiv_zmult2_eq [of 24 "h * 100 + m" 100] by simp_all
  obtain k' d' where nd: "normal_day k (d + - (h div 24)) = (k', d')"
    by (cases "normal_day k (d + - (h div 24))")
  have num: "day_number k' d' = day_number k d - h div 24"
    using normal_day_number [OF nd] by (simp add: day_number_def)
  have ok: "date_ok k' d'"
    by (rule normal_day_in [OF nd]) (use assms(6) in \<open>simp add: day_number_def add_diff_eq\<close>)
  have "make_end_operating_date (ymd_text k d @ s) (boot_text h m) = ymd_text k' d'"
    using bt day_shifted_text [OF assms(1) nd] ymd_text_length [OF ok] assms
    by (simp add: make_end_operating_date_def Let_def atoi_boot)
  with ok num show ?thesis
    by blast
qed

lemma day_of_minute: "0 \<le> x \<Longrightarrow> x < 1440 \<Longrightarrow> 0 \<le> y \<Longrightarrow> y < 1440 \<Longrightarrow>
    (a * 1440 + x \<le> b * 1440 + y) \<Longrightarrow> a \<le> (b :: int)"
  by linarith

lemma due_day_selected:
  assumes "date_ok k d" "0 \<le> h" "h < 100" "0 \<le> m" "m < 60"
    and "calendar_days_ok (day_number k d + h div 24)"
    and "stamp_ok ks ds hs ms" "stamp_ok ke de he me" "calendar_days_ok (day_number ke de - h div 24)"
    and "in_window (stamp ks ds hs ms) (stamp ke de he me) (make_scheduled_time (ymd_text k d) (boot_text h m))"
  shows "sql_int (ymd_text k d) \<le> sql_int (strlcpy 9 (stamp ks ds hs ms))"
    and "sql_int (make_end_operating_date (stamp ke de he me) (boot_text h m)) \<le> sql_int (ymd_text k d)"
proof -
  obtain k' d' where sch: "stamp_ok k' d' (h mod 24) m" "day_number k' d' = day_number k d + h div 24"
      "make_scheduled_time (ymd_text k d) (boot_text h m) = stamp k' d' (h mod 24) m"
    using make_scheduled_time_stamp [OF assms(1-6)] by blast
  have dates: "date_ok ks ds" "date_ok ke de"
    using assms(7,8) by (simp_all add: stamp_ok_def)
  have "minute_number k' d' (h mod 24) m \<le> minute_number ks ds hs ms"
    "minute_number ke de he me \<le> minute_number k' d' (h mod 24) m"
    using assms(10) sch(1) assms(7,8) by (simp_all add: in_window_def sch(3) strcmp_stamps)
  then have le: "day_number k' d' \<le> day_number ks ds" "day_number ke de \<le> day_number k' d'"
    using sch(1) assms(7,8) unfolding minute_number_def stamp_ok_def add.assoc
    by (auto elim!: day_of_minute [rotated -1])
  have "0 \<le> h div 24"
    using assms(2) by simp
  then have "day_number k d \<le> day_number ks ds"
    using le(1) sch(2) by linarith
  moreover have "strlcpy 9 (stamp ks ds hs ms) = ymd_text ks ds"
    using ymd_text_length [OF dates(1)] by (simp add: stamp_def strlcpy_def)
  ultimately show "sql_int (ymd_text k d) \<le> sql_int (strlcpy 9 (stamp ks ds hs ms))"
    using sql_int_dates [OF assms(1) dates(1)] by simp
  obtain k2 d2 where e: "date_ok k2 d2" "day_number k2 d2 = day_number ke de - h div 24"
      "make_end_operating_date (stamp ke de he me) (boot_text h m) = ymd_text k2 d2"
    using make_end_operating_date_text [OF dates(2) assms(2-5,9)] unfolding stamp_def by blast
  then show "sql_int (make_end_operating_date (stamp ke de he me) (boot_text h m)) \<le> sql_int (ymd_text k d)"
    using sql_int_dates [OF e(1) assms(1)] le(2) sch(2) by simp
qed

text \<open>The comparison of texts decides whether the start lies in the window, in minutes.\<close>

lemma scheduled_in_window:
  assumes "date_ok k d" "0 \<le> h" "h < 100" "0 \<le> m" "m < 60"
    and "calendar_days_ok (day_number k d + h div 24)" "stamp_ok ks ds hs ms" "stamp_ok ke de he me"
  shows "in_window (stamp ks ds hs ms) (stamp ke de he me) (make_scheduled_time (ymd_text k d) (boot_text h m)) \<longleftrightarrow>
    minute_number k d h m \<le> minute_number ks ds hs ms \<and> minute_number ke de he me \<le> minute_number k d h m"
proof -
  obtain k' d' where sch: "stamp_ok k' d' (h mod 24) m" "day_number k' d' = day_number k d + h div 24"
      "make_scheduled_time (ymd_text k d) (boot_text h m) = stamp k' d' (h mod 24) m"
    using make_scheduled_time_stamp [OF assms(1-6)] by blast
  have "minute_number k' d' (h mod 24) m = minute_number k d h m"
    unfolding minute_number_def sch(2) by (simp add: distrib_right) presburger
  then show ?thesis
    unfolding in_window_def sch(3) strcmp_stamps [OF sch(1) assms(7)] strcmp_stamps [OF assms(8) sch(1)] by simp
qed

end
