(* ===== verification/Jaloader.thy ===== *)
theory Jaloader
  imports Jaindex Calendar Sessions
begin

text \<open>
  The process that loads jobnets (\<open>jaloader/jaloader.c\<close>): it copies the definition of a
  jobnet -- its icons, their settings, its flows, and the jobnets its jobnet icons refer
  to -- into the run tables, for the schedules that fall due and for the jobnets users
  have submitted.  Ids of jobnets, icons, schedules and calendars are put into the
  statements as they are; the editor restricts them to letters, digits, \<open>-\<close> and \<open>_\<close>.
\<close>

section \<open>Loading the settings of one icon\<close>

definition msgwork :: "string list \<Rightarrow> parg" where
  "msgwork ws = PS (strlcpy 2048 (concat (map (\<lambda>w. w @ '' '') (butlast ws)) @ last ws))"

definition load_error :: "string \<Rightarrow> uint64 \<Rightarrow> string option \<Rightarrow> parg list \<Rightarrow> rc prog" where
  "load_error msg n j args = do { _ \<leftarrow> ja_log msg n j 0 args; ret FAIL }"

definition already_start_check_immediate :: "uint64 \<Rightarrow> rc prog" where
  "already_start_check_immediate inner_jobnet_id = do {
     row \<leftarrow> DBselect_row (\<lambda>t. [count_where (\<lambda>r. rs_id r = inner_jobnet_id) (summaries t)]);
     case row of
       None \<Rightarrow> load_error ''JALOADER200001'' inner_jobnet_id None
         [PS ''ja_run_jobnet_summary_table'', msgwork [show_u64 inner_jobnet_id]]
     | Some count \<Rightarrow> ret (if count > 0 then FAIL else SUCCEED) }"

text \<open>\<open>FAIL\<close> is the number -1 here, which is also what the caller compares with.\<close>

definition get_flow_inner_job_id :: "uint64 \<Rightarrow> string \<Rightarrow> uint64 prog" where
  "get_flow_inner_job_id inner_jobnet_id icon = do {
     row \<leftarrow> DBselect_row (select_named inner_jobnet_id icon);
     case row of
       None \<Rightarrow> do { _ \<leftarrow> load_error ''JALOADER200001'' inner_jobnet_id None
                [PS ''ja_run_job_table'', msgwork [show_u64 inner_jobnet_id, icon]]; ret (- 1) }
     | Some r \<Rightarrow> ret (rj_id r) }"

definition flow_count :: "string \<Rightarrow> string \<Rightarrow> int \<Rightarrow> tables \<Rightarrow> nat" where
  "flow_count jobnet icon update_date t =
     count_where (\<lambda>f. fc_jobnet f = jobnet \<and> fc_end f = icon \<and> fc_update f = update_date)
       (flow_controls (designs t))"

definition get_boot_count :: "string \<Rightarrow> string \<Rightarrow> int \<Rightarrow> int prog" where
  "get_boot_count jobnet icon update_date = do {
     row \<leftarrow> DBselect_row (\<lambda>t. [flow_count jobnet icon update_date t]);
     case row of
       None \<Rightarrow> do { _ \<leftarrow> load_error ''JALOADER200001'' 0 (Some jobnet)
                [PS ''ja_flow_control_table'', msgwork [jobnet, icon, show_int update_date]]; ret (- 1) }
     | Some count \<Rightarrow> ret (int count) }"

text \<open>
  The copying statement of an icon, with the error that follows when it inserts nothing;
  \<open>load_any\<close> is the variant of \<open>load_value\<close>, for which nothing is no error.
\<close>

definition load_some ::
    "icon_load \<Rightarrow> string \<Rightarrow> uint64 \<Rightarrow> uint64 \<Rightarrow> string \<Rightarrow> string \<Rightarrow> int \<Rightarrow> rc prog" where
  "load_some l table inner_jobnet_id inner_job_id jobnet icon update_date = do {
     rc \<leftarrow> DBexecute (Load_icon l inner_job_id inner_jobnet_id jobnet icon update_date);
     if rc \<le> ZBX_DB_OK then load_error ''JALOADER200002'' 0 (Some jobnet)
       [PS table, msgwork [jobnet, icon, show_int update_date]]
     else ret SUCCEED }"

definition load_any ::
    "icon_load \<Rightarrow> string \<Rightarrow> uint64 \<Rightarrow> uint64 \<Rightarrow> string \<Rightarrow> string \<Rightarrow> int \<Rightarrow> rc prog" where
  "load_any l table inner_jobnet_id inner_job_id jobnet icon update_date = do {
     rc \<leftarrow> DBexecute (Load_icon l inner_job_id inner_jobnet_id jobnet icon update_date);
     if rc < ZBX_DB_OK then load_error ''JALOADER200002'' 0 (Some jobnet)
       [PS table, msgwork [jobnet, icon, show_int update_date]]
     else ret SUCCEED }"

definition load_value :: "uint64 \<Rightarrow> uint64 \<Rightarrow> string \<Rightarrow> string \<Rightarrow> int \<Rightarrow> rc prog" where
  "load_value n i jobnet icon update_date =
     or_fail (load_any Load_job_value ''ja_run_value_job_table'' n i jobnet icon update_date)
       (load_any Load_jobcon ''ja_run_value_jobcon_table'' n i jobnet icon update_date)"

text \<open>
  When the update at the end fails, the code prints two columns that its row does not have;
  the model prints the one there is.
\<close>

definition load_icon_end :: "uint64 \<Rightarrow> uint64 \<Rightarrow> string \<Rightarrow> string \<Rightarrow> int \<Rightarrow> rc prog" where
  "load_icon_end n i jobnet icon update_date =
     or_fail (load_some Load_end ''ja_run_icon_end_table'' n i jobnet icon update_date) (do {
       row \<leftarrow> DBselect_row (\<lambda>t. [s. End_cols s c \<leftarrow> design_of jobnet icon update_date t]);
       case row of
         None \<Rightarrow> load_error ''JALOADER200001'' 0 (Some jobnet)
           [PS ''ja_icon_end_table'', msgwork [jobnet, icon, show_int update_date]]
       | Some jobnet_stop_flag \<Rightarrow>
           if jobnet_stop_flag = 1 then do {
             rc \<leftarrow> DBexecute (Update_job (Job_is i) (job_cols\<lparr>js_method := Some JA_JOB_METHOD_WAIT\<rparr>));
             if rc \<le> ZBX_DB_OK then load_error ''JALOADER200002'' 0 (Some jobnet)
               [PS ''ja_run_job_table'', msgwork [show_int jobnet_stop_flag, show_u64 i]]
             else ret SUCCEED
           } else ret SUCCEED })"

definition load_icon_if :: "uint64 \<Rightarrow> uint64 \<Rightarrow> string \<Rightarrow> string \<Rightarrow> int \<Rightarrow> rc prog" where
  "load_icon_if = load_some Load_if ''ja_icon_if_table''"

definition load_icon_value :: "uint64 \<Rightarrow> uint64 \<Rightarrow> string \<Rightarrow> string \<Rightarrow> int \<Rightarrow> rc prog" where
  "load_icon_value = load_some Load_value ''ja_run_icon_value_table''"

definition load_icon_job :: "uint64 \<Rightarrow> uint64 \<Rightarrow> string \<Rightarrow> string \<Rightarrow> int \<Rightarrow> rc prog" where
  "load_icon_job n i jobnet icon update_date =
     or_fail (load_some Load_job ''ja_run_icon_job_table'' n i jobnet icon update_date) (
     or_fail (load_some Load_command ''ja_run_job_command_table'' n i jobnet icon update_date)
       (load_value n i jobnet icon update_date))"

definition load_icon_jobnet :: "uint64 \<Rightarrow> uint64 \<Rightarrow> string \<Rightarrow> string \<Rightarrow> int \<Rightarrow> rc prog" where
  "load_icon_jobnet n i jobnet icon update_date = do {
     link_inner_jobnet_id \<leftarrow> get_next_id JA_RUN_ID_JOBNET_LD 0 (Some jobnet) 0;
     if link_inner_jobnet_id = 0 then ret FAIL
     else load_some (Load_jobnet link_inner_jobnet_id) ''ja_run_icon_jobnet_table'' n i jobnet icon update_date }"

definition load_icon_extjob :: "uint64 \<Rightarrow> uint64 \<Rightarrow> string \<Rightarrow> string \<Rightarrow> int \<Rightarrow> rc prog" where
  "load_icon_extjob = load_some Load_extjob ''ja_run_icon_extjob_table''"

definition load_icon_calc :: "uint64 \<Rightarrow> uint64 \<Rightarrow> string \<Rightarrow> string \<Rightarrow> int \<Rightarrow> rc prog" where
  "load_icon_calc = load_some Load_calc ''ja_run_icon_calc_table''"

definition load_icon_task :: "uint64 \<Rightarrow> uint64 \<Rightarrow> string \<Rightarrow> string \<Rightarrow> int \<Rightarrow> rc prog" where
  "load_icon_task = load_some Load_task ''ja_run_icon_task_table''"

definition load_icon_info :: "uint64 \<Rightarrow> uint64 \<Rightarrow> string \<Rightarrow> string \<Rightarrow> int \<Rightarrow> rc prog" where
  "load_icon_info = load_some Load_info ''ja_run_icon_info_table''"

definition load_icon_fcopy :: "uint64 \<Rightarrow> uint64 \<Rightarrow> string \<Rightarrow> string \<Rightarrow> int \<Rightarrow> rc prog" where
  "load_icon_fcopy = load_some Load_fcopy ''ja_run_icon_fcopy_table''"

definition load_icon_fwait :: "uint64 \<Rightarrow> uint64 \<Rightarrow> string \<Rightarrow> string \<Rightarrow> int \<Rightarrow> rc prog" where
  "load_icon_fwait = load_some Load_fwait ''ja_run_icon_fwait_table''"

definition load_icon_reboot :: "uint64 \<Rightarrow> uint64 \<Rightarrow> string \<Rightarrow> string \<Rightarrow> int \<Rightarrow> rc prog" where
  "load_icon_reboot = load_some Load_reboot ''ja_run_icon_reboot_table''"

definition load_icon_rel :: "uint64 \<Rightarrow> uint64 \<Rightarrow> string \<Rightarrow> string \<Rightarrow> int \<Rightarrow> rc prog" where
  "load_icon_rel = load_some Load_release ''ja_run_icon_release_table''"

text \<open>
  A one-time session gets a name of its own.  A missing session id is a null pointer the
  code reads through: the process dies.
\<close>

definition load_icon_less :: "uint64 \<Rightarrow> uint64 \<Rightarrow> string \<Rightarrow> string \<Rightarrow> int \<Rightarrow> rc prog" where
  "load_icon_less n i jobnet icon update_date = do {
     row \<leftarrow> DBselect_row (\<lambda>t. [(k, s). Less_cols f h k s xs \<leftarrow> design_of jobnet icon update_date t]);
     case row of
       None \<Rightarrow> load_error ''JALOADER200001'' n None
         [PS ''ja_icon_agentless_table'', msgwork [jobnet, icon, show_int update_date]]
     | Some (session_flag, stored) \<Rightarrow>
         if session_flag = 0 then do {
           session_id_num \<leftarrow> get_next_id JA_RUN_ID_SESSION 0 (Some jobnet) 0;
           if session_id_num = 0 then ret FAIL
           else load_some (Load_less (strlcpy 65 (''@SESSION-'' @ show_u64 session_id_num)))
                  ''ja_run_icon_agentless_table'' n i jobnet icon update_date
         } else (case stored of
             None \<Rightarrow> do { _ \<leftarrow> assert_fail; ret FAIL }
           | Some s \<Rightarrow> load_some (Load_less (strlcpy 65 s)) ''ja_run_icon_agentless_table'' n i jobnet icon update_date) }"

definition load_icon_link :: "uint64 \<Rightarrow> uint64 \<Rightarrow> string \<Rightarrow> string \<Rightarrow> int \<Rightarrow> rc prog" where
  "load_icon_link = load_some Load_link ''ja_run_icon_zabbix_link_table''"

section \<open>Loading a jobnet\<close>

text \<open>A text column as it arrives in the table: escaped, or empty when it is null.\<close>

definition stored_text :: "string option \<Rightarrow> string" where
  "stored_text x = (case x of None \<Rightarrow> '''' | Some s \<Rightarrow> sql_text (esc s))"

definition loaded_job ::
    "uint64 \<Rightarrow> uint64 \<Rightarrow> int \<Rightarrow> uint64 \<Rightarrow> uint64 \<Rightarrow> int \<Rightarrow> job_control \<Rightarrow> run_job" where
  "loaded_job main n test_flag i fs_link boot_count c =
     \<lparr>rj_id = i, rj_jobnet = n, rj_main = main, rj_fs_link = fs_link, rj_invo = JA_JOB_INVO_FLAG_OFF,
      rj_type = jc_type c, rj_test = test_flag, rj_method = jc_method c, rj_force = jc_force c,
      rj_timeout = 0, rj_status = JA_JOB_STATUS_BEGIN, rj_boot_count = boot_count, rj_end_count = 0,
      rj_start = 0, rj_end = 0, rj_job_id = jc_job c, rj_name = Some (stored_text (jc_name c)),
      rj_continue = jc_continue c, rj_x = jc_x c, rj_y = jc_y c,
      rj_user = Some (stored_text (jc_user c)), rj_password = Some (stored_text (jc_password c))\<rparr>"

definition load_icon :: "int \<Rightarrow> int \<Rightarrow> uint64 \<Rightarrow> uint64 \<Rightarrow> string \<Rightarrow> string \<Rightarrow> int \<Rightarrow> rc prog" where
  "load_icon job_type run_type n i jobnet icon update_date =
     (if job_type = JA_JOB_TYPE_START then
        (if run_type = JA_JOBNET_RUN_TYPE_WAIT then do {
           rc \<leftarrow> DBexecute (Update_job (Job_is i) (job_cols\<lparr>js_method := Some JA_JOB_METHOD_WAIT\<rparr>));
           if rc \<le> ZBX_DB_OK then load_error ''JALOADER200002'' 0 (Some jobnet)
             [PS ''ja_run_job_table'', msgwork [jobnet, icon, show_int update_date, show_u64 i]]
           else ret SUCCEED
         } else ret SUCCEED)
      else if job_type = JA_JOB_TYPE_END then load_icon_end n i jobnet icon update_date
      else if job_type = JA_JOB_TYPE_IF then load_icon_if n i jobnet icon update_date
      else if job_type = JA_JOB_TYPE_VALUE then load_icon_value n i jobnet icon update_date
      else if job_type = JA_JOB_TYPE_JOB then load_icon_job n i jobnet icon update_date
      else if job_type = JA_JOB_TYPE_JOBNET then load_icon_jobnet n i jobnet icon update_date
      else if job_type = JA_JOB_TYPE_EXTJOB then load_icon_extjob n i jobnet icon update_date
      else if job_type = JA_JOB_TYPE_CALC then load_icon_calc n i jobnet icon update_date
      else if job_type = JA_JOB_TYPE_TASK then load_icon_task n i jobnet icon update_date
      else if job_type = JA_JOB_TYPE_INFO then load_icon_info n i jobnet icon update_date
      else if job_type = JA_JOB_TYPE_FCOPY then load_icon_fcopy n i jobnet icon update_date
      else if job_type = JA_JOB_TYPE_FWAIT then load_icon_fwait n i jobnet icon update_date
      else if job_type = JA_JOB_TYPE_REBOOT then load_icon_reboot n i jobnet icon update_date
      else if job_type = JA_JOB_TYPE_REL then load_icon_rel n i jobnet icon update_date
      else if job_type = JA_JOB_TYPE_LESS then load_icon_less n i jobnet icon update_date
      else if job_type = JA_JOB_TYPE_LINK then load_icon_link n i jobnet icon update_date
      else ret SUCCEED)"

text \<open>The bodies of the two loops of \<open>load_job_definition\<close>.\<close>

definition load_one_job :: "uint64 \<Rightarrow> uint64 \<Rightarrow> string \<Rightarrow> int \<Rightarrow> int \<Rightarrow> job_control \<Rightarrow> rc prog" where
  "load_one_job main n jobnet test_flag run_type c = do {
     i \<leftarrow> get_next_id JA_RUN_ID_JOB 0 (Some jobnet) 0;
     if i = 0 then ret FAIL
     else do {
       fs_link \<leftarrow> (if jc_type c = JA_JOB_TYPE_JOB then get_next_id JA_RUN_ID_JOB 0 (Some jobnet) 0 else ret 0);
       if jc_type c = JA_JOB_TYPE_JOB \<and> fs_link = 0 then ret FAIL
       else do {
         boot_count \<leftarrow> get_boot_count (jc_jobnet c) (jc_job c) (jc_update c);
         if boot_count = - 1 then ret FAIL
         else do {
           rc \<leftarrow> DBexecute (Insert_job (loaded_job main n test_flag i fs_link boot_count c));
           if rc \<le> ZBX_DB_OK then load_error ''JALOADER200002'' 0 (Some jobnet)
             [PS ''ja_run_job_table'', msgwork [jc_jobnet c, jc_job c, show_int (jc_update c)]]
           else load_icon (jc_type c) run_type n i (jc_jobnet c) (jc_job c) (jc_update c) } } } }"

definition load_one_flow :: "uint64 \<Rightarrow> string \<Rightarrow> int \<Rightarrow> flow_control \<Rightarrow> rc prog" where
  "load_one_flow n jobnet update_date f = do {
     inner_flow_id \<leftarrow> get_next_id JA_RUN_ID_FLOW 0 (Some jobnet) 0;
     if inner_flow_id = 0 then ret FAIL
     else do {
       start_inner_job_id \<leftarrow> get_flow_inner_job_id n (fc_start f);
       if start_inner_job_id = - 1 then ret FAIL
       else do {
         end_inner_job_id \<leftarrow> get_flow_inner_job_id n (fc_end f);
         if end_inner_job_id = - 1 then ret FAIL
         else do {
           rc \<leftarrow> DBexecute (Insert_flow \<lparr>rf_id = inner_flow_id, rf_jobnet = n, rf_from = start_inner_job_id,
                   rf_to = end_inner_job_id, rf_type = fc_type f, rf_width = fc_width f\<rparr>);
           if rc \<le> ZBX_DB_OK then load_error ''JALOADER200002'' 0 (Some jobnet)
             [PS ''ja_run_flow_table'', msgwork [jobnet, show_int update_date, fc_start f, fc_end f]]
           else ret SUCCEED } } } }"

definition select_jobs :: "string \<Rightarrow> int \<Rightarrow> tables \<Rightarrow> job_control list" where
  "select_jobs jobnet update_date t =
     filter (\<lambda>c. jc_jobnet c = jobnet \<and> jc_update c = update_date) (job_controls (designs t))"

definition select_flow_controls :: "string \<Rightarrow> int \<Rightarrow> tables \<Rightarrow> flow_control list" where
  "select_flow_controls jobnet update_date t =
     filter (\<lambda>f. fc_jobnet f = jobnet \<and> fc_update f = update_date) (flow_controls (designs t))"

definition load_job_definition :: "uint64 \<Rightarrow> uint64 \<Rightarrow> string \<Rightarrow> int \<Rightarrow> int \<Rightarrow> int \<Rightarrow> rc prog" where
  "load_job_definition main n jobnet update_date test_flag run_type = do {
     rows \<leftarrow> DBselect (select_jobs jobnet update_date);
     or_fail (each_row (load_one_job main n jobnet test_flag run_type) rows) (do {
       rows \<leftarrow> DBselect (select_flow_controls jobnet update_date);
       each_row (load_one_flow n jobnet update_date) rows }) }"

text \<open>
  The valid version of a jobnet, and the row that starts a jobnet icon's jobnet.  The loop
  over unexpanded jobnet icons goes on as long as it finds any; \<open>rounds\<close> bounds it, and
  \<open>None\<close> says that it has not ended within them.
\<close>

definition select_valid :: "string \<Rightarrow> tables \<Rightarrow> control_row list" where
  "select_valid jobnet t = filter (\<lambda>c. c_jobnet_id c = jobnet \<and> c_valid c = 1) (controls t)"

definition sub_jobnet :: "uint64 \<Rightarrow> uint64 \<Rightarrow> uint64 \<Rightarrow> int \<Rightarrow> string \<Rightarrow> control_row \<Rightarrow> run_jobnet" where
  "sub_jobnet link main icon run_type user c =
     \<lparr>rn_id = link, rn_main = main, rn_job = icon, rn_update = c_update c, rn_run_type = run_type,
      rn_main_flag = JA_JOBNET_MAIN_FLAG_SUB, rn_timeout = 0, rn_status = JA_JOBNET_STATUS_BEGIN,
      rn_sched = 0, rn_start = 0, rn_end = 0, rn_public = c_public c, rn_multiple = c_multiple c,
      rn_jobnet_id = c_jobnet_id c, rn_user = sql_text (esc (c_user c)), rn_name = sql_text (esc (c_name c)),
      rn_memo = Some (stored_text (c_memo c)), rn_exec_user = sql_text (esc user), rn_schedule = None,
      rn_calendar = None, rn_boot = None, rn_initial = 0, rn_running_id = None, rn_running_name = None\<rparr>"

definition test_flag_of :: "int \<Rightarrow> int" where
  "test_flag_of run_type =
     (if run_type = JA_JOBNET_RUN_TYPE_TEST then JA_JOB_TEST_FLAG_ON else JA_JOB_TEST_FLAG_OFF)"

definition expand_icon :: "uint64 \<Rightarrow> int \<Rightarrow> string \<Rightarrow> string \<Rightarrow> string \<Rightarrow> run_job \<Rightarrow> rc prog" where
  "expand_icon main run_type jobnet schedule user r = do {
     row2 \<leftarrow> DBselect_row (select_link (rj_id r));
     case row2 of
       None \<Rightarrow> load_error ''JALOADER200001'' main None [PS ''ja_run_icon_jobnet_table'', PS (show_u64 (rj_id r))]
     | Some l \<Rightarrow> do {
         row3 \<leftarrow> DBselect_row (select_valid (in_jobnet_id l));
         case row3 of
           None \<Rightarrow> do {
             _ \<leftarrow> modify (\<lambda>w. w\<lparr>no_valid_flag := 1\<rparr>);
             load_error ''JALOADER200005'' main None [PS (in_jobnet_id l), PS jobnet, PS schedule] }
         | Some c \<Rightarrow> do {
             rc \<leftarrow> DBexecute (Insert_jobnet (sub_jobnet (in_link l) main (rj_id r) run_type user c));
             if rc \<le> ZBX_DB_OK then load_error ''JALOADER200002'' main None
               [PS ''ja_run_jobnet_table'', msgwork [c_jobnet_id c, show_int (c_update c)]]
             else or_fail (load_job_definition main (in_link l) (c_jobnet_id c) (c_update c)
                             (test_flag_of run_type) JA_JOBNET_RUN_TYPE_NORMAL) (do {
               rc \<leftarrow> DBexecute (Update_job (Job_is (rj_id r)) (job_cols\<lparr>js_invo := Some JA_JOB_INVO_FLAG_ON\<rparr>));
               if rc \<le> ZBX_DB_OK then load_error ''JALOADER200003'' main None
                 [PS ''ja_run_job_table'', PS (show_u64 (rj_id r))]
               else ret SUCCEED }) } } }"

definition unexpanded :: "uint64 \<Rightarrow> tables \<Rightarrow> run_job list" where
  "unexpanded main t =
     filter (\<lambda>r. rj_main r = main \<and> rj_type r = JA_JOB_TYPE_JOBNET \<and> rj_invo r = JA_JOB_INVO_FLAG_OFF) (jobs t)"

fun load_sub_jobnet_definition ::
    "nat \<Rightarrow> uint64 \<Rightarrow> int \<Rightarrow> string \<Rightarrow> string \<Rightarrow> string \<Rightarrow> rc option prog" where
  "load_sub_jobnet_definition 0 main run_type jobnet schedule user = ret None"
| "load_sub_jobnet_definition (Suc rounds) main run_type jobnet schedule user = do {
     rows \<leftarrow> DBselect (unexpanded main);
     if rows = [] then ret (Some SUCCEED)
     else do {
       rc \<leftarrow> each_row (expand_icon main run_type jobnet schedule user) rows;
       if rc = FAIL then ret (Some FAIL)
       else load_sub_jobnet_definition rounds main run_type jobnet schedule user } }"

section \<open>Scheduled jobnets\<close>

definition main_jobnet :: "uint64 \<Rightarrow> string \<Rightarrow> string \<Rightarrow> string \<Rightarrow> string \<Rightarrow> control_row \<Rightarrow> run_jobnet" where
  "main_jobnet n scheduled_time schedule calendar boot_time c =
     \<lparr>rn_id = n, rn_main = n, rn_job = 0, rn_update = c_update c, rn_run_type = JA_JOBNET_RUN_TYPE_NORMAL,
      rn_main_flag = JA_JOBNET_MAIN_FLAG_MAIN, rn_timeout = 0, rn_status = JA_JOBNET_STATUS_BEGIN,
      rn_sched = sql_int scheduled_time, rn_start = 0, rn_end = 0, rn_public = c_public c,
      rn_multiple = c_multiple c, rn_jobnet_id = c_jobnet_id c, rn_user = sql_text (esc (c_user c)),
      rn_name = sql_text (esc (c_name c)), rn_memo = Some (stored_text (c_memo c)),
      rn_exec_user = sql_text (esc (c_user c)), rn_schedule = Some schedule, rn_calendar = Some calendar,
      rn_boot = Some boot_time, rn_initial = sql_int scheduled_time, rn_running_id = None,
      rn_running_name = None\<rparr>"

definition main_summary :: "uint64 \<Rightarrow> string \<Rightarrow> string \<Rightarrow> string \<Rightarrow> string \<Rightarrow> control_row \<Rightarrow> run_summary" where
  "main_summary n scheduled_time schedule calendar boot_time c =
     \<lparr>rs_id = n, rs_update = c_update c, rs_run_type = JA_JOBNET_RUN_TYPE_NORMAL,
      rs_status = JA_JOBNET_STATUS_BEGIN, rs_job_status = 0, rs_abort = 0,
      rs_load = JA_SUMMARY_LOAD_STATUS_NORMAL, rs_sched = sql_int scheduled_time, rs_start = 0, rs_end = 0,
      rs_public = c_public c, rs_multiple = c_multiple c, rs_jobnet_id = c_jobnet_id c,
      rs_user = sql_text (esc (c_user c)), rs_name = sql_text (esc (c_name c)),
      rs_memo = Some (stored_text (c_memo c)), rs_schedule = Some schedule, rs_calendar = Some calendar,
      rs_boot = Some boot_time, rs_exec_user = sql_text (esc (c_user c)), rs_running_id = None,
      rs_running_name = None, rs_pending = JA_SUMMARY_START_PENDING_NONE,
      rs_initial = sql_int scheduled_time\<rparr>"

definition already_loaded :: "string \<Rightarrow> string \<Rightarrow> string \<Rightarrow> string \<Rightarrow> tables \<Rightarrow> nat" where
  "already_loaded jobnet scheduled_time schedule calendar t =
     count_where (\<lambda>r. rn_jobnet_id r = jobnet \<and> rn_initial r = sql_int scheduled_time \<and>
       rn_run_type r = JA_JOBNET_RUN_TYPE_NORMAL \<and> rn_main_flag r = JA_JOBNET_MAIN_FLAG_MAIN \<and>
       rn_schedule r = Some schedule \<and> rn_calendar r = Some calendar) (jobnets t)"

definition rolled_back :: "rc option prog \<Rightarrow> rc option prog" where
  "rolled_back m = do { _ \<leftarrow> DBrollback; m }"

definition load_jobnet_definition ::
    "nat \<Rightarrow> string \<Rightarrow> string \<Rightarrow> string \<Rightarrow> string \<Rightarrow> string \<Rightarrow> rc option prog" where
  "load_jobnet_definition rounds jobnet scheduled_time schedule calendar boot_time = do {
     row \<leftarrow> DBselect_row (\<lambda>t. [already_loaded jobnet scheduled_time schedule calendar t]);
     case row of
       None \<Rightarrow> do {
         rc \<leftarrow> load_error ''JALOADER200001'' 0 (Some jobnet)
           [PS ''ja_run_jobnet_table'', msgwork [jobnet, scheduled_time, show_int JA_JOBNET_RUN_TYPE_NORMAL,
              show_int JA_JOBNET_MAIN_FLAG_MAIN]];
         ret (Some rc) }
     | Some count \<Rightarrow>
         if count > 0 then ret (Some SUCCEED)
         else do {
           _ \<leftarrow> DBbegin;
           n \<leftarrow> get_next_id JA_RUN_ID_JOBNET_LD 0 (Some jobnet) 0;
           if n = 0 then rolled_back (ret (Some FAIL))
           else do {
             row \<leftarrow> DBselect_row (select_valid jobnet);
             case row of
               None \<Rightarrow> do {
                 _ \<leftarrow> modify (\<lambda>w. w\<lparr>no_valid_flag := 1\<rparr>);
                 rolled_back (do { rc \<leftarrow> load_error ''JALOADER200004'' 0 None [PS jobnet, PS schedule];
                   ret (Some rc) }) }
             | Some c \<Rightarrow> do {
                 rc \<leftarrow> DBexecute (Insert_jobnet (main_jobnet n scheduled_time schedule calendar boot_time c));
                 if rc \<le> ZBX_DB_OK then rolled_back (do {
                   rc \<leftarrow> load_error ''JALOADER200002'' 0 (Some jobnet)
                     [PS ''ja_run_jobnet_table'', msgwork [c_jobnet_id c, show_int (c_update c)]];
                   ret (Some rc) })
                 else do {
                   rc \<leftarrow> DBexecute (Insert_summary (main_summary n scheduled_time schedule calendar boot_time c));
                   if rc \<le> ZBX_DB_OK then rolled_back (do {
                     rc \<leftarrow> load_error ''JALOADER200002'' 0 (Some jobnet)
                       [PS ''ja_run_jobnet_summary_table'', msgwork [c_jobnet_id c, show_int (c_update c)]];
                     ret (Some rc) })
                   else do {
                     rc \<leftarrow> load_job_definition n n (c_jobnet_id c) (c_update c) JA_JOB_TEST_FLAG_OFF
                             JA_JOBNET_RUN_TYPE_NORMAL;
                     if rc = FAIL then rolled_back (ret (Some FAIL))
                     else do {
                       r \<leftarrow> load_sub_jobnet_definition rounds n JA_JOBNET_RUN_TYPE_NORMAL (c_jobnet_id c)
                              schedule (c_user c);
                       case r of
                         None \<Rightarrow> ret None
                       | Some rc \<Rightarrow>
                           if rc = FAIL then rolled_back (ret (Some FAIL))
                           else do { _ \<leftarrow> DBcommit; ret (Some SUCCEED) } } } } } } } }"

text \<open>A loop whose body may fail to return.\<close>

primrec each_returns :: "('r \<Rightarrow> rc option prog) \<Rightarrow> 'r list \<Rightarrow> rc option prog" where
  "each_returns f [] = ret (Some SUCCEED)"
| "each_returns f (r # rs) = do {
     x \<leftarrow> f r;
     case x of None \<Rightarrow> ret None | Some rc \<Rightarrow> each_returns f rs }"

definition get_schedule_jobnet :: "nat \<Rightarrow> string \<Rightarrow> int \<Rightarrow> string \<Rightarrow> string \<Rightarrow> string \<Rightarrow> rc option prog" where
  "get_schedule_jobnet rounds schedule update_date scheduled_time calendar boot_time = do {
     rows \<leftarrow> DBselect (\<lambda>t. filter (\<lambda>r. sj_schedule r = schedule \<and> sj_update r = update_date)
               (schedule_jobnets (designs t)));
     each_returns (\<lambda>r. load_jobnet_definition rounds (sj_jobnet r) scheduled_time schedule calendar boot_time) rows }"

definition select_calendar :: "string \<Rightarrow> tables \<Rightarrow> int list" where
  "select_calendar calendar t = [u. (c, u, v) \<leftarrow> calendars t, c = calendar \<and> v = 1]"

definition select_operating :: "string \<Rightarrow> int \<Rightarrow> string \<Rightarrow> string \<Rightarrow> tables \<Rightarrow> string list" where
  "select_operating calendar update_date start_ope_date end_ope_date t =
     [show_int d. (c, u, d) \<leftarrow> calendar_days t,
        c = calendar \<and> u = update_date \<and> d \<le> sql_int start_ope_date \<and> sql_int end_ope_date \<le> d]"

definition no_valid :: "string \<Rightarrow> string \<Rightarrow> string \<Rightarrow> rc option prog" where
  "no_valid msg calendar schedule = do {
     _ \<leftarrow> modify (\<lambda>w. w\<lparr>no_valid_flag := 1\<rparr>);
     rc \<leftarrow> load_error msg 0 None [PS calendar, PS schedule];
     ret (Some rc) }"

definition load_if_due ::
    "nat \<Rightarrow> string \<Rightarrow> int \<Rightarrow> string \<Rightarrow> string \<Rightarrow> string \<Rightarrow> string \<Rightarrow> string \<Rightarrow> rc option prog" where
  "load_if_due rounds schedule update_date start_date end_date calendar boot_time operating_date =
     (let scheduled_time = make_scheduled_time operating_date boot_time in
      if in_window start_date end_date scheduled_time
      then get_schedule_jobnet rounds schedule update_date scheduled_time calendar boot_time
      else ret (Some SUCCEED))"

text \<open>The filter: the day of one month, found by at most 30 steps from the designated one.\<close>

definition select_day :: "string \<Rightarrow> int \<Rightarrow> string \<Rightarrow> tables \<Rightarrow> string list" where
  "select_day calendar update_date edit_date t =
     [show_int d. (c, u, d) \<leftarrow> calendar_days t, c = calendar \<and> u = update_date \<and> d = sql_int edit_date]"

function seek_day :: "string \<Rightarrow> int \<Rightarrow> int \<Rightarrow> int \<Rightarrow> int \<Rightarrow> int \<Rightarrow> string \<Rightarrow> string option prog" where
  "seek_day calendar update_date shift_day w_shift_day cnt hit edit_date =
     (if cnt < 30 then do {
        row \<leftarrow> DBselect_row (select_day calendar update_date edit_date);
        let hit = (if row = None then hit else hit + 1);
        if row \<noteq> None \<and> (cnt = 0 \<or> hit \<ge> w_shift_day) then ret row
        else if shift_day = 0 then ret None
        else seek_day calendar update_date shift_day w_shift_day (cnt + 1) hit
               (shift_days edit_date (if shift_day \<ge> 0 then 1 else - 1))
      } else ret None)"
  by auto
termination
  by (relation "measure (\<lambda>(_, _, _, _, cnt, _, _). nat (30 - cnt))") auto

declare seek_day.simps [simp del]

text \<open>The month and day to start from, and the number of days already passed (lines 2215--2246).\<close>

definition month_target :: "int \<Rightarrow> int \<Rightarrow> int \<Rightarrow> string \<Rightarrow> string \<times> int \<times> int" where
  "month_target base_date_flag designated_day shift_day edit_month =
     (if base_date_flag = 0 then (edit_month, 1, 0)
      else if base_date_flag = 1 then (edit_month, get_end_of_month edit_month, 0)
      else if base_date_flag = 2 then
        (let w_designated_day = get_end_of_month edit_month in
         if designated_day > w_designated_day then
           (if shift_day \<ge> 0 then (shift_month edit_month 1, 1, 1)
            else (edit_month, w_designated_day, designated_day - w_designated_day))
         else (edit_month, designated_day, 0))
      else (edit_month, designated_day, 0))"

definition filter_month :: "filter_control \<Rightarrow> int \<Rightarrow> string \<Rightarrow> int \<Rightarrow> string option prog" where
  "filter_month fl update_date base_date months =
     (let edit_month = shift_month (strlcpy 9 base_date) months;
          (edit_month, w_designated_day, cnt) = month_target (fl_base fl) (fl_day fl) (fl_shift fl) edit_month
      in seek_day (fl_calendar fl) update_date (fl_shift fl) \<bar>fl_shift fl\<bar> cnt 0
           (strlcpy 9 (edit_month @ pad 2 w_designated_day)))"

definition get_calendar_detail ::
    "nat \<Rightarrow> string \<Rightarrow> int \<Rightarrow> string \<Rightarrow> string \<Rightarrow> string \<Rightarrow> string \<Rightarrow> int \<Rightarrow> rc option prog" where
  "get_calendar_detail rounds schedule update_date start_date end_date calendar boot_time object_flag =
     (if object_flag = 0 then do {
        row \<leftarrow> DBselect_row (select_calendar calendar);
        case row of
          None \<Rightarrow> no_valid ''JALOADER200006'' calendar schedule
        | Some jc_update_date \<Rightarrow> do {
            rows \<leftarrow> DBselect (select_operating calendar jc_update_date (strlcpy 9 start_date)
                      (make_end_operating_date end_date boot_time));
            each_returns (load_if_due rounds schedule update_date start_date end_date calendar boot_time) rows } }
      else do {
        row \<leftarrow> DBselect_row (\<lambda>t. filter (\<lambda>f. fl_id f = calendar \<and> fl_valid f = 1) (filters (designs t)));
        case row of
          None \<Rightarrow> no_valid ''JALOADER200008'' calendar schedule
        | Some fl \<Rightarrow> do {
            row \<leftarrow> DBselect_row (select_calendar (fl_calendar fl));
            case row of
              None \<Rightarrow> no_valid ''JALOADER200006'' calendar schedule
            | Some jc_update_date \<Rightarrow>
                each_returns (\<lambda>months. do {
                  day \<leftarrow> filter_month fl jc_update_date (take 6 end_date) months;
                  case day of
                    None \<Rightarrow> ret (Some SUCCEED)
                  | Some operating_date \<Rightarrow>
                      load_if_due rounds schedule update_date start_date end_date calendar boot_time operating_date })
                  [- 2, - 1, 0, 1] } })"

definition get_schedule_detail :: "nat \<Rightarrow> string \<Rightarrow> int \<Rightarrow> string \<Rightarrow> string \<Rightarrow> rc option prog" where
  "get_schedule_detail rounds schedule update_date start_date end_date = do {
     rows \<leftarrow> DBselect (\<lambda>t. filter (\<lambda>r. sy_schedule r = schedule \<and> sy_update r = update_date)
               (schedule_details (designs t)));
     each_returns (\<lambda>r. get_calendar_detail rounds schedule update_date start_date end_date
       (sy_calendar r) (sy_boot r) (sy_object r)) rows }"

definition load_one_schedule :: "nat \<Rightarrow> string \<Rightarrow> string \<Rightarrow> schedule_control \<Rightarrow> rc option prog" where
  "load_one_schedule rounds start_date end_date r = do {
     _ \<leftarrow> modify (\<lambda>w. w\<lparr>no_valid_flag := 0\<rparr>);
     x \<leftarrow> get_schedule_detail rounds (sc_id r) (sc_update r) start_date end_date;
     case x of
       None \<Rightarrow> ret None
     | Some _ \<Rightarrow> do {
         closed \<leftarrow> gets (\<lambda>w. no_valid_flag w \<noteq> 0);
         if closed then do {
           _ \<leftarrow> DBbegin;
           rc \<leftarrow> DBexecute (Close_schedule (sc_id r) (sc_update r));
           if rc \<le> ZBX_DB_OK then rolled_back (do {
             rc \<leftarrow> load_error ''JALOADER200003'' 0 None
               [PS ''ja_schedule_control_table'', msgwork [sc_id r, show_int (sc_update r)]];
             ret (Some SUCCEED) })
           else do { _ \<leftarrow> DBcommit; ret (Some SUCCEED) }
         } else ret (Some SUCCEED) } }"

definition jobnet_load_schedule :: "nat \<Rightarrow> int \<Rightarrow> rc option prog" where
  "jobnet_load_schedule rounds load_span = do {
     window \<leftarrow> gets (\<lambda>w. get_search_date load_span (clock w));
     rows \<leftarrow> DBselect (\<lambda>t. filter (\<lambda>r. sc_valid r = 1) (schedules (designs t)));
     each_returns (load_one_schedule rounds (fst window) (snd window)) rows }"

section \<open>Submitted jobnets\<close>

definition submitted_jobnets :: "tables \<Rightarrow> run_jobnet list" where
  "submitted_jobnets t =
     filter (\<lambda>r. rn_run_type r \<noteq> JA_JOBNET_RUN_TYPE_NORMAL \<and> rn_main_flag r = JA_JOBNET_MAIN_FLAG_MAIN \<and>
       rn_status r = JA_JOBNET_STATUS_BEGIN) (jobnets t)"

text \<open>
  The summary of a submitted jobnet; \<open>s\<close>, \<open>js\<close>, \<open>load\<close> and \<open>now\<close> tell the one that starts it
  from the one that reports that it cannot be loaded.
\<close>

definition submitted_summary :: "int \<Rightarrow> int \<Rightarrow> int \<Rightarrow> int \<Rightarrow> run_jobnet \<Rightarrow> run_summary" where
  "submitted_summary s js load now r =
     \<lparr>rs_id = rn_id r, rs_update = rn_update r, rs_run_type = rn_run_type r, rs_status = s,
      rs_job_status = js, rs_abort = 0, rs_load = load, rs_sched = rn_sched r, rs_start = now,
      rs_end = now, rs_public = rn_public r, rs_multiple = rn_multiple r,
      rs_jobnet_id = rn_jobnet_id r, rs_user = sql_text (esc (rn_user r)),
      rs_name = sql_text (esc (rn_name r)), rs_memo = Some (stored_text (rn_memo r)),
      rs_schedule = None, rs_calendar = None, rs_boot = None,
      rs_exec_user = sql_text (esc (rn_exec_user r)), rs_running_id = None, rs_running_name = None,
      rs_pending = JA_SUMMARY_START_PENDING_NONE, rs_initial = rn_initial r\<rparr>"

text \<open>A jobnet that cannot be expanded is ended with an error (lines 2501--2554).\<close>

definition end_unloadable :: "run_jobnet \<Rightarrow> unit prog" where
  "end_unloadable r = do {
     _ \<leftarrow> DBbegin;
     now_time \<leftarrow> gets (\<lambda>w. clock w div 1000);
     rc \<leftarrow> DBexecute (Update_jobnet (Jobnet_is (rn_id r)) (jobnet_cols\<lparr>ns_status := Some JA_JOBNET_STATUS_ENDERR,
             ns_start := Some now_time, ns_end := Some now_time\<rparr>));
     if rc \<le> ZBX_DB_OK then do {
       _ \<leftarrow> DBrollback;
       _ \<leftarrow> load_error ''JALOADER200003'' (rn_id r) None [PS ''ja_run_jobnet_table'', msgwork [show_u64 (rn_id r)]];
       ret () }
     else do {
       rc \<leftarrow> DBexecute (Insert_summary (submitted_summary JA_JOBNET_STATUS_ENDERR 2
               JA_SUMMARY_LOAD_STATUS_ERROR now_time r));
       if rc \<le> ZBX_DB_OK then do {
         _ \<leftarrow> DBrollback;
         _ \<leftarrow> load_error ''JALOADER200002'' (rn_id r) None
           [PS ''ja_run_jobnet_summary_table'', msgwork [show_u64 (rn_id r), rn_jobnet_id r]];
         ret () }
       else DBcommit } }"

definition load_submitted :: "nat \<Rightarrow> run_jobnet \<Rightarrow> rc option prog" where
  "load_submitted rounds r = do {
     rc \<leftarrow> already_start_check_immediate (rn_id r);
     if rc = FAIL then ret (Some SUCCEED)
     else do {
       _ \<leftarrow> DBbegin;
       _ \<leftarrow> modify (\<lambda>w. w\<lparr>no_valid_flag := 0\<rparr>);
       rc \<leftarrow> load_job_definition (rn_id r) (rn_id r) (rn_jobnet_id r) (rn_update r)
               (test_flag_of (rn_run_type r)) (rn_run_type r);
       if rc = FAIL then rolled_back (ret (Some SUCCEED))
       else do {
         x \<leftarrow> load_sub_jobnet_definition rounds (rn_id r) (rn_run_type r) (rn_jobnet_id r) ''none'' (rn_exec_user r);
         case x of
           None \<Rightarrow> ret None
         | Some rc \<Rightarrow>
             if rc = FAIL then rolled_back (do {
               unloadable \<leftarrow> gets (\<lambda>w. no_valid_flag w \<noteq> 0);
               _ \<leftarrow> (if unloadable then end_unloadable r else ret ());
               ret (Some SUCCEED) })
             else do {
               rc \<leftarrow> DBexecute (Insert_summary (submitted_summary JA_JOBNET_STATUS_BEGIN 0
                       JA_SUMMARY_LOAD_STATUS_NORMAL 0 r));
               if rc \<le> ZBX_DB_OK then rolled_back (do {
                 _ \<leftarrow> load_error ''JALOADER200002'' (rn_id r) None
                   [PS ''ja_run_jobnet_summary_table'', msgwork [show_u64 (rn_id r), rn_jobnet_id r]];
                 ret (Some SUCCEED) })
               else do { _ \<leftarrow> DBcommit; ret (Some SUCCEED) } } } } }"

definition jobnet_load_immediate :: "nat \<Rightarrow> rc option prog" where
  "jobnet_load_immediate rounds = do {
     rows \<leftarrow> DBselect submitted_jobnets;
     each_returns (load_submitted rounds) rows }"

section \<open>The process\<close>

definition get_load_span :: "int prog" where
  "get_load_span = do {
     row \<leftarrow> DBselect_row (\<lambda>t. map snd (filter (\<lambda>p. fst p = ''JOBNET_LOAD_SPAN'') (params t)));
     case row of
       None \<Rightarrow> ret 60
     | Some v \<Rightarrow> (let n = (if length v \<le> 10 then atoi v else 60) in ret (if n < 1 then 60 else n)) }"

text \<open>
  One second of the endless loop: \<open>a\<close> and \<open>b\<close> are \<open>CONFIG_JALOADER_INTERVAL\<close> and
  \<open>CONFIG_JALAUNCH_INTERVAL\<close>; the counters come back, or \<open>None\<close> when a load does not end.
\<close>

definition jaloader_second ::
    "nat \<Rightarrow> int \<Rightarrow> int \<Rightarrow> int \<Rightarrow> int \<times> int \<Rightarrow> (int \<times> int) option prog" where
  "jaloader_second rounds load_span a b cnt = do {
     x \<leftarrow> (if fst cnt \<ge> a then jobnet_load_schedule rounds load_span else ret (Some SUCCEED));
     case x of
       None \<Rightarrow> ret None
     | Some _ \<Rightarrow> do {
         y \<leftarrow> (if snd cnt \<ge> b then jobnet_load_immediate rounds else ret (Some SUCCEED));
         case y of
           None \<Rightarrow> ret None
         | Some _ \<Rightarrow> ret (Some ((if fst cnt \<ge> a then 0 else fst cnt) + 1, (if snd cnt \<ge> b then 0 else snd cnt) + 1)) } }"

section \<open>What the loader keeps\<close>

context load_steps
begin

lemma steps_assert: "steps assert_fail"
  unfolding assert_fail_def by (rule steps_modify) (rule crash_step)

lemma steps_load_error: "steps (load_error m n j args)"
  unfolding load_error_def by (intro db_intros handlers.steps_ja_log)

lemmas load_intros = db_intros steps_load_error steps_assert handlers.steps_get_next_id

lemma steps_load_some: "steps (load_some l tab n i j k u)"
  unfolding load_some_def by (intro load_intros; simp add: load_sql_def)

lemma steps_load_any: "steps (load_any l tab n i j k u)"
  unfolding load_any_def by (intro load_intros; simp add: load_sql_def)

lemmas icon_defs = load_icon_end_def load_icon_if_def load_icon_value_def load_icon_job_def
  load_icon_jobnet_def load_icon_extjob_def load_icon_calc_def load_icon_task_def load_icon_info_def
  load_icon_fcopy_def load_icon_fwait_def load_icon_reboot_def load_icon_rel_def load_icon_less_def
  load_icon_link_def load_value_def

lemma steps_load_icon: "steps (load_icon ty run_type n i j k u)"
  unfolding load_icon_def icon_defs
  by (intro load_intros steps_load_some steps_load_any; simp add: load_sql_def)

lemma steps_load_one_job: "steps (load_one_job main n j tf run_type c)"
  unfolding load_one_job_def get_boot_count_def
  by (intro load_intros steps_load_icon; simp add: load_sql_def loaded_job_def)

lemma steps_load_one_flow: "steps (load_one_flow n j u f)"
  unfolding load_one_flow_def get_flow_inner_job_id_def by (intro load_intros; simp add: load_sql_def)

lemma steps_load_job_definition: "steps (load_job_definition main n j u tf run_type)"
  unfolding load_job_definition_def by (intro load_intros steps_load_one_job steps_load_one_flow)

lemma steps_expand_icon: "steps (expand_icon main run_type j s user r)"
  unfolding expand_icon_def
  by (intro load_intros steps_load_job_definition; simp add: load_sql_def sub_jobnet_def)

lemma steps_load_sub_jobnet: "steps (load_sub_jobnet_definition rounds main run_type j s user)"
  by (induction rounds) (auto intro!: load_intros steps_expand_icon)

lemma steps_seek_day: "steps (seek_day cal u sh w cnt hit d)"
proof (induction "nat (30 - cnt)" arbitrary: cnt hit d rule: less_induct)
  case less
  show ?case
    by (subst seek_day.simps) (intro load_intros less; simp)
qed

lemma steps_filter_month: "steps (filter_month fl u d months)"
  unfolding filter_month_def Let_def by (intro load_intros steps_seek_day)

lemma steps_each_returns: "(\<And>r. r \<in> set rs \<Longrightarrow> steps (f r)) \<Longrightarrow> steps (each_returns f rs)"
  by (induction rs) (auto intro!: load_intros)

lemma steps_no_valid: "steps (no_valid m c s)"
  unfolding no_valid_def by (intro load_intros)

end

context purge_steps
begin

lemmas load_intros = session_intros steps_no_valid_flag steps_assert_fail loader.steps_load_error
  steps_get_next_id loader.steps_load_job_definition loader.steps_load_sub_jobnet loader.steps_each_returns
  loader.steps_no_valid loader.steps_filter_month

lemma steps_rolled_back: "steps m \<Longrightarrow> steps (rolled_back m)"
  unfolding rolled_back_def by (intro load_intros)

lemma steps_load_jobnet: "steps (load_jobnet_definition rounds j t s c b)"
  unfolding load_jobnet_definition_def
  by (intro load_intros steps_rolled_back steps_purge; simp add: main_jobnet_def main_summary_def)

lemma steps_get_schedule_jobnet: "steps (get_schedule_jobnet rounds s u t c b)"
  unfolding get_schedule_jobnet_def by (intro load_intros steps_load_jobnet)

lemma steps_get_calendar_detail: "steps (get_calendar_detail rounds s u sd ed c b f)"
  unfolding get_calendar_detail_def load_if_due_def
  by (intro load_intros steps_get_schedule_jobnet)

lemma steps_get_schedule_detail: "steps (get_schedule_detail rounds s u sd ed)"
  unfolding get_schedule_detail_def by (intro load_intros steps_get_calendar_detail)

lemma steps_jobnet_load_schedule: "steps (jobnet_load_schedule rounds load_span)"
  unfolding jobnet_load_schedule_def load_one_schedule_def
  by (intro load_intros steps_rolled_back steps_purge steps_get_schedule_detail; simp)

lemma steps_jobnet_load_immediate: "steps (jobnet_load_immediate rounds)"
  unfolding jobnet_load_immediate_def load_submitted_def already_start_check_immediate_def end_unloadable_def
  by (intro load_intros steps_rolled_back steps_purge; simp add: submitted_summary_def)

lemma steps_jaloader_second: "steps (jaloader_second rounds load_span a b cnt)"
  unfolding jaloader_second_def by (intro load_intros steps_jobnet_load_schedule steps_jobnet_load_immediate)

end

end
