(* ===== verification/Loading.thy ===== *)
theory Loading
  imports Jaloader Logging
begin

text \<open>
  What a load that succeeds has done, on a quiet server: the copy it makes of a definition,
  the counts the flow between icons relies on, and when the expansion of jobnets in jobnets
  comes to an end.
\<close>

section \<open>Successful runs\<close>

text \<open>\<open>wp m Q w\<close>: what \<open>m\<close> returns from \<open>w\<close>, and where, satisfies \<open>Q\<close>.\<close>

definition wp :: "'a prog \<Rightarrow> ('a \<Rightarrow> world \<Rightarrow> bool) \<Rightarrow> world \<Rightarrow> bool" where
  "wp m Q w \<longleftrightarrow> Q (result m w) (exec m w)"

definition ok :: "rc prog \<Rightarrow> (world \<Rightarrow> bool) \<Rightarrow> world \<Rightarrow> bool" where
  "ok m Q w \<longleftrightarrow> (result m w = SUCCEED \<longrightarrow> Q (exec m w))"

lemma ok_ret [simp]: "ok (ret x) Q w \<longleftrightarrow> (x = SUCCEED \<longrightarrow> Q w)"
  by (simp add: ok_def exec_ret)

lemma load_error_fails: "result (load_error m n j args) w = FAIL"
  by (simp add: load_error_def result_bind exec_ret)

lemma ok_load_error [simp]: "ok (load_error m n j args) Q w"
  by (simp add: ok_def load_error_fails)

lemma ok_mono: "ok m P w \<Longrightarrow> (\<And>v. P v \<Longrightarrow> Q v) \<Longrightarrow> ok m Q w"
  by (simp add: ok_def)

lemma ok_or_fail: "ok m (ok k Q) w \<Longrightarrow> ok (or_fail m k) Q w"
  by (simp add: ok_def or_fail_def result_bind exec_bind exec_ret)

lemma select_parts:
  "calm w \<Longrightarrow> result (DBselect q) w = q (db w)" "calm w \<Longrightarrow> exec (DBselect q) w = w"
  "calm w \<Longrightarrow> result (DBselect_row f) w = (case f (db w) of [] \<Rightarrow> None | r # _ \<Rightarrow> Some r)"
  "calm w \<Longrightarrow> exec (DBselect_row f) w = w"
  by (simp_all add: result_def exec_def)

lemma ok_select: "calm w \<Longrightarrow> ok (f (q (db w))) Q w \<Longrightarrow> ok (State_Monad.bind (DBselect q) f) Q w"
  by (simp add: ok_def result_bind exec_bind select_parts)

lemma ok_select_row:
  "calm w \<Longrightarrow> ok (f (case q (db w) of [] \<Rightarrow> None | r # _ \<Rightarrow> Some r)) Q w \<Longrightarrow>
   ok (State_Monad.bind (DBselect_row q) f) Q w"
  by (simp add: ok_def result_bind exec_bind select_parts)

lemma execute_cases:
  assumes "calm w"
  shows "(\<exists>x q t. exec_sql s (seq_next w) (db w) = Some (x, q, t) \<and>
      result (DBexecute s) w = int x \<and> exec (DBexecute s) w = put_tables q t w) \<or>
    (exec_sql s (seq_next w) (db w) = None \<and> result (DBexecute s) w < 0)"
proof (cases "exec_sql s (seq_next w) (db w)")
  case None
  with assms show ?thesis
    by (simp add: DBexecute_violation ZBX_DB_FAIL_def)
next
  case (Some a)
  with assms show ?thesis
    by (cases a) (auto simp: DBexecute_calm result_def exec_def)
qed

lemma ok_execute:
  assumes "calm w"
    and "\<And>x q t. exec_sql s (seq_next w) (db w) = Some (x, q, t) \<Longrightarrow> 0 < x \<Longrightarrow> ok k Q (put_tables q t w)"
    and "\<And>v. result bad v = FAIL"
  shows "ok (do { rc \<leftarrow> DBexecute s; if rc \<le> ZBX_DB_OK then bad else k }) Q w"
  using execute_cases [OF assms(1), of s] assms(2,3)
  by (auto simp: ok_def result_bind exec_bind)

lemma ok_execute_any:
  assumes "calm w"
    and "\<And>x q t. exec_sql s (seq_next w) (db w) = Some (x, q, t) \<Longrightarrow> ok k Q (put_tables q t w)"
    and "\<And>v. result bad v = FAIL"
  shows "ok (do { rc \<leftarrow> DBexecute s; if rc < ZBX_DB_OK then bad else k }) Q w"
  using execute_cases [OF assms(1), of s] assms(2,3)
  by (auto simp: ok_def result_bind exec_bind)

text \<open>A number that is not 0 has been taken from its counter; nothing else has changed.\<close>

definition with_ids :: "(int \<times> uint64) list \<Rightarrow> world \<Rightarrow> world" where
  "with_ids ks w = put_tables (seq_next w) ((db w)\<lparr>next_ids := ks\<rparr>) w"

lemma get_next_id_taken:
  assumes "calm w" "result (get_next_id c n j i) w \<noteq> 0"
  shows "\<exists>ks. exec (get_next_id c n j i) w = with_ids ks w"
proof -
  obtain m where m: "(case select_nextid c (db w) of [] \<Rightarrow> None | r # _ \<Rightarrow> Some r) = Some m"
    using assms
    by (cases "select_nextid c (db w)") (auto simp: get_next_id_def result_bind exec_bind exec_ret select_parts)
  let ?x = "if m > id_limit c then id_restart c else m"
  let ?s = "if m > id_limit c then Set_next_id c ?x else Inc_next_id c"
  let ?k = "\<lambda>rc. if rc \<le> ZBX_DB_OK then do {
      _ \<leftarrow> ja_log ''JAINDEX200002'' n j i [PS ''ja_index_table'', PS (show_int c)]; ret 0 } else ret ?x"
  have eq: "get_next_id c n j i = do { row \<leftarrow> DBselect_row (select_nextid c); case row of
       None \<Rightarrow> do { _ \<leftarrow> ja_log ''JAINDEX200001'' n j i [PS ''ja_index_table'', PS (show_int c)]; ret 0 }
     | Some m \<Rightarrow> do { rc \<leftarrow> DBexecute (if m > id_limit c then Set_next_id c (if m > id_limit c then id_restart c else m)
         else Inc_next_id c); if rc \<le> ZBX_DB_OK then do {
      _ \<leftarrow> ja_log ''JAINDEX200002'' n j i [PS ''ja_index_table'', PS (show_int c)]; ret 0 }
      else ret (if m > id_limit c then id_restart c else m) } }"
    unfolding get_next_id_def Let_def ..
  have "result (get_next_id c n j i) w = result (?k (result (DBexecute ?s) w)) (exec (DBexecute ?s) w)"
    and e: "exec (get_next_id c n j i) w = exec (?k (result (DBexecute ?s) w)) (exec (DBexecute ?s) w)"
    unfolding eq by (simp_all only: result_bind exec_bind select_parts [OF assms(1)] m option.case)
  with assms(2) have pos: "\<not> result (DBexecute ?s) w \<le> ZBX_DB_OK"
    by (simp add: result_bind exec_ret split: if_splits)
  then have ex: "exec (get_next_id c n j i) w = exec (DBexecute ?s) w"
    by (simp add: e exec_ret)
  from execute_cases [OF assms(1), of ?s] pos obtain x q t where
      "exec_sql ?s (seq_next w) (db w) = Some (x, q, t)" "exec (DBexecute ?s) w = put_tables q t w"
    by force
  then show ?thesis
    unfolding ex with_ids_def by (cases "m > id_limit c") auto
qed

lemma ok_next_id:
  assumes "calm w" "\<And>x ks. x \<noteq> 0 \<Longrightarrow> ok (f x) Q (with_ids ks w)" "f 0 = ret FAIL"
  shows "ok (State_Monad.bind (get_next_id c n j i) f) Q w"
  using get_next_id_taken [OF assms(1), of c n j i] assms(2,3)
  by (cases "result (get_next_id c n j i) w = 0") (auto simp: ok_def result_bind exec_bind exec_ret)

lemma with_ids_simps [simp]:
  "calm (with_ids ks w) = calm w" "db (with_ids ks w) = (db w)\<lparr>next_ids := ks\<rparr>"
  "seq_next (with_ids ks w) = seq_next w"
  by (simp_all add: with_ids_def)

section \<open>What loading an icon adds\<close>

text \<open>
  A job without its method flag, which loading the settings may change; the links a jobnet
  icon's definition gives; and what stays.
\<close>

definition job_core :: "run_job \<Rightarrow> run_job" where
  "job_core r = r\<lparr>rj_method := 0\<rparr>"

definition links_of :: "string \<Rightarrow> string \<Rightarrow> int \<Rightarrow> tables \<Rightarrow> string list" where
  "links_of j k u t = [x. Jobnet_cols x \<leftarrow> design_of j k u t]"

lemma design_of_ids [simp]: "design_of j k u (t\<lparr>next_ids := ks\<rparr>) = design_of j k u t"
  by (simp add: design_of_def)

definition kept_rows :: "tables \<Rightarrow> tables \<Rightarrow> bool" where
  "kept_rows t t' \<longleftrightarrow> jobnets t' = jobnets t \<and> flows t' = flows t \<and> controls t' = controls t \<and>
     designs t' = designs t \<and> summaries t' = summaries t"

definition link_rows :: "int \<Rightarrow> uint64 \<Rightarrow> uint64 \<Rightarrow> uint64 \<Rightarrow> string list \<Rightarrow> icon_jobnet list" where
  "link_rows ty i n l xs = (if ty = JA_JOB_TYPE_JOBNET then
     map (\<lambda>x. \<lparr>in_job = i, in_jobnet = n, in_link = l, in_jobnet_id = x\<rparr>) xs else [])"

definition settings_added :: "int \<Rightarrow> uint64 \<Rightarrow> uint64 \<Rightarrow> string list \<Rightarrow> tables \<Rightarrow> tables \<Rightarrow> bool" where
  "settings_added ty i n xs t t' \<longleftrightarrow> kept_rows t t' \<and> map job_core (jobs t') = map job_core (jobs t) \<and>
     (ty = JA_JOB_TYPE_JOBNET \<longrightarrow> (\<exists>x. xs = [x]) \<and> i \<notin> in_job ` set (icon_jobnets (icons t))) \<and>
     (\<exists>l. icon_jobnets (icons t') = icon_jobnets (icons t) @ link_rows ty i n l xs)"

lemma kept_rows_refl [simp]: "kept_rows t t"
  by (simp add: kept_rows_def)

lemma kept_rows_trans: "kept_rows t u \<Longrightarrow> kept_rows u v \<Longrightarrow> kept_rows t v"
  by (simp add: kept_rows_def)

lemma job_core_simps [simp]:
  "rj_id (job_core r) = rj_id r" "rj_jobnet (job_core r) = rj_jobnet r" "rj_main (job_core r) = rj_main r"
  "rj_type (job_core r) = rj_type r" "rj_invo (job_core r) = rj_invo r" "rj_job_id (job_core r) = rj_job_id r"
  "rj_boot_count (job_core r) = rj_boot_count r" "job_core (job_core r) = job_core r"
  "rj_status (job_core r) = rj_status r" "rj_end_count (job_core r) = rj_end_count r"
  by (simp_all add: job_core_def)

lemma job_core_method: "job_core (set_job (job_cols\<lparr>js_method := m\<rparr>) r) = job_core r"
  by (simp add: set_job_def job_core_def job_cols_def)

lemma put_rows_Some:
  "put_rows key new old put = Some (m, x) \<longleftrightarrow>
     distinct (map key new) \<and> list_all (\<lambda>r. key r \<notin> key ` set old) new \<and> m = length new \<and> x = put (old @ new)"
  by (auto simp: put_rows_def)

text \<open>Copying settings touches no other table.\<close>

lemma exec_load_links:
  "exec_load l i n cs ic = Some (m, ic') \<Longrightarrow> (\<And>k. l \<noteq> Load_jobnet k) \<Longrightarrow> icon_jobnets ic' = icon_jobnets ic"
  by (cases l) (auto simp: put_rows_Some)

lemma exec_load_jobnet:
  assumes "exec_load (Load_jobnet l) i n (design_of j k u t) ic = Some (m, ic')" "0 < m"
  shows "(\<exists>x. links_of j k u t = [x]) \<and> i \<notin> in_job ` set (icon_jobnets ic) \<and>
    icon_jobnets ic' = icon_jobnets ic @ link_rows JA_JOB_TYPE_JOBNET i n l (links_of j k u t)"
proof -
  let ?rows = "[\<lparr>in_job = i, in_jobnet = n, in_link = l, in_jobnet_id = x\<rparr>. Jobnet_cols x \<leftarrow> design_of j k u t]"
  have rows: "?rows = map (\<lambda>x. \<lparr>in_job = i, in_jobnet = n, in_link = l, in_jobnet_id = x\<rparr>) (links_of j k u t)"
    by (simp add: links_of_def map_concat o_def) (rule arg_cong [of _ _ concat], auto split: icon_cols.splits)
  have one: "\<exists>x. xs = [x]" if "distinct (map (\<lambda>x. i) xs)" "xs \<noteq> []" for xs :: "string list"
    using that by (cases xs; cases "tl xs") auto
  from assms rows show ?thesis
    using one [of "links_of j k u t"]
    by (auto simp: put_rows_Some o_def link_rows_def list_all_iff)
qed

text \<open>Settings other than the link of a jobnet icon.\<close>

definition plain_load :: "world \<Rightarrow> world \<Rightarrow> bool" where
  "plain_load w v \<longleftrightarrow> calm v \<and> kept_rows (db w) (db v) \<and> map job_core (jobs (db v)) = map job_core (jobs (db w)) \<and>
     icon_jobnets (icons (db v)) = icon_jobnets (icons (db w))"

lemma plain_load_trans: "plain_load u v \<Longrightarrow> plain_load v w \<Longrightarrow> plain_load u w"
  by (auto simp: plain_load_def intro: kept_rows_trans)

lemma plain_load_refl: "calm w \<Longrightarrow> plain_load w w"
  by (simp add: plain_load_def)

lemma ok_chain:
  assumes "ok m (plain_load w) w" "\<And>v. plain_load w v \<Longrightarrow> ok k (plain_load v) v"
  shows "ok (or_fail m k) (plain_load w) w"
  by (rule ok_or_fail, rule ok_mono [OF assms(1)], rule ok_mono [OF assms(2)])
    (auto intro: plain_load_trans)

lemma ok_load_some:
  assumes "calm w" "\<And>k. l \<noteq> Load_jobnet k"
  shows "ok (load_some l tab n i j k u) (plain_load w) w"
  unfolding load_some_def
  by (rule ok_execute [OF assms(1)])
    (use assms exec_load_links [OF _ assms(2)] in
      \<open>auto simp: plain_load_def kept_rows_def load_error_fails split: option.splits if_splits prod.splits\<close>)

lemma ok_load_any:
  assumes "calm w" "\<And>k. l \<noteq> Load_jobnet k"
  shows "ok (load_any l tab n i j k u) (plain_load w) w"
  unfolding load_any_def
  by (rule ok_execute_any [OF assms(1)])
    (use assms exec_load_links [OF _ assms(2)] in
      \<open>auto simp: plain_load_def kept_rows_def load_error_fails split: option.splits if_splits prod.splits\<close>)

lemma ok_set_method:
  assumes "calm w" "\<And>v. result bad v = FAIL"
  shows "ok (do { rc \<leftarrow> DBexecute (Update_job (Job_is i) (job_cols\<lparr>js_method := m\<rparr>));
    if rc \<le> ZBX_DB_OK then bad else ret SUCCEED }) (plain_load w) w"
proof (rule ok_execute [OF assms(1) _ assms(2)])
  fix x q t
  assume "exec_sql (Update_job (Job_is i) (job_cols\<lparr>js_method := m\<rparr>)) (seq_next w) (db w) = Some (x, q, t)"
  then have t: "t = (db w)\<lparr>jobs := upd_where (job_matches (Job_is i)) (set_job (job_cols\<lparr>js_method := m\<rparr>)) (jobs (db w))\<rparr>"
    by auto
  have "map job_core (upd_where p (set_job (job_cols\<lparr>js_method := m\<rparr>)) rs) = map job_core rs" for p rs
    by (rule map_upd_where) (rule job_core_method)
  then show "ok (ret SUCCEED) (plain_load w) (put_tables q t w)"
    using assms(1) by (simp add: t plain_load_def kept_rows_def)
qed

lemma plain_with_ids: "plain_load (with_ids ks w) v \<Longrightarrow> plain_load w v"
  by (simp add: plain_load_def kept_rows_def)

lemma ok_load_icon_end:
  assumes "calm w"
  shows "ok (load_icon_end n i j k u) (plain_load w) w"
  unfolding load_icon_end_def
proof (rule ok_chain [OF ok_load_some [OF assms]])
  fix v
  assume "plain_load w v"
  then have v: "calm v"
    by (simp add: plain_load_def)
  show "ok (do {
       row \<leftarrow> DBselect_row (\<lambda>t. [s. End_cols s c \<leftarrow> design_of j k u t]);
       case row of
         None \<Rightarrow> load_error ''JALOADER200001'' 0 (Some j)
           [PS ''ja_icon_end_table'', msgwork [j, k, show_int u]]
       | Some jobnet_stop_flag \<Rightarrow>
           if jobnet_stop_flag = 1 then do {
             rc \<leftarrow> DBexecute (Update_job (Job_is i) (job_cols\<lparr>js_method := Some JA_JOB_METHOD_WAIT\<rparr>));
             if rc \<le> ZBX_DB_OK then load_error ''JALOADER200002'' 0 (Some j)
               [PS ''ja_run_job_table'', msgwork [show_int jobnet_stop_flag, show_u64 i]]
             else ret SUCCEED
           } else ret SUCCEED }) (plain_load v) v"
    by (rule ok_select_row [OF v])
      (use v in \<open>auto split: option.splits intro!: ok_set_method load_error_fails plain_load_refl\<close>)
qed simp

lemma ok_load_icon_job: "calm w \<Longrightarrow> ok (load_icon_job n i j k u) (plain_load w) w"
  unfolding load_icon_job_def load_value_def
  by (intro ok_chain ok_load_some ok_load_any) (auto simp: plain_load_def)

lemma ok_load_icon_less: "calm w \<Longrightarrow> ok (load_icon_less n i j k u) (plain_load w) w"
  unfolding load_icon_less_def
  by (rule ok_select_row)
    (auto split: option.splits prod.splits
      intro!: ok_next_id ok_load_some ok_mono [OF ok_load_some] dest: plain_with_ids,
     simp add: ok_def result_bind exec_ret)

definition adds :: "int \<Rightarrow> uint64 \<Rightarrow> uint64 \<Rightarrow> string list \<Rightarrow> world \<Rightarrow> world \<Rightarrow> bool" where
  "adds ty i n xs w v \<longleftrightarrow> calm v \<and> settings_added ty i n xs (db w) (db v)"

lemma plain_adds: "plain_load w v \<Longrightarrow> ty \<noteq> JA_JOB_TYPE_JOBNET \<Longrightarrow> adds ty i n xs w v"
  by (auto simp: plain_load_def adds_def settings_added_def link_rows_def)

lemma ok_load_icon_jobnet:
  assumes "calm w"
  shows "ok (load_icon_jobnet n i j k u) (adds JA_JOB_TYPE_JOBNET i n (links_of j k u (db w)) w) w"
  unfolding load_icon_jobnet_def
proof (rule ok_next_id [OF assms])
  fix l :: uint64 and ks
  assume l: "l \<noteq> 0"
  let ?v = "with_ids ks w"
  have "ok (load_some (Load_jobnet l) ''ja_run_icon_jobnet_table'' n i j k u)
      (adds JA_JOB_TYPE_JOBNET i n (links_of j k u (db w)) w) ?v"
    unfolding load_some_def
  proof (rule ok_execute)
    fix x q t
    assume "exec_sql (Load_icon (Load_jobnet l) i n j k u) (seq_next ?v) (db ?v) = Some (x, q, t)" "0 < x"
    then obtain ic where ic: "exec_load (Load_jobnet l) i n (design_of j k u (db w)) (icons (db w)) = Some (x, ic)"
      and t: "t = (db ?v)\<lparr>icons := ic\<rparr>"
      by (auto simp del: exec_load.simps split: option.splits prod.splits if_splits)
    show "ok (ret SUCCEED) (adds JA_JOB_TYPE_JOBNET i n (links_of j k u (db w)) w) (put_tables q t ?v)"
      using exec_load_jobnet [OF ic \<open>0 < x\<close>] assms
      by (auto simp: adds_def settings_added_def kept_rows_def t)
  qed (use assms in \<open>simp_all add: load_error_fails\<close>)
  with l show "ok (if l = 0 then ret FAIL
      else load_some (Load_jobnet l) ''ja_run_icon_jobnet_table'' n i j k u)
      (adds JA_JOB_TYPE_JOBNET i n (links_of j k u (db w)) w) ?v"
    by simp
qed simp

lemma ok_load_icon:
  assumes "calm w"
  shows "ok (load_icon ty rt n i j k u) (adds ty i n (links_of j k u (db w)) w) w"
proof (cases "ty = JA_JOB_TYPE_JOBNET")
  case True
  then show ?thesis
    using ok_load_icon_jobnet [OF assms] by (simp add: load_icon_def)
next
  case False
  have "ok (load_icon ty rt n i j k u) (plain_load w) w"
    unfolding load_icon_def load_icon_if_def load_icon_value_def load_icon_extjob_def load_icon_calc_def
      load_icon_task_def load_icon_info_def load_icon_fcopy_def load_icon_fwait_def load_icon_reboot_def
      load_icon_rel_def load_icon_link_def
    using assms False
    by (auto intro!: ok_load_some ok_set_method ok_load_icon_end ok_load_icon_job ok_load_icon_less
        load_error_fails plain_load_refl)
  then show ?thesis
    by (rule ok_mono) (rule plain_adds [OF _ False])
qed

section \<open>What loading a jobnet adds\<close>

text \<open>The copy of one icon: its job and its links, up to the numbers drawn and the method flag.\<close>

definition copy_of ::
    "uint64 \<Rightarrow> uint64 \<Rightarrow> int \<Rightarrow> tables \<Rightarrow> job_control \<Rightarrow> run_job \<times> icon_jobnet list \<Rightarrow> bool" where
  "copy_of main n tf t c x \<longleftrightarrow>
     (\<exists>i fs l. fst x = job_core (loaded_job main n tf i fs (int (flow_count (jc_jobnet c) (jc_job c) (jc_update c) t)) c) \<and>
       snd x = link_rows (jc_type c) i n l (links_of (jc_jobnet c) (jc_job c) (jc_update c) t) \<and>
       (jc_type c = JA_JOB_TYPE_JOBNET \<longrightarrow> (\<exists>y. links_of (jc_jobnet c) (jc_job c) (jc_update c) t = [y])))"

definition keyed :: "tables \<Rightarrow> bool" where
  "keyed t \<longleftrightarrow> distinct (map rj_id (jobs t)) \<and> distinct (map in_job (icon_jobnets (icons t)))"

definition jobs_copied ::
    "uint64 \<Rightarrow> uint64 \<Rightarrow> int \<Rightarrow> job_control list \<Rightarrow> (run_job \<times> icon_jobnet list) list \<Rightarrow> tables \<Rightarrow> tables \<Rightarrow> bool" where
  "jobs_copied main n tf cs xs t t' \<longleftrightarrow> kept_rows t t' \<and> list_all2 (copy_of main n tf t) cs xs \<and>
     map job_core (jobs t') = map job_core (jobs t) @ map fst xs \<and>
     icon_jobnets (icons t') = icon_jobnets (icons t) @ concat (map snd xs) \<and> (keyed t \<longrightarrow> keyed t')"

lemma ok_load_one_job:
  assumes "calm w"
  shows "ok (load_one_job main n j tf rt c) (\<lambda>v. calm v \<and> (\<exists>x. jobs_copied main n tf [c] [x] (db w) (db v))) w"
proof -
  let ?count = "int (flow_count (jc_jobnet c) (jc_job c) (jc_update c) (db w))"
  let ?links = "links_of (jc_jobnet c) (jc_job c) (jc_update c) (db w)"
  let ?Q = "\<lambda>v. calm v \<and> (\<exists>x. jobs_copied main n tf [c] [x] (db w) (db v))"
  let ?bad = "load_error ''JALOADER200002'' 0 (Some j)
             [PS ''ja_run_job_table'', msgwork [jc_jobnet c, jc_job c, show_int (jc_update c)]]"
  let ?ins = "\<lambda>i fs b. do { rc \<leftarrow> DBexecute (Insert_job (loaded_job main n tf i fs b c));
      if rc \<le> ZBX_DB_OK then ?bad else load_icon (jc_type c) rt n i (jc_jobnet c) (jc_job c) (jc_update c) }"
  have ins: "ok (?ins i fs ?count) ?Q (with_ids ks w)" for i fs ks
  proof (rule ok_execute)
    let ?r = "loaded_job main n tf i fs ?count c"
    fix x q t
    assume "exec_sql (Insert_job ?r) (seq_next (with_ids ks w)) (db (with_ids ks w)) = Some (x, q, t)"
    then have t: "t = (db w)\<lparr>next_ids := ks, jobs := jobs (db w) @ [?r]\<rparr>" and new: "job_of i (db w) = None"
      by (auto simp: job_of_def loaded_job_def split: if_splits)
    have links: "links_of (jc_jobnet c) (jc_job c) (jc_update c) t = ?links"
      by (simp add: t links_of_def design_of_def)
    have "calm (put_tables q t (with_ids ks w))"
      using assms by simp
    from ok_load_icon [OF this, of "jc_type c" rt n i "jc_jobnet c" "jc_job c" "jc_update c"]
    show "ok (load_icon (jc_type c) rt n i (jc_jobnet c) (jc_job c) (jc_update c)) ?Q (put_tables q t (with_ids ks w))"
    proof (rule ok_mono)
      fix v
      assume "adds (jc_type c) i n (links_of (jc_jobnet c) (jc_job c) (jc_update c) (db (put_tables q t (with_ids ks w))))
        (put_tables q t (with_ids ks w)) v"
      then have v: "calm v" "settings_added (jc_type c) i n ?links t (db v)"
        by (simp_all add: adds_def links)
      from v(2) obtain l where l: "icon_jobnets (icons (db v)) = icon_jobnets (icons (db w)) @ link_rows (jc_type c) i n l ?links"
        and fresh: "jc_type c = JA_JOB_TYPE_JOBNET \<Longrightarrow> (\<exists>x. ?links = [x]) \<and> i \<notin> in_job ` set (icon_jobnets (icons (db w)))"
        and core: "map job_core (jobs (db v)) = map job_core (jobs (db w)) @ [job_core ?r]"
        and same: "kept_rows (db w) (db v)"
        by (auto simp: settings_added_def t kept_rows_def)
      have "map rj_id (jobs (db v)) = map rj_id (map job_core (jobs (db v)))"
        by simp
      also have "\<dots> = map rj_id (jobs (db w)) @ [i]"
        unfolding core by (simp add: loaded_job_def)
      finally have "keyed (db w) \<longrightarrow> keyed (db v)"
        using new l fresh by (auto simp: keyed_def job_of_def row_of_None_iff link_rows_def)
      then have "jobs_copied main n tf [c] [(job_core ?r, link_rows (jc_type c) i n l ?links)] (db w) (db v)"
        unfolding jobs_copied_def copy_of_def using core l same fresh by auto
      with v(1) show "?Q v"
        by blast
    qed
  qed (use assms in \<open>simp_all add: load_error_fails\<close>)
  have boot: "get_boot_count (jc_jobnet c) (jc_job c) (jc_update c) = do {
      row \<leftarrow> DBselect_row (\<lambda>t. [flow_count (jc_jobnet c) (jc_job c) (jc_update c) t]);
      case row of None \<Rightarrow> do { _ \<leftarrow> load_error ''JALOADER200001'' 0 (Some (jc_jobnet c))
          [PS ''ja_flow_control_table'', msgwork [jc_jobnet c, jc_job c, show_int (jc_update c)]]; ret (- 1) }
      | Some count \<Rightarrow> ret (int count) }"
    by (simp add: get_boot_count_def)
  let ?rest = "\<lambda>i fs. do { b \<leftarrow> get_boot_count (jc_jobnet c) (jc_job c) (jc_update c);
      if b = - 1 then ret FAIL else ?ins i fs b }"
  have rest: "ok (?rest i fs) ?Q (with_ids ks w)" for i fs ks
  proof -
    have "result (get_boot_count (jc_jobnet c) (jc_job c) (jc_update c)) (with_ids ks w) = ?count"
      "exec (get_boot_count (jc_jobnet c) (jc_job c) (jc_update c)) (with_ids ks w) = with_ids ks w"
      using assms by (simp_all add: boot result_bind exec_bind exec_ret select_parts flow_count_def)
    then show ?thesis
      using ins [of i fs ks] by (simp add: ok_def result_bind exec_bind)
  qed
  show ?thesis
    unfolding load_one_job_def
  proof (rule ok_next_id [OF assms])
    fix i :: uint64 and ks
    assume i: "i \<noteq> 0"
    show "ok (if i = 0 then ret FAIL else do {
       fs_link \<leftarrow> (if jc_type c = JA_JOB_TYPE_JOB then get_next_id JA_RUN_ID_JOB 0 (Some j) 0 else ret 0);
       if jc_type c = JA_JOB_TYPE_JOB \<and> fs_link = 0 then ret FAIL else ?rest i fs_link }) ?Q (with_ids ks w)"
    proof (cases "jc_type c = JA_JOB_TYPE_JOB")
      case True
      have twice: "with_ids ks' (with_ids ks w) = with_ids ks' w" for ks'
        by (simp add: with_ids_def put_tables_def)
      show ?thesis
        using True i assms rest twice by (auto intro!: ok_next_id)
    next
      case False
      then show ?thesis
        using i rest [of i 0 ks] by (simp add: ok_def result_bind exec_bind exec_ret)
    qed
  qed simp
qed

lemma copy_of_designs: "designs t' = designs t \<Longrightarrow> copy_of main n tf t' = copy_of main n tf t"
  by (simp add: copy_of_def flow_count_def links_of_def design_of_def fun_eq_iff)

lemma jobs_copied_append:
  assumes "jobs_copied main n tf cs xs t u" "jobs_copied main n tf ds ys u v"
  shows "jobs_copied main n tf (cs @ ds) (xs @ ys) t v"
proof -
  have "designs u = designs t"
    using assms(1) by (simp add: jobs_copied_def kept_rows_def)
  from copy_of_designs [OF this] show ?thesis
    using assms by (auto simp: jobs_copied_def intro: kept_rows_trans list_all2_appendI)
qed

lemma ok_each_row:
  assumes "I [] w" "\<And>as a bs v. rs = as @ a # bs \<Longrightarrow> I as v \<Longrightarrow> ok (f a) (I (as @ [a])) v"
  shows "ok (each_row f rs) (I rs) w"
proof -
  have "ok (each_row f bs) (I rs) v" if "rs = as @ bs" "I as v" for as bs v
    using that
  proof (induction bs arbitrary: as v)
    case (Cons b bs)
    show ?case
      unfolding each_row.simps
    proof (rule ok_or_fail, rule ok_mono)
      show "ok (f b) (I (as @ [b])) v"
        using assms(2) [OF Cons.prems] .
      show "ok (each_row f bs) (I rs) u" if "I (as @ [b]) u" for u
        by (rule Cons.IH [of "as @ [b]"]) (use Cons.prems that in simp_all)
    qed
  qed simp
  from this [of "[]" rs w] assms(1) show ?thesis
    by simp
qed

lemma ok_load_jobs:
  assumes "calm w"
  shows "ok (each_row (load_one_job main n j tf rt) cs)
    (\<lambda>v. calm v \<and> (\<exists>xs. jobs_copied main n tf cs xs (db w) (db v))) w"
proof (rule ok_each_row)
  show "calm w \<and> (\<exists>xs. jobs_copied main n tf [] xs (db w) (db w))"
    using assms by (simp add: jobs_copied_def)
  fix as a bs v
  assume v: "calm v \<and> (\<exists>xs. jobs_copied main n tf as xs (db w) (db v))"
  then have "ok (load_one_job main n j tf rt a) (\<lambda>u. calm u \<and> (\<exists>x. jobs_copied main n tf [a] [x] (db v) (db u))) v"
    by (intro ok_load_one_job) simp
  then show "ok (load_one_job main n j tf rt a) (\<lambda>u. calm u \<and> (\<exists>xs. jobs_copied main n tf (as @ [a]) xs (db w) (db u))) v"
    by (rule ok_mono) (use v jobs_copied_append in blast)
qed

text \<open>The copy of the flows: their ends are the icons of these names in the new run.\<close>

definition named :: "uint64 \<Rightarrow> tables \<Rightarrow> string \<Rightarrow> uint64 option" where
  "named n t name = (case select_named n name t of [] \<Rightarrow> None | r # _ \<Rightarrow> Some (rj_id r))"

definition flow_copy :: "uint64 \<Rightarrow> tables \<Rightarrow> flow_control \<Rightarrow> run_flow \<Rightarrow> bool" where
  "flow_copy n t f g \<longleftrightarrow> rf_jobnet g = n \<and> rf_type g = fc_type f \<and> rf_width g = fc_width f \<and>
     named n t (fc_start f) = Some (rf_from g) \<and> named n t (fc_end f) = Some (rf_to g)"

definition flows_copied :: "uint64 \<Rightarrow> flow_control list \<Rightarrow> run_flow list \<Rightarrow> tables \<Rightarrow> tables \<Rightarrow> bool" where
  "flows_copied n fs gs t t' \<longleftrightarrow> list_all2 (flow_copy n t) fs gs \<and> flows t' = flows t @ gs \<and>
     jobs t' = jobs t \<and> jobnets t' = jobnets t \<and> controls t' = controls t \<and> designs t' = designs t \<and>
     summaries t' = summaries t \<and> icons t' = icons t"

lemma ok_load_one_flow:
  assumes "calm w"
  shows "ok (load_one_flow n j u f) (\<lambda>v. calm v \<and> (\<exists>g. flows_copied n [f] [g] (db w) (db v))) w"
proof -
  let ?Q = "\<lambda>v. calm v \<and> (\<exists>g. flows_copied n [f] [g] (db w) (db v))"
  have look: "ok (State_Monad.bind (get_flow_inner_job_id n name) (\<lambda>a. if a = - 1 then ret FAIL else k a)) ?Q (with_ids ks w)"
    if "\<And>a. named n (db w) name = Some a \<Longrightarrow> ok (k a) ?Q (with_ids ks w)" for name k ks
  proof (cases "select_named n name (db w)")
    case Nil
    then show ?thesis
      using assms by (simp add: ok_def get_flow_inner_job_id_def result_bind exec_bind exec_ret select_parts select_named_def)
  next
    case (Cons r rs)
    then have "select_named n name (db (with_ids ks w)) = r # rs"
      by (simp add: select_named_def)
    then have "result (get_flow_inner_job_id n name) (with_ids ks w) = rj_id r"
      "exec (get_flow_inner_job_id n name) (with_ids ks w) = with_ids ks w"
      using assms by (simp_all add: get_flow_inner_job_id_def result_bind exec_bind exec_ret select_parts)
    moreover have "named n (db w) name = Some (rj_id r)"
      by (simp add: named_def Cons)
    ultimately show ?thesis
      using that [of "rj_id r"] by (simp add: ok_def result_bind exec_bind exec_ret)
  qed
  show ?thesis
    unfolding load_one_flow_def
  proof (rule ok_next_id [OF assms])
    fix i :: uint64 and ks
    assume i: "i \<noteq> 0"
    let ?bad = "load_error ''JALOADER200002'' 0 (Some j)
             [PS ''ja_run_flow_table'', msgwork [j, show_int u, fc_start f, fc_end f]]"
    let ?g = "\<lambda>a b. \<lparr>rf_id = i, rf_jobnet = n, rf_from = a, rf_to = b, rf_type = fc_type f, rf_width = fc_width f\<rparr>"
    have "ok (do { rc \<leftarrow> DBexecute (Insert_flow (?g a b)); if rc \<le> ZBX_DB_OK then ?bad else ret SUCCEED }) ?Q (with_ids ks w)"
      if ab: "named n (db w) (fc_start f) = Some a" "named n (db w) (fc_end f) = Some b" for a b
    proof (rule ok_execute)
      fix x q t
      assume "exec_sql (Insert_flow (?g a b)) (seq_next (with_ids ks w)) (db (with_ids ks w)) = Some (x, q, t)"
      then have "t = (db w)\<lparr>next_ids := ks, flows := flows (db w) @ [?g a b]\<rparr>"
        by (auto split: if_splits)
      then show "ok (ret SUCCEED) ?Q (put_tables q t (with_ids ks w))"
        using assms ab by (auto simp: flows_copied_def flow_copy_def intro!: exI [of _ "?g a b"])
    qed (use assms in \<open>simp_all add: load_error_fails\<close>)
    then show "ok (if i = 0 then ret FAIL else do {
       start_inner_job_id \<leftarrow> get_flow_inner_job_id n (fc_start f);
       if start_inner_job_id = - 1 then ret FAIL
       else do {
         end_inner_job_id \<leftarrow> get_flow_inner_job_id n (fc_end f);
         if end_inner_job_id = - 1 then ret FAIL
         else do {
           rc \<leftarrow> DBexecute (Insert_flow \<lparr>rf_id = i, rf_jobnet = n, rf_from = start_inner_job_id,
                   rf_to = end_inner_job_id, rf_type = fc_type f, rf_width = fc_width f\<rparr>);
           if rc \<le> ZBX_DB_OK then ?bad else ret SUCCEED } } }) ?Q (with_ids ks w)"
      using i look by simp
  qed simp
qed

lemma named_jobs: "jobs t' = jobs t \<Longrightarrow> named n t' = named n t"
  by (simp add: named_def select_named_def fun_eq_iff)

lemma flows_copied_append:
  assumes "flows_copied n fs gs t u" "flows_copied n fs' gs' u v"
  shows "flows_copied n (fs @ fs') (gs @ gs') t v"
proof -
  have "flow_copy n u = flow_copy n t"
    using assms(1) named_jobs [of u t n] by (simp add: flows_copied_def flow_copy_def fun_eq_iff)
  then show ?thesis
    using assms by (simp add: flows_copied_def list_all2_appendI)
qed

lemma ok_load_flows:
  assumes "calm w"
  shows "ok (each_row (load_one_flow n j u) fs) (\<lambda>v. calm v \<and> (\<exists>gs. flows_copied n fs gs (db w) (db v))) w"
proof (rule ok_each_row)
  show "calm w \<and> (\<exists>gs. flows_copied n [] gs (db w) (db w))"
    using assms by (simp add: flows_copied_def)
  fix as a bs v
  assume v: "calm v \<and> (\<exists>gs. flows_copied n as gs (db w) (db v))"
  then have "ok (load_one_flow n j u a) (\<lambda>x. calm x \<and> (\<exists>g. flows_copied n [a] [g] (db v) (db x))) v"
    by (intro ok_load_one_flow) simp
  then show "ok (load_one_flow n j u a) (\<lambda>x. calm x \<and> (\<exists>gs. flows_copied n (as @ [a]) gs (db w) (db x))) v"
    by (rule ok_mono) (use v flows_copied_append in blast)
qed

text \<open>The whole definition.\<close>

definition copied :: "uint64 \<Rightarrow> uint64 \<Rightarrow> string \<Rightarrow> int \<Rightarrow> int \<Rightarrow> (run_job \<times> icon_jobnet list) list \<Rightarrow>
    run_flow list \<Rightarrow> tables \<Rightarrow> tables \<Rightarrow> bool" where
  "copied main n j u tf xs gs t t' \<longleftrightarrow> list_all2 (copy_of main n tf t) (select_jobs j u t) xs \<and>
     map job_core (jobs t') = map job_core (jobs t) @ map fst xs \<and>
     icon_jobnets (icons t') = icon_jobnets (icons t) @ concat (map snd xs) \<and> (keyed t \<longrightarrow> keyed t') \<and>
     list_all2 (flow_copy n t') (select_flow_controls j u t) gs \<and> flows t' = flows t @ gs \<and>
     jobnets t' = jobnets t \<and> controls t' = controls t \<and> designs t' = designs t \<and> summaries t' = summaries t"

lemma ok_load_job_definition:
  assumes "calm w"
  shows "ok (load_job_definition main n j u tf rt) (\<lambda>v. calm v \<and> (\<exists>xs gs. copied main n j u tf xs gs (db w) (db v))) w"
  unfolding load_job_definition_def
proof (rule ok_select [OF assms], rule ok_or_fail, rule ok_mono [OF ok_load_jobs [OF assms]])
  fix v
  assume "calm v \<and> (\<exists>xs. jobs_copied main n tf (select_jobs j u (db w)) xs (db w) (db v))"
  then obtain xs where v: "calm v" "jobs_copied main n tf (select_jobs j u (db w)) xs (db w) (db v)"
    by blast
  have fs: "select_flow_controls j u (db v) = select_flow_controls j u (db w)"
    using v(2) by (simp add: select_flow_controls_def jobs_copied_def kept_rows_def)
  show "ok (do { rows \<leftarrow> DBselect (select_flow_controls j u); each_row (load_one_flow n j u) rows })
      (\<lambda>v. calm v \<and> (\<exists>xs gs. copied main n j u tf xs gs (db w) (db v))) v"
  proof (rule ok_select [OF v(1)], rule ok_mono [OF ok_load_flows [OF v(1)]])
    fix x
    assume "calm x \<and> (\<exists>gs. flows_copied n (select_flow_controls j u (db v)) gs (db v) (db x))"
    then obtain gs where x: "calm x" "flows_copied n (select_flow_controls j u (db w)) gs (db v) (db x)"
      unfolding fs by blast
    then have "flow_copy n (db x) = flow_copy n (db v)"
      using named_jobs [of "db x" "db v" n] by (simp add: flows_copied_def flow_copy_def fun_eq_iff)
    moreover have "keyed (db x) = keyed (db v)"
      using x(2) by (simp add: keyed_def flows_copied_def)
    ultimately have "copied main n j u tf xs gs (db w) (db x)"
      using v(2) x(2) by (simp add: copied_def jobs_copied_def flows_copied_def kept_rows_def)
    with x(1) show "calm x \<and> (\<exists>xs gs. copied main n j u tf xs gs (db w) (db x))"
      by blast
  qed
qed

end
