(* ===== verification/Arrivals.thy ===== *)
theory Arrivals
  imports Loading
begin

text \<open>
  What a loaded jobnet looks like: each icon of the definition has its row, and the number of
  arrivals an icon waits for is the number of flows that lead to it.
\<close>

definition jobs_in :: "uint64 \<Rightarrow> tables \<Rightarrow> run_job list" where
  "jobs_in n t = filter (\<lambda>r. rj_jobnet r = n) (jobs t)"

lemma copied_jobs:
  assumes "copied main n j u tf xs gs t t'" "jobs_in n t = []"
  shows "map job_core (jobs_in n t') = map fst xs"
proof -
  have filt: "map job_core (filter (\<lambda>r. rj_jobnet r = n) rs) = filter (\<lambda>r. rj_jobnet r = n) (map job_core rs)" for rs
    by (induction rs) auto
  have "rj_jobnet (fst x) = n" if "x \<in> set xs" for x
    using assms(1) that by (fastforce simp: copied_def copy_of_def list_all2_conv_all_nth in_set_conv_nth loaded_job_def job_core_def)
  then have "filter (\<lambda>r. rj_jobnet r = n) (map fst xs) = map fst xs"
    by (auto intro: filter_True)
  moreover have "filter (\<lambda>r. rj_jobnet r = n) (map job_core (jobs t)) = []"
    using assms(2) unfolding filt [symmetric] jobs_in_def by simp
  ultimately show ?thesis
    using assms(1) unfolding jobs_in_def filt by (simp add: copied_def)
qed

definition icon_of :: "uint64 \<Rightarrow> tables \<Rightarrow> string \<Rightarrow> int \<Rightarrow> job_control \<Rightarrow> run_job \<Rightarrow> bool" where
  "icon_of main t j u c r \<longleftrightarrow> rj_job_id r = jc_job c \<and> rj_type r = jc_type c \<and> rj_main r = main \<and>
     rj_status r = JA_JOB_STATUS_BEGIN \<and> rj_end_count r = 0 \<and>
     rj_boot_count r = int (count_where (\<lambda>f. fc_end f = jc_job c) (select_flow_controls j u t))"

lemma icon_of_copy:
  assumes "copy_of main n tf t c x" "c \<in> set (select_jobs j u t)"
  shows "icon_of main t j u c (fst x)"
  using assms by (cases x) (auto simp: icon_of_def copy_of_def loaded_job_def job_core_def select_jobs_def flow_count_def
      count_where_def select_flow_controls_def conj_commute conj_left_commute)

lemma copied_icons:
  assumes "copied main n j u tf xs gs t t'" "jobs_in n t = []"
  shows "list_all2 (icon_of main t j u) (select_jobs j u t) (jobs_in n t')"
proof -
  have "list_all2 (copy_of main n tf t) (select_jobs j u t) xs"
    using assms(1) by (simp add: copied_def)
  then have "list_all2 (\<lambda>c x. icon_of main t j u c (fst x)) (select_jobs j u t) xs"
    unfolding list_all2_conv_all_nth using icon_of_copy by (metis nth_mem)
  then have "list_all2 (icon_of main t j u) (select_jobs j u t) (map job_core (jobs_in n t'))"
    unfolding copied_jobs [OF assms] list_all2_map2 .
  then show ?thesis
    by (simp add: list_all2_map2 icon_of_def [abs_def] job_core_def)
qed

lemma named_unique:
  assumes "distinct (map rj_job_id (jobs_in n t))" "distinct (map rj_id (jobs t))" "r \<in> set (jobs_in n t)"
  shows "named n t name = Some (rj_id r) \<longleftrightarrow> name = rj_job_id r"
proof -
  have sel: "select_named n name t = filter (\<lambda>r. rj_job_id r = name) (jobs_in n t)"
    by (simp add: select_named_def jobs_in_def conj_commute)
  have ids: "distinct (map rj_id (jobs_in n t))"
    using assms(2) by (simp add: jobs_in_def distinct_map_filter)
  show ?thesis
  proof (cases "select_named n name t")
    case Nil
    then show ?thesis
      using assms(3) unfolding sel filter_empty_conv by (auto simp: named_def sel)
  next
    case (Cons r' rs)
    then have r': "r' \<in> set (jobs_in n t)" "rj_job_id r' = name"
      unfolding sel by (auto dest: filter_eq_ConsD)
    have "rj_id r' = rj_id r \<longleftrightarrow> rj_job_id r' = rj_job_id r"
      using assms(1,3) ids r'(1) by (metis inj_onD distinct_map)
    then show ?thesis
      using r'(2) Cons by (simp add: named_def)
  qed
qed

lemma boot_counts:
  assumes cp: "copied main n j u tf xs gs t t'" and "jobs_in n t = []" "keyed t"
    and names: "distinct (map jc_job (select_jobs j u t))" and r: "r \<in> set (jobs_in n t')"
  shows "rj_boot_count r = int (count_where (\<lambda>g. rf_to g = rj_id r) gs)"
proof -
  note icons = copied_icons [OF cp assms(2)]
  have "map rj_job_id (jobs_in n t') = map jc_job (select_jobs j u t)"
    using icons by (auto simp: list_all2_conv_all_nth icon_of_def intro!: nth_equalityI)
  then have "distinct (map rj_job_id (jobs_in n t'))"
    using names by simp
  moreover have "distinct (map rj_id (jobs t'))"
    using cp assms(3) by (simp add: copied_def keyed_def)
  ultimately have unique: "named n t' name = Some (rj_id r) \<longleftrightarrow> name = rj_job_id r" for name
    by (rule named_unique [OF _ _ r])
  have "list_all2 (\<lambda>f g. fc_end f = rj_job_id r \<longleftrightarrow> rf_to g = rj_id r) (select_flow_controls j u t) gs"
  proof (rule list_all2_mono)
    show "list_all2 (flow_copy n t') (select_flow_controls j u t) gs"
      using cp by (simp add: copied_def)
    fix f g
    assume "flow_copy n t' f g"
    then show "fc_end f = rj_job_id r \<longleftrightarrow> rf_to g = rj_id r"
      using unique [of "fc_end f"] by (simp add: flow_copy_def)
  qed
  then have "count_where (\<lambda>f. fc_end f = rj_job_id r) (select_flow_controls j u t) = count_where (\<lambda>g. rf_to g = rj_id r) gs"
    unfolding count_where_def by (induction rule: list_all2_induct) auto
  moreover obtain c where "icon_of main t j u c r"
    using icons r by (auto simp: list_all2_conv_all_nth in_set_conv_nth)
  ultimately show ?thesis
    by (simp add: icon_of_def)
qed

lemma loaded_icons:
  assumes "calm w" "keyed (db w)" "jobs_in n (db w) = []" "\<forall>g \<in> set (flows (db w)). rf_jobnet g \<noteq> n"
    and names: "distinct (map jc_job (select_jobs j u (db w)))"
    and "result (load_job_definition main n j u tf rt) w = SUCCEED"
  shows "list_all2 (icon_of main (db w) j u) (select_jobs j u (db w))
      (jobs_in n (db (exec (load_job_definition main n j u tf rt) w)))"
    "r \<in> set (jobs_in n (db (exec (load_job_definition main n j u tf rt) w))) \<Longrightarrow>
     rj_boot_count r = int (count_where (\<lambda>g. rf_jobnet g = n \<and> rf_to g = rj_id r)
       (flows (db (exec (load_job_definition main n j u tf rt) w))))"
proof -
  let ?t = "db (exec (load_job_definition main n j u tf rt) w)"
  obtain xs gs where cp: "copied main n j u tf xs gs (db w) ?t"
    using ok_load_job_definition [OF assms(1), of main n j u tf rt] assms(6) by (auto simp: ok_def)
  show "list_all2 (icon_of main (db w) j u) (select_jobs j u (db w)) (jobs_in n ?t)"
    by (rule copied_icons [OF cp assms(3)])
  assume r: "r \<in> set (jobs_in n ?t)"
  have new: "list_all (\<lambda>g. rf_jobnet g = n) gs"
    using cp by (fastforce simp: copied_def flow_copy_def list_all2_conv_all_nth list_all_length)
  have "count_where (\<lambda>g. rf_jobnet g = n \<and> rf_to g = rj_id r) (flows (db w)) = 0"
    using assms(4) by (auto simp: count_where_def filter_empty_conv)
  moreover have "count_where (\<lambda>g. rf_jobnet g = n \<and> rf_to g = rj_id r) gs = count_where (\<lambda>g. rf_to g = rj_id r) gs"
    using new unfolding count_where_def by (induction gs) auto
  ultimately have "count_where (\<lambda>g. rf_jobnet g = n \<and> rf_to g = rj_id r) (flows ?t) = count_where (\<lambda>g. rf_to g = rj_id r) gs"
    using cp by (simp add: copied_def count_where_def)
  then show "rj_boot_count r = int (count_where (\<lambda>g. rf_jobnet g = n \<and> rf_to g = rj_id r) (flows ?t))"
    using boot_counts [OF cp assms(3,2) names r] by simp
qed

end
