(* ===== verification/Loader_Transactions.thy ===== *)
theory Loader_Transactions
  imports Jaloader Logging
begin

text \<open>
  Transactions of the loader: whatever the server answers, each is ended unless the expansion
  inside it does not end, and a load that does not succeed changes no committed row.
\<close>

section \<open>Balance\<close>

definition same_level :: "world \<Rightarrow> world \<Rightarrow> bool" where
  "same_level w w' \<longleftrightarrow> txn_level w' = txn_level w"

interpretation level: load_steps same_level
  by unfold_locales
    (use vexecute_same_txn query_same_txn in \<open>auto simp: same_level_def same_txn_def\<close>)

lemma level_exec: "level.steps m \<Longrightarrow> txn_level (exec m w) = txn_level w"
  using level.steps_exec [of m w] by (simp add: same_level_def)

text \<open>A program that may not return, run at the level \<open>k\<close>.\<close>

definition settles :: "nat \<Rightarrow> 'a option prog \<Rightarrow> bool" where
  "settles k m \<longleftrightarrow> (\<forall>w. txn_level w = k \<longrightarrow> result m w = None \<or> txn_level (exec m w) = 0)"

lemma settlesD: "settles k m \<Longrightarrow> txn_level w = k \<Longrightarrow> result m w \<noteq> None \<Longrightarrow> txn_level (exec m w) = 0"
  by (auto simp: settles_def)

lemma settles_ret: "settles 0 (ret x)" "settles k (ret None)"
  by (simp_all add: settles_def exec_ret)

lemma settles_quiet: "level.steps m \<Longrightarrow> (\<And>x. settles k (f x)) \<Longrightarrow> settles k (State_Monad.bind m f)"
  by (simp add: settles_def exec_bind result_bind level_exec)

lemma settles_if: "settles k m \<Longrightarrow> settles k m' \<Longrightarrow> settles k (if b then m else m')"
  by simp

lemma settles_option: "settles k m \<Longrightarrow> (\<And>y. settles k (f y)) \<Longrightarrow> settles k (case_option m f x)"
  by (cases x) auto

lemma settles_begin: "settles 1 m \<Longrightarrow> settles 0 (State_Monad.bind DBbegin (\<lambda>_. m))"
  using DBbegin_level by (simp add: settles_def exec_bind result_bind)

lemma settles_commit: "settles 0 m \<Longrightarrow> settles 1 (State_Monad.bind DBcommit (\<lambda>_. m))"
  using DBcommit_level by (simp add: settles_def exec_bind result_bind)

lemma settles_rolled_back: "settles 0 m \<Longrightarrow> settles 1 (rolled_back m)"
  using DBrollback_level by (simp add: settles_def exec_bind result_bind rolled_back_def)

lemma settles_unless_stuck:
  assumes "settles 0 m" "\<And>y. settles 0 (f y)"
  shows "settles 0 (do { x \<leftarrow> m; case x of None \<Rightarrow> ret None | Some y \<Rightarrow> f y })"
  unfolding settles_def
proof (intro allI impI)
  fix w :: world
  assume "txn_level w = 0"
  then have "result m w = None \<or> txn_level (exec m w) = 0"
    using assms(1) by (simp add: settles_def)
  then show "result (do { x \<leftarrow> m; case x of None \<Rightarrow> ret None | Some y \<Rightarrow> f y }) w = None \<or>
      txn_level (exec (do { x \<leftarrow> m; case x of None \<Rightarrow> ret None | Some y \<Rightarrow> f y }) w) = 0"
    using assms(2) by (cases "result m w") (auto simp: settles_def result_bind exec_bind exec_ret)
qed

lemma settles_each: "(\<And>r. settles 0 (f r)) \<Longrightarrow> settles 0 (each_returns f rs)"
  by (induction rs) (auto intro: settles_ret settles_unless_stuck)

lemmas settles_intros = settles_ret settles_if settles_option settles_rolled_back settles_commit settles_begin
  settles_unless_stuck settles_each settles_quiet level.load_intros level.steps_assert
  level.handlers.steps_get_next_id level.steps_load_job_definition level.steps_load_sub_jobnet level.steps_no_valid
  level.steps_filter_month

lemma settles_load_jobnet: "settles 0 (load_jobnet_definition rounds j st s c b)"
  unfolding load_jobnet_definition_def
  by (intro settles_intros; simp add: load_sql_def main_jobnet_def main_summary_def)

lemma settles_get_schedule_jobnet: "settles 0 (get_schedule_jobnet rounds s u t c b)"
  unfolding get_schedule_jobnet_def by (intro settles_intros settles_load_jobnet)

lemma settles_no_valid: "settles 0 (no_valid m c s)"
  unfolding no_valid_def by (intro settles_intros)

lemma settles_get_calendar_detail: "settles 0 (get_calendar_detail rounds s u sd ed c b f)"
  unfolding get_calendar_detail_def load_if_due_def Let_def
  by (intro settles_no_valid settles_intros settles_get_schedule_jobnet)

lemma settles_get_schedule_detail: "settles 0 (get_schedule_detail rounds s u sd ed)"
  unfolding get_schedule_detail_def by (intro settles_intros settles_get_calendar_detail)

text \<open>Ending an unloadable jobnet begins and ends a transaction of its own.\<close>

lemma level_same_txn: "txn.steps m \<Longrightarrow> level.steps m"
  by (auto simp: txn.steps_def level.steps_def same_txn_def same_level_def)

lemma closes_rolled_back: "bal.steps m \<Longrightarrow> closes (State_Monad.bind DBrollback (\<lambda>_. m))"
  by (rule closes_then [OF closes_DBrollback])

lemma balanced_end_unloadable: "bal.steps (end_unloadable r)"
  unfolding end_unloadable_def load_error_def
  by (intro balanced_transaction closes_if closes_rolled_back closes_DBcommit closes_after bal.steps_bind
      bal.steps_return same_txn_balanced txn_statement txn.steps_intros txn.steps_ja_log)

lemma settles_balanced: "bal.steps m \<Longrightarrow> (\<And>x. settles 0 (f x)) \<Longrightarrow> settles 0 (State_Monad.bind m f)"
  by (simp add: settles_def exec_bind result_bind bal_exec)

lemma level_already_start: "level.steps (already_start_check_immediate n)"
  unfolding already_start_check_immediate_def by (intro level.load_intros)

lemma settles_load_submitted: "settles 0 (load_submitted rounds r)"
  unfolding load_submitted_def
  by (intro settles_intros settles_balanced balanced_end_unloadable level_already_start bal.steps_if bal.steps_return;
      simp add: load_sql_def submitted_summary_def)

lemma settles_jobnet_load_immediate: "settles 0 (jobnet_load_immediate rounds)"
  unfolding jobnet_load_immediate_def by (intro settles_intros settles_load_submitted)

lemma settles_load_one_schedule: "settles 0 (load_one_schedule rounds sd ed r)"
  unfolding load_one_schedule_def
  by (intro settles_intros settles_get_schedule_detail; simp add: load_sql_def)

lemma settles_jobnet_load_schedule: "settles 0 (jobnet_load_schedule rounds load_span)"
  unfolding jobnet_load_schedule_def by (intro settles_intros settles_load_one_schedule)

lemma settles_jaloader_second: "settles 0 (jaloader_second rounds load_span a b cnt)"
  unfolding jaloader_second_def
  by (intro settles_intros settles_jobnet_load_schedule settles_jobnet_load_immediate)

section \<open>A load that does not succeed\<close>

text \<open>Outside a transaction a log entry changes nothing but the log.\<close>

definition at_rest :: "tables \<Rightarrow> world \<Rightarrow> bool" where
  "at_rest t w \<longleftrightarrow> no_loss w \<and> txn_level w = 0 \<and> srv w = Idle \<and> db w = durable w \<and> only_log t (durable w)"

definition rests :: "world \<Rightarrow> world \<Rightarrow> bool" where
  "rests w w' \<longleftrightarrow> (\<forall>t. at_rest t w \<longrightarrow> at_rest t w')"

definition log_request :: "request \<Rightarrow> bool" where
  "log_request rq \<longleftrightarrow> rq = Query \<or> (\<exists>s. rq = Statement s \<and> log_sql 0 s)"

lemma accept_rests:
  assumes "log_request rq" "at_rest t w"
  shows "at_rest t (snd (accept rq w))"
proof (cases "rq = Query")
  case True
  with assms(2) show ?thesis
    by (simp add: accept_def)
next
  case False
  then obtain s n q t' where s: "rq = Statement s" "exec_sql s (seq_next w) (db w) = Some (n, q, t')"
      "only_log (db w) t'"
    using assms(1) exec_log_sql [of 0 _ "db w" "seq_next w"] unfolding log_request_def by blast
  have w: "srv w = Idle" "db w = durable w" "no_loss w" "txn_level w = 0" "only_log t (durable w)"
    using assms(2) by (simp_all add: at_rest_def)
  have "only_log t t'"
    using only_log_trans [OF w(5)] s(3) w(2) by simp
  then show ?thesis
    using w s(1,2) by (simp add: accept_def at_rest_def no_loss_def)
qed

lemma pq_exec_rests:
  assumes "log_request rq" "at_rest t w"
  shows "at_rest t (snd (pq_exec rq w))"
proof -
  let ?w = "w\<lparr>faults := tl (faults w)\<rparr>"
  have w: "at_rest t ?w"
    using assms(2) no_loss_tl [of "faults w"] by (simp add: at_rest_def no_loss_def)
  then have "at_rest t (snd (accept rq ?w))"
    by (rule accept_rests [OF assms(1)])
  moreover have "refuse rq ?w = ?w"
    using w by (simp add: refuse_def at_rest_def)
  moreover have "(if faults w = [] then Accepted else hd (faults w)) \<noteq> Conn_lost"
    using assms(2) hd_in_set [of "faults w"] by (cases "faults w") (auto simp: at_rest_def no_loss_def)
  ultimately show ?thesis
    using w by (cases "if faults w = [] then Accepted else hd (faults w)") (auto simp: pq_exec_def Let_def)
qed

lemma vexecute_rests: "log_sql 0 s \<Longrightarrow> rests w (exec (zbx_db_vexecute (Statement s)) w)"
  using pq_exec_rests [of "Statement s" _ w]
  by (auto simp: log_request_def rests_def zbx_db_vexecute_def exec_def at_rest_def no_loss_def split: prod.splits reply.splits)

lemma query_rests: "rests w (after_query w)"
  using pq_exec_rests [of Query _ w]
  by (auto simp: log_request_def rests_def after_query_def zbx_db_vselect_def exec_def at_rest_def no_loss_def split: prod.splits reply.splits)

interpretation rest: sql_steps rests "log_sql 0"
  by unfold_locales
    (auto simp: vexecute_rests query_rests, auto simp: rests_def at_rest_def no_loss_def)

lemma rests_load_error: "rest.steps (load_error m n j args)"
  unfolding load_error_def by (intro rest.steps_intros rest.steps_ja_log_if)

text \<open>Inside a transaction on the committed tables \<open>t\<close>.\<close>

definition inside :: "tables \<Rightarrow> world \<Rightarrow> bool" where
  "inside t w \<longleftrightarrow> no_loss w \<and> txn_level w = 1 \<and> (srv w \<noteq> Idle \<or> txn_error w \<and> db w = durable w) \<and> durable w = t"

definition guarded :: "world \<Rightarrow> world \<Rightarrow> bool" where
  "guarded w w' \<longleftrightarrow> shielded w w' \<and> same_level w w'"

interpretation guard: load_steps guarded
  by unfold_locales
    (auto simp: guarded_def level.statement_step level.query_step vexecute_shielded query_shielded load_sql_def,
     auto simp: shielded_def no_loss_def same_level_def)

lemma inside_exec: "guard.steps m \<Longrightarrow> inside t w \<Longrightarrow> inside t (exec m w)"
  using guard.steps_exec [of m w] by (auto simp: guarded_def shielded_def same_level_def inside_def)

lemma inside_begin:
  assumes "at_rest t w"
  shows "inside (durable w) (exec DBbegin w)"
proof (cases "txn_error w")
  case True
  have w: "no_loss w" "txn_level w = 0" "srv w = Idle" "db w = durable w"
    using assms by (simp_all add: at_rest_def)
  have "run_state zbx_db_begin w = (ZBX_DB_FAIL, w\<lparr>txn_level := 1\<rparr>)"
    using w True by (simp add: zbx_db_begin_run zbx_db_vexecute_def)
  then have "exec DBbegin w = w\<lparr>txn_level := 1\<rparr>"
    unfolding DBbegin_def DBtxn_exec
    using until_up_once [of "\<lambda>rc. rc = ZBX_DB_DOWN" zbx_db_begin w] by (simp add: exec_def result_def)
  then show ?thesis
    using w True by (simp add: inside_def no_loss_def)
next
  case False
  then show ?thesis
    using begin_no_loss [of w] assms by (auto simp: at_rest_def inside_def)
qed

text \<open>Programs that succeed or leave the committed tables alone, but for the log.\<close>

definition spares :: "tables \<Rightarrow> world \<Rightarrow> rc option prog \<Rightarrow> bool" where
  "spares t w m \<longleftrightarrow> result m w = Some SUCCEED \<or> only_log t (durable (exec m w))"

lemma spares_guarded:
  assumes "inside t w" "guard.steps m" "\<And>x v. inside t v \<Longrightarrow> spares t v (f x)"
  shows "spares t w (State_Monad.bind m f)"
  using assms(3) [OF inside_exec [OF assms(2,1)]] by (simp add: spares_def exec_bind result_bind)

lemma spares_ret: "inside t w \<Longrightarrow> spares t w (ret None)" "spares t w (do { _ \<leftarrow> m; ret (Some SUCCEED) })"
  by (simp_all add: spares_def exec_ret result_bind inside_def only_log_refl)

lemma spares_if: "(b \<Longrightarrow> spares t w m) \<Longrightarrow> (\<not> b \<Longrightarrow> spares t w m') \<Longrightarrow> spares t w (if b then m else m')"
  by simp

lemma spares_option: "spares t w m \<Longrightarrow> (\<And>y. spares t w (f y)) \<Longrightarrow> spares t w (case_option m f x)"
  by (cases x) auto

lemma spares_rolled_back:
  assumes "inside t w" "rest.steps m"
  shows "spares t w (rolled_back m)"
proof -
  have r: "db (exec DBrollback w) = durable w \<and> durable (exec DBrollback w) = durable w \<and>
      no_loss (exec DBrollback w) \<and> txn_level (exec DBrollback w) = 0 \<and> srv (exec DBrollback w) = Idle"
    by (rule rollback_no_loss) (use assms(1) in \<open>auto simp: inside_def\<close>)
  have "at_rest t (exec DBrollback w)"
    using r assms(1) by (simp add: at_rest_def inside_def only_log_refl)
  then have "at_rest t (exec m (exec DBrollback w))"
    using rest.steps_exec [OF assms(2)] by (simp add: rests_def)
  then show ?thesis
    by (simp add: spares_def rolled_back_def exec_bind at_rest_def)
qed

lemma spares_commit: "spares t w (do { _ \<leftarrow> DBcommit; ret (Some SUCCEED) })"
  by (simp add: spares_def result_bind exec_ret)

lemmas spares_intros = spares_if spares_option spares_ret(1) spares_commit spares_rolled_back spares_guarded
  guard.load_intros guard.handlers.steps_get_next_id guard.steps_load_job_definition guard.steps_load_sub_jobnet
  rest.steps_bind rest.steps_return rests_load_error

lemma spares_begun:
  assumes "at_rest t w" "\<And>v. inside (durable w) v \<Longrightarrow> spares (durable w) v m"
  shows "spares t w (State_Monad.bind DBbegin (\<lambda>_. m))"
  using assms(2) [OF inside_begin [OF assms(1)]] assms(1) only_log_trans [of t "durable w"]
  by (auto simp: spares_def exec_bind result_bind at_rest_def)

lemma spares_resting:
  assumes "at_rest t w" "rest.steps m" "\<And>x v. at_rest t v \<Longrightarrow> spares t v (f x)"
  shows "spares t w (State_Monad.bind m f)"
proof -
  have "at_rest t (exec m w)"
    using rest.steps_exec [OF assms(2)] assms(1) by (simp add: rests_def)
  from assms(3) [OF this] show ?thesis
    by (simp add: spares_def exec_bind result_bind)
qed

lemma spares_nothing: "at_rest t w \<Longrightarrow> spares t w (ret x)"
  by (simp add: spares_def exec_ret at_rest_def)

lemma spares_load_jobnet: "at_rest t w \<Longrightarrow> spares t w (load_jobnet_definition rounds j st s c b)"
  unfolding load_jobnet_definition_def
  by (erule spares_resting, rule rest.steps_DBselect_row, rule spares_option,
      erule spares_resting, rule rests_load_error, erule spares_nothing,
      rule spares_if, erule spares_nothing, erule spares_begun)
    (intro spares_intros; simp add: load_sql_def main_jobnet_def main_summary_def)

lemma failed_load:
  assumes "at_rest t w" "result (load_jobnet_definition rounds j st s c b) w \<noteq> Some SUCCEED"
  shows "only_log t (durable (exec (load_jobnet_definition rounds j st s c b) w))"
  using spares_load_jobnet [OF assms(1), of rounds j st s c b] assms(2) by (simp add: spares_def)

end
