(* ===== verification/Expansion.thy ===== *)
theory Expansion
  imports Arrivals Loader_Transactions
begin

text \<open>
  The loop that replaces every jobnet icon by a copy of the jobnet it stands for.  It ends when
  the inclusion of jobnets has no cycle, and never ends when it runs into one.
\<close>

section \<open>One icon\<close>

text \<open>A jobnet has been copied into the run \<open>n\<close>, and the icons \<open>done\<close> have been flagged.\<close>

definition flag_icon :: "uint64 set \<Rightarrow> run_job \<Rightarrow> run_job" where
  "flag_icon done r = (if rj_id r \<in> done then r\<lparr>rj_invo := JA_JOB_INVO_FLAG_ON\<rparr> else r)"

definition grown :: "uint64 \<Rightarrow> uint64 \<Rightarrow> int \<Rightarrow> string \<Rightarrow> int \<Rightarrow> uint64 set \<Rightarrow> (run_job \<times> icon_jobnet list) list \<Rightarrow>
    tables \<Rightarrow> tables \<Rightarrow> bool" where
  "grown main n tf j u done xs t t' \<longleftrightarrow> list_all2 (copy_of main n tf t) (select_jobs j u t) xs \<and>
     map job_core (jobs t') = map (flag_icon done) (map job_core (jobs t) @ map fst xs) \<and>
     icon_jobnets (icons t') = icon_jobnets (icons t) @ concat (map snd xs) \<and>
     keyed t' \<and> controls t' = controls t \<and> designs t' = designs t"

definition expanded ::
    "uint64 \<Rightarrow> int \<Rightarrow> uint64 \<Rightarrow> icon_jobnet \<Rightarrow> control_row \<Rightarrow> (run_job \<times> icon_jobnet list) list \<Rightarrow>
      tables \<Rightarrow> tables \<Rightarrow> bool" where
  "expanded main tf i l c xs t t' \<longleftrightarrow> (\<exists>ls. select_link i t = l # ls) \<and>
     (\<exists>cs. select_valid (in_jobnet_id l) t = c # cs) \<and>
     grown main (in_link l) tf (in_jobnet_id l) (c_update c) {i} xs t t' \<and> (\<exists>s. jobnets t' = jobnets t @ [s])"

lemma expanded_grown:
  "expanded main tf i l c xs t t' \<Longrightarrow> grown main (in_link l) tf (in_jobnet_id l) (c_update c) {i} xs t t'"
  by (simp add: expanded_def)

lemma flagged:
  "map job_core (upd_where (job_matches (Job_is i)) (set_job (job_cols\<lparr>js_invo := Some JA_JOB_INVO_FLAG_ON\<rparr>)) rs) =
     map (flag_icon {i}) (map job_core rs)"
  by (simp add: upd_where_def flag_icon_def job_core_def set_job_def job_cols_def)

lemma flagged_ids: "map rj_id (upd_where p (set_job s) rs) = map rj_id rs"
  by (simp add: upd_where_def)

lemma ok_expand_icon:
  assumes "calm w" "keyed (db w)"
  shows "ok (expand_icon main run_type jobnet schedule user r)
    (\<lambda>v. calm v \<and> (\<exists>l c xs. expanded main (test_flag_of run_type) (rj_id r) l c xs (db w) (db v))) w"
    (is "ok _ ?Q w")
proof (cases "select_link (rj_id r) (db w)")
  case Nil
  then show ?thesis
    unfolding expand_icon_def by (intro ok_select_row [OF assms(1)]) simp
next
  case link: (Cons l ls)
  show ?thesis
  proof (cases "select_valid (in_jobnet_id l) (db w)")
    case Nil
    show ?thesis
      unfolding expand_icon_def
    proof (rule ok_select_row [OF assms(1)], simp only: link list.case option.case,
        rule ok_select_row [OF assms(1)], simp only: Nil list.case option.case)
      show "ok (do { _ \<leftarrow> modify (\<lambda>w. w\<lparr>no_valid_flag := 1\<rparr>);
          load_error ''JALOADER200005'' main None [PS (in_jobnet_id l), PS jobnet, PS schedule] }) ?Q w"
        by (simp add: ok_def result_bind load_error_fails)
    qed
  next
    case valid: (Cons c cs)
    have c: "c_jobnet_id c = in_jobnet_id l"
      using valid unfolding select_valid_def by (auto dest: filter_eq_ConsD)
    let ?tf = "test_flag_of run_type"
    show ?thesis
      unfolding expand_icon_def
    proof (rule ok_select_row [OF assms(1)], simp only: link list.case option.case,
        rule ok_select_row [OF assms(1)], simp only: valid list.case option.case c,
        rule ok_execute [OF assms(1)], goal_cases)
      case (1 x q t)
      let ?w = "put_tables q t w"
      from 1 have t: "t = (db w)\<lparr>jobnets := jobnets (db w) @ [sub_jobnet (in_link l) main (rj_id r) run_type user c]\<rparr>"
        by (simp split: if_splits)
      have calm: "calm ?w"
        using assms(1) by simp
      show ?case
      proof (rule ok_or_fail, rule ok_mono [OF ok_load_job_definition [OF calm]])
        fix v
        assume "calm v \<and> (\<exists>xs gs. copied main (in_link l) (in_jobnet_id l) (c_update c) ?tf xs gs (db ?w) (db v))"
        then obtain xs gs where v: "calm v"
            "copied main (in_link l) (in_jobnet_id l) (c_update c) ?tf xs gs t (db v)"
          by auto
        show "ok (do { rc \<leftarrow> DBexecute (Update_job (Job_is (rj_id r)) (job_cols\<lparr>js_invo := Some JA_JOB_INVO_FLAG_ON\<rparr>));
            if rc \<le> ZBX_DB_OK then load_error ''JALOADER200003'' main None
              [PS ''ja_run_job_table'', PS (show_u64 (rj_id r))] else ret SUCCEED }) ?Q v"
        proof (rule ok_execute [OF v(1)], goal_cases)
          case (1 y q' u)
          then have u: "u = (db v)\<lparr>jobs := upd_where (job_matches (Job_is (rj_id r)))
              (set_job (job_cols\<lparr>js_invo := Some JA_JOB_INVO_FLAG_ON\<rparr>)) (jobs (db v))\<rparr>"
            by simp
          have "copy_of main (in_link l) ?tf t = copy_of main (in_link l) ?tf (db w)"
            by (rule copy_of_designs) (simp add: t)
          moreover have "keyed t"
            using assms(2) by (simp add: keyed_def t)
          then have "keyed (db v)"
            using v(2) by (simp add: copied_def)
          then have "keyed u"
            by (simp add: keyed_def u flagged_ids)
          moreover have "map job_core (jobs u) = map (flag_icon {rj_id r}) (map job_core (jobs (db w)) @ map fst xs)"
            using v(2) by (simp add: copied_def t u flagged)
          moreover have "icons u = icons (db v)" "controls u = controls (db v)" "designs u = designs (db v)"
            "jobnets u = jobnets (db v)"
            by (simp_all add: u)
          ultimately have "expanded main ?tf (rj_id r) l c xs (db w) u"
            using v(2) by (simp add: expanded_def grown_def copied_def link valid t select_jobs_def)
          with v(1) show ?case
            by (auto simp del: exec_sql.simps)
        qed (simp add: load_error_fails)
      qed
    qed (simp add: load_error_fails)
  qed
qed

section \<open>The icons still to be expanded\<close>

definition pending :: "uint64 \<Rightarrow> tables \<Rightarrow> uint64 set" where
  "pending main t = rj_id ` set (unexpanded main t)"

definition points_to :: "uint64 \<Rightarrow> tables \<Rightarrow> string option" where
  "points_to i t = (case select_link i t of [] \<Rightarrow> None | l # _ \<Rightarrow> Some (in_jobnet_id l))"

abbreviation awaits :: "uint64 \<Rightarrow> run_job \<Rightarrow> bool" where
  "awaits main r \<equiv> rj_main r = main \<and> rj_type r = JA_JOB_TYPE_JOBNET \<and> rj_invo r = JA_JOB_INVO_FLAG_OFF"

lemma job_core_sel [simp]:
  "rj_id (job_core r) = rj_id r" "rj_main (job_core r) = rj_main r" "rj_type (job_core r) = rj_type r"
  "rj_invo (job_core r) = rj_invo r"
  by (simp_all add: job_core_def)

lemma pending_core: "pending main t = rj_id ` {r \<in> set (map job_core (jobs t)). awaits main r}"
  unfolding pending_def unexpanded_def set_filter set_map Compr_image_eq image_image by simp

lemma flag_icon_sel [simp]:
  "rj_id (flag_icon done r) = rj_id r" "rj_main (flag_icon done r) = rj_main r" "rj_type (flag_icon done r) = rj_type r"
  "rj_invo (flag_icon done r) = (if rj_id r \<in> done then JA_JOB_INVO_FLAG_ON else rj_invo r)"
  by (simp_all add: flag_icon_def)

lemma copies_await:
  assumes "grown main n tf j u done xs t t'" "x \<in> set xs"
  shows "rj_main (fst x) = main" "rj_invo (fst x) = JA_JOB_INVO_FLAG_OFF"
proof -
  obtain a where "copy_of main n tf t a x"
    using assms by (fastforce simp: grown_def list_all2_conv_all_nth in_set_conv_nth)
  then show "rj_main (fst x) = main" "rj_invo (fst x) = JA_JOB_INVO_FLAG_OFF"
    by (auto simp: copy_of_def loaded_job_def job_core_def)
qed

lemma grown_pending:
  assumes e: "grown main n tf j u done xs t t'"
  shows "pending main t' =
    (pending main t \<union> (\<lambda>x. rj_id (fst x)) ` {x \<in> set xs. rj_type (fst x) = JA_JOB_TYPE_JOBNET}) - done"
proof -
  have jobs: "map job_core (jobs t') = map (flag_icon done) (map job_core (jobs t) @ map fst xs)"
    using e by (simp add: grown_def)
  have "awaits main (flag_icon done r) \<longleftrightarrow> awaits main r \<and> rj_id r \<notin> done" for r
    by simp
  then have "pending main t' = rj_id ` {r \<in> set (map job_core (jobs t) @ map fst xs). awaits main r \<and> rj_id r \<notin> done}"
    unfolding pending_core jobs set_map [of "flag_icon done"] Compr_image_eq image_image by simp
  also have "\<dots> = (pending main t \<union> rj_id ` {r \<in> fst ` set xs. awaits main r}) - done"
    unfolding pending_core by auto
  also have "{r \<in> fst ` set xs. awaits main r} = fst ` {x \<in> set xs. rj_type (fst x) = JA_JOB_TYPE_JOBNET}"
    using copies_await [OF e] by auto
  finally show ?thesis
    by (simp add: image_image)
qed

lemma grown_ids:
  assumes "grown main n tf j u done xs t t'"
  shows "map rj_id (jobs t') = map rj_id (jobs t) @ map (\<lambda>x. rj_id (fst x)) xs"
proof -
  have "map rj_id (map job_core (jobs t')) = map rj_id (map (flag_icon done) (map job_core (jobs t) @ map fst xs))"
    using assms by (simp add: grown_def)
  then show ?thesis
    by (simp add: comp_def)
qed

lemma grown_points:
  "grown main n tf j u done xs t t' \<Longrightarrow> points_to k t = Some x \<Longrightarrow> points_to k t' = Some x"
  by (auto simp: points_to_def select_link_def grown_def split: list.splits)

lemma filter_unique: "distinct (map f xs) \<Longrightarrow> x \<in> set xs \<Longrightarrow> filter (\<lambda>y. f y = f x) xs = [x]"
  by (induction xs) (auto simp: filter_empty_conv image_iff)

lemma copy_points:
  assumes e: "grown main n tf j u done xs t t'" and a: "copy_of main n tf t a x" "x \<in> set xs"
    and ty: "jc_type a = JA_JOB_TYPE_JOBNET"
  shows "\<exists>y. links_of (jc_jobnet a) (jc_job a) (jc_update a) t = [y] \<and> points_to (rj_id (fst x)) t' = Some y"
proof -
  from a(1) ty obtain y m where y: "links_of (jc_jobnet a) (jc_job a) (jc_update a) t = [y]"
      "snd x = [\<lparr>in_job = rj_id (fst x), in_jobnet = n, in_link = m, in_jobnet_id = y\<rparr>]"
    by (auto simp: copy_of_def link_rows_def loaded_job_def job_core_def)
  moreover have "keyed t'" and rows: "icon_jobnets (icons t') = icon_jobnets (icons t) @ concat (map snd xs)"
    using e by (simp_all add: grown_def)
  then have "distinct (map in_job (icon_jobnets (icons t')))"
    by (simp only: keyed_def)
  moreover have "set (snd x) \<subseteq> set (icon_jobnets (icons t'))"
    unfolding rows using a(2) by auto
  ultimately have "select_link (rj_id (fst x)) t' = snd x"
    unfolding select_link_def using filter_unique [of in_job "icon_jobnets (icons t')"] by fastforce
  with y show ?thesis
    by (simp add: points_to_def)
qed

lemma expanded_chosen:
  assumes "expanded main tf i l c xs t t'"
  shows "points_to i t = Some (in_jobnet_id l)" "\<exists>cs. select_valid (in_jobnet_id l) t = c # cs"
  using assms by (auto simp: expanded_def points_to_def)

section \<open>Without a cycle the loop ends\<close>

text \<open>\<open>h\<close> decreases from each jobnet to the jobnets it includes.\<close>

definition ranked :: "(string \<Rightarrow> nat) \<Rightarrow> tables \<Rightarrow> bool" where
  "ranked h t \<longleftrightarrow> (\<forall>x c cs a y. select_valid x t = c # cs \<longrightarrow> a \<in> set (select_jobs x (c_update c) t) \<longrightarrow>
     jc_type a = JA_JOB_TYPE_JOBNET \<longrightarrow> y \<in> set (links_of x (jc_job a) (c_update c) t) \<longrightarrow> h y < h x)"

lemma ranked_cong: "controls t' = controls t \<Longrightarrow> designs t' = designs t \<Longrightarrow> ranked h t' = ranked h t"
  by (simp add: ranked_def select_valid_def select_jobs_def links_of_def design_of_def)

definition below :: "(string \<Rightarrow> nat) \<Rightarrow> nat \<Rightarrow> tables \<Rightarrow> uint64 \<Rightarrow> bool" where
  "below h k t i \<longleftrightarrow> (\<exists>x. points_to i t = Some x \<and> h x < k)"

lemma expanded_below:
  assumes e: "expanded main tf i l c xs t t'" and "ranked h t" "below h (Suc k) t i" "x \<in> set xs"
    and ty: "rj_type (fst x) = JA_JOB_TYPE_JOBNET"
  shows "below h k t' (rj_id (fst x))"
proof -
  note g = expanded_grown [OF e]
  obtain cs where c: "select_valid (in_jobnet_id l) t = c # cs"
    using expanded_chosen(2) [OF e] by blast
  obtain a where a: "copy_of main (in_link l) tf t a x" "a \<in> set (select_jobs (in_jobnet_id l) (c_update c) t)"
    using e assms(4) by (fastforce simp: expanded_def grown_def list_all2_conv_all_nth in_set_conv_nth)
  then have "jc_type a = JA_JOB_TYPE_JOBNET" "jc_jobnet a = in_jobnet_id l" "jc_update a = c_update c"
    using ty by (auto simp: copy_of_def loaded_job_def job_core_def select_jobs_def)
  with copy_points [OF g a(1) assms(4)] obtain y where
    "links_of (in_jobnet_id l) (jc_job a) (c_update c) t = [y]" "points_to (rj_id (fst x)) t' = Some y"
    by auto
  moreover have "h y < h (in_jobnet_id l)"
    using assms(2) c a(2) \<open>jc_type a = _\<close> calculation(1) unfolding ranked_def by fastforce
  moreover have "h (in_jobnet_id l) < Suc k"
    using assms(3) expanded_chosen(1) [OF e] by (simp add: below_def)
  ultimately show ?thesis
    by (simp add: below_def)
qed

definition round_left :: "(string \<Rightarrow> nat) \<Rightarrow> nat \<Rightarrow> uint64 \<Rightarrow> tables \<Rightarrow> uint64 set \<Rightarrow> bool" where
  "round_left h k main t rest \<longleftrightarrow> keyed t \<and> ranked h t \<and> (\<forall>i \<in> rest. below h (Suc k) t i) \<and>
     (\<forall>i \<in> pending main t. i \<in> rest \<or> below h k t i)"

lemma expanded_round:
  assumes "round_left h k main t (insert i rest)" "expanded main tf i l c xs t t'"
  shows "round_left h k main t' rest"
proof -
  have kept: "below h m t j \<Longrightarrow> below h m t' j" for m j
    using grown_points [OF expanded_grown [OF assms(2)]] by (auto simp: below_def)
  have "keyed t'" "ranked h t'"
    using assms ranked_cong [of t' t h] by (simp_all add: round_left_def expanded_def grown_def)
  moreover have "below h (Suc k) t i" "ranked h t"
    using assms(1) by (simp_all add: round_left_def)
  note expanded_below [OF assms(2) this(2,1)]
  ultimately show ?thesis
    using assms(1) kept unfolding round_left_def grown_pending [OF expanded_grown [OF assms(2)]] by auto
qed

lemma ok_round:
  assumes "calm w" "round_left h k main (db w) (rj_id ` set rs)"
  shows "ok (each_row (expand_icon main run_type jobnet schedule user) rs)
    (\<lambda>v. calm v \<and> round_left h k main (db v) {}) w"
proof -
  let ?I = "\<lambda>as v. calm v \<and> round_left h k main (db v) (rj_id ` set (drop (length as) rs))"
  have "ok (each_row (expand_icon main run_type jobnet schedule user) rs) (?I rs) w"
  proof (rule ok_each_row [of ?I])
    fix as a bs v
    assume rs: "rs = as @ a # bs" and v: "?I as v"
    then have left: "round_left h k main (db v) (insert (rj_id a) (rj_id ` set bs))"
      by simp
    then have "keyed (db v)"
      by (simp add: round_left_def)
    from ok_expand_icon [OF _ this] v
    have "ok (expand_icon main run_type jobnet schedule user a) (\<lambda>u. calm u \<and>
        (\<exists>l c xs. expanded main (test_flag_of run_type) (rj_id a) l c xs (db v) (db u))) v"
      by simp
    then show "ok (expand_icon main run_type jobnet schedule user a) (?I (as @ [a])) v"
      by (rule ok_mono) (use expanded_round [OF left] in \<open>auto simp: rs\<close>)
  qed (use assms in simp)
  then show ?thesis
    by simp
qed

lemma expansion_ends:
  assumes "calm w" "round_left h k main (db w) {}" "k < rounds"
  shows "result (load_sub_jobnet_definition rounds main run_type jobnet schedule user) w \<noteq> None"
  using assms
proof (induction rounds arbitrary: k w)
  case (Suc rounds)
  let ?rows = "unexpanded main (db w)"
  let ?round = "each_row (expand_icon main run_type jobnet schedule user) ?rows"
  show ?case
  proof (cases "?rows = []")
    case True
    with Suc.prems(1) show ?thesis
      by (simp add: result_bind exec_ret select_parts)
  next
    case False
    then obtain m where k: "k = Suc m"
      using Suc.prems(2) by (cases k) (auto simp: round_left_def below_def pending_def)
    then have "round_left h m main (db w) (rj_id ` set ?rows)"
      using Suc.prems(2) by (auto simp: round_left_def pending_def)
    from ok_round [OF Suc.prems(1) this, of run_type jobnet schedule user]
    have "result ?round w = SUCCEED \<Longrightarrow> calm (exec ?round w) \<and> round_left h m main (db (exec ?round w)) {}"
      by (simp add: ok_def)
    with Suc.IH [of "exec ?round w" m] Suc.prems(3) k False Suc.prems(1) show ?thesis
      by (cases "result ?round w") (simp_all add: result_bind exec_bind exec_ret select_parts)
  qed
qed simp

section \<open>In a cycle it does not\<close>

text \<open>Every jobnet of \<open>J\<close> includes one of \<open>J\<close>.\<close>

definition looping :: "string set \<Rightarrow> tables \<Rightarrow> bool" where
  "looping J t \<longleftrightarrow> (\<forall>x \<in> J. \<forall>c cs. select_valid x t = c # cs \<longrightarrow>
     (\<exists>a \<in> set (select_jobs x (c_update c) t). jc_type a = JA_JOB_TYPE_JOBNET \<and>
       set (links_of x (jc_job a) (c_update c) t) \<inter> J \<noteq> {}))"

lemma looping_cong: "controls t' = controls t \<Longrightarrow> designs t' = designs t \<Longrightarrow> looping J t' = looping J t"
  by (simp add: looping_def select_valid_def select_jobs_def links_of_def design_of_def)

definition caught :: "string set \<Rightarrow> uint64 \<Rightarrow> tables \<Rightarrow> bool" where
  "caught J main t \<longleftrightarrow> (\<exists>i \<in> pending main t. \<exists>x \<in> J. points_to i t = Some x)"

lemma list_all2_right: "list_all2 R as xs \<Longrightarrow> a \<in> set as \<Longrightarrow> \<exists>x \<in> set xs. R a x"
  by (induction rule: list_all2_induct) auto

lemma expanded_caught:
  assumes e: "expanded main tf i l c xs t t'" and "looping J t" "i \<in> rj_id ` set (jobs t)" "caught J main t"
  shows "caught J main t'"
proof -
  note g = expanded_grown [OF e]
  obtain j x where j: "j \<in> pending main t" "x \<in> J" "points_to j t = Some x"
    using assms(4) by (auto simp: caught_def)
  show ?thesis
  proof (cases "j = i")
    case False
    then show ?thesis
      using j grown_points [OF g] unfolding caught_def grown_pending [OF g] by blast
  next
    case True
    have x: "x = in_jobnet_id l"
      using expanded_chosen(1) [OF e] j(3) True by simp
    obtain cs where "select_valid (in_jobnet_id l) t = c # cs"
      using expanded_chosen(2) [OF e] by blast
    with x obtain a where a: "a \<in> set (select_jobs x (c_update c) t)" "jc_type a = JA_JOB_TYPE_JOBNET"
        "set (links_of x (jc_job a) (c_update c) t) \<inter> J \<noteq> {}"
      using assms(2) j(2) unfolding looping_def by blast
    have "list_all2 (copy_of main (in_link l) tf t) (select_jobs x (c_update c) t) xs"
      using g x by (simp add: grown_def)
    from list_all2_right [OF this a(1)] obtain y where y: "copy_of main (in_link l) tf t a y" "y \<in> set xs"
      by blast
    have "jc_jobnet a = x" "jc_update a = c_update c"
      using a(1) by (simp_all add: select_jobs_def)
    with copy_points [OF g y a(2)] a(3) have "\<exists>z \<in> J. points_to (rj_id (fst y)) t' = Some z"
      by auto
    moreover have "rj_type (fst y) = JA_JOB_TYPE_JOBNET"
      using y(1) a(2) by (auto simp: copy_of_def loaded_job_def job_core_def)
    moreover have "distinct (map rj_id (jobs t'))"
      using e by (simp add: expanded_def grown_def keyed_def)
    then have "rj_id (fst y) \<noteq> i"
      unfolding grown_ids [OF g] using assms(3) y(2) by (auto simp: image_iff)
    ultimately show ?thesis
      using y(2) unfolding caught_def grown_pending [OF g] by blast
  qed
qed

definition trapped :: "string set \<Rightarrow> uint64 \<Rightarrow> uint64 set \<Rightarrow> tables \<Rightarrow> bool" where
  "trapped J main ids t \<longleftrightarrow> keyed t \<and> looping J t \<and> caught J main t \<and> ids \<subseteq> rj_id ` set (jobs t)"

lemma expanded_trapped:
  assumes "trapped J main ids t" "expanded main tf i l c xs t t'" "i \<in> ids"
  shows "trapped J main ids t'"
proof -
  have "set (map rj_id (jobs t)) \<subseteq> set (map rj_id (jobs t'))"
    unfolding grown_ids [OF expanded_grown [OF assms(2)]] by simp
  moreover have "keyed t'" "looping J t'"
    using assms(1,2) looping_cong [of t' t J] by (simp_all add: trapped_def expanded_def grown_def)
  ultimately show ?thesis
    using assms expanded_caught [OF assms(2)] by (auto simp: trapped_def)
qed

lemma ok_trapped:
  assumes "calm w" "trapped J main (rj_id ` set rs) (db w)"
  shows "ok (each_row (expand_icon main run_type jobnet schedule user) rs)
    (\<lambda>v. calm v \<and> trapped J main (rj_id ` set rs) (db v)) w"
proof (rule ok_each_row [of "\<lambda>_ v. calm v \<and> trapped J main (rj_id ` set rs) (db v)"])
  fix as a bs v
  assume rs: "rs = as @ a # bs" and v: "calm v \<and> trapped J main (rj_id ` set rs) (db v)"
  then have "ok (expand_icon main run_type jobnet schedule user a) (\<lambda>u. calm u \<and>
      (\<exists>l c xs. expanded main (test_flag_of run_type) (rj_id a) l c xs (db v) (db u))) v"
    by (intro ok_expand_icon) (simp_all add: trapped_def)
  then show "ok (expand_icon main run_type jobnet schedule user a)
      (\<lambda>v. calm v \<and> trapped J main (rj_id ` set rs) (db v)) v"
    by (rule ok_mono) (use v expanded_trapped in \<open>auto simp: rs\<close>)
qed (use assms in simp)

lemma expansion_never_done:
  assumes "calm w" "keyed (db w)" "looping J (db w)" "caught J main (db w)"
  shows "result (load_sub_jobnet_definition rounds main run_type jobnet schedule user) w \<noteq> Some SUCCEED"
  using assms
proof (induction rounds arbitrary: w)
  case (Suc rounds)
  let ?rows = "unexpanded main (db w)"
  let ?round = "each_row (expand_icon main run_type jobnet schedule user) ?rows"
  have "?rows \<noteq> []"
    using Suc.prems(4) by (auto simp: caught_def pending_def)
  moreover have "trapped J main (rj_id ` set ?rows) (db w)"
    using Suc.prems by (auto simp: trapped_def unexpanded_def)
  from ok_trapped [OF Suc.prems(1) this, of run_type jobnet schedule user]
  have "result ?round w = SUCCEED \<Longrightarrow> calm (exec ?round w) \<and> trapped J main (rj_id ` set ?rows) (db (exec ?round w))"
    by (simp add: ok_def)
  ultimately show ?case
    using Suc.IH [of "exec ?round w"] Suc.prems(1)
    by (cases "result ?round w") (simp_all add: result_bind exec_bind exec_ret select_parts trapped_def)
qed (simp add: exec_ret)

section \<open>Loading a scheduled jobnet\<close>

definition gives :: "'a prog \<Rightarrow> ('a \<Rightarrow> world \<Rightarrow> bool) \<Rightarrow> world \<Rightarrow> bool" where
  "gives m P w \<longleftrightarrow> P (result m w) (exec m w)"

lemma gives_ret [simp]: "gives (ret x) P w \<longleftrightarrow> P x w"
  by (simp add: gives_def exec_ret)

lemma gives_select_row:
  "calm w \<Longrightarrow> gives (f (case q (db w) of [] \<Rightarrow> None | r # _ \<Rightarrow> Some r)) P w \<Longrightarrow>
   gives (State_Monad.bind (DBselect_row q) f) P w"
  by (simp add: gives_def result_bind exec_bind select_parts)

lemma gives_execute:
  assumes "calm w"
    and "\<And>x q t. exec_sql s (seq_next w) (db w) = Some (x, q, t) \<Longrightarrow> 0 < x \<Longrightarrow> gives k P (put_tables q t w)"
    and "\<And>v. gives bad P v"
  shows "gives (do { rc \<leftarrow> DBexecute s; if rc \<le> ZBX_DB_OK then bad else k }) P w"
  using execute_cases [OF assms(1), of s] assms(2,3) by (auto simp: gives_def result_bind exec_bind)

lemma gives_next_id:
  assumes "calm w" "\<And>x ks. x \<noteq> 0 \<Longrightarrow> gives (f x) P (with_ids ks w)" "\<And>v. gives (f 0) P v"
  shows "gives (State_Monad.bind (get_next_id c n j i) f) P w"
  using get_next_id_taken [OF assms(1), of c n j i] assms(2,3)
  by (cases "result (get_next_id c n j i) w = 0") (auto simp: gives_def result_bind exec_bind)

lemma gives_or_stop:
  assumes "ok m (\<lambda>v. gives k P v) w" "\<And>v. gives bad P v"
  shows "gives (do { rc \<leftarrow> m; if rc = FAIL then bad else k }) P w"
  using assms by (cases "result m w") (auto simp: gives_def ok_def result_bind exec_bind)

lemma gives_rolled_back_error:
  assumes "\<And>v. P (Some FAIL) v"
  shows "gives (rolled_back (do { rc \<leftarrow> load_error m n j args; ret (Some rc) })) P w"
    "gives (rolled_back (ret (Some FAIL))) P w" "gives (do { rc \<leftarrow> load_error m n j args; ret (Some rc) }) P w"
  using assms by (simp_all add: gives_def rolled_back_def result_bind exec_ret load_error_fails)

lemma gives_begin:
  assumes "outside w" "gives (f ()) P (w\<lparr>txn_level := 1, srv := In_txn\<rparr>)"
  shows "gives (State_Monad.bind DBbegin f) P w"
  using assms(2) DBbegin_calm [OF assms(1)] by (simp add: gives_def result_def run_bind exec_def)

lemma ok_inside: "ok m Q w \<Longrightarrow> guard.steps m \<Longrightarrow> inside t w \<Longrightarrow> ok m (\<lambda>v. Q v \<and> inside t v) w"
  using inside_exec [of m t w] by (simp add: ok_def)

text \<open>The state in which the jobnet icons of a new run begin to be expanded.\<close>

definition begun :: "string \<Rightarrow> uint64 \<Rightarrow> control_row \<Rightarrow> tables \<Rightarrow> world \<Rightarrow> bool" where
  "begun jobnet n c t v \<longleftrightarrow> calm v \<and> (\<exists>cs. select_valid jobnet t = c # cs) \<and> jobnet_of n t = None \<and>
     (\<exists>u xs gs. copied n n jobnet (c_update c) JA_JOB_TEST_FLAG_OFF xs gs u (db v) \<and>
       jobs u = jobs t \<and> icons u = icons t \<and> designs u = designs t \<and> controls u = controls t)"

lemma select_valid_cong: "controls t' = controls t \<Longrightarrow> select_valid x t' = select_valid x t"
  by (simp add: select_valid_def)

text \<open>The last steps of the load, from this state.\<close>

definition expand_rest :: "nat \<Rightarrow> uint64 \<Rightarrow> string \<Rightarrow> string \<Rightarrow> string \<Rightarrow> rc option prog" where
  "expand_rest rounds n jobnet schedule user = do {
     r \<leftarrow> load_sub_jobnet_definition rounds n JA_JOBNET_RUN_TYPE_NORMAL jobnet schedule user;
     case r of
       None \<Rightarrow> ret None
     | Some rc \<Rightarrow> if rc = FAIL then rolled_back (ret (Some FAIL)) else do { _ \<leftarrow> DBcommit; ret (Some SUCCEED) } }"

lemma expand_rest_result:
  "result (expand_rest rounds n jobnet schedule user) v =
     result (load_sub_jobnet_definition rounds n JA_JOBNET_RUN_TYPE_NORMAL jobnet schedule user) v"
  by (auto simp: expand_rest_def result_bind exec_ret rolled_back_def split: option.splits)

lemma load_jobnet_outcome:
  assumes w: "outside w" and failed: "\<And>v. P (Some FAIL) v"
    and loaded: "0 < already_loaded jobnet st schedule calendar (db w) \<Longrightarrow> P (Some SUCCEED) w"
    and expand: "\<And>n c v. begun jobnet n c (db w) v \<Longrightarrow> inside (db w) v \<Longrightarrow>
      jobnets (db v) = jobnets (db w) @ [main_jobnet n st schedule calendar boot_time c] \<Longrightarrow>
      gives (expand_rest rounds n jobnet schedule (c_user c)) P v"
  shows "gives (load_jobnet_definition rounds jobnet st schedule calendar boot_time) P w"
proof -
  note errors = gives_rolled_back_error [where P = P, OF failed]
  let ?b = "w\<lparr>txn_level := 1, srv := In_txn\<rparr>"
  have calm: "calm w" "durable w = db w" and b: "calm ?b" "db ?b = db w"
    using w in_transaction_begin [OF w] by (simp_all add: outside_def in_transaction_def)
  show ?thesis
  proof (cases "0 < already_loaded jobnet st schedule calendar (db w)")
    case True
    with loaded show ?thesis
      unfolding load_jobnet_definition_def by (intro gives_select_row [OF calm(1)]) simp
  next
    case False
    show ?thesis
      unfolding load_jobnet_definition_def
    proof (rule gives_select_row [OF calm(1)], simp only: list.case option.case False if_False,
        rule gives_begin [OF w], rule gives_next_id [OF b(1)], goal_cases)
      case (1 n ks)
      let ?w = "with_ids ks ?b"
      have k: "calm ?w" "db ?w = (db w)\<lparr>next_ids := ks\<rparr>"
        using b by simp_all
      have sel: "select_valid jobnet (db ?w) = select_valid jobnet (db w)"
        by (rule select_valid_cong) simp
      show ?case
      proof (simp only: 1 if_False, rule gives_select_row [OF k(1)], unfold sel, cases "select_valid jobnet (db w)", goal_cases)
        case 1
        then show ?case
          using errors(1) by (simp add: gives_def result_bind exec_bind)
      next
        case (2 c cs)
        then have c: "c_jobnet_id c = jobnet"
          unfolding select_valid_def by (auto dest: filter_eq_ConsD)
        show ?case
        proof (simp only: 2 list.case option.case, rule gives_execute [OF k(1)], goal_cases)
          case (1 x q t)
          note ins = this
          have calm': "calm (put_tables q t ?w)"
            using k(1) by simp
          show ?case
          proof (rule gives_execute [OF calm'], goal_cases)
            case (1 x' q' t')
            let ?v = "put_tables q' t' (put_tables q t ?w)"
            have calm'': "calm ?v" and inside: "inside (db w) ?v"
              using calm' calm(2) by (simp_all add: inside_def no_loss_def calm_def put_tables_def with_ids_def)
            have t': "jobs t' = jobs (db w)" "icons t' = icons (db w)" "designs t' = designs (db w)"
                "controls t' = controls (db w)"
                "jobnets t' = jobnets (db w) @ [main_jobnet n st schedule calendar boot_time c]"
              and n: "jobnet_of n (db w) = None"
              using ins(1) 1(1) by (auto simp: jobnet_of_def main_jobnet_def split: if_splits)
            show ?case
            proof (rule gives_or_stop, rule ok_mono [OF ok_inside [OF ok_load_job_definition [OF calm''] _ inside]])
              fix v
              assume v: "(calm v \<and> (\<exists>xs gs. copied n n (c_jobnet_id c) (c_update c) JA_JOB_TEST_FLAG_OFF xs gs (db ?v) (db v))) \<and>
                inside (db w) v"
              then obtain xs gs where cp: "copied n n jobnet (c_update c) JA_JOB_TEST_FLAG_OFF xs gs t' (db v)"
                by (auto simp: c)
              with v have "begun jobnet n c (db w) v"
                using t' n 2 unfolding begun_def by blast
              moreover have "jobnets (db v) = jobnets (db w) @ [main_jobnet n st schedule calendar boot_time c]"
                using cp t' by (simp add: copied_def)
              ultimately show "gives (do { r \<leftarrow> load_sub_jobnet_definition rounds n JA_JOBNET_RUN_TYPE_NORMAL (c_jobnet_id c)
                              schedule (c_user c);
                       case r of None \<Rightarrow> ret None
                       | Some rc \<Rightarrow> if rc = FAIL then rolled_back (ret (Some FAIL))
                           else do { _ \<leftarrow> DBcommit; ret (Some SUCCEED) } }) P v"
                using expand v unfolding expand_rest_def by (simp add: c)
            qed (rule guard.steps_load_job_definition, rule errors(2))
          qed (rule errors(1))
        qed (rule errors(1))
      qed
    qed (simp add: errors)
  qed
qed

text \<open>The icons to expand are then exactly the jobnet icons of the definition.\<close>

definition mains_known :: "tables \<Rightarrow> bool" where
  "mains_known t \<longleftrightarrow> (\<forall>r \<in> set (jobs t). jobnet_of (rj_main r) t \<noteq> None)"

lemma begun_grown:
  assumes "begun jobnet n c t v" "keyed t" "mains_known t"
  obtains xs where "grown n n JA_JOB_TEST_FLAG_OFF jobnet (c_update c) {} xs t (db v)"
    "pending n (db v) = (\<lambda>x. rj_id (fst x)) ` {x \<in> set xs. rj_type (fst x) = JA_JOB_TYPE_JOBNET}"
proof -
  obtain u xs gs where u: "copied n n jobnet (c_update c) JA_JOB_TEST_FLAG_OFF xs gs u (db v)"
      "jobs u = jobs t" "icons u = icons t" "designs u = designs t" "controls u = controls t"
    using assms(1) by (auto simp: begun_def)
  have "copy_of n n JA_JOB_TEST_FLAG_OFF u = copy_of n n JA_JOB_TEST_FLAG_OFF t"
    by (rule copy_of_designs) (rule u(4))
  moreover have "keyed u"
    using u(2,3) assms(2) by (simp add: keyed_def)
  then have "keyed (db v)"
    using u(1) by (simp add: copied_def)
  moreover have "flag_icon {} = (\<lambda>r. r)"
    by (simp add: flag_icon_def fun_eq_iff)
  ultimately have g: "grown n n JA_JOB_TEST_FLAG_OFF jobnet (c_update c) {} xs t (db v)"
    using u by (simp add: grown_def copied_def select_jobs_def)
  have "pending n t = {}"
    using assms(1,3) by (auto simp: pending_def unexpanded_def mains_known_def begun_def)
  then show thesis
    using that [OF g] grown_pending [OF g] by simp
qed

lemma begun_copies:
  assumes "begun jobnet n c t v" "grown n n tf jobnet (c_update c) {} xs t (db v)"
    and "x \<in> set xs" "rj_type (fst x) = JA_JOB_TYPE_JOBNET"
  obtains a cs y where "select_valid jobnet t = c # cs" "a \<in> set (select_jobs jobnet (c_update c) t)"
    "jc_type a = JA_JOB_TYPE_JOBNET" "y \<in> set (links_of jobnet (jc_job a) (c_update c) t)"
    "points_to (rj_id (fst x)) (db v) = Some y"
proof -
  obtain cs where c: "select_valid jobnet t = c # cs"
    using assms(1) by (auto simp: begun_def)
  obtain a where a: "copy_of n n tf t a x" "a \<in> set (select_jobs jobnet (c_update c) t)"
    using assms(2,3) by (fastforce simp: grown_def list_all2_conv_all_nth in_set_conv_nth)
  then have ty: "jc_type a = JA_JOB_TYPE_JOBNET"
    using assms(4) by (auto simp: copy_of_def loaded_job_def job_core_def)
  have "jc_jobnet a = jobnet" "jc_update a = c_update c"
    using a(2) by (simp_all add: select_jobs_def)
  then obtain y where "links_of jobnet (jc_job a) (c_update c) t = [y]" "points_to (rj_id (fst x)) (db v) = Some y"
    using copy_points [OF assms(2) a(1) assms(3) ty] by auto
  then show thesis
    using that [OF c a(2) ty] by simp
qed

lemma loading_ends:
  assumes "outside w" "keyed (db w)" "mains_known (db w)" "ranked h (db w)" "h jobnet < rounds"
  shows "result (load_jobnet_definition rounds jobnet st schedule calendar boot_time) w \<noteq> None"
proof -
  have "gives (load_jobnet_definition rounds jobnet st schedule calendar boot_time) (\<lambda>r _. r \<noteq> None) w"
  proof (rule load_jobnet_outcome [OF assms(1)])
    fix n c v
    assume b: "begun jobnet n c (db w) v"
    from begun_grown [OF this assms(2,3)] obtain xs where g:
        "grown n n JA_JOB_TEST_FLAG_OFF jobnet (c_update c) {} xs (db w) (db v)"
        "pending n (db v) = (\<lambda>x. rj_id (fst x)) ` {x \<in> set xs. rj_type (fst x) = JA_JOB_TYPE_JOBNET}"
      by blast
    have "below h (h jobnet) (db v) (rj_id (fst x))" if "x \<in> set xs" "rj_type (fst x) = JA_JOB_TYPE_JOBNET" for x
      using begun_copies [OF b g(1) that] assms(4) unfolding ranked_def below_def by metis
    moreover have "keyed (db v)" "ranked h (db v)"
      using g(1) assms(4) ranked_cong [of "db v" "db w" h] by (simp_all add: grown_def)
    ultimately have "round_left h (h jobnet) n (db v) {}"
      unfolding round_left_def g(2) by auto
    moreover have "calm v"
      using b by (simp add: begun_def)
    ultimately show "gives (expand_rest rounds n jobnet schedule (c_user c)) (\<lambda>r _. r \<noteq> None) v"
      unfolding gives_def expand_rest_result using expansion_ends assms(5) by blast
  qed simp_all
  then show ?thesis
    by (simp add: gives_def)
qed

lemma cycle_never_loads:
  assumes "outside w" "keyed (db w)" "mains_known (db w)" "looping J (db w)" "jobnet \<in> J"
    and "already_loaded jobnet st schedule calendar (db w) = 0"
  shows "result (load_jobnet_definition rounds jobnet st schedule calendar boot_time) w \<noteq> Some SUCCEED"
proof -
  have "gives (load_jobnet_definition rounds jobnet st schedule calendar boot_time) (\<lambda>r _. r \<noteq> Some SUCCEED) w"
  proof (rule load_jobnet_outcome [OF assms(1)])
    fix n c v
    assume b: "begun jobnet n c (db w) v"
    from begun_grown [OF this assms(2,3)] obtain xs where g:
        "grown n n JA_JOB_TEST_FLAG_OFF jobnet (c_update c) {} xs (db w) (db v)"
        "pending n (db v) = (\<lambda>x. rj_id (fst x)) ` {x \<in> set xs. rj_type (fst x) = JA_JOB_TYPE_JOBNET}"
      by blast
    obtain cs where "select_valid jobnet (db w) = c # cs"
      using b by (auto simp: begun_def)
    with assms(4,5) obtain a where a: "a \<in> set (select_jobs jobnet (c_update c) (db w))"
        "jc_type a = JA_JOB_TYPE_JOBNET" "set (links_of jobnet (jc_job a) (c_update c) (db w)) \<inter> J \<noteq> {}"
      unfolding looping_def by blast
    have "list_all2 (copy_of n n JA_JOB_TEST_FLAG_OFF (db w)) (select_jobs jobnet (c_update c) (db w)) xs"
      using g(1) by (simp add: grown_def)
    from list_all2_right [OF this a(1)] obtain x where x: "copy_of n n JA_JOB_TEST_FLAG_OFF (db w) a x" "x \<in> set xs"
      by blast
    have "jc_jobnet a = jobnet" "jc_update a = c_update c"
      using a(1) by (simp_all add: select_jobs_def)
    with copy_points [OF g(1) x a(2)] a(3) have "\<exists>z \<in> J. points_to (rj_id (fst x)) (db v) = Some z"
      by auto
    moreover have "rj_type (fst x) = JA_JOB_TYPE_JOBNET"
      using x(1) a(2) by (auto simp: copy_of_def loaded_job_def job_core_def)
    ultimately have "caught J n (db v)"
      unfolding caught_def g(2) using x(2) by blast
    moreover have "keyed (db v)" "looping J (db v)" "calm v"
      using g(1) b assms(4) looping_cong [of "db v" "db w" J] by (simp_all add: grown_def begun_def)
    ultimately show "gives (expand_rest rounds n jobnet schedule (c_user c)) (\<lambda>r _. r \<noteq> Some SUCCEED) v"
      unfolding gives_def expand_rest_result using expansion_never_done by blast
  qed (use assms(6) in simp_all)
  then show ?thesis
    by (simp add: gives_def)
qed

section \<open>A jobnet is loaded once\<close>

lemma ok_round_adds:
  assumes "calm w" "keyed (db w)"
  shows "ok (each_row (expand_icon main run_type jobnet schedule user) rs)
    (\<lambda>v. calm v \<and> keyed (db v) \<and> set (jobnets (db w)) \<subseteq> set (jobnets (db v))) w"
proof (rule ok_each_row [of "\<lambda>_ v. calm v \<and> keyed (db v) \<and> set (jobnets (db w)) \<subseteq> set (jobnets (db v))"])
  fix as a bs v
  assume v: "calm v \<and> keyed (db v) \<and> set (jobnets (db w)) \<subseteq> set (jobnets (db v))"
  then have "ok (expand_icon main run_type jobnet schedule user a) (\<lambda>u. calm u \<and>
      (\<exists>l c xs. expanded main (test_flag_of run_type) (rj_id a) l c xs (db v) (db u))) v"
    by (intro ok_expand_icon) simp_all
  then show "ok (expand_icon main run_type jobnet schedule user a)
      (\<lambda>v. calm v \<and> keyed (db v) \<and> set (jobnets (db w)) \<subseteq> set (jobnets (db v))) v"
    by (rule ok_mono) (use v in \<open>auto simp: expanded_def grown_def\<close>)
qed (use assms in simp)

lemma expansion_adds:
  assumes "calm w" "keyed (db w)"
    and "result (load_sub_jobnet_definition rounds main run_type jobnet schedule user) w = Some SUCCEED"
  shows "calm (exec (load_sub_jobnet_definition rounds main run_type jobnet schedule user) w) \<and>
    set (jobnets (db w)) \<subseteq> set (jobnets (db (exec (load_sub_jobnet_definition rounds main run_type jobnet schedule user) w)))"
  using assms
proof (induction rounds arbitrary: w)
  case (Suc rounds)
  let ?rows = "unexpanded main (db w)"
  let ?round = "each_row (expand_icon main run_type jobnet schedule user) ?rows"
  have "result ?round w = SUCCEED \<Longrightarrow> calm (exec ?round w) \<and> keyed (db (exec ?round w)) \<and>
      set (jobnets (db w)) \<subseteq> set (jobnets (db (exec ?round w)))"
    using ok_round_adds [OF Suc.prems(1,2), of main run_type jobnet schedule user ?rows] by (simp add: ok_def)
  with Suc.IH [of "exec ?round w"] Suc.prems show ?case
    by (cases "?rows = []"; cases "result ?round w")
      (auto simp: result_bind exec_bind exec_ret select_parts)
qed (simp add: exec_ret)

lemma already_loaded_main:
  assumes "main_jobnet n st schedule calendar boot_time c \<in> set (jobnets t)" "c_jobnet_id c = jobnet"
  shows "0 < already_loaded jobnet st schedule calendar t"
proof -
  have "filter (\<lambda>r. rn_jobnet_id r = jobnet \<and> rn_initial r = sql_int st \<and> rn_run_type r = JA_JOBNET_RUN_TYPE_NORMAL \<and>
      rn_main_flag r = JA_JOBNET_MAIN_FLAG_MAIN \<and> rn_schedule r = Some schedule \<and> rn_calendar r = Some calendar)
      (jobnets t) \<noteq> []"
    using assms unfolding filter_empty_conv by (auto simp: main_jobnet_def intro!: bexI [of _ "main_jobnet n st schedule calendar boot_time c"])
  then show ?thesis
    by (simp add: already_loaded_def count_where_def)
qed

lemma loaded_jobnet_remains:
  assumes w: "outside w" "keyed (db w)"
    and "result (load_jobnet_definition rounds jobnet st schedule calendar boot_time) w = Some SUCCEED"
  shows "outside (exec (load_jobnet_definition rounds jobnet st schedule calendar boot_time) w) \<and>
    0 < already_loaded jobnet st schedule calendar
      (db (exec (load_jobnet_definition rounds jobnet st schedule calendar boot_time) w))"
proof -
  let ?P = "\<lambda>r v. r = Some SUCCEED \<longrightarrow> outside v \<and> 0 < already_loaded jobnet st schedule calendar (db v)"
  have "gives (load_jobnet_definition rounds jobnet st schedule calendar boot_time) ?P w"
  proof (rule load_jobnet_outcome [OF w(1)])
    fix n c v
    assume v: "begun jobnet n c (db w) v" "inside (db w) v"
      "jobnets (db v) = jobnets (db w) @ [main_jobnet n st schedule calendar boot_time c]"
    let ?m = "load_sub_jobnet_definition rounds n JA_JOBNET_RUN_TYPE_NORMAL jobnet schedule (c_user c)"
    let ?u = "exec ?m v"
    have "calm v" "keyed (db v)" and c: "c_jobnet_id c = jobnet"
      using v(1) w(2) by (auto simp: begun_def copied_def keyed_def select_valid_def dest: filter_eq_ConsD)
    have "outside (exec DBcommit ?u) \<and> 0 < already_loaded jobnet st schedule calendar (db (exec DBcommit ?u))"
      if "result ?m v = Some SUCCEED"
    proof -
      have u: "calm ?u" "set (jobnets (db v)) \<subseteq> set (jobnets (db ?u))"
        using expansion_adds [OF \<open>calm v\<close> \<open>keyed (db v)\<close> that] by simp_all
      have "inside (db w) ?u"
        by (rule inside_exec [OF guard.steps_load_sub_jobnet v(2)])
      with u(1) have "in_transaction ?u"
        by (cases "srv ?u") (auto simp: inside_def in_transaction_def calm_def)
      from DBcommit_calm [OF this] u(1) have "outside (exec DBcommit ?u)" "db (exec DBcommit ?u) = db ?u"
        by (simp_all add: exec_def outside_def calm_def)
      moreover have "0 < already_loaded jobnet st schedule calendar (db ?u)"
        by (rule already_loaded_main [OF _ c, of n st schedule calendar boot_time]) (use u(2) v(3) in auto)
      ultimately show ?thesis
        by simp
    qed
    then show "gives (expand_rest rounds n jobnet schedule (c_user c)) ?P v"
      unfolding gives_def expand_rest_def
      by (cases "result ?m v") (auto simp: result_bind exec_bind exec_ret rolled_back_def)
  qed (use w(1) in simp_all)
  with assms(3) show ?thesis
    by (simp add: gives_def)
qed

lemma loaded_before:
  assumes "calm w" "0 < already_loaded jobnet st schedule calendar (db w)"
  shows "result (load_jobnet_definition rounds jobnet st schedule calendar boot_time) w = Some SUCCEED"
    "exec (load_jobnet_definition rounds jobnet st schedule calendar boot_time) w = w"
  using assms by (simp_all add: load_jobnet_definition_def result_bind exec_bind exec_ret select_parts)

end
