(* ===== verification/Example_Load.thy ===== *)
theory Example_Load
  imports Example Expansion
begin

text \<open>
  Definitions to load into the small database: \<open>INNER\<close> is a start and an end icon, \<open>OUTER\<close>
  has an icon for \<open>INNER\<close> between them, and \<open>CYCLE\<close> includes itself.
\<close>

definition icon_def :: "string \<Rightarrow> string \<Rightarrow> int \<Rightarrow> job_control" where
  "icon_def j i ty = \<lparr>jc_jobnet = j, jc_job = i, jc_update = 7, jc_type = ty, jc_x = 0, jc_y = 0, jc_name = None,
     jc_method = 0, jc_force = 0, jc_continue = 0, jc_user = None, jc_password = None\<rparr>"

definition flow_def :: "string \<Rightarrow> string \<Rightarrow> string \<Rightarrow> flow_control" where
  "flow_def j a b = \<lparr>fc_jobnet = j, fc_start = a, fc_end = b, fc_update = 7, fc_type = 0, fc_width = 1\<rparr>"

definition jobnet_def :: "string \<Rightarrow> control_row" where
  "jobnet_def j = \<lparr>c_jobnet_id = j, c_update = 7, c_valid = 1, c_public = 0, c_multiple = 0, c_user = ''admin'',
     c_name = j, c_memo = None\<rparr>"

definition design_def :: "string \<Rightarrow> string \<Rightarrow> icon_cols \<Rightarrow> icon_design" where
  "design_def j i cols = \<lparr>di_jobnet = j, di_job = i, di_update = 7, di_cols = cols\<rparr>"

definition demo_designs :: design_tables where
  "demo_designs = no_designs\<lparr>
     job_controls := [icon_def ''INNER'' ''S'' JA_JOB_TYPE_START, icon_def ''INNER'' ''E'' JA_JOB_TYPE_END,
       icon_def ''OUTER'' ''S'' JA_JOB_TYPE_START, icon_def ''OUTER'' ''N'' JA_JOB_TYPE_JOBNET,
       icon_def ''OUTER'' ''E'' JA_JOB_TYPE_END, icon_def ''CYCLE'' ''N'' JA_JOB_TYPE_JOBNET,
       icon_def ''LONE'' ''S'' JA_JOB_TYPE_START],
     flow_controls := [flow_def ''INNER'' ''S'' ''E'', flow_def ''OUTER'' ''S'' ''N'', flow_def ''OUTER'' ''N'' ''E''],
     icon_designs := [design_def ''INNER'' ''E'' (End_cols 0 ''0''), design_def ''OUTER'' ''N'' (Jobnet_cols ''INNER''),
       design_def ''OUTER'' ''E'' (End_cols 0 ''0''), design_def ''CYCLE'' ''N'' (Jobnet_cols ''CYCLE'')]\<rparr>"

definition demo_loader_tables :: tables where
  "demo_loader_tables = demo_tables\<lparr>jobs := [], jobnets := [demo_jobnet 2 JA_JOBNET_STATUS_BEGIN ''NET2''],
     summaries := [], flows := [], vals_after := [], icons := demo_icons\<lparr>icon_ends := [], icon_values := []\<rparr>,
     designs := demo_designs,
     controls := [jobnet_def ''INNER'', jobnet_def ''OUTER'', jobnet_def ''CYCLE'', jobnet_def ''LONE''],
     next_ids := [(JA_RUN_ID_JOBNET_LD, 100), (JA_RUN_ID_JOB, 200), (JA_RUN_ID_FLOW, 300)]\<rparr>"

definition demo_loader :: world where
  "demo_loader = demo\<lparr>db := demo_loader_tables, durable := demo_loader_tables\<rparr>"

lemma demo_loader_simps [simp]:
  "db demo_loader = demo_loader_tables" "durable demo_loader = demo_loader_tables" "srv demo_loader = Idle"
  "txn_level demo_loader = 0" "faults demo_loader = []" "\<not> txn_error demo_loader"
  by (simp_all add: demo_loader_def)

lemma demo_loader_calm [simp]: "outside demo_loader" "calm demo_loader" "at_rest demo_loader_tables demo_loader"
  by (simp_all add: outside_def calm_def at_rest_def no_loss_def only_log_refl)

lemma demo_loader_keys [simp]: "keyed demo_loader_tables" "mains_known demo_loader_tables"
  by (simp_all add: keyed_def mains_known_def demo_loader_tables_def demo_icons_def)

lemmas demo_design_defs = demo_loader_tables_def demo_designs_def icon_def_def flow_def_def jobnet_def_def design_def_def
  select_valid_def select_jobs_def links_of_def design_of_def no_designs_def

text \<open>Only \<open>OUTER\<close> and \<open>INNER\<close>, or only \<open>CYCLE\<close>.\<close>

definition acyclic_loader :: world where
  "acyclic_loader = demo_loader\<lparr>db := demo_loader_tables\<lparr>controls := [jobnet_def ''INNER'', jobnet_def ''OUTER'']\<rparr>,
     durable := demo_loader_tables\<lparr>controls := [jobnet_def ''INNER'', jobnet_def ''OUTER'']\<rparr>\<rparr>"

lemma acyclic_loader_ok:
  "outside acyclic_loader" "keyed (db acyclic_loader)" "mains_known (db acyclic_loader)"
  "ranked (\<lambda>j. if j = ''OUTER'' then 1 else 0) (db acyclic_loader)"
  by (auto simp: acyclic_loader_def outside_def calm_def keyed_def mains_known_def ranked_def demo_design_defs demo_icons_def)

lemma demo_cycle: "looping {''CYCLE''} demo_loader_tables"
  by (simp add: looping_def demo_design_defs)

lemma nothing_loaded: "already_loaded j st s c demo_loader_tables = 0"
  by (simp add: already_loaded_def count_where_def demo_loader_tables_def demo_jobnet_def)

lemma inner_loads: "result (load_job_definition 2 2 ''INNER'' 7 0 0) demo_loader = SUCCEED"
  by code_simp

lemma lone_loads:
  "result (load_jobnet_definition 1 ''LONE'' ''9'' ''S'' ''C'' ''0300'') demo_loader = Some SUCCEED"
  by code_simp

end
