(* ===== verification/Jajob.thy ===== *)
theory Jajob
  imports Jarun
begin

text \<open>
  The watcher of running icons (\<open>jajob/jajob.c\<close>): every icon with status RUN is visited in a
  transaction of its own, which stops it, tests its time limit or looks for its result.
\<close>

section \<open>\<open>process_jajob\<close>\<close>

text \<open>
  The \<^verbatim>\<open>switch\<close> (lines 93--137).  The handlers of extended jobs decide between commit
  and rollback; the results of the others are ignored.
\<close>

definition unheeded :: "rc prog \<Rightarrow> rc prog" where
  "unheeded m = do { _ \<leftarrow> m; ret SUCCEED }"

definition watch_icon :: "environment \<Rightarrow> int \<Rightarrow> run_job \<Rightarrow> rc prog" where
  "watch_icon env timeout_cnt r =
     (let i = rj_id r;
          start_time = show_int (rj_start r);
          stop = (\<lambda>m. if rj_method r = JA_JOB_METHOD_ABORT then unheeded m else ret SUCCEED);
          limit = (\<lambda>m. if rj_timeout r = 0 \<and> timeout_cnt = 0 then unheeded m else ret SUCCEED)
      in if rj_type r = JA_JOB_TYPE_JOB then do {
           _ \<leftarrow> stop (jajob_icon_job_abort env i);
           limit (jajob_icon_job_timeout env i start_time) }
         else if rj_type r = JA_JOB_TYPE_EXTJOB then
           (if rj_method r = JA_JOB_METHOD_ABORT then jajob_icon_extjob_kill i
            else jajob_icon_extjob env i (rj_jobnet r))
         else if rj_type r = JA_JOB_TYPE_FWAIT then stop (jarun_icon_fwait env i JA_AGENT_METHOD_KILL)
         else if rj_type r = JA_JOB_TYPE_REBOOT then do {
           _ \<leftarrow> stop (jarun_icon_reboot env i JA_AGENT_METHOD_KILL);
           limit (jajob_icon_reboot_timeout env i start_time) }
         else if rj_type r = JA_JOB_TYPE_LESS then do {
           _ \<leftarrow> stop (jajob_icon_less_abort env i JA_SES_FORCE_STOP_ON);
           limit (jajob_icon_less_timeout env i start_time) }
         else ret SUCCEED)"

definition jajob_round :: "environment \<Rightarrow> int \<Rightarrow> run_job \<Rightarrow> unit prog" where
  "jajob_round env timeout_cnt r = do {
     _ \<leftarrow> DBbegin;
     _ \<leftarrow> DBselect (select_job (rj_id r));
     rc \<leftarrow> watch_icon env timeout_cnt r;
     if rc = SUCCEED then DBcommit
     else do {
       _ \<leftarrow> ja_log ''JAJOB300001'' (rj_jobnet r) None 0
              [PS ''process_jajob'', PU (rj_id r), PI (rj_type r)];
       DBrollback }
   }"

fun jajob_rounds :: "environment \<Rightarrow> int \<Rightarrow> run_job list \<Rightarrow> unit prog" where
  "jajob_rounds env timeout_cnt [] = ret ()"
| "jajob_rounds env timeout_cnt (r # rs) = do {
     _ \<leftarrow> jajob_round env timeout_cnt r;
     jajob_rounds env timeout_cnt rs }"

definition process_jajob :: "environment \<Rightarrow> int \<Rightarrow> unit prog" where
  "process_jajob env timeout_cnt = do {
     rows \<leftarrow> DBselect (\<lambda>t. filter (\<lambda>r. rj_status r = JA_JOB_STATUS_RUN) (jobs t));
     jajob_rounds env timeout_cnt rows }"

text \<open>
  The counter that thins out the tests of time limits: they are made in the rounds that find
  it at 0.
\<close>

definition next_timeout_cnt :: "int \<Rightarrow> int \<Rightarrow> int \<Rightarrow> int" where
  "next_timeout_cnt interval limit timeout_cnt = (if timeout_cnt \<ge> limit then 0 else timeout_cnt + interval)"

fun main_jajob_loop :: "environment \<Rightarrow> int \<Rightarrow> int \<Rightarrow> int \<Rightarrow> nat \<Rightarrow> int prog" where
  "main_jajob_loop env interval limit timeout_cnt 0 = ret timeout_cnt"
| "main_jajob_loop env interval limit timeout_cnt (Suc n) = do {
     _ \<leftarrow> process_jajob env timeout_cnt;
     main_jajob_loop env interval limit (next_timeout_cnt interval limit timeout_cnt) n }"

section \<open>What it keeps\<close>

context db_steps
begin

lemma steps_unheeded: "steps m \<Longrightarrow> steps (unheeded m)"
  unfolding unheeded_def by (intro db_intros)

text \<open>Stopping a reboot locks no host, so it stays inside the transaction.\<close>

lemma steps_stop_reboot: "steps (jarun_icon_reboot env i JA_JOB_METHOD_ABORT)"
  unfolding jarun_icon_reboot_def prepare_reboot_def
  by (intro agent_basics steps_job_refused; simp)

lemma steps_watch_icon: "steps (watch_icon env c r)"
  unfolding watch_icon_def Let_def
  by (intro extjob_basics steps_unheeded steps_timeouts steps_aborts steps_jajob_icon_extjob
      steps_stop_reboot)

end

context session_steps
begin

lemma steps_jajob_round: "steps (jajob_round env c r)"
  unfolding jajob_round_def by (intro extjob_basics steps_watch_icon session_intros)

lemma steps_process_jajob: "steps (process_jajob env c)"
proof -
  have "steps (jajob_rounds env c rs)" for rs
    by (induction rs) (auto intro!: session_intros steps_jajob_round)
  then show ?thesis
    unfolding process_jajob_def by (intro session_intros)
qed

lemma steps_main_jajob_loop: "steps (main_jajob_loop env i l c n)"
  by (induction n arbitrary: c) (auto intro!: session_intros steps_process_jajob)

end

section \<open>Its transactions\<close>

lemma balanced_jajob_round: "bal.steps (jajob_round env c r)"
  unfolding jajob_round_def
  by (intro balanced_transaction closes_after txn.steps_watch_icon txn.extjob_basics closes_if
      closes_DBcommit closes_DBrollback)

lemma balanced_process_jajob: "bal.steps (process_jajob env c)"
proof -
  have "bal.steps (jajob_rounds env c rs)" for rs
    by (induction rs) (auto intro!: balanced_intros balanced_jajob_round)
  then show ?thesis
    unfolding process_jajob_def
    by (intro bal.steps_bind same_txn_balanced [OF txn.steps_DBselect])
qed

end
