(* ===== verification/Jauser.thy ===== *)
theory Jauser
  imports Jaicons
begin

text \<open>
  Users of the server's interface (\<open>jalibs/jauser.c\<close>).  The user name comes from the
  client and goes into the statement unescaped.
\<close>

section \<open>Statements with unescaped text\<close>

text \<open>
  What PostgreSQL reads in \<^verbatim>\<open>alias = '<text>' and ..\<close>: the literal ends at the first
  quote that is not doubled.  If that is the statement's own quote the text is the literal.
  If two hyphens follow it, the rest of the line, the other condition included, is a comment.  Any other
  text turns the statement into something else, which is the parameter \<open>other\<close>.
\<close>

definition comment :: "string \<Rightarrow> bool" where
  "comment s \<longleftrightarrow> take 2 (dropWhile (\<lambda>c. c = CHR '' '') s) = ''--'' \<and> LF \<notin> set s"

definition unescaped ::
    "(string \<Rightarrow> tables \<Rightarrow> 'r list) \<Rightarrow> string \<Rightarrow> (string \<Rightarrow> 'r \<Rightarrow> bool) \<Rightarrow> ('r \<Rightarrow> bool) \<Rightarrow>
     (tables \<Rightarrow> 'r list) \<Rightarrow> tables \<Rightarrow> 'r list" where
  "unescaped other text p also_p q t =
     (case sql_literal False (text @ [QUOTE]) of
        None \<Rightarrow> other text t
      | Some (v, rest) \<Rightarrow>
          if rest = [] then filter (\<lambda>r. p v r \<and> also_p r) (q t)
          else if comment rest then filter (p v) (q t)
          else other text t)"

type_synonym other_sql = "string \<Rightarrow> tables \<Rightarrow> user_row list"

section \<open>\<open>jauser.c\<close>\<close>

text \<open>The user id, 0 for none; \<open>md5\<close> is \<^verbatim>\<open>ja_md5\<close>.\<close>

definition ja_user_auth :: "other_sql \<Rightarrow> (string \<Rightarrow> string) \<Rightarrow> string \<Rightarrow> string \<Rightarrow> uint64 prog" where
  "ja_user_auth other md5 username password = do {
     row \<leftarrow> DBselect_row (unescaped other username (\<lambda>v u. us_alias u = v) (\<lambda>u. us_passwd u = md5 password) users);
     ret (case row of None \<Rightarrow> 0 | Some u \<Rightarrow> us_id u) }"

definition ja_user_id :: "other_sql \<Rightarrow> string \<Rightarrow> uint64 prog" where
  "ja_user_id other username = do {
     row \<leftarrow> DBselect_row (unescaped other username (\<lambda>v u. us_alias u = v) (\<lambda>_. True) users);
     ret (case row of None \<Rightarrow> 0 | Some u \<Rightarrow> us_id u) }"

definition ja_user_usrgrpid :: "uint64 \<Rightarrow> uint64 prog" where
  "ja_user_usrgrpid userid = do {
     row \<leftarrow> DBselect_row (\<lambda>t. filter (\<lambda>g. fst g = userid) (users_groups t));
     ret (case row of None \<Rightarrow> 0 | Some g \<Rightarrow> snd g) }"

definition ja_user_status :: "uint64 \<Rightarrow> int prog" where
  "ja_user_status userid = do {
     row \<leftarrow> DBselect_row (\<lambda>t. [snd g. ug \<leftarrow> users_groups t, fst ug = userid, g \<leftarrow> usrgrps t, fst g = snd ug]);
     ret (case row of None \<Rightarrow> - 1 | Some status \<Rightarrow> status) }"

definition ja_user_type :: "uint64 \<Rightarrow> int prog" where
  "ja_user_type userid = do {
     row \<leftarrow> DBselect_row (\<lambda>t. filter (\<lambda>u. us_id u = userid) (users t));
     ret (case row of None \<Rightarrow> - 1 | Some u \<Rightarrow> us_type u) }"

definition tolower :: "char \<Rightarrow> char" where
  "tolower c = (let n = of_char c :: nat in if 65 \<le> n \<and> n \<le> 90 then char_of (n + 32) else c)"

definition ja_user_lang :: "uint64 \<Rightarrow> string prog" where
  "ja_user_lang userid = do {
     row \<leftarrow> DBselect_row (\<lambda>t. filter (\<lambda>u. us_id u = userid) (users t));
     ret (case row of None \<Rightarrow> ''en_gb'' | Some u \<Rightarrow> map tolower (us_lang u)) }"

text \<open>The number of groups two users share, counted with repetitions.\<close>

definition ja_user_groups :: "uint64 \<Rightarrow> uint64 \<Rightarrow> int prog" where
  "ja_user_groups userid1 userid2 = do {
     row \<leftarrow> DBselect_row (\<lambda>t. [length [(). g1 \<leftarrow> users_groups t, fst g1 = userid1,
       g2 \<leftarrow> users_groups t, fst g2 = userid2 \<and> snd g1 = snd g2]]);
     ret (case row of None \<Rightarrow> 0 | Some n \<Rightarrow> int n) }"

section \<open>What they keep\<close>

context sql_steps
begin

lemma steps_users:
  "steps (ja_user_auth other md5 u p)" "steps (ja_user_id other u)" "steps (ja_user_usrgrpid i)"
  "steps (ja_user_status i)" "steps (ja_user_type i)" "steps (ja_user_lang i)" "steps (ja_user_groups i j)"
  unfolding ja_user_auth_def ja_user_id_def ja_user_usrgrpid_def ja_user_status_def ja_user_type_def
    ja_user_lang_def ja_user_groups_def
  by (intro db_intros)+

end

section \<open>What they find\<close>

lemma sql_literal_plain:
  "QUOTE \<notin> set v \<Longrightarrow> rest = [] \<or> hd rest \<noteq> QUOTE \<Longrightarrow> sql_literal False (v @ QUOTE # rest) = Some (v, rest)"
  by (induction v) (auto split: list.splits)

lemma unescaped_plain:
  "QUOTE \<notin> set v \<Longrightarrow> unescaped other v p b q t = filter (\<lambda>r. p v r \<and> b r) (q t)"
  using sql_literal_plain [of v "[]"] by (simp add: unescaped_def)

lemma unescaped_comment:
  "QUOTE \<notin> set v \<Longrightarrow> unescaped other (v @ QUOTE # ''--'') p b q t = filter (p v) (q t)"
  using sql_literal_plain [of v "''--'' @ [QUOTE]"] by (simp add: unescaped_def comment_def)

text \<open>A name with the right password and no quote finds its user \dots\<close>

lemma auth_checks_password:
  assumes "calm w" "QUOTE \<notin> set v"
  shows "result (ja_user_auth other md5 v password) w =
    (case filter (\<lambda>u. us_alias u = v \<and> us_passwd u = md5 password) (users (db w)) of [] \<Rightarrow> 0 | u # _ \<Rightarrow> us_id u)"
  using assms by (auto simp: ja_user_auth_def result_def unescaped_plain split: list.splits)

text \<open>\dots but behind a quote and two hyphens the password is not looked at.\<close>

lemma auth_ignores_password:
  assumes "calm w" "QUOTE \<notin> set v"
  shows "result (ja_user_auth other md5 (v @ QUOTE # ''--'') password) w =
    (case filter (\<lambda>u. us_alias u = v) (users (db w)) of [] \<Rightarrow> 0 | u # _ \<Rightarrow> us_id u)"
  using assms by (auto simp: ja_user_auth_def result_def unescaped_comment split: list.splits)

end
