(* ===== verification/Jatelegram.thy ===== *)
theory Jatelegram
  imports Jauser Jahost Loader_Transactions "HOL-Library.AList"
begin

text \<open>
  Telegrams (\<open>jalibs/jatelegram.c\<close>), the users and hosts that may send them
  (\<open>jatrapper/jatrapauth.c\<close>).
\<close>

section \<open>JSON values\<close>

text \<open>
  A parsed request: numbers and \<^verbatim>\<open>true\<close> and \<^verbatim>\<open>false\<close> are kept as they are
  written, the names in an object are different from each other (\<^verbatim>\<open>json_tokener_parse\<close>
  replaces a pair of the same name).
\<close>

datatype json =
    J_null
  | J_str string
  | J_lit string
  | J_obj "(string \<times> json) list"
  | J_arr "json list"

text \<open>
  What the library makes of values: the text of a request (\<^verbatim>\<open>json_object_to_json_string\<close>)
  and the number for a value (\<^verbatim>\<open>json_object_get_int\<close>).  With them the other functions the
  trapper calls: \<^verbatim>\<open>ja_md5\<close>, statements with injected text, regular expressions, the
  table of log messages by language and id, and the socket a reply is sent to.
\<close>

record trapper =
  js_text :: "json \<Rightarrow> string"
  js_int :: "json \<Rightarrow> int"
  md5_hex :: "string \<Rightarrow> string"
  injected :: other_sql
  rx_match :: "string \<Rightarrow> string \<Rightarrow> bool"                  \<comment> \<open>\<open>zbx_regexp_match\<close>: text, pattern\<close>
  log_messages :: "string \<Rightarrow> string \<Rightarrow> string option"     \<comment> \<open>\<open>ja_define_run_log_message_table\<close>\<close>
  tcp_sends :: bool
  server_id :: string

definition json_string :: "trapper \<Rightarrow> json \<Rightarrow> string" where
  "json_string tr j = (case j of J_str s \<Rightarrow> s | _ \<Rightarrow> js_text tr j)"

text \<open>\<^verbatim>\<open>json_object_object_get\<close>: \<^verbatim>\<open>NULL\<close> stands for \<^verbatim>\<open>null\<close> as well as for no value.\<close>

definition tag_value :: "string \<Rightarrow> json \<Rightarrow> json option" where
  "tag_value tag j =
     (case j of J_obj kvs \<Rightarrow> (case map_of kvs tag of Some J_null \<Rightarrow> None | x \<Rightarrow> x) | _ \<Rightarrow> None)"

text \<open>\<^verbatim>\<open>sscanf\<close> of an unsigned number: the old value stays if there is none.\<close>

definition str2uint64 :: "uint64 \<Rightarrow> string \<Rightarrow> uint64" where
  "str2uint64 old s =
     (let t = dropWhile is_space s;
          neg = (t \<noteq> [] \<and> hd t = CHR ''-'');
          ds = takeWhile is_digit (if t \<noteq> [] \<and> (hd t = CHR ''-'' \<or> hd t = CHR ''+'') then tl t else t);
          v = dec_val ds
      in if ds = [] then old
         else if v \<ge> 2 ^ 64 then - 1
         else if neg then - of_nat v else of_nat v)"

section \<open>Telegrams\<close>

text \<open>The request, and the object \<open>data\<close> of the response, which is always there.\<close>

record telegram =
  tg_request :: json
  tg_response :: "(string \<times> json) list"

definition tg_data :: "telegram \<Rightarrow> json option" where
  "tg_data obj = tag_value ''data'' (tg_request obj)"

definition ja_telegram_new :: telegram where
  "ja_telegram_new = \<lparr>tg_request = J_obj [(''data'', J_obj [])], tg_response = []\<rparr>"

definition ja_telegram_check :: "telegram \<Rightarrow> rc" where
  "ja_telegram_check obj = (if tg_data obj = None then FAIL else SUCCEED)"

definition respond :: "string \<Rightarrow> json \<Rightarrow> telegram \<Rightarrow> telegram" where
  "respond tag j obj = obj\<lparr>tg_response := AList.update tag j (tg_response obj)\<rparr>"

definition ja_telegram_seterr :: "string \<Rightarrow> telegram \<Rightarrow> telegram" where
  "ja_telegram_seterr message obj =
     (if ja_telegram_check obj = FAIL then obj
      else respond ''message'' (J_str message) (respond ''result'' (J_lit ''-1'') obj))"

text \<open>What the socket delivers is parsed by the library: \<open>None\<close> for what it cannot parse.\<close>

definition ja_telegram_recv :: "(string \<Rightarrow> json option) \<Rightarrow> string option \<Rightarrow> telegram option" where
  "ja_telegram_recv parse data =
     (case data of None \<Rightarrow> None
      | Some d \<Rightarrow> if d = [] then None
          else map_option (\<lambda>j. ja_telegram_new\<lparr>tg_request := j\<rparr>) (parse d))"

text \<open>A tag of the request that must be there; the message for one that is not.\<close>

definition quoted :: "string \<Rightarrow> string" where
  "quoted s = QUOTE # s @ [QUOTE]"

definition no_tag :: "trapper \<Rightarrow> telegram \<Rightarrow> string \<Rightarrow> string" where
  "no_tag tr obj tag =
     ''can not find the tag '' @ quoted tag @ '' from the request telegram: '' @ js_text tr (tg_request obj)"

definition data_tag :: "telegram \<Rightarrow> string \<Rightarrow> json option" where
  "data_tag obj tag = Option.bind (tg_data obj) (tag_value tag)"

definition need_tag :: "trapper \<Rightarrow> telegram \<Rightarrow> string \<Rightarrow> (json \<Rightarrow> string + 'a) \<Rightarrow> string + 'a" where
  "need_tag tr obj tag k = (case data_tag obj tag of None \<Rightarrow> Inl (no_tag tr obj tag) | Some j \<Rightarrow> k j)"

section \<open>\<open>jatrapauth.c\<close>\<close>

abbreviation (input) USER_TYPE_SUPER_ADMIN :: int where "USER_TYPE_SUPER_ADMIN \<equiv> 3"

definition jatrap_auth_host :: "environment \<Rightarrow> trapper \<Rightarrow> telegram \<Rightarrow> (rc \<times> telegram) prog" where
  "jatrap_auth_host env tr obj =
     (if ja_telegram_check obj = FAIL then ret (FAIL, obj)
      else case need_tag tr obj ''hostname'' (\<lambda>h. need_tag tr obj ''jobid'' (\<lambda>i. Inr (h, i))) of
        Inl err \<Rightarrow> ret (FAIL, ja_telegram_seterr err obj)
      | Inr (h, i) \<Rightarrow> do {
          undefined_id \<leftarrow> gets garbage;
          let hostname = json_string tr h;
          rc \<leftarrow> ja_host_auth env hostname (str2uint64 undefined_id (json_string tr i));
          if rc = FAIL
          then ret (FAIL, ja_telegram_seterr (''host '' @ quoted hostname @ '' is not authenticated'') obj)
          else ret (SUCCEED, obj) })"

text \<open>The user id, 0 with an error in the response.\<close>

definition jatrap_auth_user :: "trapper \<Rightarrow> telegram \<Rightarrow> (uint64 \<times> telegram) prog" where
  "jatrap_auth_user tr obj =
     (if ja_telegram_check obj = FAIL then ret (0, obj)
      else case need_tag tr obj ''username'' (\<lambda>u. need_tag tr obj ''password'' (\<lambda>p. Inr (u, p))) of
        Inl err \<Rightarrow> ret (0, ja_telegram_seterr err obj)
      | Inr (u, p) \<Rightarrow> do {
          let username = json_string tr u;
          userid \<leftarrow> ja_user_auth (injected tr) (md5_hex tr) username (json_string tr p);
          if userid = 0
          then ret (0, ja_telegram_seterr (''user authentication error, username: '' @ username) obj)
          else do {
            status \<leftarrow> ja_user_status userid;
            if status \<noteq> 0 then ret (0, ja_telegram_seterr (''invalid user, username: '' @ username) obj)
            else ret (userid, obj) } })"

text \<open>Whether a user may see and change a jobnet: administrators, public jobnets, members of a group of its owner.\<close>

definition may_access :: "int \<Rightarrow> int \<Rightarrow> int \<Rightarrow> rc" where
  "may_access user_type public_flag groups =
     (if user_type = USER_TYPE_SUPER_ADMIN \<or> public_flag = 1 \<or> groups > 0 then SUCCEED else FAIL)"

definition jatrap_auth_jobnet :: "trapper \<Rightarrow> uint64 \<Rightarrow> uint64 \<Rightarrow> rc prog" where
  "jatrap_auth_jobnet tr userid inner_jobnet_id =
     (if userid = 0 then ret FAIL
      else do {
        user_type \<leftarrow> ja_user_type userid;
        row \<leftarrow> DBselect_row (select_jobnet inner_jobnet_id);
        case row of
          None \<Rightarrow> ret FAIL
        | Some n \<Rightarrow> do {
            owner \<leftarrow> ja_user_id (injected tr) (rn_user n);
            groups \<leftarrow> ja_user_groups owner userid;
            ret (may_access user_type (rn_public n) groups) }
      })"

section \<open>What they keep\<close>

context sql_steps
begin

lemma steps_jatrap_auth: "steps (jatrap_auth_user tr obj)" "steps (jatrap_auth_jobnet tr u n)"
  unfolding jatrap_auth_user_def jatrap_auth_jobnet_def Let_def
  by (auto intro!: db_intros steps_users split: sum.splits)

end

context session_steps
begin

lemma steps_jatrap_auth_host: "steps (jatrap_auth_host env tr obj)"
  unfolding jatrap_auth_host_def by (intro host_basics steps_sum steps_ja_host_auth)

end

end
