(* ===== verification/Jatrapper.thy ===== *)
theory Jatrapper
  imports Jatelegram Jaagent
begin

text \<open>
  The trapper's handlers for agents and for the release and log tools
  (\<open>jatrapjobresult.c\<close>, \<open>jatrapjobrelease.c\<close>, \<open>jatrapjoblogput.c\<close>, \<open>jatrapkind.c\<close>).
  A handler gives its return code and the telegram with the response.
\<close>

section \<open>Results of jobs\<close>

abbreviation (input) JA_JOBRESULT_SUCCEED :: int where "JA_JOBRESULT_SUCCEED \<equiv> 0"
abbreviation (input) JA_JOBRESULT_FAIL :: int where "JA_JOBRESULT_FAIL \<equiv> 1"

record jobresult =
  jr_job :: uint64
  jr_host :: string
  jr_result :: int
  jr_message :: "string option"
  jr_std_out :: "string option"
  jr_std_err :: "string option"
  jr_code :: int
  jr_signal :: int

text \<open>A result that is \<^verbatim>\<open>JA_JOBRESULT_FAIL\<close> carries no signal: the field is not set.\<close>

definition jatrap_jobresult_load :: "trapper \<Rightarrow> int \<Rightarrow> telegram \<Rightarrow> string + jobresult" where
  "jatrap_jobresult_load tr undefined_signal obj =
     need_tag tr obj ''jobid'' (\<lambda>i.
     need_tag tr obj ''hostname'' (\<lambda>h.
     need_tag tr obj ''result'' (\<lambda>r.
       let job = \<lparr>jr_job = str2uint64 0 (json_string tr i), jr_host = json_string tr h,
                  jr_result = js_int tr r, jr_message = None, jr_std_out = None, jr_std_err = None,
                  jr_code = - 1, jr_signal = undefined_signal\<rparr>
       in if js_int tr r = JA_JOBRESULT_FAIL then
            need_tag tr obj ''message'' (\<lambda>m. Inr (job\<lparr>jr_message := Some (json_string tr m)\<rparr>))
          else
            need_tag tr obj ''std_out'' (\<lambda>out.
            need_tag tr obj ''std_err'' (\<lambda>err.
            need_tag tr obj ''return_code'' (\<lambda>code.
            need_tag tr obj ''signal'' (\<lambda>sig.
              Inr (job\<lparr>jr_std_out := Some (json_string tr out), jr_std_err := Some (json_string tr err),
                       jr_code := js_int tr code, jr_signal := js_int tr sig\<rparr>))))))))"

definition set_if_some :: "uint64 \<Rightarrow> uint64 \<Rightarrow> string \<Rightarrow> string option \<Rightarrow> rc prog" where
  "set_if_some i n name v =
     (case v of None \<Rightarrow> ret SUCCEED | Some s \<Rightarrow> ja_set_value_after i n name (Some s))"

definition jatrap_jobresult_set_value :: "jobresult \<Rightarrow> uint64 \<Rightarrow> rc prog" where
  "jatrap_jobresult_set_value job n =
     or_fail (set_if_some (jr_job job) n ''JOBARG_MESSAGE'' (jr_message job)) (
     or_fail (set_if_some (jr_job job) n ''STD_OUT'' (jr_std_out job)) (
     or_fail (set_if_some (jr_job job) n ''STD_ERR'' (jr_std_err job)) (
     or_fail (ja_set_value_after (jr_job job) n ''JOB_EXIT_CD'' (Some (show_int (jr_code job)))) (
     ja_set_value_after (jr_job job) n ''SIGNAL'' (Some (show_int (jr_signal job)))))))"

text \<open>
  How the icon ends (lines 355--400): an unknown icon type, an error with the icon status and
  the message, or a normal end.  For a job icon the stop codes are looked up first; without
  their row the message is made from a \<^verbatim>\<open>NULL\<close> pointer and the process dies.
\<close>

datatype icon_verdict = Unknown_type string | Run_err int string | Normal_end | Null_row

definition job_verdict :: "libc \<Rightarrow> int \<Rightarrow> icon_host option \<Rightarrow> icon_verdict" where
  "job_verdict lc code row =
     (case row of
        None \<Rightarrow> Null_row
      | Some r \<Rightarrow>
          if ja_number_match lc (show_int code) (column 3 (ih_rest r)) = 0 then Normal_end
          else Run_err 1 (''The job return code '' @ quoted (show_int code) @
                          '' is range of the stop code '' @ quoted (column 3 (ih_rest r))))"

definition result_verdict :: "libc \<Rightarrow> jobresult \<Rightarrow> int \<Rightarrow> int \<Rightarrow> icon_host option \<Rightarrow> icon_verdict" where
  "result_verdict lc job job_type status row =
     (if jr_result job \<noteq> JA_JOBRESULT_SUCCEED then Run_err 2 (printed (jr_message job))
      else if status = JA_JOB_STATUS_ABORT then Run_err 2 ''Aborted the job''
      else if jr_signal job = 1 then Run_err 2 ''The job catch a signal''
      else if job_type = JA_JOB_TYPE_JOB then job_verdict lc (jr_code job) row
      else if job_type = JA_JOB_TYPE_FWAIT then
        if jr_code job = 0 \<or> jr_code job = 1 then Normal_end else Run_err 2 ''The job failed''
      else if job_type = JA_JOB_TYPE_REBOOT then
        if jr_code job = 0 then Normal_end else Run_err 2 ''The job failed''
      else Unknown_type (''Unknow the job type '' @ quoted (show_int job_type)))"

text \<open>The stop codes are only looked up for a job that succeeded.\<close>

definition stop_row :: "jobresult \<Rightarrow> int \<Rightarrow> int \<Rightarrow> icon_host option prog" where
  "stop_row job job_type status =
     (if jr_result job = JA_JOBRESULT_SUCCEED \<and> status \<noteq> JA_JOB_STATUS_ABORT \<and> jr_signal job \<noteq> 1 \<and>
         job_type = JA_JOB_TYPE_JOB
      then DBselect_row (\<lambda>t. filter (\<lambda>r. ih_job r = jr_job job) (icon_job_hosts (icons t)))
      else ret None)"

definition cannot_set :: "uint64 \<Rightarrow> string" where
  "cannot_set i = ''can not set the values. inner_job_id: '' @ show_u64 i"

text \<open>The icon's end; the results of \<open>ja_flow\<close> and \<open>ja_set_runerr\<close> are ignored.  \<open>None\<close>: the process is gone.\<close>

definition finish_icon :: "icon_verdict \<Rightarrow> uint64 \<Rightarrow> uint64 \<Rightarrow> (string + unit) option prog" where
  "finish_icon v i n =
     (case v of
        Unknown_type err \<Rightarrow> ret (Some (Inl err))
      | Null_row \<Rightarrow> do { _ \<leftarrow> assert_fail; ret None }
      | Normal_end \<Rightarrow> do {
          _ \<leftarrow> ja_set_value_after i n ''ICON_STATUS'' (Some ''0'');
          _ \<leftarrow> ja_flow i JA_FLOW_TYPE_NORMAL 1;
          ret (Some (Inr ())) }
      | Run_err icon_status msg \<Rightarrow> do {
          rc \<leftarrow> ja_set_value_after i n ''JOBARG_MESSAGE'' (Some msg);
          if rc = FAIL then ret (Some (Inl (cannot_set i)))
          else do {
            _ \<leftarrow> ja_set_runerr i icon_status;
            ret (Some (Inr ())) } })"

definition jobresult_body :: "libc \<Rightarrow> jobresult \<Rightarrow> (string + unit) option prog" where
  "jobresult_body lc job = do {
     let i = jr_job job;
     row \<leftarrow> DBselect_row (select_job i);
     case row of
       None \<Rightarrow> ret (Some (Inl (''can not match the inner_jobnet_id '' @ show_u64 i)))
     | Some r \<Rightarrow>
         if rj_status r \<noteq> JA_JOB_STATUS_RUN \<and> rj_status r \<noteq> JA_JOB_STATUS_ABORT
         then ret (Some (Inl (''the job is not running. inner_job_id: '' @ show_u64 i)))
         else do {
           rc \<leftarrow> jatrap_jobresult_set_value job (rj_jobnet r);
           if rc = FAIL then ret (Some (Inl (cannot_set i)))
           else do {
             _ \<leftarrow> (if rj_type r = JA_JOB_TYPE_REBOOT then ja_host_unlock (jr_host job) else ret SUCCEED);
             stop \<leftarrow> stop_row job (rj_type r) (rj_status r);
             finish_icon (result_verdict lc job (rj_type r) (rj_status r) stop) i (rj_jobnet r) }
         }
   }"

text \<open>Commit or rollback, and the response.\<close>

definition end_request :: "telegram \<Rightarrow> (string + unit) option \<Rightarrow> (rc \<times> telegram) prog" where
  "end_request obj outcome =
     (case outcome of
        None \<Rightarrow> ret (FAIL, obj)
      | Some (Inl err) \<Rightarrow> do { _ \<leftarrow> DBrollback; ret (FAIL, ja_telegram_seterr err obj) }
      | Some (Inr _) \<Rightarrow> do { _ \<leftarrow> DBcommit; ret (SUCCEED, respond ''result'' (J_lit ''0'') obj) })"

definition jatrap_jobresult :: "libc \<Rightarrow> trapper \<Rightarrow> telegram \<Rightarrow> (rc \<times> telegram) prog" where
  "jatrap_jobresult lc tr obj =
     (if ja_telegram_check obj = FAIL then ret (FAIL, obj)
      else do {
        g \<leftarrow> gets garbage;
        case jatrap_jobresult_load tr (signed_take_bit 31 (uint g)) obj of
          Inl err \<Rightarrow> ret (FAIL, ja_telegram_seterr err obj)
        | Inr job \<Rightarrow> do {
            _ \<leftarrow> DBbegin;
            outcome \<leftarrow> jobresult_body lc job;
            end_request obj outcome }
      })"

section \<open>Releasing held icons\<close>

definition jatrap_jobrelease_jobid :: "uint64 \<Rightarrow> rc prog" where
  "jatrap_jobrelease_jobid i = do {
     _ \<leftarrow> DBselect (select_job i);
     db_ret \<leftarrow> DBexecute (Update_job (Job_is_method i JA_JOB_METHOD_WAIT)
       (job_cols\<lparr>js_method := Some JA_JOB_METHOD_NORMAL\<rparr>));
     ret (if db_ret > ZBX_DB_OK then SUCCEED else FAIL) }"

definition in_jobnet :: "string \<Rightarrow> uint64 \<Rightarrow> string \<Rightarrow> string" where
  "in_jobnet text n jobnet_id =
     text @ '' inner_jobnet_id: '' @ show_u64 n @ '', jobnet_id: '' @ quoted jobnet_id"

text \<open>Find the icon in one jobnet and release it; \<open>skip\<close> says whether a jobnet without permission is passed over.\<close>

definition release_in :: "trapper \<Rightarrow> bool \<Rightarrow> uint64 \<Rightarrow> string \<Rightarrow> string \<Rightarrow> uint64 \<Rightarrow> (string + uint64 list) prog" where
  "release_in tr check userid jobnet_id path n = do {
     i \<leftarrow> ja_jobnet_get_job_id n path;
     if i = 0 then ret (Inl (in_jobnet ''can not find the job id.'' n jobnet_id))
     else do {
       rc \<leftarrow> (if check then jatrap_auth_jobnet tr userid n else ret SUCCEED);
       if rc = FAIL then ret (Inr [])
       else do {
         rc \<leftarrow> jatrap_jobrelease_jobid i;
         ret (if rc = FAIL then Inl (in_jobnet ''icon is not pending.'' n jobnet_id) else Inr [n]) } }
   }"

fun release_rows :: "trapper \<Rightarrow> uint64 \<Rightarrow> string \<Rightarrow> string \<Rightarrow> string option \<Rightarrow> run_summary list \<Rightarrow> uint64 list \<Rightarrow>
    (string option \<times> uint64 list) prog" where
  "release_rows tr userid jobnet_id path start_time [] ns = ret (None, ns)"
| "release_rows tr userid jobnet_id path start_time (s # ss) ns =
     (if (case start_time of None \<Rightarrow> False | Some st \<Rightarrow> take (length st) (show_int (rs_start s)) \<noteq> st)
      then release_rows tr userid jobnet_id path start_time ss ns
      else do {
        r \<leftarrow> release_in tr True userid jobnet_id path (rs_id s);
        case r of
          Inl err \<Rightarrow> ret (Some err, ns)
        | Inr more_ns \<Rightarrow> release_rows tr userid jobnet_id path start_time ss (ns @ more_ns) })"

text \<open>
  The request: jobnet id and path of the icon, start time, number of the jobnet (0 for none).
  The jobnet id is what stands in front of the first slash; it goes into the statement
  unescaped and is assumed to hold no quote.
\<close>

definition release_request :: "trapper \<Rightarrow> telegram \<Rightarrow> string + string \<times> string \<times> string option \<times> uint64" where
  "release_request tr obj =
     need_tag tr obj ''jobid'' (\<lambda>j.
       let job_id = json_string tr j in
       if CHR ''/'' \<notin> set job_id then Inl (''jobid '' @ quoted job_id @ '' is not correct'')
       else
         let jobnet_id = takeWhile (\<lambda>c. c \<noteq> CHR ''/'') job_id;
             path = tl (dropWhile (\<lambda>c. c \<noteq> CHR ''/'') job_id);
             start_time = map_option (json_string tr) (data_tag obj ''start_time'')
         in case data_tag obj ''inner_jobnet_id'' of
              None \<Rightarrow> Inr (jobnet_id, path, start_time, 0)
            | Some j \<Rightarrow>
                let n = str2uint64 0 (json_string tr j) in
                if n = 0 then Inl (''registry-number '' @ quoted (json_string tr j) @ '' is not correct'')
                else Inr (jobnet_id, path, start_time, n))"

definition select_running :: "string \<Rightarrow> tables \<Rightarrow> run_summary list" where
  "select_running jobnet_id t =
     filter (\<lambda>s. rs_jobnet_id s = jobnet_id \<and> rs_status s = JA_JOBNET_STATUS_RUN) (summaries t)"

definition release_one :: "trapper \<Rightarrow> uint64 \<Rightarrow> string \<Rightarrow> string \<Rightarrow> uint64 \<Rightarrow> (string option \<times> uint64 list) prog" where
  "release_one tr userid jobnet_id path n = do {
     rc \<leftarrow> jatrap_auth_jobnet tr userid n;
     if rc = FAIL then ret (Some (''can not access the job. inner_jobnet_id: '' @ show_u64 n), [])
     else do {
       row \<leftarrow> DBselect_row (\<lambda>t. filter (\<lambda>s. rs_id s = n) (select_running jobnet_id t));
       case row of
         None \<Rightarrow> ret (None, [])
       | Some _ \<Rightarrow> do {
           r \<leftarrow> release_in tr False userid jobnet_id path n;
           ret (case r of Inl err \<Rightarrow> (Some err, []) | Inr ns \<Rightarrow> (None, ns)) } }
   }"

definition release_body :: "trapper \<Rightarrow> uint64 \<Rightarrow> string \<times> string \<times> string option \<times> uint64 \<Rightarrow>
    (string option \<times> uint64 list) prog" where
  "release_body tr userid = (\<lambda>(jobnet_id, path, start_time, n). do {
     (err, ns) \<leftarrow>
       (if n > 0 then release_one tr userid jobnet_id path n
        else case start_time of
          Some st \<Rightarrow>
            if length st \<noteq> 8 \<and> length st \<noteq> 12 then ret (Some (''unknowed start_time '' @ st), [])
            else do { rows \<leftarrow> DBselect (select_running jobnet_id);
                      release_rows tr userid jobnet_id path start_time rows [] }
        | None \<Rightarrow> do { rows \<leftarrow> DBselect (select_running jobnet_id);
                      release_rows tr userid jobnet_id path None rows [] });
     ret (if err = None \<and> ns = [] then (Some ''can not match the jobnet'', ns) else (err, ns)) })"

definition numbers :: "uint64 list \<Rightarrow> telegram \<Rightarrow> telegram" where
  "numbers ns = respond ''inner_jobnet_id'' (J_arr (map (\<lambda>n. J_str (show_u64 n)) ns))"

definition jatrap_jobrelease :: "trapper \<Rightarrow> telegram \<Rightarrow> (rc \<times> telegram) prog" where
  "jatrap_jobrelease tr obj =
     (if ja_telegram_check obj = FAIL then ret (FAIL, obj)
      else do {
        (userid, obj) \<leftarrow> jatrap_auth_user tr obj;
        if userid = 0 then ret (FAIL, obj)
        else do {
          _ \<leftarrow> DBbegin;
          case release_request tr obj of
            Inl err \<Rightarrow> end_request obj (Some (Inl err))
          | Inr rq \<Rightarrow> do {
              (err, ns) \<leftarrow> release_body tr userid rq;
              end_request (numbers ns obj) (Some (case err of None \<Rightarrow> Inr () | Some e \<Rightarrow> Inl e)) } }
      })"

section \<open>What they keep\<close>

text \<open>The only statement of a release.\<close>

definition release_sql :: "sql \<Rightarrow> bool" where
  "release_sql s \<longleftrightarrow> (\<exists>i. s = Update_job (Job_is_method i JA_JOB_METHOD_WAIT)
     (job_cols\<lparr>js_method := Some JA_JOB_METHOD_NORMAL\<rparr>))"

lemma release_sql_run: "release_sql s \<Longrightarrow> run_sql s"
  by (auto simp: release_sql_def run_sql_def)

context sql_steps
begin

lemma steps_release_jobid: "(\<And>s. release_sql s \<Longrightarrow> ok s) \<Longrightarrow> steps (jatrap_jobrelease_jobid i)"
  unfolding jatrap_jobrelease_jobid_def by (intro db_intros) (simp add: release_sql_def)

lemma steps_release_in: "(\<And>s. release_sql s \<Longrightarrow> ok s) \<Longrightarrow> steps (release_in tr c u j p n)"
  unfolding release_in_def
  by (intro db_intros steps_jatrap_auth steps_release_jobid steps_ja_jobnet_get_job_id)

lemma steps_release_rows: "(\<And>s. release_sql s \<Longrightarrow> ok s) \<Longrightarrow> steps (release_rows tr u j p st ss ns)"
  by (induction ss arbitrary: ns) (auto intro!: db_intros steps_sum steps_release_in)

lemma steps_release_body: "(\<And>s. release_sql s \<Longrightarrow> ok s) \<Longrightarrow> steps (release_body tr u rq)"
  unfolding release_body_def release_one_def split_def
  by (intro db_intros steps_jatrap_auth steps_release_in steps_release_rows)

end

context db_steps
begin

lemma steps_jobresult_set_value: "steps (jatrap_jobresult_set_value job n)"
  unfolding jatrap_jobresult_set_value_def set_if_some_def by (intro host_basics)

lemma steps_stop_row: "steps (stop_row job ty s)"
  unfolding stop_row_def by (intro host_basics)

end

context load_steps
begin

lemma steps_crash: "steps assert_fail"
  unfolding assert_fail_def by (rule steps_modify) (rule crash_step)

lemma steps_finish_icon: "steps (finish_icon v i n)"
  by (cases v) (auto simp: finish_icon_def intro!: handlers.host_basics steps_crash)

lemma steps_jobresult_body: "steps (jobresult_body lc job)"
  unfolding jobresult_body_def
  by (intro handlers.host_basics handlers.steps_jobresult_set_value handlers.steps_stop_row steps_finish_icon)

end

context txn_steps
begin

lemma steps_end_request: "steps (end_request obj x)"
  unfolding end_request_def
  by (intro session_intros steps_sum)

lemma steps_jatrap_jobrelease: "(\<And>s. release_sql s \<Longrightarrow> ok s) \<Longrightarrow> steps (jatrap_jobrelease tr obj)"
  unfolding jatrap_jobrelease_def
  by (intro session_intros steps_sum steps_jatrap_auth steps_release_body steps_end_request)

end

context purge_steps
begin

lemma steps_jatrap_jobresult: "steps (jatrap_jobresult lc tr obj)"
  unfolding jatrap_jobresult_def
  by (intro session_intros steps_sum loader.steps_jobresult_body steps_end_request)

end

section \<open>Refused requests\<close>

text \<open>What a body that ends in an error has written is gone; the committed tables are the old ones.\<close>

lemma refused_request:
  assumes "at_rest t w" "guard.steps body" "\<And>x. result body (exec DBbegin w) = x \<Longrightarrow> x = None \<or> (\<exists>e. x = Some (Inl e))"
  shows "durable (exec (do { _ \<leftarrow> DBbegin; x \<leftarrow> body; end_request obj x }) w) = durable w"
proof -
  let ?v = "exec body (exec DBbegin w)"
  have v: "inside (durable w) ?v"
    using inside_exec [OF assms(2) inside_begin [OF assms(1)]] .
  then have "durable (exec DBrollback ?v) = durable w"
    using rollback_no_loss [of ?v] by (auto simp: inside_def)
  with v assms(3) [OF refl] show ?thesis
    by (auto simp: exec_bind end_request_def exec_ret inside_def)
qed

lemma end_request_fails: "fst (result (end_request obj x) w) = FAIL \<longleftrightarrow> x = None \<or> (\<exists>e. x = Some (Inl e))"
  by (auto simp: end_request_def result_def exec_def split: option.splits sum.splits prod.splits)

end
