(* ===== verification/Jatrapexec.thy ===== *)
theory Jatrapexec
  imports Jatrapper
begin

text \<open>
  The trapper's requests to run a jobnet and for its status, and its dispatching
  (\<open>jatrapper.c\<close>, \<open>jatrapkind.c\<close>).  These requests are read a second time, by the JSON functions
  of Zabbix.
\<close>

section \<open>Reading with the functions of Zabbix\<close>

text \<open>\<^verbatim>\<open>zbx_json_value_by_name\<close> into a buffer of 2048 bytes, \<^verbatim>\<open>zbx_json_brackets_open\<close>.\<close>

definition zbx_value :: "string \<Rightarrow> json \<Rightarrow> string option" where
  "zbx_value name j =
     (case j of
        J_obj kvs \<Rightarrow>
          (case map_of kvs name of
             Some (J_str s) \<Rightarrow> Some (strlcpy 2048 s)
           | Some J_null \<Rightarrow> Some []
           | Some (J_lit t) \<Rightarrow>
               (case t of
                  [] \<Rightarrow> None
                | c # _ \<Rightarrow> if is_digit c \<or> c = CHR ''-''
                    then Some (strlcpy 2048 (takeWhile (\<lambda>c. is_digit c \<or> c = CHR ''-'') t)) else None)
           | _ \<Rightarrow> None)
      | _ \<Rightarrow> None)"

definition zbx_pair :: "string \<Rightarrow> json \<Rightarrow> json option" where
  "zbx_pair name j = (case j of J_obj kvs \<Rightarrow> map_of kvs name | _ \<Rightarrow> None)"

definition brackets_open :: "json \<Rightarrow> json option" where
  "brackets_open j = (case j of J_obj _ \<Rightarrow> Some j | J_arr _ \<Rightarrow> Some j | _ \<Rightarrow> None)"

text \<open>The names in an object, each with its value; a value that is no text leaves the name in the buffer.\<close>

definition zbx_pairs :: "json \<Rightarrow> (string \<times> string) list" where
  "zbx_pairs j =
     (case j of
        J_obj kvs \<Rightarrow>
          map (\<lambda>(name, _). let n = strlcpy 2048 name in (n, case zbx_value n j of None \<Rightarrow> n | Some v \<Rightarrow> v)) kvs
      | _ \<Rightarrow> [])"

section \<open>Running a jobnet\<close>

text \<open>The code has room for 1024 variables and does not count them.\<close>

record exec_request =
  er_user :: string
  er_password :: string
  er_jobnet :: string
  er_start :: "string option"
  er_env :: "(string \<times> string) list"
  er_deterrence :: int

definition mktime_of :: "environment \<Rightarrow> tm \<Rightarrow> int" where
  "mktime_of env t = epoch env (int (dec_val (ja_timestamp2str t)))"

definition time_passed_check :: "environment \<Rightarrow> int \<Rightarrow> string \<Rightarrow> rc" where
  "time_passed_check env now starttime =
     (if ja_str2timestamp (mktime_of env) starttime - epoch env now < 60 then FAIL else SUCCEED)"

definition select_definition :: "string \<Rightarrow> tables \<Rightarrow> control_row list" where
  "select_definition jobnet_id t =
     filter (\<lambda>c. c_jobnet_id c = sql_text (esc jobnet_id) \<and> c_valid c = 1) (controls t)"

text \<open>\<^verbatim>\<open>zbx_free\<close> sets the freed \<^verbatim>\<open>jobnet_id\<close> to \<^verbatim>\<open>NULL\<close> before the last message.\<close>

definition job_exec_auth :: "trapper \<Rightarrow> string \<Rightarrow> string \<Rightarrow> string \<Rightarrow> rc prog" where
  "job_exec_auth tr username password jobnet = do {
     userid \<leftarrow> ja_user_auth (injected tr) (md5_hex tr) username password;
     if userid = 0 then do { _ \<leftarrow> ja_log ''JATRAPPER200008'' 0 (Some jobnet) 0 []; ret FAIL }
     else do {
       status \<leftarrow> ja_user_status userid;
       if status \<noteq> 0 then do { _ \<leftarrow> ja_log ''JATRAPPER200050'' 0 (Some jobnet) 0 [PS username]; ret FAIL }
       else do {
         user_type \<leftarrow> ja_user_type userid;
         row \<leftarrow> DBselect_row (select_definition jobnet);
         case row of
           None \<Rightarrow> do { _ \<leftarrow> ja_log ''JATRAPPER200046'' 0 (Some (esc jobnet)) 0 [PS (esc jobnet)]; ret FAIL }
         | Some c \<Rightarrow> do {
             owner \<leftarrow> ja_user_id (injected tr) (c_user c);
             groups \<leftarrow> ja_user_groups owner userid;
             if may_access user_type (c_public c) groups = SUCCEED then ret SUCCEED
             else do { _ \<leftarrow> ja_log ''JATRAPPER200047'' 0 None 0 [PS jobnet]; ret FAIL } }
       } } }"

definition requested_jobnet :: "exec_request \<Rightarrow> uint64 \<Rightarrow> control_row \<Rightarrow> run_jobnet" where
  "requested_jobnet er n c =
     (let scheduled_time = (case er_start er of None \<Rightarrow> 0 | Some s \<Rightarrow> uint (str2uint64 0 s)) in
      \<lparr>rn_id = n, rn_main = n, rn_job = 0, rn_update = c_update c,
       rn_run_type = (if er_start er = None then JA_JOBNET_RUN_TYPE_IMMEDIATE else JA_JOBNET_RUN_TYPE_SCHEDULED),
       rn_main_flag = JA_JOBNET_MAIN_FLAG_MAIN, rn_timeout = 0, rn_status = JA_JOBNET_STATUS_BEGIN,
       rn_sched = scheduled_time, rn_start = 0, rn_end = 0, rn_public = c_public c,
       rn_multiple = c_multiple c, rn_jobnet_id = sql_text (esc (er_jobnet er)),
       rn_user = sql_text (esc (c_user c)), rn_name = sql_text (esc (c_name c)),
       rn_memo = Some (stored_text (c_memo c)), rn_exec_user = sql_text (er_user er),
       rn_schedule = None, rn_calendar = None, rn_boot = None, rn_initial = scheduled_time,
       rn_running_id = None, rn_running_name = None\<rparr>)"

fun register_values :: "string \<Rightarrow> uint64 \<Rightarrow> (string \<times> string) list \<Rightarrow> rc prog" where
  "register_values jobnet n [] = ret SUCCEED"
| "register_values jobnet n ((name, v) # env) = do {
     res \<leftarrow> DBexecute (Insert_net_value n (sql_text (esc name)) (sql_text (esc v)));
     if ZBX_DB_OK > res then do {
       _ \<leftarrow> ja_log ''JATRAPPER200016'' 0 (Some (esc jobnet)) 0 [PS (esc jobnet)];
       ret FAIL }
     else register_values jobnet n env }"

text \<open>The number of the jobnet, or \<open>None\<close> for \<open>FAIL\<close>.\<close>

definition register_db_table :: "exec_request \<Rightarrow> uint64 option prog" where
  "register_db_table er = do {
     let j = esc (er_jobnet er);
     row \<leftarrow> DBselect_row (select_definition (er_jobnet er));
     case row of
       None \<Rightarrow> do { _ \<leftarrow> ja_log ''JATRAPPER200014'' 0 (Some j) 0 [PS j]; ret None }
     | Some c \<Rightarrow> do {
         next_id \<leftarrow> get_next_id JA_RUN_ID_JOBNET_EX 0 (Some j) 0;
         if next_id = 0 then do { _ \<leftarrow> ja_log ''JATRAPPER200015'' 0 (Some j) 0 []; ret None }
         else do {
           res \<leftarrow> DBexecute (Insert_jobnet (requested_jobnet er next_id c));
           if ZBX_DB_OK > res then do { _ \<leftarrow> ja_log ''JATRAPPER200016'' 0 (Some j) 0 [PS j]; ret None }
           else do {
             rc \<leftarrow> register_values (er_jobnet er) next_id (er_env er);
             ret (if rc = FAIL then None else Some next_id) } }
       }
   }"

text \<open>The request (lines 627--734): an error with the message that is logged, or the request.\<close>

definition refused :: "string \<Rightarrow> string \<Rightarrow> (string \<times> parg list) option \<times> string" where
  "refused message_id text = (Some (message_id, []), ''Received message error: '' @ text)"

definition check_version :: "json \<Rightarrow> ((string \<times> parg list) option \<times> string) option" where
  "check_version j =
     (case zbx_value ''version'' j of
        None \<Rightarrow> Some (refused ''JATRAPPER200028'' ''[version] not found'')
      | Some v \<Rightarrow> if atoi v \<noteq> 1
          then Some (Some (''JATRAPPER200027'', [PI 1]), ''Received message error: [version] is not correct.'')
          else None)"

definition user_and_password :: "json \<Rightarrow> ((string \<times> parg list) option \<times> string) + string \<times> string" where
  "user_and_password row =
     (case zbx_value ''username'' row of
        None \<Rightarrow> Inl (refused ''JATRAPPER200032'' ''[username] not found'')
      | Some u \<Rightarrow>
          (case zbx_value ''password'' row of
             None \<Rightarrow> Inl (refused ''JATRAPPER200033'' ''[password] not found'')
           | Some p \<Rightarrow> Inr (u, p)))"

definition exec_env :: "json \<Rightarrow> (string \<times> string) list option" where
  "exec_env row = (case zbx_pair ''env'' row of None \<Rightarrow> Some [] | Some e \<Rightarrow> map_option zbx_pairs (brackets_open e))"

definition jobnetrun_request ::
    "environment \<Rightarrow> int \<Rightarrow> json \<Rightarrow> ((string \<times> parg list) option \<times> string \<times> string option) + exec_request" where
  "jobnetrun_request env now j =
     (let no_jobnet = (\<lambda>(m, text). (m, text, None)) in
      case check_version j of Some e \<Rightarrow> Inl (no_jobnet e) | None \<Rightarrow>
      (case zbx_pair ''data'' j of None \<Rightarrow> Inl (no_jobnet (refused ''JATRAPPER200021'' ''[data] not found'')) | Some p \<Rightarrow>
      (case brackets_open p of
         None \<Rightarrow> Inl (no_jobnet (refused ''JATRAPPER200022'' ''Cannot open [data] object''))
       | Some row \<Rightarrow>
      (case user_and_password row of Inl e \<Rightarrow> Inl (no_jobnet e) | Inr (u, pw) \<Rightarrow>
      (case zbx_value ''jobnetid'' row of
         None \<Rightarrow> Inl (no_jobnet (refused ''JATRAPPER200034'' ''[jobnetid] not found''))
       | Some jobnet \<Rightarrow>
         let starttime = zbx_value ''start_time'' row in
         if (case starttime of None \<Rightarrow> False | Some st \<Rightarrow> time_passed_check env now st = FAIL)
         then Inl (None, ''Received message error: [start_time] already passed.'', None)
         else
           (case exec_env row of
              None \<Rightarrow> Inl (Some (''JATRAPPER200051'', []), ''Received message error: Cannot open [env] object'', Some jobnet)
            | Some vs \<Rightarrow>
                Inr \<lparr>er_user = u, er_password = pw, er_jobnet = jobnet, er_start = starttime, er_env = vs,
                     er_deterrence = (case zbx_value ''deterrence'' row of None \<Rightarrow> 0 | Some d \<Rightarrow> atoi d)\<rparr>))))))"

definition refuse_request :: "(string \<times> parg list) option \<times> string \<times> string option \<Rightarrow> (rc \<times> string) prog" where
  "refuse_request = (\<lambda>(m, text, jobnet). do {
     _ \<leftarrow> (case m of None \<Rightarrow> ret SUCCEED | Some (message_id, args) \<Rightarrow> ja_log message_id 0 jobnet 0 args);
     ret (FAIL, text) })"

text \<open>
  With the start-up suppression a jobnet is not registered twice for the same time
  (lines 738--761); the start time and the jobnet id go into the statement as they are.
\<close>

definition registered_before :: "string \<Rightarrow> string \<Rightarrow> tables \<Rightarrow> run_jobnet list" where
  "registered_before st jobnet t =
     filter (\<lambda>r. rn_sched r = uint (str2uint64 0 st) \<and> rn_jobnet_id r = sql_text jobnet \<and>
        rn_run_type r = JA_JOBNET_RUN_TYPE_SCHEDULED) (jobnets t)"

definition double_check :: "exec_request \<Rightarrow> string option prog" where
  "double_check er =
     (case er_start er of
        None \<Rightarrow> ret None
      | Some st \<Rightarrow>
          if er_deterrence er \<noteq> 1 then ret None
          else do {
            row \<leftarrow> DBselect_row (\<lambda>t. [length (registered_before st (er_jobnet er) t)]);
            case row of
              None \<Rightarrow> do {
                _ \<leftarrow> ja_log ''JATRAPPER200057'' 0 (Some (er_jobnet er)) 0
                       [PS ''ja_run_jobnet_table'', PS (st @ '' '' @ er_jobnet er @ '' '' @ show_int JA_JOBNET_RUN_TYPE_SCHEDULED)];
                ret (Some ''ja_run_jobnet_table select error.'') }
            | Some count \<Rightarrow> ret (if count > 0
                then Some ''Received message error: Double registration detection of time starting jobnet.''
                else None) })"

definition registration :: "exec_request \<Rightarrow> (string + uint64) prog" where
  "registration er = do {
     refusal \<leftarrow> double_check er;
     case refusal of
       Some text \<Rightarrow> ret (Inl text)
     | None \<Rightarrow> do {
         n \<leftarrow> register_db_table er;
         ret (case n of None \<Rightarrow> Inl ''ja_run_jobnet_table insert error.'' | Some n \<Rightarrow> Inr n) } }"

definition evaluate_jobnetrun :: "environment \<Rightarrow> trapper \<Rightarrow> json \<Rightarrow> (rc \<times> string) prog" where
  "evaluate_jobnetrun env tr j = do {
     now \<leftarrow> now_number;
     case jobnetrun_request env now j of
       Inl e \<Rightarrow> refuse_request e
     | Inr er \<Rightarrow> do {
         rc \<leftarrow> job_exec_auth tr (er_user er) (er_password er) (er_jobnet er);
         if rc = FAIL then ret (FAIL, ''Authentication failure.'')
         else do {
           _ \<leftarrow> DBbegin;
           r \<leftarrow> registration er;
           case r of
             Inl text \<Rightarrow> do { _ \<leftarrow> DBrollback; ret (FAIL, text) }
           | Inr n \<Rightarrow> do { _ \<leftarrow> DBcommit; ret (SUCCEED, ''Registry number :  ['' @ show_u64 n @ '']'') } }
       }
   }"

section \<open>The status of a jobnet\<close>

record jobnet_info =
  jin_id :: string
  jin_name :: string
  jin_run_type :: int
  jin_status :: int
  jin_job_status :: int
  jin_times :: "int list"       \<comment> \<open>scheduled, start and end time\<close>
  jin_last :: "string list"     \<comment> \<open>exit code, standard output and error of the last job\<close>

definition last_value :: "uint64 \<Rightarrow> string \<Rightarrow> string prog" where
  "last_value i name = do {
     row \<leftarrow> DBselect_row (value_rows Before i name);
     ret (case row of None \<Rightarrow> [] | Some v \<Rightarrow> strlcpy 64001 (v_value v)) }"

definition get_jobnet_info :: "uint64 \<Rightarrow> jobnet_info option prog" where
  "get_jobnet_info registrynumber = do {
     row \<leftarrow> DBselect_row (select_summary registrynumber);
     case row of
       None \<Rightarrow> ret None
     | Some s \<Rightarrow> do {
         let ji = \<lparr>jin_id = rs_jobnet_id s, jin_name = rs_name s, jin_run_type = rs_run_type s,
           jin_status = rs_status s, jin_job_status = rs_job_status s,
           jin_times = [rs_sched s, rs_start s, rs_end s], jin_last = [[], [], []]\<rparr>;
         row \<leftarrow> DBselect_row (\<lambda>t. filter (\<lambda>r. rj_status r = JA_JOB_STATUS_END \<and> rj_type r = JA_JOB_TYPE_END \<and>
           rj_main r = registrynumber) (jobs t));
         case row of
           None \<Rightarrow> ret (Some ji)
         | Some r \<Rightarrow> do {
             code \<leftarrow> last_value (rj_id r) ''JOB_EXIT_CD'';
             out \<leftarrow> last_value (rj_id r) ''STD_OUT'';
             err \<leftarrow> last_value (rj_id r) ''STD_ERR'';
             ret (Some (ji\<lparr>jin_last := [code, out, err]\<rparr>)) }
       }
   }"

definition status_request :: "uint64 \<Rightarrow> json \<Rightarrow> ((string \<times> parg list) option \<times> string) + string \<times> string \<times> uint64" where
  "status_request undefined_number j =
     (case check_version j of Some e \<Rightarrow> Inl e | None \<Rightarrow>
      (case zbx_pair ''data'' j of None \<Rightarrow> Inl (refused ''JATRAPPER200029'' ''[data] not found'') | Some p \<Rightarrow>
      (case brackets_open p of None \<Rightarrow> Inl (refused ''JATRAPPER200030'' ''Cannot open [data] object'') | Some row \<Rightarrow>
      (case user_and_password row of Inl e \<Rightarrow> Inl e | Inr (u, pw) \<Rightarrow>
      (case zbx_value ''registrynumber'' row of
         None \<Rightarrow> Inl (refused ''JATRAPPER200052'' ''[registrynumber] not found'')
       | Some v \<Rightarrow> Inr (u, pw, str2uint64 undefined_number v))))))"

definition evaluate_jobnetstatusrq :: "trapper \<Rightarrow> json \<Rightarrow> (rc \<times> string \<times> jobnet_info option) prog" where
  "evaluate_jobnetstatusrq tr j = do {
     g \<leftarrow> gets garbage;
     case status_request g j of
       Inl (m, text) \<Rightarrow> do { (rc, text) \<leftarrow> refuse_request (m, text, None); ret (rc, text, None) }
     | Inr (u, pw, registrynumber) \<Rightarrow> do {
         ji \<leftarrow> get_jobnet_info registrynumber;
         case ji of
           None \<Rightarrow> ret (FAIL, ''jobnet specified by the registry number is not found'', None)
         | Some ji \<Rightarrow> do {
             rc \<leftarrow> job_exec_auth tr u pw (jin_id ji);
             ret (if rc = SUCCEED then (SUCCEED, ''OK.'', Some ji)
                  else (FAIL, ''Authentication failure.'', Some ji)) }
       }
   }"

section \<open>Replies\<close>

definition reply_head :: "trapper \<Rightarrow> string \<Rightarrow> (string \<times> json) list \<Rightarrow> json" where
  "reply_head tr kind data = J_obj [(''kind'', J_str kind), (''version'', J_lit ''1''),
     (''serverid'', J_str (server_id tr)), (''data'', J_obj data)]"

definition rc_number :: "rc \<Rightarrow> json" where
  "rc_number rc = (if rc = FAIL then J_lit ''1'' else J_lit ''0'')"

text \<open>A reply that cannot be sent is logged.\<close>

definition send_reply :: "trapper \<Rightarrow> json \<Rightarrow> json prog" where
  "send_reply tr j = do {
     _ \<leftarrow> (if tcp_sends tr then ret SUCCEED else ja_log ''JATRAPPER200038'' 0 None 0 []);
     ret j }"

definition reply_response :: "trapper \<Rightarrow> string \<Rightarrow> rc \<Rightarrow> string \<Rightarrow> json prog" where
  "reply_response tr kind rc message =
     send_reply tr (reply_head tr kind [(''result'', rc_number rc), (''message'', J_str message)])"

definition number_text :: "int \<Rightarrow> json" where
  "number_text n = J_lit (show_int n)"

definition info_pairs :: "jobnet_info \<Rightarrow> (string \<times> json) list" where
  "info_pairs ji = [(''jobnetid'', J_str (jin_id ji)), (''jobnetname'', J_str (jin_name ji))] @
     zip [''scheduled_time'', ''start_time'', ''end_time''] (map number_text (jin_times ji)) @
     [(''jobnetruntype'', number_text (jin_run_type ji)), (''jobentstatus'', number_text (jin_status ji)),
      (''jobstatus'', number_text (jin_job_status ji))] @
     zip [''lastexitcd'', ''laststdout'', ''laststderr''] (map J_str (jin_last ji))"

definition reply_jobnetstatusrq_response :: "trapper \<Rightarrow> rc \<Rightarrow> jobnet_info option \<Rightarrow> string \<Rightarrow> json prog" where
  "reply_jobnetstatusrq_response tr rc ji message =
     send_reply tr (reply_head tr ''jobnetstatusrq-res'' ((''result'', rc_number rc) #
       (case (rc, ji) of (SUCCEED, Some ji) \<Rightarrow> info_pairs ji | _ \<Rightarrow> [(''message'', J_str message)])))"

section \<open>Dispatching\<close>

text \<open>The reply, or \<open>None\<close> if there is none.\<close>

definition bad_request :: "trapper \<Rightarrow> string \<Rightarrow> string \<Rightarrow> json option prog" where
  "bad_request tr message_id text = do {
     _ \<leftarrow> ja_log message_id 0 None 0 [];
     j \<leftarrow> reply_response tr ''jobresult-res'' FAIL (''Received message error: '' @ text);
     ret (Some j) }"

definition process_jatrap :: "environment \<Rightarrow> trapper \<Rightarrow> json \<Rightarrow> json option prog" where
  "process_jatrap env tr j =
     (case j of
        J_obj _ \<Rightarrow>
          (case zbx_value ''kind'' j of
             None \<Rightarrow> bad_request tr ''JATRAPPER200036'' ''[kind] not found''
           | Some kind \<Rightarrow>
               if kind = ''jobresult'' then ret None
               else if kind = ''jobnetrun'' then do {
                 (rc, message) \<leftarrow> evaluate_jobnetrun env tr j;
                 r \<leftarrow> reply_response tr ''jobnetrun-res'' rc message;
                 ret (Some r) }
               else if kind = ''jobnetstatusrq'' then do {
                 (rc, message, ji) \<leftarrow> evaluate_jobnetstatusrq tr j;
                 r \<leftarrow> reply_jobnetstatusrq_response tr rc ji message;
                 ret (Some r) }
               else bad_request tr ''JATRAPPER200035'' ''[kind] is not correct.'')
      | _ \<Rightarrow> bad_request tr ''JATRAPPER200037'' ''[JSON format error]'')"

end
