(* ===== verification/Jatrapkind.thy ===== *)
theory Jatrapkind
  imports Jatrapexec
begin

text \<open>
  The trapper's request for the job log (\<open>jatrapjoblogput.c\<close>), and the choice of the handler
  for a telegram (\<open>jatrapkind.c\<close>, \<open>process_jatrapper\<close>).
\<close>

section \<open>The job log\<close>

record joblogput =
  jl_user :: string
  jl_password :: string
  jl_from :: "string option"
  jl_to :: "string option"
  jl_jobnetid :: "string option"
  jl_jobid :: "string option"
  jl_target_user :: "string option"
  jl_registry_number :: "string option"

text \<open>A day or a minute is filled up to a second; anything else becomes a text that is no time.\<close>

definition filled_time :: "string \<Rightarrow> string \<Rightarrow> string" where
  "filled_time rest str =
     (if length str = 8 then str @ rest
      else if length str = 12 then str @ drop 4 rest
      else ''00'')"

definition log_time :: "environment \<Rightarrow> string \<Rightarrow> string \<Rightarrow> string option \<Rightarrow> string + string option" where
  "log_time env what rest x =
     (case x of
        None \<Rightarrow> Inr None
      | Some str \<Rightarrow>
          if ja_str2timestamp (mktime_of env) (filled_time rest str) = 0
          then Inl (''Unknowed '' @ what @ '': '' @ str)
          else Inr (Some (filled_time rest str)))"

definition period :: "environment \<Rightarrow> string option \<Rightarrow> string option \<Rightarrow> string + string option \<times> string option" where
  "period env from to =
     (case log_time env ''from_time'' ''000000'' from of
        Inl err \<Rightarrow> Inl err
      | Inr f \<Rightarrow>
          (case log_time env ''to_time'' ''235959'' to of
             Inl err \<Rightarrow> Inl err
           | Inr u \<Rightarrow>
               (case (f, u) of
                  (Some a, Some b) \<Rightarrow>
                    if \<not> strcmp_le a b
                    then Inl (''to_time is greater than the from_time: from_time '' @ or_empty from @
                              '' to_time '' @ or_empty to)
                    else Inr (f, u)
                | _ \<Rightarrow> Inr (f, u))))"

definition jatrap_joblogput_load :: "environment \<Rightarrow> trapper \<Rightarrow> telegram \<Rightarrow> string + joblogput" where
  "jatrap_joblogput_load env tr obj =
     need_tag tr obj ''username'' (\<lambda>u.
     need_tag tr obj ''password'' (\<lambda>p.
       let text = (\<lambda>tag. map_option (json_string tr) (data_tag obj tag)) in
       case period env (text ''from_time'') (text ''to_time'') of
         Inl err \<Rightarrow> Inl err
       | Inr (f, t) \<Rightarrow>
           let job = \<lparr>jl_user = json_string tr u, jl_password = json_string tr p, jl_from = f, jl_to = t,
             jl_jobnetid = text ''jobnetid'', jl_jobid = text ''jobid'', jl_target_user = text ''target_user'',
             jl_registry_number = text ''registry_number''\<rparr>
           in case jl_registry_number job of
                None \<Rightarrow> Inr job
              | Some n \<Rightarrow> if str2uint64 0 n = 0
                  then Inl (''registry_number: '' @ quoted n @ '' is not correct'') else Inr job))"

text \<open>
  The rows of the log with the messages of the user's language, by main jobnet and date.
  The registry number goes into the statement as it is and is assumed to be a number.
\<close>

definition in_period :: "joblogput \<Rightarrow> log_row \<Rightarrow> bool" where
  "in_period job r =
     (case jl_registry_number job of
        Some n \<Rightarrow> lg_main r = str2uint64 0 n
      | None \<Rightarrow> int (dec_val (or_empty (jl_from job) @ ''000'')) \<le> lg_date r \<and>
                lg_date r \<le> int (dec_val (or_empty (jl_to job) @ ''999'')))"

definition select_log :: "trapper \<Rightarrow> string \<Rightarrow> joblogput \<Rightarrow> tables \<Rightarrow> (log_row \<times> string) list" where
  "select_log tr lang job t =
     sort_key (\<lambda>(r, m). lg_main r) (sort_key (\<lambda>(r, m). lg_date r)
       [(r, m). r \<leftarrow> run_log t, in_period job r,
          m \<leftarrow> (case log_messages tr lang (lg_message r) of None \<Rightarrow> [] | Some m \<Rightarrow> [m])])"

definition csv_line :: "string list \<Rightarrow> string" where
  "csv_line cols =
     strlcpy JA_MAX_DATA_LEN (concat (map (\<lambda>s. CHR 0x22 # s @ [CHR 0x22, CHR '','']) (butlast cols)) @
       CHR 0x22 # last cols @ [CHR 0x22])"

definition csv_head :: string where
  "csv_head = csv_line [''log date'', ''inner jobnet main id'', ''inner jobnet id'', ''run type'', ''public flag'',
     ''jobnet id'', ''job id'', ''message id'', ''message'', ''jobnet name'', ''job name'', ''user name'',
     ''update date'', ''return code'']"

definition log_line :: "log_row \<times> string \<Rightarrow> string" where
  "log_line = (\<lambda>(r, m).
     csv_line [or_empty (ja_format_timestamp (show_int (lg_date r))), show_u64 (lg_main r), show_u64 (lg_jobnet r),
       show_int (lg_run_type r), show_int (lg_public r), lg_jobnet_id r, strlcpy 1024 (or_empty (lg_job_id r)),
       lg_message r, esc m, lg_jobnet_name r, strlcpy 1024 (or_empty (lg_job_name r)), lg_user r,
       or_empty (ja_format_timestamp (show_int (lg_update r))), strlcpy 255 (or_empty (lg_return_code r))])"

text \<open>The filters of the request; a column that is \<^verbatim>\<open>NULL\<close> does not pass one.\<close>

definition passes :: "trapper \<Rightarrow> string option \<Rightarrow> string option \<Rightarrow> bool" where
  "passes tr col pattern =
     (case pattern of None \<Rightarrow> True
      | Some p \<Rightarrow> (case col of None \<Rightarrow> False | Some c \<Rightarrow> rx_match tr c p))"

definition wanted :: "trapper \<Rightarrow> joblogput \<Rightarrow> log_row \<Rightarrow> bool" where
  "wanted tr job r \<longleftrightarrow> passes tr (Some (lg_jobnet_id r)) (jl_jobnetid job) \<and>
     passes tr (lg_job_id r) (jl_jobid job) \<and> passes tr (Some (lg_user r)) (jl_target_user job)"

fun log_lines :: "trapper \<Rightarrow> joblogput \<Rightarrow> uint64 \<Rightarrow> int \<Rightarrow> (log_row \<times> string) list \<Rightarrow> string list prog" where
  "log_lines tr job userid user_type [] = ret []"
| "log_lines tr job userid user_type (p # ps) = do {
     userid2 \<leftarrow> ja_user_id (injected tr) (lg_user (fst p));
     groups \<leftarrow> ja_user_groups userid userid2;
     lines \<leftarrow> log_lines tr job userid user_type ps;
     ret (if may_access user_type (lg_public (fst p)) groups = SUCCEED \<and> wanted tr job (fst p)
          then log_line p # lines else lines) }"

definition joblog_array :: "string list \<Rightarrow> telegram \<Rightarrow> telegram" where
  "joblog_array lines = respond ''joblog'' (J_arr (map J_str lines))"

definition jatrap_joblogput :: "environment \<Rightarrow> trapper \<Rightarrow> telegram \<Rightarrow> (rc \<times> telegram) prog" where
  "jatrap_joblogput env tr obj =
     (if ja_telegram_check obj = FAIL then ret (FAIL, obj)
      else case jatrap_joblogput_load env tr obj of
        Inl err \<Rightarrow> ret (FAIL, ja_telegram_seterr err obj)
      | Inr job \<Rightarrow> do {
          let refuse = (\<lambda>err. ret (FAIL, ja_telegram_seterr err (joblog_array [] obj)));
          userid \<leftarrow> ja_user_auth (injected tr) (md5_hex tr) (jl_user job) (jl_password job);
          if userid = 0 then refuse (''authentication failed. username: '' @ jl_user job)
          else do {
            status \<leftarrow> ja_user_status userid;
            if status \<noteq> 0 then refuse (''invalid user, username: '' @ jl_user job)
            else if jl_registry_number job = None \<and> (jl_from job = None \<or> jl_to job = None)
            then refuse (''Can not get '' @ quoted ''from_time'' @ '' and '' @ quoted ''to_time'' @ '' from the telegram'')
            else do {
              user_type \<leftarrow> ja_user_type userid;
              lang \<leftarrow> ja_user_lang userid;
              rows \<leftarrow> DBselect (select_log tr lang job);
              lines \<leftarrow> log_lines tr job userid user_type rows;
              ret (SUCCEED, joblog_array (csv_head # lines) obj) } }
        })"

section \<open>\<open>jatrap_kind\<close>\<close>

text \<open>The kind of a telegram; the version must be there, but is not looked at.\<close>

definition jatrap_kind :: "environment \<Rightarrow> libc \<Rightarrow> trapper \<Rightarrow> telegram \<Rightarrow> (rc \<times> telegram) prog" where
  "jatrap_kind env lc tr obj =
     (let head = (\<lambda>tag. tag_value tag (tg_request obj)) in
      if ja_telegram_check obj = FAIL then ret (FAIL, obj)
      else case head ''kind'' of
        None \<Rightarrow> ret (FAIL, ja_telegram_seterr (no_tag tr obj ''kind'') obj)
      | Some k \<Rightarrow>
          if head ''version'' = None then ret (FAIL, ja_telegram_seterr (no_tag tr obj ''version'') obj)
          else
            let kind = json_string tr k in
            if kind = ''jobresult'' then do {
              (rc, obj) \<leftarrow> jatrap_auth_host env tr obj;
              if rc = FAIL then ret (SUCCEED, obj)
              else do { (_, obj) \<leftarrow> jatrap_jobresult lc tr obj; ret (SUCCEED, obj) } }
            else if kind = ''job.release'' then do {
              (_, obj) \<leftarrow> jatrap_jobrelease tr obj;
              ret (SUCCEED, obj) }
            else if kind = ''job.logput'' then do {
              (_, obj) \<leftarrow> jatrap_joblogput env tr obj;
              ret (SUCCEED, obj) }
            else ret (FAIL, obj))"

definition jatraper_reply :: "trapper \<Rightarrow> telegram \<Rightarrow> json prog" where
  "jatraper_reply tr obj = send_reply tr (reply_head tr ''response'' (tg_response obj))"

text \<open>
  One connection: the reply, or \<open>None\<close> if none is sent.  Every connection is served by a
  process that has just connected to the database.
\<close>

definition process_jatrapper ::
    "environment \<Rightarrow> libc \<Rightarrow> trapper \<Rightarrow> (string \<Rightarrow> json option) \<Rightarrow> string option \<Rightarrow> json option prog" where
  "process_jatrapper env lc tr parse data =
     (case ja_telegram_recv parse data of
        None \<Rightarrow> ret None
      | Some obj \<Rightarrow> do {
          (rc, obj) \<leftarrow> jatrap_kind env lc tr obj;
          if rc = SUCCEED then do { j \<leftarrow> jatraper_reply tr obj; ret (Some j) }
          else process_jatrap env tr (tg_request obj) })"

section \<open>What the trapper keeps\<close>

context sql_steps
begin

lemma steps_log_lines: "steps (log_lines tr job u ty ps)"
  by (induction ps) (auto intro!: db_intros steps_users)

lemma steps_jatrap_joblogput: "steps (jatrap_joblogput env tr obj)"
  unfolding jatrap_joblogput_def Let_def
  by (auto intro!: db_intros steps_users steps_log_lines split: sum.splits)

lemma steps_job_exec_auth: "(\<And>s. log_sql 0 s \<Longrightarrow> ok s) \<Longrightarrow> steps (job_exec_auth tr u p j)"
  unfolding job_exec_auth_def by (intro db_intros steps_ja_log_if steps_users)

lemma steps_refuse_request: "(\<And>s. log_sql 0 s \<Longrightarrow> ok s) \<Longrightarrow> steps (refuse_request e)"
  unfolding refuse_request_def split_def by (intro db_intros steps_ja_log_if)

end

context load_steps
begin

lemma steps_register_values: "steps (register_values j n env)"
  by (induction j n env rule: register_values.induct)
    (auto intro!: load_intros handlers.steps_ja_log simp: load_sql_def)

lemma steps_registration: "steps (registration er)"
  unfolding registration_def double_check_def register_db_table_def
  by (intro load_intros handlers.steps_ja_log steps_register_values steps_sum;
      simp add: load_sql_def requested_jobnet_def Let_def)

lemma steps_get_jobnet_info: "steps (get_jobnet_info n)"
  unfolding get_jobnet_info_def last_value_def by (intro load_intros)

end

context purge_steps
begin

lemma steps_evaluate_jobnetrun: "steps (evaluate_jobnetrun env tr j)"
  unfolding evaluate_jobnetrun_def
  by (intro session_intros icon_intros steps_sum steps_refuse_request log_sql_run
      steps_job_exec_auth
      loader.steps_registration)

lemma steps_send_reply: "steps (send_reply tr j)"
  unfolding send_reply_def by (intro icon_intros)

lemma steps_evaluate_jobnetstatusrq: "steps (evaluate_jobnetstatusrq tr j)"
  unfolding evaluate_jobnetstatusrq_def
  by (intro session_intros icon_intros steps_sum steps_refuse_request log_sql_run
      steps_job_exec_auth
      loader.steps_get_jobnet_info)

lemma steps_process_jatrap: "steps (process_jatrap env tr j)"
  unfolding process_jatrap_def bad_request_def reply_response_def reply_jobnetstatusrq_response_def
  by (cases j)
    (auto intro!: session_intros icon_intros steps_evaluate_jobnetrun steps_evaluate_jobnetstatusrq
      steps_send_reply split: option.splits)

lemma steps_process_jatrapper: "steps (process_jatrapper env lc tr parse data)"
  unfolding process_jatrapper_def jatrap_kind_def jatraper_reply_def Let_def
  by (auto intro!: session_intros steps_jatrap_auth_host steps_jatrap_jobresult
      steps_jatrap_jobrelease release_sql_run
      steps_jatrap_joblogput steps_process_jatrap steps_send_reply split: option.splits)

end

end
