(* ===== verification/Server.thy ===== *)
theory Server
  imports Jajobnet Jaboot Loader_Transactions Jajob Jatrapkind
begin

text \<open>
  The server as a whole: its processes, the children they fork and the handlers of requests
  take turns on the committed tables.  A turn runs without the writes of the others between
  its own statements; apart from this their order is arbitrary, and the database server may
  answer each of them in any way.
\<close>

section \<open>Turns\<close>

text \<open>
  One turn: a cycle of the main loop of a process, one request of the trapper, or what one child
  does with its own connection.
\<close>

datatype turn =
    Run_icons environment libc                              \<comment> \<open>\<open>jarun\<close>\<close>
  | Watch_icons environment int                             \<comment> \<open>\<open>jajob\<close>\<close>
  | Drive_jobnets environment                               \<comment> \<open>\<open>jajobnet\<close>\<close>
  | Boot_and_purge "tm \<Rightarrow> tm" int int                       \<comment> \<open>\<open>jaboot\<close>\<close>
  | Load_jobnets nat int int int "int \<times> int"               \<comment> \<open>\<open>jaloader\<close>\<close>
  | Serve environment libc trapper "string \<Rightarrow> json option" "string option"    \<comment> \<open>\<open>jatrapper\<close>\<close>
  | Job_child environment agent uint64 uint64 agent_request
  | Agent_child environment agent uint64 agent_request
  | Copy_child environment uint64 copy_request "string option" "string option"
  | Reboot_child environment agent uint64 agent_request

definition no_answer :: "'a prog \<Rightarrow> unit prog" where
  "no_answer m = do { _ \<leftarrow> m; ret () }"

fun take_turn :: "zabbix_link \<Rightarrow> turn \<Rightarrow> unit prog" where
  "take_turn zl (Run_icons env lc) = no_answer (process_jarun env zl lc)"
| "take_turn zl (Watch_icons env cnt) = process_jajob env cnt"
| "take_turn zl (Drive_jobnets env) = no_answer (jajobnet_cycle env)"
| "take_turn zl (Boot_and_purge mktime jobnet_span joblog_span) = jaboot_cycle mktime jobnet_span joblog_span"
| "take_turn zl (Load_jobnets rounds load_span a b cnt) = no_answer (jaloader_second rounds load_span a b cnt)"
| "take_turn zl (Serve env lc tr parse data) = no_answer (process_jatrapper env lc tr parse data)"
| "take_turn zl (Job_child env agent i n req) = job_child env agent i n req"
| "take_turn zl (Agent_child env agent i req) = agent_child env agent i req"
| "take_turn zl (Copy_child env i req putfile copied) = fcopy_child env i req putfile copied"
| "take_turn zl (Reboot_child env agent i req) = reboot_child env agent i req"

text \<open>A process \<open>w\<close> that finds the committed tables \<open>t\<close>; whatever else it remembers is its own.\<close>

definition client :: "world \<Rightarrow> nat \<Rightarrow> tables \<Rightarrow> world" where
  "client w q t = w\<lparr>db := t, durable := t, srv := Idle, seq_next := q\<rparr>"

text \<open>
  The committed tables, with the sequences, that can be reached: by turns, and by users who
  edit definitions, accounts, hosts and parameters in the manager.
\<close>

inductive reachable :: "zabbix_link \<Rightarrow> nat \<Rightarrow> tables \<Rightarrow> nat \<Rightarrow> tables \<Rightarrow> bool" for zl q0 t0 where
  at_start: "reachable zl q0 t0 q0 t0"
| by_turn: "reachable zl q0 t0 q t \<Longrightarrow> w' = exec (take_turn zl k) (client w q t) \<Longrightarrow>
    reachable zl q0 t0 (seq_next w') (durable w')"
| by_edit: "reachable zl q0 t0 q t \<Longrightarrow>
    reachable zl q0 t0 q (t\<lparr>designs := d, controls := c, calendars := cs, calendar_days := ds,
      params := ps, users := us, users_groups := ugs, usrgrps := gs, hosts := hs, hostmacros := ms\<rparr>)"

section \<open>What every turn keeps\<close>

text \<open>One locale for all processes: relations that survive the purge and the return from a child.\<close>

locale server_steps = purge_steps R + forking_steps R for R :: "world \<Rightarrow> world \<Rightarrow> bool"
begin

lemma steps_no_answer: "steps m \<Longrightarrow> steps (no_answer m)"
  unfolding no_answer_def by (intro steps_bind steps_return)

lemma steps_take_turn:
  assumes "link_keeps R zl"
  shows "steps (take_turn zl k)"
  by (cases k)
    (simp_all add: steps_no_answer steps_process_jarun [OF assms] steps_process_jajob steps_jajobnet_cycle
      steps_jaboot_cycle steps_jaloader_second steps_process_jatrapper steps_children)

end

interpretation ok_server: server_steps ok_kept ..

section \<open>Integrity\<close>

lemma edit_ok:
  assumes "tables_ok q t"
  shows "tables_ok q (t\<lparr>designs := d, controls := c, calendars := cs, calendar_days := ds,
    params := ps, users := us, users_groups := ugs, usrgrps := gs, hosts := hs, hostmacros := ms\<rparr>)"
proof -
  have "seqs_ok q (t\<lparr>designs := d, controls := c, calendars := cs, calendar_days := ds,
      params := ps, users := us, users_groups := ugs, usrgrps := gs, hosts := hs, hostmacros := ms\<rparr>)"
    using tables_okD(4) [OF assms] by (subst seqs_cong [where t = t]) simp_all
  with assms show ?thesis
    by (simp add: tables_ok_def keys_ok_def refs_ok_def range_ok_def)
qed

lemma client_ok: "tables_ok q t \<Longrightarrow> world_ok (client w q t)"
  by (simp add: client_def world_ok_def)

lemma turn_ok:
  assumes "link_keeps ok_kept zl" "tables_ok q t"
  shows "world_ok (exec (take_turn zl k) (client w q t))"
  using inv.steps_exec [OF ok_server.steps_take_turn [OF assms(1)]] client_ok [OF assms(2)]
  by (simp add: ok_kept_def)

lemma reachable_ok:
  assumes "link_keeps ok_kept zl" "tables_ok q0 t0" "reachable zl q0 t0 q t"
  shows "tables_ok q t"
  using assms(3)
proof induction
  case (by_turn q t w' k w)
  then show ?case
    using turn_ok [OF assms(1)] by (simp add: world_ok_def)
qed (use assms(2) edit_ok in auto)

text \<open>Single cycles.\<close>

lemma jarun_keeps_integrity: "link_keeps ok_kept zl \<Longrightarrow> world_ok w \<Longrightarrow> world_ok (exec (process_jarun env zl lc) w)"
  using inv.steps_exec [OF ok_forking.steps_process_jarun] by (simp add: ok_kept_def)

lemma cycles_keep_integrity:
  assumes "world_ok w"
  shows "world_ok (exec (jajobnet_cycle env) w)" "world_ok (exec (jaboot_cycle mktime a b) w)"
    "world_ok (exec (jaloader_second rounds load_span a b cnt) w)"
    "world_ok (exec (process_jajob env n) w)" "world_ok (exec (process_jatrapper env lc tr parse data) w)"
  using assms inv.steps_exec [OF ok_session.steps_jajobnet_cycle] inv.steps_exec [OF ok_session.steps_jaboot_cycle]
    inv.steps_exec [OF ok_session.steps_jaloader_second] inv.steps_exec [OF ok_session.steps_process_jajob]
    inv.steps_exec [OF ok_session.steps_process_jatrapper]
  by (simp_all add: ok_kept_def)

text \<open>In particular every status is one of its constants.\<close>

definition job_statuses :: "int set" where
  "job_statuses = {JA_JOB_STATUS_BEGIN, JA_JOB_STATUS_READY, JA_JOB_STATUS_RUN, JA_JOB_STATUS_END,
     JA_JOB_STATUS_RUNERR, JA_JOB_STATUS_ENDERR, JA_JOB_STATUS_ABORT}"

definition jobnet_statuses :: "int set" where
  "jobnet_statuses = {JA_JOBNET_STATUS_BEGIN, JA_JOBNET_STATUS_READY, JA_JOBNET_STATUS_RUN, JA_JOBNET_STATUS_END,
     JA_JOBNET_STATUS_RUNERR, JA_JOBNET_STATUS_ENDERR}"

lemma statuses_ok:
  assumes "tables_ok q t"
  shows "rj_status ` set (jobs t) \<subseteq> job_statuses" "rn_status ` set (jobnets t) \<subseteq> jobnet_statuses"
    "rs_status ` set (summaries t) \<subseteq> jobnet_statuses"
proof -
  have "x \<in> job_statuses" if "x \<in> {0..6}" for x :: int
    using that by (auto simp: job_statuses_def)
  moreover have "x \<in> jobnet_statuses" if "x \<in> {0..5}" for x :: int
    using that by (auto simp: jobnet_statuses_def)
  ultimately show "rj_status ` set (jobs t) \<subseteq> job_statuses" "rn_status ` set (jobnets t) \<subseteq> jobnet_statuses"
      "rs_status ` set (summaries t) \<subseteq> jobnet_statuses"
    using assms by (auto simp: tables_ok_def range_ok_def list_all_iff)
qed

end
