(* ===== verification/Requests.thy ===== *)
theory Requests
  imports Server Settings Booting Flow
begin

text \<open>
  What requests to the trapper can and cannot do: releases, refused requests, authentication,
  the registration of jobnets and the results of jobs.
\<close>

section \<open>Releases\<close>

definition freed_job :: "run_job \<Rightarrow> run_job \<Rightarrow> bool" where
  "freed_job r r' \<longleftrightarrow> r' = r \<or> rj_method r = JA_JOB_METHOD_WAIT \<and> r' = r\<lparr>rj_method := JA_JOB_METHOD_NORMAL\<rparr>"

text \<open>All that a release does: icons that are held are held no more.\<close>

definition freed :: "tables \<Rightarrow> tables \<Rightarrow> bool" where
  "freed t t' \<longleftrightarrow> list_all2 freed_job (jobs t) (jobs t') \<and> t' = t\<lparr>jobs := jobs t'\<rparr>"

lemma freed_job_trans: "freed_job a b \<Longrightarrow> freed_job b c \<Longrightarrow> freed_job a c"
  by (auto simp: freed_job_def)

lemma freed_trans:
  assumes "freed t u" "freed u v"
  shows "freed t v"
proof -
  obtain js ks where u: "u = t\<lparr>jobs := js\<rparr>" "v = u\<lparr>jobs := ks\<rparr>"
    using assms unfolding freed_def by blast
  have "list_all2 freed_job (jobs t) (jobs v)"
    by (rule list_all2_trans [OF freed_job_trans]) (use assms in \<open>auto simp: freed_def\<close>)
  then show ?thesis
    using u by (simp add: freed_def)
qed

lemma release_frees:
  assumes "exec_sql s q t = Some (n, q', t')" "release_sql s"
  shows "freed t t'"
proof -
  obtain i where s: "s = Update_job (Job_is_method i JA_JOB_METHOD_WAIT)
      (job_cols\<lparr>js_method := Some JA_JOB_METHOD_NORMAL\<rparr>)"
    using assms(2) by (auto simp: release_sql_def)
  have "freed_job r (if job_matches (Job_is_method i JA_JOB_METHOD_WAIT) r
      then set_job (job_cols\<lparr>js_method := Some JA_JOB_METHOD_NORMAL\<rparr>) r else r)" for r
    by (auto simp: freed_job_def set_job_def)
  then have "list_all2 freed_job js (upd_where (job_matches (Job_is_method i JA_JOB_METHOD_WAIT))
      (set_job (job_cols\<lparr>js_method := Some JA_JOB_METHOD_NORMAL\<rparr>)) js)" for js
    by (simp add: upd_where_def list_all2_conv_all_nth)
  then show ?thesis
    using assms(1) unfolding s by (auto simp: freed_def)
qed

interpretation freeing: table_order freed release_sql
proof unfold_locales
  show "freed t t" for t
    by (auto simp: freed_def freed_job_def list_all2_conv_all_nth)
qed (fact freed_trans release_frees)+

lemma release_only_frees:
  assumes "durable w = db w"
  shows "freed (db w) (db (exec (jatrap_jobrelease tr obj) w))"
    "freed (db w) (durable (exec (jatrap_jobrelease tr obj) w))"
  using freeing.tracks_exec [OF freeing.tracking.steps_jatrap_jobrelease assms, of tr obj]
  by (simp_all add: freeing.from_tables_def)

lemma auth_finds_user:
  assumes "durable w = db w" "QUOTE \<notin> set v" "result (ja_user_auth other md5 v password) w \<noteq> 0"
  shows "\<exists>u \<in> set (users (db w)). us_id u = result (ja_user_auth other md5 v password) w \<and>
    us_alias u = v \<and> us_passwd u = md5 password"
  using assms(3) select_rows [OF assms(1), of "unescaped other v (\<lambda>v u. us_alias u = v) (\<lambda>u. us_passwd u = md5 password) users"]
  by (auto simp: ja_user_auth_def DBselect_row_def result_bind exec_bind exec_ret unescaped_plain [OF assms(2)]
      split: list.splits dest: filter_eq_ConsD)

text \<open>A telegram with a user name and a password.\<close>

definition signed :: "string \<Rightarrow> json \<Rightarrow> telegram \<Rightarrow> bool" where
  "signed v p obj \<longleftrightarrow> data_tag obj ''username'' = Some (J_str v) \<and> data_tag obj ''password'' = Some p"

lemma signed_check: "signed v p obj \<Longrightarrow> ja_telegram_check obj = SUCCEED"
  by (cases "tg_data obj") (auto simp: signed_def data_tag_def ja_telegram_check_def)

lemma json_string_text [simp]: "json_string tr (J_str v) = v"
  by (simp add: json_string_def)

lemma signed_auth:
  assumes "signed v p obj"
  shows "jatrap_auth_user tr obj = do {
    userid \<leftarrow> ja_user_auth (injected tr) (md5_hex tr) v (json_string tr p);
    if userid = 0 then ret (0, ja_telegram_seterr (''user authentication error, username: '' @ v) obj)
    else do {
      status \<leftarrow> ja_user_status userid;
      if status \<noteq> 0 then ret (0, ja_telegram_seterr (''invalid user, username: '' @ v) obj)
      else ret (userid, obj) } }"
  using assms signed_check [OF assms]
  by (simp add: jatrap_auth_user_def need_tag_def signed_def Let_def cong: if_cong)

lemma login_needs_password:
  assumes "durable w = db w" "signed v p obj" "QUOTE \<notin> set v" "fst (result (jatrap_auth_user tr obj) w) \<noteq> 0"
  shows "\<exists>u \<in> set (users (db w)). us_alias u = v \<and> us_passwd u = md5_hex tr (json_string tr p)"
proof -
  have "result (ja_user_auth (injected tr) (md5_hex tr) v (json_string tr p)) w \<noteq> 0"
    using assms(4) by (auto simp: signed_auth [OF assms(2)] result_bind exec_ret)
  from auth_finds_user [OF assms(1,3) this] show ?thesis
    by blast
qed

lemma looking_auth: "looking.tracking.steps (jatrap_auth_user tr obj)"
  by (rule looking.tracking.steps_jatrap_auth)

lemma release_needs_password:
  assumes "durable w = db w" "signed v p obj" "QUOTE \<notin> set v"
    and "durable (exec (jatrap_jobrelease tr obj) w) \<noteq> db w"
  shows "\<exists>u \<in> set (users (db w)). us_alias u = v \<and> us_passwd u = md5_hex tr (json_string tr p)"
proof (rule login_needs_password [OF assms(1-3)], rule notI)
  assume "fst (result (jatrap_auth_user tr obj) w) = 0"
  then obtain obj' where "result (jatrap_auth_user tr obj) w = (0, obj')"
    by (cases "result (jatrap_auth_user tr obj) w") auto
  then have "exec (jatrap_jobrelease tr obj) w = exec (jatrap_auth_user tr obj) w"
    using signed_check [OF assms(2)]
    by (simp add: jatrap_jobrelease_def exec_bind exec_ret)
  with look_keeps [OF looking_auth assms(1)] assms(4) show False
    by simp
qed

section \<open>Refused requests\<close>

text \<open>Outside any transaction, on a connection that is not lost.\<close>

definition at_peace :: "world \<Rightarrow> bool" where
  "at_peace w \<longleftrightarrow> no_loss w \<and> txn_level w = 0 \<and> srv w = Idle \<and> db w = durable w"

lemma peace_rest: "at_peace w \<longleftrightarrow> at_rest (durable w) w"
  by (simp add: at_peace_def at_rest_def only_log_refl)

lemma peace_look:
  assumes "at_peace w" "looking.tracking.steps m" "rest.steps m"
  shows "at_peace (exec m w) \<and> durable (exec m w) = durable w"
  using look_keeps [OF assms(2), of w] rest.steps_exec [OF assms(3), of w] assms(1)
  by (simp add: peace_rest) (auto simp: rests_def at_rest_def)

lemma guard_release_body: "guard.steps (release_body tr u rq)"
  by (rule guard.steps_release_body) (auto simp: release_sql_def load_sql_def)

lemma refused_jobresult:
  assumes "at_peace w" "fst (result (jatrap_jobresult lc tr obj) w) = FAIL"
  shows "durable (exec (jatrap_jobresult lc tr obj) w) = durable w"
proof -
  let ?load = "jatrap_jobresult_load tr (signed_take_bit 31 (uint (garbage w))) obj"
  show ?thesis
  proof (cases "ja_telegram_check obj = FAIL \<or> isl ?load")
    case True
    then show ?thesis
      by (auto simp: jatrap_jobresult_def exec_bind gets_now exec_ret split: sum.splits)
  next
    case False
    then obtain job where load: "?load = Inr job" "ja_telegram_check obj \<noteq> FAIL"
      by (cases ?load) auto
    then have run: "exec (jatrap_jobresult lc tr obj) w =
        exec (do { _ \<leftarrow> DBbegin; x \<leftarrow> jobresult_body lc job; end_request obj x }) w"
      "result (jatrap_jobresult lc tr obj) w =
        result (do { _ \<leftarrow> DBbegin; x \<leftarrow> jobresult_body lc job; end_request obj x }) w"
      by (simp_all add: jatrap_jobresult_def exec_bind result_bind gets_now)
    show ?thesis
      unfolding run(1)
      by (rule refused_request [OF _ guard.steps_jobresult_body])
        (use assms in \<open>simp_all add: peace_rest run(2) result_bind end_request_fails\<close>)
  qed
qed

lemma refused_jobrelease:
  assumes "at_peace w" "fst (result (jatrap_jobrelease tr obj) w) = FAIL"
  shows "durable (exec (jatrap_jobrelease tr obj) w) = durable w"
proof (cases "ja_telegram_check obj = FAIL")
  case False
  let ?v = "exec (jatrap_auth_user tr obj) w"
  have v: "at_peace ?v" "durable ?v = durable w"
    using peace_look [OF assms(1) looking_auth rest.steps_jatrap_auth(1)] by auto
  obtain u obj' where auth: "result (jatrap_auth_user tr obj) w = (u, obj')"
    by (cases "result (jatrap_auth_user tr obj) w")
  have refused: "durable (exec (do { _ \<leftarrow> DBbegin; (err, ns) \<leftarrow> body;
      end_request (g ns) (Some (case err of None \<Rightarrow> Inr () | Some e \<Rightarrow> Inl e)) }) ?v) = durable ?v"
    if "guard.steps body" "fst (result (do { _ \<leftarrow> DBbegin; (err, ns) \<leftarrow> body;
      end_request (g ns) (Some (case err of None \<Rightarrow> Inr () | Some e \<Rightarrow> Inl e)) }) ?v) = FAIL"
    for body :: "(string option \<times> uint64 list) prog" and g
  proof -
    let ?x = "result body (exec DBbegin ?v)"
    have "fst ?x \<noteq> None"
      using that(2) by (cases ?x) (auto simp: result_bind end_request_fails split: option.splits)
    then obtain e ns where x: "?x = (Some e, ns)"
      by (cases ?x) auto
    have "durable (exec (do { _ \<leftarrow> DBbegin; x \<leftarrow> do { _ \<leftarrow> body; ret (Some (Inl e)) }; end_request (g ns) x }) ?v) = durable ?v"
      by (rule refused_request) (use v that(1) in \<open>auto simp: peace_rest result_bind exec_ret intro: guard.steps_intros\<close>)
    with x show ?thesis
      by (simp add: exec_bind result_bind exec_ret)
  qed
  show ?thesis
  proof (cases "u = 0")
    case True
    with False v show ?thesis
      by (simp add: jatrap_jobrelease_def exec_bind exec_ret auth)
  next
    case u: False
    show ?thesis
    proof (cases "release_request tr obj'")
      case (Inl err)
      have "durable (exec (do { _ \<leftarrow> DBbegin; x \<leftarrow> ret (Some (Inl err)); end_request obj' x }) ?v) = durable ?v"
        by (rule refused_request) (use v in \<open>auto simp: peace_rest exec_ret intro: guard.steps_intros\<close>)
      with Inl u False v auth show ?thesis
        by (simp add: jatrap_jobrelease_def exec_bind exec_ret)
    next
      case (Inr rq)
      then show ?thesis
        using assms(2) u False v auth refused [OF guard_release_body, of tr u rq "\<lambda>ns. numbers ns obj'"]
        by (simp add: jatrap_jobrelease_def exec_bind [of "jatrap_auth_user tr obj"] result_bind [of "jatrap_auth_user tr obj"])
    qed
  qed
qed (simp add: jatrap_jobrelease_def exec_ret)

lemma rolled_back_body:
  assumes "at_rest t w" "guard.steps body"
  shows "durable (exec DBrollback (exec body (exec DBbegin w))) = durable w"
proof -
  have "inside (durable w) (exec body (exec DBbegin w))"
    by (rule inside_exec [OF assms(2) inside_begin [OF assms(1)]])
  then show ?thesis
    using rollback_no_loss [of "exec body (exec DBbegin w)"] by (auto simp: inside_def)
qed

lemma refused_jobnetrun:
  assumes "at_peace w" "fst (result (evaluate_jobnetrun env tr j) w) = FAIL"
  shows "only_log (durable w) (durable (exec (evaluate_jobnetrun env tr j) w))"
proof -
  have w: "at_rest (durable w) w"
    using assms(1) by (simp add: peace_rest)
  have logs: "at_rest (durable w) (exec m w)" if "rest.steps m" for m :: "'a prog"
    using rest.steps_exec [OF that, of w] w by (simp add: rests_def)
  obtain now where now: "result now_number w = now" "exec now_number w = w"
    by (simp add: now_number_def gets_now)
  show ?thesis
  proof (cases "jobnetrun_request env now j")
    case (Inl e)
    then show ?thesis
      using logs [OF rest.steps_refuse_request [of e]]
      by (simp add: evaluate_jobnetrun_def exec_bind now at_rest_def)
  next
    case (Inr er)
    let ?auth = "job_exec_auth tr (er_user er) (er_password er) (er_jobnet er)"
    let ?v = "exec ?auth w"
    have v: "at_rest (durable w) ?v"
      by (rule logs [OF rest.steps_job_exec_auth])
    then have out: "only_log (durable w) (durable ?v)"
      by (simp add: at_rest_def)
    show ?thesis
    proof (cases "result ?auth w = FAIL")
      case True
      with Inr out show ?thesis
        by (simp add: evaluate_jobnetrun_def exec_bind now exec_ret)
    next
      case False
      have "isl (result (registration er) (exec DBbegin ?v))"
        using assms(2) False Inr by (auto simp: evaluate_jobnetrun_def exec_bind result_bind now exec_ret split: sum.splits)
      then have "exec (evaluate_jobnetrun env tr j) w = exec DBrollback (exec (registration er) (exec DBbegin ?v))"
        using False Inr by (auto simp: evaluate_jobnetrun_def exec_bind now exec_ret isl_def)
      then show ?thesis
        using rolled_back_body [OF v guard.steps_registration, of er] out by simp
    qed
  qed
qed

section \<open>Registering a jobnet\<close>

text \<open>The variables of a request become values of the new jobnet.\<close>

definition net_rows :: "tables \<Rightarrow> (uint64 \<times> string \<times> string) list" where
  "net_rows t = map (\<lambda>r. (w_jobnet r, w_name r, w_value r)) (nets_before t)"

definition requested_rows :: "uint64 \<Rightarrow> (string \<times> string) list \<Rightarrow> (uint64 \<times> string \<times> string) list" where
  "requested_rows n env = map (\<lambda>(name, v). (n, no_cr name, no_cr v)) env"

lemma register_values_yields:
  "calm w \<Longrightarrow> jobnet_of n (db w) \<noteq> None \<Longrightarrow>
   \<exists>q ws. yields (register_values j n env) w SUCCEED q ((db w)\<lparr>nets_before := ws\<rparr>) \<and>
     net_rows ((db w)\<lparr>nets_before := ws\<rparr>) = net_rows (db w) @ requested_rows n env"
proof (induction env arbitrary: w)
  case Nil
  then show ?case
    by (intro exI [of _ "seq_next w"] exI [of _ "nets_before (db w)"]) (simp add: yields_ret_iff requested_rows_def)
next
  case (Cons x env)
  obtain name v where x: "x = (name, v)"
    by (cases x)
  let ?ws = "nets_before (db w) @ [\<lparr>w_jobnet = n, w_name = no_cr name, w_value = no_cr v, w_seq = seq_next w\<rparr>]"
  let ?t = "(db w)\<lparr>nets_before := ?ws\<rparr>"
  have ins: "exec_sql (Insert_net_value n (no_cr name) (no_cr v)) (seq_next w) (db w) = Some (1, Suc (seq_next w), ?t)"
    using Cons.prems(2) by (simp add: insert_nets_def number_nets_def)
  from Cons.IH [of "put_tables (Suc (seq_next w)) ?t w"] Cons.prems obtain q ws where
    "yields (register_values j n env) (put_tables (Suc (seq_next w)) ?t w) SUCCEED q (?t\<lparr>nets_before := ws\<rparr>)"
    "net_rows (?t\<lparr>nets_before := ws\<rparr>) = net_rows ?t @ requested_rows n env"
    by (auto simp: jobnet_of_def)
  then show ?case
    using Cons.prems(1) ins x
    by (intro exI [of _ q] exI [of _ ws])
      (simp add: yields_execute_bind net_rows_def requested_rows_def)
qed

text \<open>The number the jobnet gets: the next one of its counter, or its first one when the counter is used up.\<close>

definition issued :: "uint64 \<Rightarrow> uint64" where
  "issued m = (if m > id_limit JA_RUN_ID_JOBNET_EX then id_restart JA_RUN_ID_JOBNET_EX else m)"

lemma register_db_table_yields:
  assumes "calm w" "select_definition (er_jobnet er) (db w) = c # cs"
    and "select_nextid JA_RUN_ID_JOBNET_EX (db w) = [m]" "issued m \<noteq> 0" "jobnet_of (issued m) (db w) = None"
  shows "\<exists>q t. yields (register_db_table er) w (Some (issued m)) q t \<and>
    jobnets t = jobnets (db w) @ [requested_jobnet er (issued m) c] \<and>
    net_rows t = net_rows (db w) @ requested_rows (issued m) (er_env er)"
proof -
  let ?k = "issued m"
  obtain ids where ids: "yields (get_next_id JA_RUN_ID_JOBNET_EX 0 (Some (esc (er_jobnet er))) 0) w ?k (seq_next w)
      ((db w)\<lparr>next_ids := ids\<rparr>)"
    using get_next_id_yields [OF assms(1,3)] unfolding issued_def by blast
  let ?t = "(db w)\<lparr>next_ids := ids, jobnets := jobnets (db w) @ [requested_jobnet er ?k c]\<rparr>"
  have ins: "exec_sql (Insert_jobnet (requested_jobnet er ?k c)) q ((db w)\<lparr>next_ids := ids\<rparr>) = Some (1, q, ?t)" for q
    using assms(5) by (simp add: requested_jobnet_def Let_def jobnet_of_def)
  have new: "jobnet_of ?k ?t \<noteq> None"
    by (auto simp: jobnet_of_def row_of_None_iff requested_jobnet_def Let_def)
  obtain w1 where w1: "run_state (get_next_id JA_RUN_ID_JOBNET_EX 0 (Some (esc (er_jobnet er))) 0) w = (?k, w1)"
      "reaches w (seq_next w) ((db w)\<lparr>next_ids := ids\<rparr>) w1"
    using yields_run [OF ids] by blast
  let ?w2 = "put_tables (seq_next w) ?t w1"
  have w2: "reaches w (seq_next w) ?t ?w2" "run_state (DBexecute (Insert_jobnet (requested_jobnet er ?k c))) w1 = (1, ?w2)"
    using reachesD [OF w1(2)] reaches_trans [OF w1(2) put_tables_reaches] ins by (simp_all add: DBexecute_calm)
  obtain q ws where vals: "yields (register_values (er_jobnet er) ?k (er_env er)) ?w2 SUCCEED q (?t\<lparr>nets_before := ws\<rparr>)"
      "net_rows (?t\<lparr>nets_before := ws\<rparr>) = net_rows ?t @ requested_rows ?k (er_env er)"
    using register_values_yields [of ?w2 ?k "er_jobnet er" "er_env er"] reachesD [OF w2(1)] new by auto
  obtain w3 where w3: "run_state (register_values (er_jobnet er) ?k (er_env er)) ?w2 = (SUCCEED, w3)"
      "reaches ?w2 q (?t\<lparr>nets_before := ws\<rparr>) w3"
    using yields_run [OF vals(1)] by blast
  have "run_state (register_db_table er) w = (Some ?k, w3)"
    using assms(1,2,4) w1(1) w2(2) w3(1) by (simp add: register_db_table_def Let_def)
  then have "yields (register_db_table er) w (Some ?k) q (?t\<lparr>nets_before := ws\<rparr>)"
    using reaches_trans [OF w2(1) w3(2)] by (auto simp: yields_def)
  then show ?thesis
    using vals(2) by (intro exI conjI) (assumption | simp add: net_rows_def)+
qed

text \<open>Authentication that succeeds only reads.\<close>

lemma exec_auth_reads:
  assumes "calm w" "result (job_exec_auth tr u p j) w = SUCCEED"
  shows "exec (job_exec_auth tr u p j) w = w"
proof -
  have users: "reads (ja_user_auth (injected tr) (md5_hex tr) u p)" "reads (ja_user_status i)" "reads (ja_user_type i)"
    "reads (ja_user_id (injected tr) o1)" "reads (ja_user_groups i k)"
    "reads (DBselect_row (select_definition j))" for i k :: uint64 and o1
    unfolding ja_user_auth_def ja_user_status_def ja_user_type_def ja_user_id_def ja_user_groups_def
    by (intro reads_bind reads_select_row reads_ret)+
  show ?thesis
    using assms users
    by (auto simp: job_exec_auth_def exec_bind result_bind reads_def exec_ret split: if_splits option.splits)
qed

text \<open>A request that nothing stands in the way of.\<close>

definition unsuppressed :: "exec_request \<Rightarrow> tables \<Rightarrow> bool" where
  "unsuppressed er t \<longleftrightarrow> (\<forall>st. er_start er = Some st \<and> er_deterrence er = 1 \<longrightarrow> registered_before st (er_jobnet er) t = [])"

lemma double_check_passes:
  "calm w \<Longrightarrow> unsuppressed er (db w) \<Longrightarrow> run_state (double_check er) w = (None, w)"
  by (auto simp: double_check_def unsuppressed_def split: option.splits)

lemma registration_yields:
  assumes "calm w" "unsuppressed er (db w)" "select_definition (er_jobnet er) (db w) = c # cs"
    and "select_nextid JA_RUN_ID_JOBNET_EX (db w) = [m]" "issued m \<noteq> 0" "jobnet_of (issued m) (db w) = None"
  shows "\<exists>q t. yields (registration er) w (Inr (issued m)) q t \<and>
    jobnets t = jobnets (db w) @ [requested_jobnet er (issued m) c] \<and>
    net_rows t = net_rows (db w) @ requested_rows (issued m) (er_env er)"
proof -
  obtain q t where t: "yields (register_db_table er) w (Some (issued m)) q t"
    "jobnets t = jobnets (db w) @ [requested_jobnet er (issued m) c]"
    "net_rows t = net_rows (db w) @ requested_rows (issued m) (er_env er)"
    using register_db_table_yields [OF assms(1,3-6)] by blast
  have "yields (registration er) w (Inr (issued m)) q t"
    using t(1) double_check_passes [OF assms(1,2)] by (auto simp: registration_def yields_def)
  with t(2,3) show ?thesis
    by blast
qed

lemma accepted_start:
  assumes "outside w" "jobnetrun_request env (clock w div 1000) j = Inr er"
    and "result (job_exec_auth tr (er_user er) (er_password er) (er_jobnet er)) w = SUCCEED"
    and "unsuppressed er (db w)" "select_definition (er_jobnet er) (db w) = c # cs"
    and "select_nextid JA_RUN_ID_JOBNET_EX (db w) = [m]" "issued m \<noteq> 0" "jobnet_of (issued m) (db w) = None"
    and "w' = exec (evaluate_jobnetrun env tr j) w"
  shows "result (evaluate_jobnetrun env tr j) w = (SUCCEED, ''Registry number :  ['' @ show_u64 (issued m) @ '']'')"
    "outside w'" "clock w' = clock w" "jobnets (db w') = jobnets (db w) @ [requested_jobnet er (issued m) c]"
    "net_rows (db w') = net_rows (db w) @ requested_rows (issued m) (er_env er)"
proof -
  let ?auth = "job_exec_auth tr (er_user er) (er_password er) (er_jobnet er)"
  have auth: "exec ?auth w = w"
    using exec_auth_reads [OF _ assms(3)] assms(1) by (simp add: outside_def)
  let ?v = "w\<lparr>txn_level := 1, srv := In_txn\<rparr>"
  have v: "exec DBbegin w = ?v" "calm ?v" "in_transaction ?v"
    using DBbegin_calm [OF assms(1)] outside_begun [OF assms(1)] by (simp_all add: exec_def)
  obtain q t where t: "yields (registration er) ?v (Inr (issued m)) q t"
    "jobnets t = jobnets (db w) @ [requested_jobnet er (issued m) c]"
    "net_rows t = net_rows (db w) @ requested_rows (issued m) (er_env er)"
    using registration_yields [OF v(2), of er c cs m] assms(4-8) by auto
  obtain u where u: "run_state (registration er) ?v = (Inr (issued m), u)" "reaches ?v q t u"
    using yields_run [OF t(1)] by blast
  have "in_transaction u" "db u = t" "clock u = clock w"
    using u(2) v(3) by (simp_all add: reaches_def same_txn_def in_transaction_def)
  then have commit: "outside (exec DBcommit u)" "db (exec DBcommit u) = t" "clock (exec DBcommit u) = clock w"
    using DBcommit_calm [of u] by (simp_all add: exec_def outside_def in_transaction_def calm_def)
  have reg: "result (registration er) ?v = Inr (issued m)" "exec (registration er) ?v = u"
    using u(1) by (simp_all add: exec_def result_def)
  have run: "w' = exec DBcommit u"
    "result (evaluate_jobnetrun env tr j) w = (SUCCEED, ''Registry number :  ['' @ show_u64 (issued m) @ '']'')"
    using assms(2,3) auth v(1) reg unfolding assms(9)
    by (simp_all add: evaluate_jobnetrun_def exec_bind result_bind now_number_def gets_now exec_ret)
  show "result (evaluate_jobnetrun env tr j) w = (SUCCEED, ''Registry number :  ['' @ show_u64 (issued m) @ '']'')"
    "outside w'" "clock w' = clock w" "jobnets (db w') = jobnets (db w) @ [requested_jobnet er (issued m) c]"
    "net_rows (db w') = net_rows (db w) @ requested_rows (issued m) (er_env er)"
    using run commit t(2,3) by simp_all
qed

text \<open>The same request once more.\<close>

lemma outside_peace: "outside w \<Longrightarrow> at_peace w"
  by (simp add: outside_def calm_def at_peace_def no_loss_def)

lemma repeated_start:
  assumes "outside w" "jobnetrun_request env (clock w div 1000) j = Inr er"
    and "er_start er = Some st" "er_deterrence er = 1" "registered_before st (er_jobnet er) (db w) \<noteq> []"
  shows "fst (result (evaluate_jobnetrun env tr j) w) = FAIL \<and>
    jobnets (durable (exec (evaluate_jobnetrun env tr j) w)) = jobnets (durable w)"
proof -
  let ?auth = "job_exec_auth tr (er_user er) (er_password er) (er_jobnet er)"
  have "fst (result (evaluate_jobnetrun env tr j) w) = FAIL"
  proof (cases "result ?auth w")
    case FAIL
    then show ?thesis
      using assms(2) by (simp add: evaluate_jobnetrun_def result_bind now_number_def gets_now exec_ret)
  next
    case SUCCEED
    then have auth: "exec ?auth w = w"
      using exec_auth_reads assms(1) by (simp add: outside_def)
    let ?v = "w\<lparr>txn_level := 1, srv := In_txn\<rparr>"
    have v: "exec DBbegin w = ?v" "calm ?v"
      using DBbegin_calm [OF assms(1)] outside_begun [OF assms(1)] by (simp_all add: exec_def)
    obtain msg where "run_state (double_check er) ?v = (Some msg, ?v)"
      using assms(3-5) v(2) by (auto simp: double_check_def)
    then have "isl (result (registration er) ?v)"
      by (simp add: registration_def result_def)
    then show ?thesis
      using assms(2) SUCCEED auth v(1)
      by (auto simp: evaluate_jobnetrun_def result_bind now_number_def gets_now exec_ret isl_def)
  qed
  with only_logD(2) [OF refused_jobnetrun [OF outside_peace [OF assms(1)]]] show ?thesis
    by simp
qed

lemma requested_is_registered:
  assumes "er_start er = Some st" "QUOTE \<notin> set (er_jobnet er)" "CR \<notin> set (er_jobnet er)"
  shows "registered_before st (er_jobnet er) (t\<lparr>jobnets := rs @ [requested_jobnet er n c]\<rparr>) \<noteq> []"
proof -
  have "sql_text (er_jobnet er) = er_jobnet er"
    using sql_literal_plain [OF assms(2), of "[]"] by (simp add: sql_text_def)
  moreover have "no_cr (er_jobnet er) = er_jobnet er"
    using assms(3) by (simp add: plain_text_def)
  ultimately show ?thesis
    using assms(1) by (simp add: registered_before_def requested_jobnet_def Let_def)
qed

lemma registered_once:
  assumes "outside w" "jobnetrun_request env (clock w div 1000) j = Inr er"
    and "result (job_exec_auth tr (er_user er) (er_password er) (er_jobnet er)) w = SUCCEED"
    and "unsuppressed er (db w)" "select_definition (er_jobnet er) (db w) = c # cs"
    and "select_nextid JA_RUN_ID_JOBNET_EX (db w) = [m]" "issued m \<noteq> 0" "jobnet_of (issued m) (db w) = None"
    and "er_start er = Some st" "er_deterrence er = 1" "QUOTE \<notin> set (er_jobnet er)" "CR \<notin> set (er_jobnet er)"
    and "w' = exec (evaluate_jobnetrun env tr j) w"
  shows "fst (result (evaluate_jobnetrun env tr j) w') = FAIL \<and>
    jobnets (durable (exec (evaluate_jobnetrun env tr j) w')) = jobnets (db w) @ [requested_jobnet er (issued m) c]"
proof -
  note first = accepted_start [OF assms(1-8,13)]
  have "registered_before st (er_jobnet er) (db w') \<noteq> []"
    using requested_is_registered [OF assms(9,11,12), where t = "db w'" and rs = "jobnets (db w)" and n = "issued m"
        and c = c] first(4) by (simp add: registered_before_def)
  from repeated_start [OF first(2) _ assms(9,10) this] assms(2) first(2-4) show ?thesis
    by (simp add: outside_def)
qed

section \<open>Injected names\<close>

text \<open>Behind a quote and two hyphens any password opens the account of an active user.\<close>

definition user_states :: "uint64 \<Rightarrow> tables \<Rightarrow> int list" where
  "user_states i t = [snd g. ug \<leftarrow> users_groups t, fst ug = i, g \<leftarrow> usrgrps t, fst g = snd ug]"

definition active :: "user_row \<Rightarrow> tables \<Rightarrow> bool" where
  "active u t \<longleftrightarrow> us_id u \<noteq> 0 \<and> take 1 (user_states (us_id u) t) = [0]"

lemma user_status_active: "calm w \<Longrightarrow> active u (db w) \<Longrightarrow> run_state (ja_user_status (us_id u)) w = (0, w)"
  unfolding ja_user_status_def user_states_def [symmetric, abs_def] active_def
  by (cases "user_states (us_id u) (db w)") auto

lemma injected_login:
  assumes "calm w" "QUOTE \<notin> set v" "signed (v @ QUOTE # ''--'') p obj"
    and "filter (\<lambda>u. us_alias u = v) (users (db w)) = u # us" "active u (db w)"
  shows "run_state (jatrap_auth_user tr obj) w = ((us_id u, obj), w)"
proof -
  have "run_state (ja_user_auth (injected tr) (md5_hex tr) (v @ QUOTE # ''--'') (json_string tr p)) w = (us_id u, w)"
    using assms(1,2,4) by (simp add: ja_user_auth_def unescaped_comment)
  moreover have "run_state (ja_user_status (us_id u)) w = (0, w)" "us_id u \<noteq> 0"
    using user_status_active assms(1,5) by (auto simp: active_def)
  ultimately show ?thesis
    by (simp add: signed_auth [OF assms(3)])
qed

section \<open>Results of jobs\<close>

lemma ends_set_value:
  assumes "plain i w r"
  shows "ends (ja_set_value_after i (rj_jobnet r) name (Some x)) w SUCCEED id"
proof (rule endsI [OF set_value_after_yields])
  show known: "store_known i (seq_next w, db w)"
    using assms by (simp add: plain_def store_known_def)
  show "only_log (db w) (snd (store_put After (rj_jobnet r) i (no_cr name) (utf8_filter (no_cr x)) (seq_next w, db w)))"
    using known by (simp add: store_put_def store_known_def insert_values_def only_log_def)
qed (use assms in \<open>simp_all add: plain_def\<close>)

text \<open>Steps of a transaction that leave the icons alone.\<close>

lemma ends_quiet:
  assumes "ends m w x id" "plain i w r"
    and "\<And>w'. plain i w' r \<Longrightarrow> clock w' = clock w \<Longrightarrow> jobs (db w') = jobs (db w) \<Longrightarrow> jobnets (db w') = jobnets (db w) \<Longrightarrow>
      flows (db w') = flows (db w) \<Longrightarrow> ends (k x) w' y g"
  shows "ends (State_Monad.bind m k) w y g"
proof -
  have "ends (State_Monad.bind m k) w y (g \<circ> id)"
    by (rule ends_bind [OF assms(1)], rule assms(3)) (use plain_kept [OF assms(2)] in simp_all)
  then show ?thesis
    by simp
qed

lemma ends_quiet_or_fail:
  assumes "ends m w SUCCEED id" "plain i w r"
    and "\<And>w'. plain i w' r \<Longrightarrow> clock w' = clock w \<Longrightarrow> jobs (db w') = jobs (db w) \<Longrightarrow> jobnets (db w') = jobnets (db w) \<Longrightarrow>
      flows (db w') = flows (db w) \<Longrightarrow> ends k w' y g"
  shows "ends (or_fail m k) w y g"
  unfolding or_fail_def by (rule ends_quiet [OF assms(1,2)]) (use assms(3) in simp)

lemma ends_result_values:
  assumes "plain i w r" "jr_job job = i"
  shows "ends (jatrap_jobresult_set_value job (rj_jobnet r)) w SUCCEED id"
proof -
  have some: "ends (set_if_some i (rj_jobnet r) name v) w' SUCCEED id" if "plain i w' r" for name v w'
    using ends_set_value [OF that] ends_ret [of w'] that
    by (cases v) (simp_all add: set_if_some_def plain_def)
  show ?thesis
    unfolding jatrap_jobresult_set_value_def assms(2)
    by (intro ends_quiet_or_fail [where i = i and r = r] some ends_set_value assms(1)) simp_all
qed

text \<open>The icon can leave: its jobnet is running and every successor on a taken flow accepts the arrival.\<close>

definition leaves :: "uint64 \<Rightarrow> int \<Rightarrow> tables \<Rightarrow> bool" where
  "leaves i ty t \<longleftrightarrow> distinct (map rj_id (jobs t)) \<and> select_flows i t \<noteq> [] \<and>
     (case jobnet_of (rf_jobnet (hd (select_flows i t))) t of None \<Rightarrow> False
      | Some a \<Rightarrow> rn_status a = JA_JOBNET_STATUS_RUN \<or> rn_status a = JA_JOBNET_STATUS_RUNERR) \<and>
     distinct (taken_targets ty (select_flows i t)) \<and>
     (\<forall>j \<in> set (taken_targets ty (select_flows i t)). case job_of j t of None \<Rightarrow> False | Some s \<Rightarrow> accepts s)"

lemma leaves_kept:
  "leaves i ty t \<Longrightarrow> jobs t' = jobs t \<Longrightarrow> jobnets t' = jobnets t \<Longrightarrow> flows t' = flows t \<Longrightarrow> leaves i ty t'"
  by (simp add: leaves_def select_flows_def jobnet_of_def job_of_def)

definition left :: "uint64 \<Rightarrow> int \<Rightarrow> int \<Rightarrow> run_flow list \<Rightarrow> run_job list \<Rightarrow> run_job list" where
  "left i ty now fs = with_status i JA_JOB_STATUS_END now \<circ> arrive_all (set (taken_targets ty fs))"

lemma ends_leaving:
  assumes "plain i w r" "leaves i ty (db w)"
  shows "ends (ja_flow i ty 1) w SUCCEED (left i ty (clock w div 1000) (select_flows i (db w)))"
proof -
  obtain f fs a where f: "select_flows i (db w) = f # fs" "jobnet_of (rf_jobnet f) (db w) = Some a"
    "rn_status a \<in> {JA_JOBNET_STATUS_RUN, JA_JOBNET_STATUS_RUNERR}"
    using assms(2) by (cases "select_flows i (db w)") (auto simp: leaves_def split: option.splits)
  show ?thesis
    unfolding f(1) left_def
    by (rule ends_flow [OF assms(1) _ f]) (use assms(2) f(1) in \<open>auto simp: leaves_def split: option.splits\<close>)
qed

lemma ends_normal_end:
  assumes "plain i w r" "leaves i JA_FLOW_TYPE_NORMAL (db w)"
  shows "ends (finish_icon Normal_end i (rj_jobnet r)) w (Some (Inr ()))
    (left i JA_FLOW_TYPE_NORMAL (clock w div 1000) (select_flows i (db w)))"
proof -
  have flow: "ends (do { _ \<leftarrow> ja_flow i JA_FLOW_TYPE_NORMAL 1; ret (Some (Inr ())) }) w' (Some (Inr ()))
      (left i JA_FLOW_TYPE_NORMAL (clock w' div 1000) (select_flows i (db w')))"
    if w': "plain i w' r" "leaves i JA_FLOW_TYPE_NORMAL (db w')" for w' :: world
  proof -
    have "ends (do { _ \<leftarrow> ja_flow i JA_FLOW_TYPE_NORMAL 1; ret (Some (Inr ())) }) w' (Some (Inr ()))
        (id \<circ> left i JA_FLOW_TYPE_NORMAL (clock w' div 1000) (select_flows i (db w')))"
      by (rule ends_bind [OF ends_leaving [OF w']]) (rule ends_ret)
    then show ?thesis
      by simp
  qed
  show ?thesis
    unfolding finish_icon_def icon_verdict.case
  proof (rule ends_quiet [OF ends_set_value [OF assms(1)] assms(1)])
    fix w' :: world
    assume w': "plain i w' r" "clock w' = clock w" "jobs (db w') = jobs (db w)" "jobnets (db w') = jobnets (db w)"
      "flows (db w') = flows (db w)"
    have "select_flows i (db w') = select_flows i (db w)"
      using w'(5) by (simp add: select_flows_def)
    with flow [OF w'(1) leaves_kept [OF assms(2) w'(3-5)]] w'(2)
    show "ends (do { _ \<leftarrow> ja_flow i JA_FLOW_TYPE_NORMAL 1; ret (Some (Inr ())) }) w' (Some (Inr ()))
        (left i JA_FLOW_TYPE_NORMAL (clock w div 1000) (select_flows i (db w)))"
      by simp
  qed
qed

text \<open>A file wait that has found its file, or has given up, ends normally.\<close>

lemma ends_fwait_result:
  assumes "plain i w r" "leaves i JA_FLOW_TYPE_NORMAL (db w)" "jr_job job = i"
    and "rj_type r = JA_JOB_TYPE_FWAIT" "rj_status r = JA_JOB_STATUS_RUN"
    and "jr_result job = JA_JOBRESULT_SUCCEED" "jr_signal job \<noteq> 1" "jr_code job = 0 \<or> jr_code job = 1"
  shows "ends (jobresult_body lc job) w (Some (Inr ()))
    (left i JA_FLOW_TYPE_NORMAL (clock w div 1000) (select_flows i (db w)))"
proof -
  have rest: "ends (do { rc \<leftarrow> jatrap_jobresult_set_value job (rj_jobnet r);
      if rc = FAIL then ret (Some (Inl (cannot_set i)))
      else finish_icon Normal_end i (rj_jobnet r) }) w (Some (Inr ()))
    (left i JA_FLOW_TYPE_NORMAL (clock w div 1000) (select_flows i (db w)))"
  proof (rule ends_quiet [OF ends_result_values [OF assms(1,3)] assms(1)])
    fix w' :: world
    assume w': "plain i w' r" "clock w' = clock w" "jobs (db w') = jobs (db w)" "jobnets (db w') = jobnets (db w)"
      "flows (db w') = flows (db w)"
    have "select_flows i (db w') = select_flows i (db w)"
      using w'(5) by (simp add: select_flows_def)
    with ends_normal_end [OF w'(1) leaves_kept [OF assms(2) w'(3-5)]] w'(2)
    show "ends (if SUCCEED = FAIL then ret (Some (Inl (cannot_set i))) else finish_icon Normal_end i (rj_jobnet r))
        w' (Some (Inr ())) (left i JA_FLOW_TYPE_NORMAL (clock w div 1000) (select_flows i (db w)))"
      by simp
  qed
  have w: "calm w" "job_of i (db w) = Some r"
    using assms(1) by (simp_all add: plain_def)
  show ?thesis
    unfolding jobresult_body_def Let_def assms(3)
    by (rule ends_select_row [OF w(1)])
      (use rest assms(4-8) in \<open>simp add: select_job_row w(2) result_verdict_def stop_row_def
        cong: if_cong\<close>)
qed

text \<open>The same in the transaction of the request.\<close>

lemma ends_committed:
  assumes "outside w" "ends body (w\<lparr>txn_level := 1, srv := In_txn\<rparr>) x f"
  shows "result body (exec DBbegin w) = x"
    "jobs (durable (exec DBcommit (exec body (exec DBbegin w)))) = f (jobs (db w))"
    "jobnets (durable (exec DBcommit (exec body (exec DBbegin w)))) = jobnets (db w)"
    "flows (durable (exec DBcommit (exec body (exec DBbegin w)))) = flows (db w)"
proof -
  let ?b = "w\<lparr>txn_level := 1, srv := In_txn\<rparr>"
  have b: "exec DBbegin w = ?b"
    using DBbegin_calm [OF assms(1)] by (simp add: exec_def)
  obtain q t where t: "yields body ?b x q t"
    using assms(2) unfolding ends_def by blast
  obtain v where v: "run_state body ?b = (x, v)" "reaches ?b q t v"
    using yields_run [OF t] by blast
  have "in_transaction v"
    using v(2) in_transaction_begin [OF assms(1)] by (simp add: reaches_def same_txn_def in_transaction_def)
  from DBcommit_calm [OF this] have "durable (exec DBcommit (exec body ?b)) = db (exec body ?b)"
    using v(1) by (simp add: exec_def)
  with endsD [OF assms(2)] show "result body (exec DBbegin w) = x"
    "jobs (durable (exec DBcommit (exec body (exec DBbegin w)))) = f (jobs (db w))"
    "jobnets (durable (exec DBcommit (exec body (exec DBbegin w)))) = jobnets (db w)"
    "flows (durable (exec DBcommit (exec body (exec DBbegin w)))) = flows (db w)"
    unfolding b by simp_all
qed

lemma fwait_reported:
  assumes "outside w" "plain i w r" "leaves i JA_FLOW_TYPE_NORMAL (db w)"
    and "rj_type r = JA_JOB_TYPE_FWAIT" "rj_status r = JA_JOB_STATUS_RUN"
    and "ja_telegram_check obj = SUCCEED"
    and "jatrap_jobresult_load tr (signed_take_bit 31 (uint (garbage w))) obj = Inr job" "jr_job job = i"
    and "jr_result job = JA_JOBRESULT_SUCCEED" "jr_signal job \<noteq> 1" "jr_code job = 0 \<or> jr_code job = 1"
  shows "result (jatrap_jobresult lc tr obj) w = (SUCCEED, respond ''result'' (J_lit ''0'') obj)"
    "jobs (durable (exec (jatrap_jobresult lc tr obj) w)) =
      left i JA_FLOW_TYPE_NORMAL (clock w div 1000) (select_flows i (db w)) (jobs (db w))"
proof -
  let ?b = "w\<lparr>txn_level := 1, srv := In_txn\<rparr>"
  have b: "plain i ?b r" "leaves i JA_FLOW_TYPE_NORMAL (db ?b)"
    using assms(2,3) outside_begun(1) [OF assms(1)] by (simp_all add: plain_def)
  note committed = ends_committed [OF assms(1) ends_fwait_result [OF b assms(8,4,5,9-11), of lc]]
  have run: "exec (jatrap_jobresult lc tr obj) w = exec DBcommit (exec (jobresult_body lc job) (exec DBbegin w))"
    "result (jatrap_jobresult lc tr obj) w = (SUCCEED, respond ''result'' (J_lit ''0'') obj)"
    using assms(6,7) committed(1)
    by (simp_all add: jatrap_jobresult_def end_request_def exec_bind result_bind gets_now exec_ret)
  show "result (jatrap_jobresult lc tr obj) w = (SUCCEED, respond ''result'' (J_lit ''0'') obj)"
    "jobs (durable (exec (jatrap_jobresult lc tr obj) w)) =
      left i JA_FLOW_TYPE_NORMAL (clock w div 1000) (select_flows i (db w)) (jobs (db w))"
    using committed(2) run by simp_all
qed

end
