(* ===== verification/Example_Requests.thy ===== *)
theory Example_Requests
  imports Example Requests
begin

text \<open>
  A small database with a user, a jobnet that waits for a file and a held icon, and requests of
  a client, on which the properties of the trapper are instantiated.
\<close>

definition joe :: user_row where
  "joe = \<lparr>us_id = 5, us_alias = ''joe'', us_passwd = ''pw'', us_type = 3, us_lang = ''en_GB''\<rparr>"

definition net1_control :: control_row where
  "net1_control = \<lparr>c_jobnet_id = ''NET1'', c_update = 7, c_valid = 1, c_public = 0, c_multiple = 0,
     c_user = ''joe'', c_name = ''NET1'', c_memo = None\<rparr>"

definition waiting_job :: run_job where
  "waiting_job = demo_job 10 JA_JOB_TYPE_FWAIT JA_JOB_STATUS_RUN ''WAIT''"

definition demo_served :: world where
  "demo_served = (let t = demo_tables\<lparr>
     jobs := [waiting_job, (demo_job 11 JA_JOB_TYPE_VALUE JA_JOB_STATUS_BEGIN ''VALUE'')\<lparr>rj_method := JA_JOB_METHOD_WAIT\<rparr>,
       demo_job 12 JA_JOB_TYPE_END JA_JOB_STATUS_BEGIN ''END''],
     controls := [net1_control], users := [joe], users_groups := [(5, 7)], usrgrps := [(7, 0)]\<rparr>
   in demo\<lparr>db := t, durable := t\<rparr>)"

text \<open>Passwords are stored as they are, numbers are read as digits.\<close>

definition demo_trapper :: trapper where
  "demo_trapper = \<lparr>js_text = \<lambda>_. [], js_int = \<lambda>j. case j of J_lit s \<Rightarrow> int (dec_val s) | _ \<Rightarrow> 0, md5_hex = id,
     injected = \<lambda>_ _. [], rx_match = \<lambda>_ _. False, log_messages = \<lambda>_ _. None, tcp_sends = True,
     server_id = ''server''\<rparr>"

definition telegram_of :: "(string \<times> json) list \<Rightarrow> telegram" where
  "telegram_of kvs = \<lparr>tg_request = J_obj [(''data'', J_obj kvs)], tg_response = []\<rparr>"

definition result_of :: "string \<Rightarrow> telegram" where
  "result_of i = telegram_of [(''jobid'', J_str i), (''hostname'', J_str ''H''), (''result'', J_lit ''0''),
     (''std_out'', J_str ''found''), (''std_err'', J_str []), (''return_code'', J_lit ''0''), (''signal'', J_lit ''0'')]"

definition release_of :: "string \<Rightarrow> string \<Rightarrow> telegram" where
  "release_of user password = telegram_of [(''username'', J_str user), (''password'', J_str password),
     (''jobid'', J_str ''NET1/VALUE'')]"

definition start_of :: "string \<Rightarrow> json" where
  "start_of version = J_obj [(''kind'', J_str ''jobnetrun''), (''version'', J_lit version),
     (''data'', J_obj [(''username'', J_str ''joe''), (''password'', J_str ''pw''), (''jobnetid'', J_str ''NET1''),
        (''start_time'', J_str ''202401020400''), (''deterrence'', J_str ''1'')])]"

lemma demo_served_tables [simp]:
  "jobs (db demo_served) = [waiting_job, (demo_job 11 JA_JOB_TYPE_VALUE JA_JOB_STATUS_BEGIN ''VALUE'')\<lparr>rj_method := JA_JOB_METHOD_WAIT\<rparr>,
       demo_job 12 JA_JOB_TYPE_END JA_JOB_STATUS_BEGIN ''END'']"
  "jobnets (db demo_served) = jobnets demo_tables" "summaries (db demo_served) = summaries demo_tables"
  "flows (db demo_served) = flows demo_tables" "next_ids (db demo_served) = next_ids demo_tables"
  "controls (db demo_served) = [net1_control]" "users (db demo_served) = [joe]"
  "users_groups (db demo_served) = [(5, 7)]" "usrgrps (db demo_served) = [(7, 0)]"
  "durable demo_served = db demo_served" "clock demo_served = 20240102030405678" "garbage demo_served = 0"
  by (simp_all add: demo_served_def Let_def demo_def)

lemma demo_served_outside [simp]: "outside demo_served" "calm demo_served" "at_peace demo_served"
  by (simp_all add: demo_served_def Let_def demo_def outside_def calm_def at_peace_def no_loss_def)

text \<open>Reading the telegrams.\<close>

lemmas read_defs = data_tag_def tg_data_def tag_value_def need_tag_def telegram_of_def

lemma result_read:
  "ja_telegram_check (result_of i) = SUCCEED"
  "jatrap_jobresult_load demo_trapper g (result_of i) = Inr \<lparr>jr_job = str2uint64 0 i, jr_host = ''H'', jr_result = 0,
     jr_message = None, jr_std_out = Some ''found'', jr_std_err = Some [], jr_code = 0, jr_signal = 0\<rparr>"
  by (simp_all add: result_of_def read_defs ja_telegram_check_def jatrap_jobresult_load_def demo_trapper_def
      dec_val_def digit_val_def)

lemma str2uint64_demo [simp]: "str2uint64 0 ''10'' = 10" "str2uint64 0 ''12'' = 12"
  by (simp_all add: str2uint64_def is_space_def is_digit_def dec_val_def digit_val_def Let_def)

lemma release_signed: "signed user (J_str password) (release_of user password)"
  by (simp add: release_of_def signed_def read_defs)

lemma start_read:
  "jobnetrun_request demo_env 20240102030405 (start_of ''1'') = Inr \<lparr>er_user = ''joe'', er_password = ''pw'',
     er_jobnet = ''NET1'', er_start = Some ''202401020400'', er_env = [], er_deterrence = 1\<rparr>"
proof -
  have atoi1: "atoi ''1'' = 1"
    by (simp add: atoi_def strtol10_def is_space_def is_digit_def dec_val_def digit_val_def Let_def)
  have passed: "time_passed_check demo_env 20240102030405 ''202401020400'' = SUCCEED"
  proof -
    have pads: "pad 4 2024 = ''2024''" "pad 2 1 = ''01''" "pad 2 2 = ''02''" "pad 2 4 = ''04''" "pad 2 0 = ''00''"
      by code_simp+
    have mk: "mktime_of demo_env \<lparr>tm_year = 124, tm_mon = 0, tm_mday = 2, tm_hour = 4, tm_min = 0, tm_sec = 0\<rparr> = 20240102040000"
      by (simp add: mktime_of_def demo_env_def ja_timestamp2str_def strlcpy_def pads dec_val_def digit_val_def)
    have "ja_str2timestamp (mktime_of demo_env) ''202401020400'' = 20240102040000"
      by (simp add: ja_str2timestamp_def Let_def atoi_def strtol10_def is_space_def is_digit_def dec_val_def
          digit_val_def numeral_2_eq_2 maxday_def days_in_month_def mk)
    then show ?thesis
      by (simp add: time_passed_check_def demo_env_def)
  qed
  show ?thesis
    by (simp add: jobnetrun_request_def check_version_def zbx_value_def zbx_pair_def brackets_open_def
        user_and_password_def exec_env_def start_of_def strlcpy_def is_digit_def atoi1 passed Let_def)
qed

lemma start_refused:
  "jobnetrun_request demo_env n (start_of ''2'') = Inl (Some (''JATRAPPER200027'', [PI 1]),
     ''Received message error: [version] is not correct.'', None)"
proof -
  have "atoi ''2'' = 2"
    by (simp add: atoi_def strtol10_def is_space_def is_digit_def dec_val_def digit_val_def Let_def)
  then show ?thesis
    by (simp add: jobnetrun_request_def check_version_def zbx_value_def start_of_def strlcpy_def is_digit_def)
qed

text \<open>The process in the transaction of a request.\<close>

definition demo_serving :: world where
  "demo_serving = exec DBbegin demo_served"

lemma demo_serving_simps [simp]:
  "calm demo_serving" "db demo_serving = db demo_served" "in_transaction demo_serving"
  using DBbegin_calm [OF demo_served_outside(1)] outside_begun [OF demo_served_outside(1)]
  by (simp_all add: demo_serving_def exec_def)

text \<open>\<open>joe\<close> releases the held icon.\<close>

lemma demo_trapper_md5 [simp]: "md5_hex demo_trapper = id"
  by (simp add: demo_trapper_def)

lemma release_read: "release_request demo_trapper (release_of ''joe'' ''pw'') = Inr (''NET1'', ''VALUE'', None, 0)"
  by (simp add: release_request_def release_of_def read_defs)

lemma joe_logs_in:
  "run_state (jatrap_auth_user demo_trapper (release_of ''joe'' ''pw'')) demo_served = ((5, release_of ''joe'' ''pw''), demo_served)"
  unfolding signed_auth [OF release_signed]
  by (simp add: ja_user_auth_def unescaped_plain ja_user_status_def joe_def)

lemma release_found: "run_state (ja_jobnet_get_job_id 1 ''VALUE'') demo_serving = (11, demo_serving)"
  by (simp add: ja_jobnet_get_job_id_def select_named_def waiting_job_def demo_job_def)

lemma joe_may_release: "run_state (jatrap_auth_jobnet demo_trapper 5 1) demo_serving = (SUCCEED, demo_serving)"
  by (simp add: jatrap_auth_jobnet_def select_jobnet_def ja_user_type_def ja_user_id_def ja_user_groups_def
      demo_jobnet_def unescaped_plain may_access_def joe_def)

lemma in_transaction_put: "in_transaction w \<Longrightarrow> in_transaction (put_tables q t w)"
  by (simp add: in_transaction_def calm_def put_tables_def)

lemma release_runs:
  "\<exists>q t. run_state (release_body demo_trapper 5 (''NET1'', ''VALUE'', None, 0)) demo_serving =
     ((None, [1]), put_tables q t demo_serving) \<and> map rj_method (jobs t) = [0, 0, 0]"
  by (simp add: release_body_def select_running_def release_in_def release_found joe_may_release
      jatrap_jobrelease_jobid_def DBexecute_calm waiting_job_def demo_job_def count_where_def upd_where_def set_job_def,
      rule exI, rule exI, rule conjI, rule refl, simp)

lemma joe_releases:
  "map rj_method (jobs (durable (exec (jatrap_jobrelease demo_trapper (release_of ''joe'' ''pw'')) demo_served))) = [0, 0, 0]"
proof -
  obtain q t where v: "run_state (release_body demo_trapper 5 (''NET1'', ''VALUE'', None, 0)) demo_serving =
      ((None, [1]), put_tables q t demo_serving)" "map rj_method (jobs t) = [0, 0, 0]"
    using release_runs by (elim exE conjE) (rule that)
  let ?v = "put_tables q t demo_serving"
  have auth: "result (jatrap_auth_user demo_trapper (release_of ''joe'' ''pw'')) demo_served = (5, release_of ''joe'' ''pw'')"
    "exec (jatrap_auth_user demo_trapper (release_of ''joe'' ''pw'')) demo_served = demo_served"
    using joe_logs_in by (simp_all add: result_def exec_def)
  have body: "result (release_body demo_trapper 5 (''NET1'', ''VALUE'', None, 0)) demo_serving = (None, [1])"
    "exec (release_body demo_trapper 5 (''NET1'', ''VALUE'', None, 0)) demo_serving = ?v"
    using v(1) by (simp_all add: result_def exec_def)
  have "durable (exec DBcommit ?v) = t"
    using DBcommit_calm [OF in_transaction_put [OF demo_serving_simps(3)], of q t] by (simp add: exec_def)
  with v(2) signed_check [OF release_signed, of "''joe''" "''pw''"] show ?thesis
    by (simp add: jatrap_jobrelease_def exec_bind auth release_read body exec_ret end_request_def
        demo_serving_def [symmetric])
qed

end
