(* ===== verification/Spec2Isabelle.thy ===== *)
theory Spec2Isabelle
  imports Example_Load Example_Requests
begin

text \<open>
  Job Arranger, the job scheduler for Zabbix, keeps its whole state in a PostgreSQL database:
  jobnets (graphs of icons connected by flows), their runs, the variables of the icons.  The
  server is a set of processes that poll this database: \<open>jaloader\<close> turns the definitions of due or
  submitted jobnets into runs, \<open>jaboot\<close> makes due runs ready and purges old ones, \<open>jajobnet\<close> starts jobnets, derives their status from their icons and stops
  them, \<open>jarun\<close> runs ready icons and passes control along the flows, \<open>jajob\<close> watches the icons
  that are running.  \<open>jatrapper\<close> answers requests: results from agents, and starts, releases and
  queries from users.  The development
  models these processes with the library functions under them (\<open>src/src/jalibs\<close>,
  \<open>src/src/jobarg_server\<close>) down to the database layer (\<open>src/src/libs/zbxdb\<close>,
  \<open>libs/zbxdbhigh\<close>), statement by statement.

  The state of a process is the record \<open>world\<close>: the tables its connection sees, the committed
  tables, the transaction on the server's and on the client's side, the answers the server is
  going to give, the clock, the log.  A C function is a program over it in the state monad; its
  return code is a value, so that every early return is a branch.  SQL statements are data
  (\<open>sql\<close>), executed by \<open>exec_sql\<close> on the tables as PostgreSQL does, including key and
  reference violations and cascading deletes; queries are functions on the tables.

  Theories, in the order of the code's layers:
  \<^item> \<open>Prelude\<close>: return codes, decimal text, rows, programs, and the locale \<open>step_order\<close>: a
    preorder on states kept by every step of a program.
  \<^item> \<open>Schema\<close>, \<open>Schema_Invariant\<close>: the tables, the statements, and the integrity they keep.
  \<^item> \<open>Dbconn\<close>, \<open>Transactions\<close>: \<open>zbxdb/db.c\<close> and \<open>zbxdbhigh/db.c\<close>.  The retry loops run with
    as much fuel as the server has answers left, which is enough (last section).  \<open>yields\<close>
    describes programs on a quiet server.
  \<^item> \<open>Cstring\<close>, \<open>Jastr\<close>, \<open>Utf8\<close>: escaping, time stamps, patterns, the filter of values.
  \<^item> \<open>Jalog\<close>, \<open>Logging\<close>: the message log, and that it changes nothing but log and outbox.
  \<^item> \<open>Javalue\<close>, \<open>Variables\<close>, \<open>Settings\<close>: the value tables as a store with \<open>put\<close> and \<open>clean\<close>
    (locale \<open>var_store\<close>), and the replacement of variables.
  \<^item> \<open>Jastatus\<close>, \<open>Flow\<close>: status of icons and jobnets, and the flow between icons.
  \<^item> \<open>Jaindex\<close>, \<open>Jaicons\<close>: sequence numbers, the icons the server runs itself.
  \<^item> \<open>Jahost\<close>: names, addresses and locks of hosts, connecting (\<open>jahost.c\<close>, \<open>jaconnect.c\<close>).  The
    record \<open>environment\<close> holds the configuration and what the C library and the operating
    system answer: forks, shell commands, sockets, files, calendar.
  \<^item> \<open>Jaagent\<close>, \<open>Jaextjob\<close>: icons that send requests to agents (job, file wait, file copy, reboot),
    and those that run commands on the server's host (calculation, extended job, agentless).
    A process that forks is two programs, what the parent does and what its child does; the
    answer of an agent is a parameter of the child.
  \<^item> \<open>Jajobicons\<close>, \<open>Jajob\<close>: timeouts, aborts and results of running icons (\<open>jajob/jajobicon*.c\<close>),
    and the loop over them (\<open>jajob.c\<close>).
  \<^item> \<open>Jarun\<close>: \<open>process_jarun\<close>.  The Zabbix link icon is the parameter \<open>zabbix_link\<close>; what is assumed
    of it is named in each theorem (\<open>link_keeps\<close>).
  \<^item> \<open>Jajobnet\<close>, \<open>Jobnets\<close>: the jobnet process and what it does to the status of a jobnet.
  \<^item> \<open>Jaboot\<close>, \<open>Booting\<close>: booting and purging.
  \<^item> \<open>Designs\<close>, \<open>Calendar\<close>, \<open>Jaloader\<close>: the definition tables, the date arithmetic and the loader
    (\<open>jaloader.c\<close>).  The loop that expands jobnet icons may not end; it gets a number of
    \<open>rounds\<close>, and \<open>None\<close> means that it is still expanding.  The section on
    loading says how many are enough.
  \<^item> \<open>Loading\<close>, \<open>Arrivals\<close>: what a successful load adds; \<open>Expansion\<close>: when the expansion ends and
    when it does not; \<open>Loader_Transactions\<close>: its transactions.
  \<^item> \<open>Jauser\<close>, \<open>Jatelegram\<close>: the accounts of users, telegrams and authentication (\<open>jauser.c\<close>,
    \<open>jatelegram.c\<close>, \<open>jatrapauth.c\<close>).  User names go into a statement unescaped; what PostgreSQL reads
    then is \<open>unescaped\<close>.  Requests are parsed JSON values (\<open>json\<close>); the record \<open>trapper\<close> holds what the
    JSON library, MD5 and regular expressions answer.
  \<^item> \<open>Jatrapper\<close>, \<open>Jatrapexec\<close>, \<open>Jatrapkind\<close>: job results and releases, starts and status
    requests, the job log, and the choice of the handler for a telegram.  \<open>Requests\<close>: what requests do and
    what they cannot do.
  \<^item> \<open>Server\<close>: all processes together, taking turns on the committed tables (\<open>reachable\<close>).
  \<^item> \<open>Sessions\<close>: relations kept by whole transactions (locales \<open>txn_steps\<close>, \<open>table_order\<close>); balanced
    transactions, and bodies that commit half-way and begin anew (\<open>held\<close>).
  \<^item> \<open>Example\<close>, \<open>Example_Load\<close>, \<open>Example_Requests\<close>: a small database, one with definitions to load, and
    one with requests of clients, on which the properties are instantiated.

  The properties say that the processes keep the integrity of the database in any order of
  their turns, and the balance of transactions whatever the server answers, and that what fails
  leaves no trace; what the operations do when the server accepts everything; and, in the last
  section, what happens when the connection breaks or a commit is refused.

  Not modelled: the Zabbix link icon (\<open>jaruniconzabbixlink.c\<close>), the message sender, the agent
  and the command line tools; sockets, the bytes of JSON texts and the Zabbix libraries apart from
  the database layer.  \<open>jatrapjobnetrun.c\<close> is dead code.  Of concurrency only the order of whole
  turns is modelled: a program sees no writes of others between its own statements.
\<close>

section \<open>Flow between icons\<close>





text \<open>C3 A successor that cannot take the arrival (it is an end icon that has ended, or is being
  run) sets the leaving icon to END in error; but \<open>ja_flow\<close> takes this for success and goes on
  to \<open>ja_set_end\<close>, so the icon ends with the normal status END and the error is lost.\<close>

theorem refused_arrival_is_overwritten:
  assumes "plain i w r" "select_flows i (db w) = [f]" "flow_taken ty (rf_type f)"
    and "jobnet_of (rf_jobnet f) (db w) = Some a"
    and "rn_status a \<in> {JA_JOBNET_STATUS_RUN, JA_JOBNET_STATUS_RUNERR}"
    and "job_of (rf_to f) (db w) = Some s" "flow_decide (rf_to f) s = Inl (Some x)"
  shows "job_of i (db (exec (ja_flow_set_status i (rf_to f)) w)) =
      Some (r\<lparr>rj_status := JA_JOB_STATUS_ENDERR, rj_end := clock w div 1000\<rparr>) \<and>
    result (ja_flow i ty 1) w = SUCCEED \<and>
    job_of i (db (exec (ja_flow i ty 1) w)) =
      Some (r\<lparr>rj_status := JA_JOB_STATUS_END, rj_end := clock w div 1000\<rparr>)"
  using endsD [OF ends_refused_arrival [OF assms(1,6,7)]] endsD [OF ends_flow_refusing [OF assms]] assms(1)
  by (simp add: job_of_def job_of_with_status plain_def)

lemma refused_arrival_is_overwritten_witness:
  "job_of 11 (db (exec (ja_flow 11 JA_FLOW_TYPE_NORMAL 1) demo_stuck)) =
     Some ((demo_job 11 JA_JOB_TYPE_VALUE JA_JOB_STATUS_END ''VALUE'')\<lparr>rj_end := 20240102030405\<rparr>)"
proof -
  let ?f = "demo_flow 21 11 12"
  have flow: "select_flows 11 (db demo_stuck) = [?f]" "flow_taken JA_FLOW_TYPE_NORMAL (rf_type ?f)"
    by (simp_all add: select_flows_def flow_taken_def)
  have refused: "flow_decide (rf_to ?f) (demo_job 12 JA_JOB_TYPE_END JA_JOB_STATUS_END ''END'') =
      Inl (Some (''JAFLOW300001'', [PU 12]))"
    by (simp add: flow_decide_def)
  have rows: "jobnet_of (rf_jobnet ?f) (db demo_stuck) = Some (demo_jobnet 1 JA_JOBNET_STATUS_RUN ''NET1'')"
    "job_of (rf_to ?f) (db demo_stuck) = Some (demo_job 12 JA_JOB_TYPE_END JA_JOB_STATUS_END ''END'')"
    using demo_stuck_rows by (simp_all del: demo_stuck_simps demo_stuck_rows)
  from refused_arrival_is_overwritten [OF demo_stuck_plain flow rows(1) _ rows(2) refused]
  show ?thesis
    by (simp del: demo_stuck_simps(1))
qed

section \<open>The processes of the server\<close>





text \<open>C6 After its loop over the ready icons the icon runner is outside any transaction and no
  assertion of \<open>db.c\<close> has failed, whatever the server answers.  Agentless icons commit half-way
  and are included; reboot icons are not, as \<open>ja_host_getip\<close> rolls back its caller's
  transaction.\<close>

theorem jarun_transactions_balanced:
  assumes "link_keeps held zl" "txn_level w = 0" "list_all (\<lambda>r. rj_type r \<noteq> JA_JOB_TYPE_REBOOT) rs"
  shows "txn_level (exec (jarun_rounds env zl lc rc rs) w) = 0 \<and>
    crashed (exec (jarun_rounds env zl lc rc rs) w) = crashed w"
  using bal_exec [OF balanced_jarun_rounds [OF assms(3,1)] assms(2)] .

lemma jarun_transactions_balanced_witness:
  "txn_level (exec (jarun_rounds demo_env idle_link demo_libc FAIL [held_job]) demo_held) = 0"
  using jarun_transactions_balanced [of idle_link demo_held "[held_job]" demo_env demo_libc FAIL] demo_held_outside
  by (simp add: held_job_def demo_job_def)

text \<open>C7 The processes that drive jobnets, boot and purge them and watch running icons are outside any
  transaction after each cycle, and no assertion of \<open>db.c\<close> has failed, whatever the server
  answers, although their loops leave transactions by \<^verbatim>\<open>continue\<close> and
  \<^verbatim>\<open>return\<close> in many places.\<close>

theorem other_transactions_balanced:
  assumes "txn_level w = 0" "m = no_answer (jajobnet_cycle env) \<or> m = jaboot_cycle mktime jobnet_span joblog_span \<or>
    m = process_jajob env cnt"
  shows "txn_level (exec m w) = 0 \<and> crashed (exec m w) = crashed w"
proof -
  have "bal.steps m"
    using assms(2) balanced_jajobnet_cycle balanced_jaboot_cycle balanced_process_jajob
    by (auto simp: no_answer_def intro: bal.steps_intros)
  from bal_exec [OF this assms(1)] show ?thesis .
qed

lemma other_transactions_balanced_witness:
  "txn_level (exec (no_answer (jajobnet_cycle demo_env)) demo) = 0 \<and>
   txn_level (exec (jaboot_cycle id 60 129600) demo) = 0 \<and> txn_level (exec (process_jajob demo_env 0) demo) = 0"
  using other_transactions_balanced [of demo "no_answer (jajobnet_cycle demo_env)" demo_env id 60 129600 0]
    other_transactions_balanced [of demo "jaboot_cycle id 60 129600" demo_env id 60 129600 0]
    other_transactions_balanced [of demo "process_jajob demo_env 0" demo_env id 60 129600 0] by simp

text \<open>C8 Running jobnets never rewrites what is being run: no cycle of the icon runner or of the
  jobnet process changes a flow, an icon's settings (the waiting counter and time of an
  extended icon are none), a jobnet definition, a parameter or the
  identity, type, boot count or test flag of an icon.\<close>

theorem running_never_changes_the_graph:
  assumes "link_keeps graph_kept zl" "graph (durable w) = graph (db w)"
  shows "graph (db (exec (process_jarun env zl lc) w)) = graph (db w) \<and>
    graph (db (exec (jajobnet_cycle env) w)) = graph (db w)"
  using static.steps_exec [OF graph_forking.steps_process_jarun [OF assms(1)]]
    static.steps_exec [OF graph_session.steps_jajobnet_cycle] assms(2)
  by (simp add: graph_kept_def)

lemma running_never_changes_the_graph_witness:
  "graph (db (exec (process_jarun demo_env idle_link demo_libc) demo)) = graph demo_tables"
  using running_never_changes_the_graph [of idle_link demo demo_env demo_libc] by simp

text \<open>C9 When running an icon fails anywhere, nothing of it is kept: the rollback leaves the
  database as it was before the icon's transaction, as long as the connection is not lost.  This
  excepts reboot and agentless icons, which end the transaction themselves, and the icons that
  change Zabbix's own tables.\<close>

theorem failed_icon_leaves_no_trace:
  assumes "no_loss w" "txn_level w = 0" "srv w = Idle" "\<not> txn_error w" "db w = durable w"
    and "rj_type r \<noteq> JA_JOB_TYPE_REBOOT" "rj_type r \<noteq> JA_JOB_TYPE_LESS" "rj_type r \<noteq> JA_JOB_TYPE_LINK"
    and "result (jarun_round env zl lc r) w = FAIL"
  shows "db (exec (jarun_round env zl lc r) w) = db w \<and> durable (exec (jarun_round env zl lc r) w) = db w"
  using failed_round [OF assms] .

lemma failed_icon_leaves_no_trace_witness:
  "result (jarun_round demo_env idle_link demo_libc held_job) demo_held = FAIL \<and>
   db (exec (jarun_round demo_env idle_link demo_libc held_job) demo_held) = db demo_held"
  using failed_icon_leaves_no_trace [OF demo_held_outside(1-5) _ _ _ demo_held_waits] demo_held_waits
  by (simp add: held_job_def demo_job_def)

section \<open>Jobnets\<close>



text \<open>C11 Killing a jobnet takes back its ready icons, aborts its running job icons, ends its jobnet
  icons and running jobnets in error, touches no other jobnet, and ends the summary in error once
  no icon is running (no running extended, file wait or agentless icon; job hosts known).\<close>

theorem killing_stops_the_jobnet:
  assumes "calm w" "forks env" "distinct (map rj_id (jobs (db w)))"
    and "\<forall>r \<in> set (jobs (db w)). rj_main r = n \<and> rj_status r = JA_JOB_STATUS_RUN \<longrightarrow> reachable_job (db w) r"
  shows "jobs (db (exec (jajobnet_kill env n) w)) = map (kill_job n) (jobs (db w)) \<and>
    jobnets (db (exec (jajobnet_kill env n) w)) = map (stop_net n) (jobnets (db w)) \<and>
    result (jajobnet_kill env n) w = SUCCEED \<and>
    ((\<forall>r \<in> set (map (stop_job n) (jobs (db w))). rj_main r = n \<longrightarrow> rj_status r \<noteq> JA_JOB_STATUS_RUN) \<longrightarrow>
      (\<forall>s. summary_of n (db w) = Some s \<longrightarrow> (\<exists>s'. summary_of n (db (exec (jajobnet_kill env n) w)) = Some s' \<and>
        rs_status s' = JA_JOBNET_STATUS_ENDERR)))"
  by (rule after_kill [OF assms])

lemma killing_stops_the_jobnet_witness:
  "map rj_status (jobs (db (exec (jajobnet_kill demo_env 1) demo_working))) =
     [JA_JOB_STATUS_ABORT, JA_JOB_STATUS_BEGIN]"
  using killing_stops_the_jobnet [of demo_working demo_env 1]
  by (simp add: reachable_job_def kill_job_def stop_job_def demo_job_def)

section \<open>Loading jobnets\<close>



text \<open>C13 A load that does not succeed leaves every committed row as it was, the log and the outbox
  apart, whatever statements the server rejected on the way, as long as the connection is not
  lost.\<close>

theorem failed_load_leaves_no_trace:
  assumes "at_rest t w"
    and "result (load_jobnet_definition rounds jobnet scheduled_time schedule calendar boot_time) w \<noteq> Some SUCCEED"
  shows "only_log t (durable (exec (load_jobnet_definition rounds jobnet scheduled_time schedule calendar boot_time) w))"
  by (rule failed_load [OF assms])

lemma failed_load_leaves_no_trace_witness:
  "only_log demo_loader_tables
     (durable (exec (load_jobnet_definition 9 ''CYCLE'' ''202401020300'' ''S'' ''C'' ''0300'') demo_loader))"
proof (rule failed_load_leaves_no_trace)
  show "result (load_jobnet_definition 9 ''CYCLE'' ''202401020300'' ''S'' ''C'' ''0300'') demo_loader \<noteq> Some SUCCEED"
    by (rule cycle_never_loads [of _ "{''CYCLE''}"]) (simp_all add: demo_cycle nothing_loaded)
qed simp

text \<open>C14 A loaded definition has one icon for each icon of the design, in its initial state, and each of
  them waits for exactly as many arrivals as flows of the new run lead to it: the boot count a
  join compares with is the number of its predecessors.\<close>

theorem loaded_icons_wait_for_their_flows:
  assumes "calm w" "keyed (db w)" "jobs_in n (db w) = []" "\<forall>g \<in> set (flows (db w)). rf_jobnet g \<noteq> n"
    and "distinct (map jc_job (select_jobs jobnet u (db w)))"
    and "result (load_job_definition main n jobnet u test_flag run_type) w = SUCCEED"
    and "w' = exec (load_job_definition main n jobnet u test_flag run_type) w"
  shows "list_all2 (icon_of main (db w) jobnet u) (select_jobs jobnet u (db w)) (jobs_in n (db w')) \<and>
    (\<forall>r \<in> set (jobs_in n (db w')).
       rj_boot_count r = int (count_where (\<lambda>g. rf_jobnet g = n \<and> rf_to g = rj_id r) (flows (db w'))))"
  unfolding assms(7) using loaded_icons [OF assms(1-6)] by blast

lemma loaded_icons_wait_for_their_flows_witness:
  "length (jobs_in 2 (db (exec (load_job_definition 2 2 ''INNER'' 7 0 0) demo_loader))) = 2"
proof -
  have inner: "select_jobs ''INNER'' 7 demo_loader_tables = [icon_def ''INNER'' ''S'' JA_JOB_TYPE_START, icon_def ''INNER'' ''E'' JA_JOB_TYPE_END]"
    by (simp add: demo_design_defs)
  have "list_all2 (icon_of 2 demo_loader_tables ''INNER'' 7) (select_jobs ''INNER'' 7 demo_loader_tables)
      (jobs_in 2 (db (exec (load_job_definition 2 2 ''INNER'' 7 0 0) demo_loader)))"
    using loaded_icons_wait_for_their_flows [OF demo_loader_calm(2) _ _ _ _ inner_loads refl]
    by (simp add: inner icon_def_def jobs_in_def demo_loader_tables_def [THEN arg_cong [of _ _ jobs]]
        demo_loader_tables_def [THEN arg_cong [of _ _ flows]])
  from list_all2_lengthD [OF this] show ?thesis
    unfolding inner by simp
qed

text \<open>C15 Loading a jobnet ends when jobnets do not include each other in a cycle: if a rank decreases from
  every valid jobnet to the jobnets its icons stand for, as many rounds of
  \<open>load_sub_jobnet_definition\<close> as the rank says, and one more, are enough.\<close>

theorem acyclic_jobnets_load:
  assumes "outside w" "keyed (db w)" "mains_known (db w)" "ranked h (db w)" "h jobnet < rounds"
  shows "result (load_jobnet_definition rounds jobnet scheduled_time schedule calendar boot_time) w \<noteq> None"
  by (rule loading_ends [OF assms])

lemma acyclic_jobnets_load_witness:
  "result (load_jobnet_definition 2 ''OUTER'' ''202401020300'' ''S'' ''C'' ''0300'') acyclic_loader \<noteq> None"
  by (rule acyclic_jobnets_load [OF acyclic_loader_ok]) simp

text \<open>C16 A jobnet of a set in which each jobnet includes one of the set (one that includes itself, for
  instance) is never loaded, in any number of rounds: the loader expands it without end inside
  one transaction, unless a statement fails.\<close>

theorem cyclic_jobnets_never_load:
  assumes "outside w" "keyed (db w)" "mains_known (db w)" "looping J (db w)" "jobnet \<in> J"
    and "already_loaded jobnet scheduled_time schedule calendar (db w) = 0"
  shows "result (load_jobnet_definition rounds jobnet scheduled_time schedule calendar boot_time) w \<noteq> Some SUCCEED"
  by (rule cycle_never_loads [OF assms])

lemma cyclic_jobnets_never_load_witness:
  "result (load_jobnet_definition 1000 ''CYCLE'' ''202401020300'' ''S'' ''C'' ''0300'') demo_loader \<noteq> Some SUCCEED"
  by (rule cyclic_jobnets_never_load [of _ "{''CYCLE''}"]) (simp_all add: demo_cycle nothing_loaded)

text \<open>C17 A jobnet that has been loaded for a time of a schedule is not loaded again for it: the second
  load succeeds and changes nothing.\<close>

theorem loaded_once:
  assumes "outside w" "keyed (db w)"
    and "result (load_jobnet_definition rounds jobnet scheduled_time schedule calendar boot_time) w = Some SUCCEED"
    and "w' = exec (load_jobnet_definition rounds jobnet scheduled_time schedule calendar boot_time) w"
  shows "result (load_jobnet_definition rounds' jobnet scheduled_time schedule calendar boot_time') w' = Some SUCCEED \<and>
    exec (load_jobnet_definition rounds' jobnet scheduled_time schedule calendar boot_time') w' = w'"
proof -
  have "calm w'" "0 < already_loaded jobnet scheduled_time schedule calendar (db w')"
    using loaded_jobnet_remains [OF assms(1-3)] by (simp_all add: assms(4) outside_def)
  then show ?thesis
    by (simp add: loaded_before)
qed

lemma loaded_once_witness:
  "result (load_jobnet_definition 5 ''LONE'' ''9'' ''S'' ''C'' ''0300'')
     (exec (load_jobnet_definition 1 ''LONE'' ''9'' ''S'' ''C'' ''0300'') demo_loader) = Some SUCCEED"
  using loaded_once [OF demo_loader_calm(1) _ lone_loads refl, of 5] by simp

section \<open>The operating calendar\<close>

text \<open>C18 The date arithmetic of the loader moves a date by exactly the number of days asked for,
  forwards or backwards, over month ends, leap days and years, in the years 0 to 9999.\<close>

theorem shift_days_adds_days:
  assumes "date_ok k d" "calendar_days_ok (day_number k d + n)"
  shows "\<exists>k' d'. date_ok k' d' \<and> shift_days (ymd_text k d) n = ymd_text k' d' \<and>
    day_number k' d' = day_number k d + n"
  by (rule shift_days_number [OF assms])

lemma shift_days_adds_days_witness:
  "\<exists>k d. shift_days ''20240228'' 2 = ymd_text k d \<and> day_number k d = day_number (2024 * 12 + 1) 28 + 2"
proof -
  have "ymd_text (2024 * 12 + 1) 28 = ''20240228''"
    by code_simp
  moreover have "date_ok (2024 * 12 + 1) 28" "calendar_days_ok (day_number (2024 * 12 + 1) 28 + 2)"
    by code_simp+
  ultimately show ?thesis
    using shift_days_adds_days [of "2024 * 12 + 1" 28 2] by auto
qed





section \<open>Requests of clients\<close>









text \<open>C25 User names are not escaped: a client that sends the name of an active user, a quote and two
  hyphens is taken for that user with any password, as the rest of the condition is a comment.\<close>

theorem injected_name_needs_no_password:
  assumes "calm w" "QUOTE \<notin> set v" "signed (v @ QUOTE # ''--'') p obj"
    and "filter (\<lambda>u. us_alias u = v) (users (db w)) = u # us" "active u (db w)"
  shows "result (jatrap_auth_user tr obj) w = (us_id u, obj)"
  using injected_login [OF assms] by (simp add: result_def)

lemma injected_name_needs_no_password_witness:
  "fst (result (jatrap_auth_user demo_trapper (release_of (''joe'' @ QUOTE # ''--'') ''wrong'')) demo_served) = 5"
  using injected_name_needs_no_password [of demo_served "''joe''" "J_str ''wrong''"
      "release_of (''joe'' @ QUOTE # ''--'') ''wrong''" joe "[]" demo_trapper] release_signed
  by (simp add: active_def user_states_def joe_def)

section \<open>Variables\<close>





text \<open>C28 Replacement means what it says: text with its dollar signs doubled and variables written in
  braces becomes the text with the values in place, if that fits the destination.\<close>

theorem replacement_substitutes:
  assumes "calm w" "variables_of i (db w) \<noteq> []" "list_all (legal (variables_of i (db w))) segs"
    and "int (length (concat (map (meant (variables_of i (db w))) segs))) < len"
  shows "result (ja_replace_variable i (Some (concat (map written segs))) len) w =
    Some (concat (map (meant (variables_of i (db w))) segs))"
  by (rule replace_variable_template [OF assms])

lemma replacement_substitutes_witness:
  "result (ja_replace_variable 10 (Some ''hello ${WHO} $$'') 14) demo_vars = Some ''hello world $''"
  using replacement_substitutes [of demo_vars 10 "[Text ''hello '', Var ''WHO'', Text '' $'']" 14]
  by (simp add: name_stop_def)

section \<open>Text\<close>

text \<open>C29 Whatever text is escaped and printed between single quotes, the server reads exactly this
  text back, without its carriage returns, and goes on right after the closing quote: no value
  can break out of its literal, in a list of any length.\<close>

theorem escaped_values_read_back:
  "sql_literal bs (DBdyn_escape_string bs v @ QUOTE # CHR '','' # rest) = Some (no_cr v, CHR '','' # rest) \<and>
   pg_quoting.read_values bs (length vs) (pg_quoting.print_values bs vs) = Some (map no_cr vs)"
  by (simp add: pg_quoting.lit_esc pg_quoting.read_print)

text \<open>C30 The byte filter that values pass on their way into the table after an icon keeps exactly
  the characters of one and of three UTF-8 bytes: accented Latin, Greek and Cyrillic letters
  (two bytes) and everything of four bytes are dropped.\<close>

theorem value_filter_drops_characters:
  assumes "list_all uvalid us"
  shows "utf8_filter (encode us) = encode (filter one_or_three us)"
  by (rule utf8_filter_encode [OF assms])

lemma value_filter_drops_characters_witness:
  "utf8_filter [CHR 0x61, CHR 0xC3, CHR 0xA9, CHR 0xE3, CHR 0x81, CHR 0x82] =
     [CHR 0x61, CHR 0xE3, CHR 0x81, CHR 0x82]"
  using value_filter_drops_characters [of "[U1 (CHR 0x61), U2 (CHR 0xC3) (CHR 0xA9), U3 (CHR 0xE3) (CHR 0x81) (CHR 0x82)]"]
  by (simp add: byte_def cont_byte_def lead3_byte_def)

text \<open>C31 The recursive pattern matcher decides the language of its patterns: a star stands for any
  text, a question mark for any one character, anything else for itself.\<close>

theorem ja_match_is_glob: "ja_match s p = glob p s"
  by (rule ja_match_glob)



text \<open>C33 The exit code of an end icon is always in 0..255, and a text of digits, however long, is
  read as its value or as 255 where that is larger, in spite of the 32-bit conversion.\<close>

theorem stop_code_in_range:
  "ja_stop_code_conv s \<in> {0..255} \<and>
   (s \<noteq> [] \<and> list_all is_digit s \<longrightarrow> ja_stop_code_conv s = int (min 255 (dec_val s)))"
  using stop_code_range stop_code_number by blast

lemma stop_code_in_range_witness: "ja_stop_code_conv ''0000000004294967297'' = 255"
  using stop_code_in_range [of "''0000000004294967297''"]
  by (simp add: is_digit_def dec_val_def digit_val_def)

section \<open>Sequence numbers\<close>

text \<open>C34 Two calls one after the other issue consecutive numbers of the counter's own range, except
  that after the wrap-around the first number is issued twice.\<close>

theorem consecutive_ids:
  assumes "calm w" "select_nextid c (db w) = [m]"
  shows "result (do { x \<leftarrow> get_next_id c n j i; y \<leftarrow> get_next_id c n j i; ret (x, y) }) w =
    (if m > id_limit c then (id_restart c, id_restart c)
     else (m, if m = id_limit c then id_restart c else m + 1))"
  by (rule two_ids [OF assms])

lemma consecutive_ids_witness:
  "result (do { x \<leftarrow> get_next_id JA_RUN_ID_JOBNET_EX 0 None 0;
     y \<leftarrow> get_next_id JA_RUN_ID_JOBNET_EX 0 None 0; ret (x, y) }) demo =
   (1600000000000000000, 1600000000000000001)"
  using consecutive_ids [of demo JA_RUN_ID_JOBNET_EX 1600000000000000000 0 None 0]
  by (simp add: select_nextid_def demo_tables_def id_limit_def)

section \<open>Booting and purging\<close>



text \<open>C36 The purge deletes exactly the jobnet runs that ended before its date, each with all its
  jobnets and icons, except that a killed run is kept while one of its icons is ready or
  running; and what it deletes is committed.\<close>

theorem purge_deletes_ended_jobnets:
  assumes "outside w" "mains_ok (db w)" "distinct (map rs_id (summaries (db w)))"
    and "gone = rs_id ` {s \<in> set (old_summaries d (db w)). \<not> still_active (db w) s}"
  shows "result (jobnet_purge d) w = SUCCEED \<and>
    summaries (db (exec (jobnet_purge d) w)) = filter (\<lambda>s. rs_id s \<notin> gone) (summaries (db w)) \<and>
    jobnets (db (exec (jobnet_purge d) w)) = filter (\<lambda>r. rn_main r \<notin> gone) (jobnets (db w)) \<and>
    jobs (db (exec (jobnet_purge d) w)) = filter (\<lambda>j. rj_main j \<notin> gone) (jobs (db w)) \<and>
    durable (exec (jobnet_purge d) w) = db (exec (jobnet_purge d) w)"
  by (rule jobnet_purge_rows [OF assms])

lemma purge_deletes_ended_jobnets_witness:
  "map rs_id (summaries (db (exec (jobnet_purge ''202401010000'') demo_old))) = [1]"
proof -
  have ok: "mains_ok (db demo_old)" "distinct (map rs_id (summaries (db demo_old)))"
    by (simp_all add: mains_ok_def)
  have "{s \<in> set (old_summaries ''202401010000'' (db demo_old)). \<not> still_active (db demo_old) s} =
      {demo_summary 2 JA_JOBNET_STATUS_END 0 ''NET2''}"
    by (auto simp: old_summaries_def still_active_def dec_val_def digit_val_def)
  then have gone: "{2} = rs_id ` {s \<in> set (old_summaries ''202401010000'' (db demo_old)). \<not> still_active (db demo_old) s}"
    by (simp only: image_insert image_empty demo_summary_sel)
  show ?thesis
    using purge_deletes_ended_jobnets [OF demo_old_simps(1) ok gone] by simp
qed

section \<open>The database connection\<close>


text \<open>C38 A commit that the server rejects leaves the process with a failed transaction outside any
  transaction; from then on all its queries return nothing, and no cycle of any of the three
  processes does anything again.\<close>

theorem rejected_commit_stops_the_process:
  assumes "txn_level w = 1" "\<not> txn_error w" "faults w = Rejected # fs"
  shows "txn_level (exec DBcommit w) = 0 \<and>
    exec (process_jarun env zl lc) (exec DBcommit w) = exec DBcommit w \<and>
    exec (jajobnet_cycle env) (exec DBcommit w) = exec DBcommit w \<and>
    exec (jaboot_cycle mktime a b) (exec DBcommit w) = exec DBcommit w"
  using rejected_commit_state [OF assms] stuck_cycles by blast

lemma rejected_commit_stops_the_process_witness:
  "exec (process_jarun demo_env idle_link demo_libc) (exec DBcommit (demo_txn [Rejected])) = exec DBcommit (demo_txn [Rejected])"
  using rejected_commit_stops_the_process [of "demo_txn [Rejected]" "[]" demo_env idle_link demo_libc] by simp

text \<open>C39 Transactions are not atomic when the connection breaks: the statement is repeated on the
  new connection, where no transaction is open, and is committed by itself, while what the
  transaction did before it is gone.\<close>

theorem broken_connection_splits_transaction:
  assumes "srv w = In_txn" "\<not> txn_error w" "faults w = [Conn_lost]"
    and "exec_sql s (seq_next w) (durable w) = Some (n, q, t)"
  shows "db (exec (DBexecute s) w) = t \<and> durable (exec (DBexecute s) w) = t \<and> srv (exec (DBexecute s) w) = Idle"
  by (rule lost_connection_tears_transaction [OF assms])

lemma broken_connection_splits_transaction_witness:
  "sessions (durable (exec (DBexecute (Delete_session 1)) (demo_txn [Conn_lost]))) = []"
  using broken_connection_splits_transaction [of "demo_txn [Conn_lost]" "Delete_session 1" 0 3
      "demo_tables\<lparr>sessions := []\<rparr>"]
  by (simp add: count_where_def del_where_def)



end
